(* ===== verification/Prelude.thy ===== *)
theory Prelude
  imports Main "HOL-Library.Word"
begin

unbundle bit_operations_syntax

section \<open>Shared vocabulary of the development\<close>

text \<open>
  The types, the exception monad and the generic lemmas every component uses.

  The C++ code signals failure by throwing.  A function of the model that can throw
  returns \<open>exn + 'a\<close>; one that can throw and also changes state returns
  \<open>(exn + 'a) \<times> 's\<close>, the state being the one the C++ objects are left in when the
  exception leaves the function.  \<open>bindE\<close> and \<open>bindS\<close> sequence the two kinds.  Undefined
  behaviour of the C++ (a null dereference, a read past the end of a buffer) is the
  value \<open>UB\<close> of the exception type, so that no theorem hides it.

  The integer widths are those of the LP64 platforms the library ships for: \<open>BYTE\<close> is
  8 bits, \<open>CK_ULONG\<close>, \<open>DWORD\<close> and \<open>size_t\<close> are 64 bits, and integers are stored
  little endian (\<open>VarToByteArray\<close>).  Sizes of buffers, which are bounded by the address
  space, are natural numbers where no arithmetic on them can wrap.
\<close>

subsection \<open>Bytes, words and PKCS\#11 return codes\<close>

type_synonym byte = "8 word"
type_synonym bytes = "byte list"
type_synonym ulong = "64 word"

text \<open>The return codes of \<open>shared/src/pkcs11/pkcs11t.h\<close> that the module uses.\<close>

datatype ck_rv =
    CKR_OK | CKR_SLOT_ID_INVALID | CKR_GENERAL_ERROR | CKR_ARGUMENTS_BAD | CKR_NO_EVENT
  | CKR_NEED_TO_CREATE_THREADS | CKR_CANT_LOCK | CKR_ATTRIBUTE_SENSITIVE
  | CKR_ATTRIBUTE_TYPE_INVALID | CKR_DATA_LEN_RANGE | CKR_DEVICE_REMOVED
  | CKR_FUNCTION_NOT_SUPPORTED | CKR_KEY_HANDLE_INVALID | CKR_KEY_NOT_NEEDED
  | CKR_KEY_FUNCTION_NOT_PERMITTED | CKR_MECHANISM_INVALID | CKR_MECHANISM_PARAM_INVALID
  | CKR_OBJECT_HANDLE_INVALID | CKR_OPERATION_ACTIVE | CKR_OPERATION_NOT_INITIALIZED
  | CKR_PIN_INCORRECT | CKR_PIN_LEN_RANGE | CKR_PIN_LOCKED | CKR_SESSION_HANDLE_INVALID
  | CKR_SESSION_PARALLEL_NOT_SUPPORTED | CKR_SESSION_READ_ONLY
  | CKR_SESSION_READ_ONLY_EXISTS | CKR_SESSION_READ_WRITE_SO_EXISTS
  | CKR_SIGNATURE_INVALID | CKR_SIGNATURE_LEN_RANGE | CKR_TOKEN_NOT_PRESENT
  | CKR_TOKEN_NOT_RECOGNIZED | CKR_USER_ALREADY_LOGGED_IN | CKR_USER_NOT_LOGGED_IN
  | CKR_USER_TYPE_INVALID | CKR_USER_ANOTHER_ALREADY_LOGGED_IN
  | CKR_RANDOM_SEED_NOT_SUPPORTED | CKR_BUFFER_TOO_SMALL | CKR_SAVED_STATE_INVALID
  | CKR_CRYPTOKI_NOT_INITIALIZED | CKR_CRYPTOKI_ALREADY_INITIALIZED
  | CKR_DEVICE_ERROR | CKR_FUNCTION_FAILED | CKR_HOST_MEMORY | CKR_PIN_INVALID

text \<open>
  The exceptions: \<open>p11_error\<close> (\<open>session.h\<close>) carries a return code; \<open>logged_error\<close>,
  \<open>scard_error\<close>, \<open>windows_error\<close>, \<open>card_link_error\<close> and
  \<open>cie_unsupported_card_error\<close> are those of \<open>shared/src/util/util_exception.h\<close>;
  \<open>Std_Error\<close> stands for the other descendants of \<open>std::exception\<close>.  The texts of
  \<open>ER_ASSERT\<close> and of formatted messages are kept without file, line and numbers.  \<open>Hang\<close>
  is the value of a loop of the model whose fuel ran out.
\<close>

datatype exn =
    P11_Error ck_rv
  | Logged_Error string
  | Scard_Error "16 word"
  | Windows_Error int
  | Card_Link_Error bool
  | Cie_Unsupported_Card_Error
  | Std_Error string
  | UB
  | Hang

abbreviation throw_p11 :: "ck_rv \<Rightarrow> exn + 'a" where
  "throw_p11 rv \<equiv> Inl (P11_Error rv)"

subsection \<open>Sequencing\<close>

named_theorems monad_simps "equations of the sequencing operators"
named_theorems byte_simps "equations of the byte-array operations"

definition bindE :: "exn + 'a \<Rightarrow> ('a \<Rightarrow> exn + 'b) \<Rightarrow> exn + 'b" where
  "bindE m k = (case m of Inl e \<Rightarrow> Inl e | Inr x \<Rightarrow> k x)"

definition bindS :: "(exn + 'a) \<times> 's \<Rightarrow> ('a \<Rightarrow> 's \<Rightarrow> (exn + 'b) \<times> 's) \<Rightarrow> (exn + 'b) \<times> 's" where
  "bindS m k = (case m of (Inl e, s) \<Rightarrow> (Inl e, s) | (Inr x, s) \<Rightarrow> k x s)"

definition liftS :: "exn + 'a \<Rightarrow> 's \<Rightarrow> (exn + 'a) \<times> 's" where
  "liftS r s = (r, s)"

lemma bindE_simps [simp, monad_simps]:
  "bindE (Inl e) k = Inl e" "bindE (Inr x) k = k x"
  by (simp_all add: bindE_def)

lemma bindS_simps [simp, monad_simps]:
  "bindS (Inl e, s) k = (Inl e, s)" "bindS (Inr x, s) k = k x s"
  by (simp_all add: bindS_def)

lemma liftS_simps [simp, monad_simps]: "liftS r s = (r, s)"
  by (simp add: liftS_def)

lemma bindE_eq_Inr: "bindE m k = Inr y \<longleftrightarrow> (\<exists>x. m = Inr x \<and> k x = Inr y)"
  by (cases m) auto

lemma bindE_eq_Inl: "bindE m k = Inl e \<longleftrightarrow> m = Inl e \<or> (\<exists>x. m = Inr x \<and> k x = Inl e)"
  by (cases m) auto

lemma bindS_eq_Inr:
  "bindS m k = (Inr y, t) \<longleftrightarrow> (\<exists>x s. m = (Inr x, s) \<and> k x s = (Inr y, t))"
  by (cases m; cases "fst m") auto

lemma bindS_eq_Inl:
  "bindS m k = (Inl e, t) \<longleftrightarrow> m = (Inl e, t) \<or> (\<exists>x s. m = (Inr x, s) \<and> k x s = (Inl e, t))"
  by (cases m; cases "fst m") auto

lemma bindE_cong [fundef_cong]:
  "m = m' \<Longrightarrow> (\<And>x. m' = Inr x \<Longrightarrow> k x = k' x) \<Longrightarrow> bindE m k = bindE m' k'"
  by (cases m') auto

text \<open>
  A predicate on states that every step of a sequence keeps: the rule by which the
  invariants of the stateful components go through \<open>bindS\<close>.
\<close>

lemma bindS_state:
  assumes "P (snd m)" and "\<And>x s. m = (Inr x, s) \<Longrightarrow> P (snd (k x s))"
  shows "P (snd (bindS m k))"
  using assms by (cases m; cases "fst m") auto

subsection \<open>Little-endian integers\<close>

text \<open>
  \<open>VarToByteArray\<close> on an integer of \<open>n\<close> bytes, and \<open>ByteArrayToVar\<close> back.
\<close>

primrec le_bytes :: "nat \<Rightarrow> nat \<Rightarrow> bytes" where
  "le_bytes 0 v = []"
| "le_bytes (Suc n) v = of_nat (v mod 256) # le_bytes n (v div 256)"

primrec le_value :: "bytes \<Rightarrow> nat" where
  "le_value [] = 0"
| "le_value (b # bs) = unat b + 256 * le_value bs"

lemma length_le_bytes [simp]: "length (le_bytes n v) = n"
  by (induction n arbitrary: v) auto

lemma unat_of_nat_byte [simp]: "unat (of_nat (v mod 256) :: byte) = v mod 256"
  by (simp add: unat_of_nat)

lemma le_value_le_bytes: "le_value (le_bytes n v) = v mod 256 ^ n"
proof (induction n arbitrary: v)
  case 0
  then show ?case by simp
next
  case (Suc n)
  have "v mod 256 ^ Suc n = v mod 256 + 256 * (v div 256 mod 256 ^ n)"
    by (simp add: mod_mult2_eq)
  with Suc show ?case by simp
qed

lemma le_bytes_inject:
  assumes "u < 256 ^ n" and "v < 256 ^ n" and "le_bytes n u = le_bytes n v"
  shows "u = v"
  using assms by (metis le_value_le_bytes mod_less)

definition VarToByteArray64 :: "ulong \<Rightarrow> bytes" where
  "VarToByteArray64 v = le_bytes 8 (unat v)"

definition ByteArrayToVar64 :: "bytes \<Rightarrow> exn + ulong" where
  "ByteArrayToVar64 bs = (if length bs < 8 then Inl UB else Inr (of_nat (le_value (take 8 bs))))"

lemma length_VarToByteArray64 [simp]: "length (VarToByteArray64 v) = 8"
  by (simp add: VarToByteArray64_def)

lemma VarToByteArray64_roundtrip: "ByteArrayToVar64 (VarToByteArray64 v) = Inr v"
proof -
  have "unat v < 256 ^ 8"
    using unsigned_less [of v] by simp
  then show ?thesis
    by (simp add: ByteArrayToVar64_def VarToByteArray64_def le_value_le_bytes)
qed

lemma VarToByteArray64_inject [simp]: "VarToByteArray64 u = VarToByteArray64 v \<longleftrightarrow> u = v"
  by (metis VarToByteArray64_roundtrip sum.inject(2))

end
