(* ===== verification/Byte_Array.thy ===== *)
theory Byte_Array
  imports Prelude
begin

section \<open>Byte arrays (shared/src/util/array.cpp)\<close>

text \<open>
  \<open>ByteArray\<close> is a pointer and a size; \<open>ByteDynArray\<close> owns its memory.  Where the code
  only reads an array, the model is the list of its bytes.  An array the code writes to is
  the list before and after.  An output argument of the PKCS\#11 interface is a
  \<open>byte_view\<close>: memory of the caller, or the null pointer, and the number of bytes of it
  the array covers; \<open>left\<close> narrows the view and \<open>copy\<close> writes through it.
\<close>

abbreviation too_large :: exn where
  "too_large \<equiv> Logged_Error ''Derived array too large''"

abbreviation copy_too_large :: exn where
  "copy_too_large \<equiv> Logged_Error ''Source array too large to copy''"

abbreviation bad_access :: exn where
  "bad_access \<equiv> Logged_Error ''Array access not allowed''"

subsection \<open>Element access, slices, comparison\<close>

definition ba_at :: "bytes \<Rightarrow> nat \<Rightarrow> exn + byte" where
  "ba_at bs pos = (if pos \<ge> length bs then Inl bad_access else Inr (bs ! pos))"

definition ba_put :: "bytes \<Rightarrow> nat \<Rightarrow> byte \<Rightarrow> exn + bytes" where
  "ba_put bs pos b = (if pos \<ge> length bs then Inl bad_access else Inr (bs[pos := b]))"

definition ba_left :: "bytes \<Rightarrow> nat \<Rightarrow> exn + bytes" where
  "ba_left bs n = (if n > length bs then Inl too_large else Inr (take n bs))"

definition ba_right :: "bytes \<Rightarrow> nat \<Rightarrow> exn + bytes" where
  "ba_right bs n =
     (if n > length bs then Inl too_large else Inr (take n (drop (length bs - n) bs)))"

definition ba_mid :: "bytes \<Rightarrow> nat \<Rightarrow> exn + bytes" where
  "ba_mid bs start = (if start > length bs then Inl too_large else Inr (drop start bs))"

definition ba_mid_n :: "bytes \<Rightarrow> nat \<Rightarrow> nat \<Rightarrow> exn + bytes" where
  "ba_mid_n bs start n =
     (if start > length bs \<or> n > length bs - start then Inl too_large
      else Inr (take n (drop start bs)))"

definition ba_revmid :: "bytes \<Rightarrow> nat \<Rightarrow> exn + bytes" where
  "ba_revmid bs toend =
     (if toend > length bs then Inl too_large else Inr (take (length bs - toend) bs))"

definition ba_revmid_n :: "bytes \<Rightarrow> nat \<Rightarrow> nat \<Rightarrow> exn + bytes" where
  "ba_revmid_n bs toend n =
     (if toend > length bs \<or> n > length bs - toend then Inl too_large
      else Inr (take n (drop (length bs - toend - n) bs)))"

text \<open>\<open>memcmp\<close> on the common prefix, then the sizes: \<open>operator<\<close> and \<open>operator>\<close>.\<close>

fun mem_cmp :: "bytes \<Rightarrow> bytes \<Rightarrow> int" where
  "mem_cmp (a # as) (b # bs) = (if a < b then -1 else if b < a then 1 else mem_cmp as bs)"
| "mem_cmp _ _ = 0"

definition ba_less :: "bytes \<Rightarrow> bytes \<Rightarrow> bool" where
  "ba_less a b =
     (let n = min (length a) (length b); c = (if n > 0 then mem_cmp (take n a) (take n b) else 0)
      in if c \<noteq> 0 then c < 0 else length a < length b)"

definition ba_greater :: "bytes \<Rightarrow> bytes \<Rightarrow> bool" where
  "ba_greater a b =
     (let n = min (length a) (length b); c = (if n > 0 then mem_cmp (take n a) (take n b) else 0)
      in if c \<noteq> 0 then c > 0 else length a > length b)"

subsection \<open>Writing\<close>

definition ba_copy :: "bytes \<Rightarrow> bytes \<Rightarrow> nat \<Rightarrow> exn + bytes" where
  "ba_copy dst src start =
     (if start > length dst \<or> length src > length dst - start then Inl copy_too_large
      else Inr (take start dst @ src @ drop (start + length src) dst))"

definition ba_rightcopy :: "bytes \<Rightarrow> bytes \<Rightarrow> nat \<Rightarrow> exn + bytes" where
  "ba_rightcopy dst src toend =
     (if toend > length dst \<or> length src > length dst - toend then Inl copy_too_large
      else Inr (take (length dst - toend - length src) dst @ src
                  @ drop (length dst - toend) dst))"

definition ba_fill :: "bytes \<Rightarrow> byte \<Rightarrow> bytes" where
  "ba_fill bs v = map (\<lambda>_. v) bs"

text \<open>\<open>reverse\<close>: the loop over the first half that swaps mirrored elements.\<close>

fun ba_reverse_loop :: "nat \<Rightarrow> nat \<Rightarrow> bytes \<Rightarrow> bytes" where
  "ba_reverse_loop 0 i bs = bs"
| "ba_reverse_loop (Suc k) i bs =
     ba_reverse_loop k (Suc i)
       (bs[i := bs ! (length bs - i - 1), length bs - i - 1 := bs ! i])"

definition ba_reverse :: "bytes \<Rightarrow> bytes" where
  "ba_reverse bs = ba_reverse_loop (length bs div 2) 0 bs"

text \<open>
  \<open>atoi\<close>: ASCII digits to \<open>int\<close>; \<open>val * 10 + data[i] - '0'\<close> overflows the 32-bit \<open>int\<close>
  (undefined behaviour) when the check against \<open>INT_MAX / 10\<close> lets the last digit through.
\<close>

fun ba_atoi_loop :: "int \<Rightarrow> bytes \<Rightarrow> exn + int" where
  "ba_atoi_loop val [] = Inr val"
| "ba_atoi_loop val (b # bs) =
     (if val > 214748364 then Inl (Std_Error ''overflow'')
      else let v = val * 10 + uint b
           in if v > 2147483647 \<or> val * 10 < -2147483648 \<or> v - 48 < -2147483648 then Inl UB
              else ba_atoi_loop (v - 48) bs)"

definition ba_atoi :: "bytes \<Rightarrow> exn + int" where
  "ba_atoi bs = ba_atoi_loop 0 bs"

text \<open>\<open>indexOf\<close>: the first position where \<open>pat\<close> occurs; an empty pattern is not found.\<close>

fun ba_index_from :: "nat \<Rightarrow> bytes \<Rightarrow> bytes \<Rightarrow> nat option" where
  "ba_index_from i bs pat =
     (if length bs < length pat then None
      else if take (length pat) bs = pat then Some i
      else (case bs of [] \<Rightarrow> None | _ # rest \<Rightarrow> ba_index_from (Suc i) rest pat))"

declare ba_index_from.simps [simp del]

definition ba_indexOf :: "bytes \<Rightarrow> bytes \<Rightarrow> nat option" where
  "ba_indexOf bs pat = (if pat = [] then None else ba_index_from 0 bs pat)"

subsection \<open>Owning arrays\<close>

text \<open>
  \<open>new uint8_t[n]\<close> leaves its content unspecified: \<open>alloc u n\<close> takes it from \<open>u\<close>.
\<close>

definition alloc :: "(nat \<Rightarrow> byte) \<Rightarrow> nat \<Rightarrow> bytes" where
  "alloc u n = map u [0..<n]"

definition bda_resize :: "(nat \<Rightarrow> byte) \<Rightarrow> bytes \<Rightarrow> nat \<Rightarrow> bool \<Rightarrow> bytes" where
  "bda_resize u bs n keep =
     (if \<not> keep then alloc u n
      else take (min n (length bs)) bs @ drop (min n (length bs)) (alloc u n))"

definition bda_append :: "(nat \<Rightarrow> byte) \<Rightarrow> bytes \<Rightarrow> bytes \<Rightarrow> exn + bytes" where
  "bda_append u bs src =
     (if length src > 0 then ba_rightcopy (bda_resize u bs (length bs + length src) True) src 0
      else Inr bs)"

definition bda_push :: "(nat \<Rightarrow> byte) \<Rightarrow> bytes \<Rightarrow> byte \<Rightarrow> bytes" where
  "bda_push u bs b = (bda_resize u bs (length bs + 1) True)[length bs := b]"

subsection \<open>Views of the caller's memory\<close>

record byte_view =
  vmem :: "bytes option"
  vsize :: nat

definition view_of :: "bytes option \<Rightarrow> nat \<Rightarrow> byte_view" where
  "view_of p n = \<lparr>vmem = p, vsize = n\<rparr>"

definition isNull :: "byte_view \<Rightarrow> bool" where
  "isNull v \<longleftrightarrow> vmem v = None"

definition view_left :: "byte_view \<Rightarrow> nat \<Rightarrow> exn + byte_view" where
  "view_left v n = (if n > vsize v then Inl too_large else Inr (v\<lparr>vsize := n\<rparr>))"

definition view_copy :: "byte_view \<Rightarrow> bytes \<Rightarrow> exn + byte_view" where
  "view_copy v src =
     (if length src > vsize v then Inl copy_too_large
      else if src = [] then Inr v
      else (case vmem v of
              None \<Rightarrow> Inl UB
            | Some m \<Rightarrow> Inr (v\<lparr>vmem := Some (src @ drop (length src) m)\<rparr>)))"

subsection \<open>ASN.1 tags and lengths\<close>

text \<open>\<open>putASN1Tag\<close> writes the non-zero octets of the tag, most significant first.\<close>

function ASN1TLength :: "32 word \<Rightarrow> nat" where
  "ASN1TLength tag = (if tag \<noteq> 0 then Suc (ASN1TLength (drop_bit 8 tag)) else 0)"
  by pat_completeness auto
termination
proof (relation "measure unat")
  fix tag :: "32 word"
  assume "tag \<noteq> 0"
  then have "0 < unat tag" by (simp add: unat_gt_0)
  moreover have "unat (drop_bit 8 tag) = unat tag div 2 ^ 8"
    by (simp add: unat_drop_bit_eq) (simp add: drop_bit_eq_div)
  ultimately show "(drop_bit 8 tag, tag) \<in> measure unat"
    by simp
qed simp

declare ASN1TLength.simps [simp del]

fun write_seq :: "bytes \<Rightarrow> nat \<Rightarrow> bytes \<Rightarrow> exn + bytes" where
  "write_seq [] pos data = Inr data"
| "write_seq (b # bs) pos data = bindE (ba_put data pos b) (write_seq bs (Suc pos))"

definition tag_octets :: "32 word \<Rightarrow> bytes" where
  "tag_octets tag =
     filter (\<lambda>b. b \<noteq> 0)
       [ucast (drop_bit 24 tag), ucast (drop_bit 16 tag), ucast (drop_bit 8 tag), ucast tag]"

definition putASN1Tag :: "32 word \<Rightarrow> bytes \<Rightarrow> exn + bytes" where
  "putASN1Tag tag data = write_seq (tag_octets tag) 0 data"

definition ASN1LLength :: "nat \<Rightarrow> exn + nat" where
  "ASN1LLength len =
     (if len < 0x80 then Inr 1
      else if len \<le> 0xff then Inr 2
      else if len \<le> 0xffff then Inr 3
      else if len \<le> 0xffffff then Inr 4
      else if len \<le> 0xffffffff then Inr 5
      else Inl (Logged_Error ''Invalid ASN.1 length''))"

definition length_octets :: "nat \<Rightarrow> bytes" where
  "length_octets len =
     (if len < 0x80 then [of_nat len]
      else if len \<le> 0xff then [0x81, of_nat len]
      else if len \<le> 0xffff then [0x82, of_nat (len div 256), of_nat (len mod 256)]
      else if len \<le> 0xffffff then
        [0x83, of_nat (len div 65536), of_nat (len div 256 mod 256), of_nat (len mod 256)]
      else if len \<le> 0xffffffff then
        [0x84, of_nat (len div 16777216), of_nat (len div 65536 mod 256),
         of_nat (len div 256 mod 256), of_nat (len mod 256)]
      else [])"

definition putASN1Length :: "nat \<Rightarrow> bytes \<Rightarrow> exn + bytes" where
  "putASN1Length len data = write_seq (length_octets len) 0 data"

text \<open>
  \<open>getASN1Tag\<close> and \<open>setASN1Tag\<close> build the TLV in a fresh buffer: the tag, the length in
  the view \<open>mid(tl)\<close>, the content in the view \<open>mid(tl + ll)\<close>.
\<close>

definition setASN1Tag :: "(nat \<Rightarrow> byte) \<Rightarrow> 32 word \<Rightarrow> bytes \<Rightarrow> exn + bytes" where
  "setASN1Tag u tag content =
     (let tl = ASN1TLength tag in
      bindE (ASN1LLength (length content)) (\<lambda>ll.
      bindE (putASN1Tag tag (alloc u (tl + ll + length content))) (\<lambda>d1.
      bindE (ba_mid d1 tl) (\<lambda>input.
      bindE (putASN1Length (length content) input) (\<lambda>d2.
      bindE (ba_mid (take tl d1 @ d2) (tl + ll)) (\<lambda>v.
      bindE (ba_copy v content 0) (\<lambda>d3.
      Inr (take (tl + ll) (take tl d1 @ d2) @ d3))))))))"

subsection \<open>Lemmas: slices and copies\<close>

lemma ba_slices [byte_simps]:
  "n \<le> length bs \<Longrightarrow> ba_left bs n = Inr (take n bs)"
  "n \<le> length bs \<Longrightarrow> ba_mid bs n = Inr (drop n bs)"
  "n \<le> length bs \<Longrightarrow> ba_right bs n = Inr (drop (length bs - n) bs)"
  "n + k \<le> length bs \<Longrightarrow> ba_mid_n bs n k = Inr (take k (drop n bs))"
  by (auto simp: ba_left_def ba_mid_def ba_right_def ba_mid_n_def)

lemma length_alloc [simp]: "length (alloc u n) = n"
  by (simp add: alloc_def)

lemma length_ba_fill [simp]: "length (ba_fill bs v) = length bs"
  by (simp add: ba_fill_def)

lemma ba_fill_replicate: "ba_fill bs v = replicate (length bs) v"
  by (simp add: ba_fill_def map_replicate_const)

lemma length_ba_copy: "ba_copy dst src s = Inr r \<Longrightarrow> length r = length dst"
  by (auto simp: ba_copy_def split: if_splits)

lemma length_ba_rightcopy: "ba_rightcopy dst src s = Inr r \<Longrightarrow> length r = length dst"
  by (auto simp: ba_rightcopy_def split: if_splits)

lemma bda_append_eq: "bda_append u bs src = Inr (bs @ src)"
  by (auto simp: bda_append_def bda_resize_def ba_rightcopy_def)

lemma bda_push_eq: "bda_push u bs b = bs @ [b]"
proof -
  have "drop (length bs) (alloc u (Suc (length bs))) = [u (length bs)]"
    by (simp add: alloc_def drop_map)
  then show ?thesis
    by (simp add: bda_push_def bda_resize_def list_update_append)
qed

lemma ba_left_right_split:
  assumes "n \<le> length bs"
  shows "bindE (ba_left bs n) (\<lambda>l. bindE (ba_right bs (length bs - n)) (\<lambda>r. Inr (l @ r))) = Inr bs"
  using assms by (simp add: ba_left_def ba_right_def)

text \<open>The swap loop after \<open>i\<close> rounds has reversed the outer \<open>i\<close> elements on both sides.\<close>

lemma ba_reverse_loop_inv:
  assumes "2 * (i + k) \<le> length bs" and "length cs = length bs"
    and "\<forall>j < length bs. cs ! j = (if j < i \<or> j \<ge> length bs - i then bs ! (length bs - 1 - j) else bs ! j)"
  shows "length (ba_reverse_loop k i cs) = length bs \<and>
    (\<forall>j < length bs. ba_reverse_loop k i cs ! j =
       (if j < i + k \<or> j \<ge> length bs - (i + k) then bs ! (length bs - 1 - j) else bs ! j))"
  using assms
proof (induction k i cs rule: ba_reverse_loop.induct)
  case (1 i cs)
  then show ?case by simp
next
  case (2 k i cs)
  let ?n = "length bs"
  let ?cs = "cs[i := cs ! (length cs - i - 1), length cs - i - 1 := cs ! i]"
  have i: "i < ?n - i - 1" "?n - i - 1 < ?n" "i < ?n" using 2(2) by auto
  have "?cs ! j = (if j < Suc i \<or> j \<ge> ?n - Suc i then bs ! (?n - 1 - j) else bs ! j)"
    if "j < ?n" for j
    using that i 2(3,4) by (auto simp: nth_list_update)
  then show ?case
    using 2(1) [of] 2(2,3) by simp
qed

lemma ba_reverse_rev: "ba_reverse bs = rev bs"
proof -
  let ?r = "ba_reverse_loop (length bs div 2) 0 bs"
  have r: "length ?r = length bs \<and> (\<forall>j < length bs. ?r ! j =
      (if j < length bs div 2 \<or> j \<ge> length bs - length bs div 2 then bs ! (length bs - 1 - j) else bs ! j))"
    using ba_reverse_loop_inv [of 0 "length bs div 2" bs bs] by simp
  show ?thesis
    unfolding ba_reverse_def
  proof (rule nth_equalityI)
    show "length ?r = length (rev bs)" using r by simp
    fix j assume "j < length ?r"
    then have j: "j < length bs" using r by simp
    have "length bs - 1 - j = j" if "\<not> j < length bs div 2" "\<not> j \<ge> length bs - length bs div 2"
      using that j by arith
    with r j show "?r ! j = rev bs ! j"
      by (cases "j < length bs div 2 \<or> j \<ge> length bs - length bs div 2") (auto simp: rev_nth)
  qed
qed

lemma mem_cmp_neg_iff: "mem_cmp a b < 0 \<longleftrightarrow> mem_cmp b a > 0"
  by (induction a b rule: mem_cmp.induct) auto

lemma mem_cmp_eq_iff: "length a = length b \<Longrightarrow> mem_cmp a b = 0 \<longleftrightarrow> a = b"
  by (induction a b rule: mem_cmp.induct) auto

lemma ba_index_from_sound:
  "ba_index_from i bs pat = Some p \<Longrightarrow>
     i \<le> p \<and> p - i + length pat \<le> length bs \<and> take (length pat) (drop (p - i) bs) = pat"
proof (induction i bs pat rule: ba_index_from.induct)
  case (1 i bs pat)
  from 1(2) consider "p = i" "length pat \<le> length bs" "take (length pat) bs = pat"
    | b rest where "bs = b # rest" "ba_index_from (Suc i) rest pat = Some p"
      "\<not> length bs < length pat" "take (length pat) bs \<noteq> pat"
    by (subst (asm) ba_index_from.simps) (auto split: if_splits list.splits)
  then show ?case
  proof cases
    case 1
    then show ?thesis by simp
  next
    case 2
    then have IH: "Suc i \<le> p" "p - Suc i + length pat \<le> length rest"
        "take (length pat) (drop (p - Suc i) rest) = pat"
      using 1(1) [OF 2(3,4,1,2)] by blast+
    then obtain d where "p = Suc i + d"
      using le_iff_add by blast
    with IH show ?thesis
      using 2(1) by simp
  qed
qed

lemma ba_index_from_complete:
  "ba_index_from i bs pat = None \<Longrightarrow> k + length pat \<le> length bs \<Longrightarrow>
     take (length pat) (drop k bs) \<noteq> pat"
proof (induction i bs pat arbitrary: k rule: ba_index_from.induct)
  case (1 i bs pat)
  from 1(2,3) have here: "take (length pat) bs \<noteq> pat"
    by (subst (asm) ba_index_from.simps) (auto split: if_splits)
  show ?case
  proof (cases k)
    case 0
    with here show ?thesis by simp
  next
    case (Suc k')
    with 1(2,3) here obtain b rest where "bs = b # rest" "ba_index_from (Suc i) rest pat = None"
      by (subst (asm) ba_index_from.simps) (auto split: if_splits list.splits)
    with 1(1,3) Suc here show ?thesis by simp
  qed
qed

lemma ba_index_from_first:
  "ba_index_from i bs pat = Some p \<Longrightarrow> i + k < p \<Longrightarrow> take (length pat) (drop k bs) \<noteq> pat"
proof (induction i bs pat arbitrary: k rule: ba_index_from.induct)
  case (1 i bs pat)
  then obtain b rest where bs: "bs = b # rest" "ba_index_from (Suc i) rest pat = Some p"
    and here: "\<not> length bs < length pat" "take (length pat) bs \<noteq> pat"
    by (subst (asm) ba_index_from.simps) (auto split: if_splits list.splits)
  show ?case
    using 1(1) [OF here bs, of "k - 1"] 1(3) bs(1) here(2) by (cases k) auto
qed

subsection \<open>Lemmas: tags and lengths\<close>

lemma write_seq_eq:
  "pos + length bs \<le> length data \<Longrightarrow>
     write_seq bs pos data = Inr (take pos data @ bs @ drop (pos + length bs) data)"
proof (induction bs pos data rule: write_seq.induct)
  case (1 pos data)
  then show ?case by simp
next
  case (2 b bs pos data)
  then have "write_seq bs (Suc pos) (data[pos := b])
      = Inr (take (Suc pos) (data[pos := b]) @ bs @ drop (Suc pos + length bs) (data[pos := b]))"
    by (simp add: ba_put_def)
  with 2(2) show ?case
    by (simp add: ba_put_def take_Suc_conv_app_nth)
qed

lemma length_octets_length: "ASN1LLength len = Inr ll \<Longrightarrow> length (length_octets len) = ll"
  by (auto simp: ASN1LLength_def length_octets_def split: if_splits)

lemma ASN1LLength_Inr: "len \<le> 0xffffffff \<Longrightarrow> ASN1LLength len = Inr (length (length_octets len))"
  by (auto simp: ASN1LLength_def length_octets_def)

lemma length_octets_nonempty: "len \<le> 0xffffffff \<Longrightarrow> length_octets len \<noteq> []"
  by (auto simp: length_octets_def)

lemma setASN1Tag_eq:
  assumes "length (tag_octets tag) = ASN1TLength tag" and "length content \<le> 0xffffffff"
  shows "setASN1Tag u tag content = Inr (tag_octets tag @ length_octets (length content) @ content)"
proof -
  let ?tl = "ASN1TLength tag" and ?ll = "length (length_octets (length content))"
  let ?a = "alloc u (?tl + ?ll + length content)"
  have ll: "ASN1LLength (length content) = Inr ?ll"
    using assms(2) by (rule ASN1LLength_Inr)
  have d1: "putASN1Tag tag ?a = Inr (tag_octets tag @ drop ?tl ?a)"
    using assms(1) by (simp add: putASN1Tag_def write_seq_eq)
  have d2: "putASN1Length (length content) (drop ?tl ?a)
      = Inr (length_octets (length content) @ drop ?ll (drop ?tl ?a))"
    by (simp add: putASN1Length_def write_seq_eq)
  show ?thesis
    using assms(1) by (simp add: setASN1Tag_def ll d1 d2 ba_mid_def ba_copy_def)
qed

lemma mem_cmp_less: "length a = length b \<Longrightarrow> mem_cmp a b < 0 \<longleftrightarrow> (a, b) \<in> lexord {(x, y). x < y}"
  by (induction a b rule: mem_cmp.induct) auto

lemma lexord_prefix_cases:
  "(a, b) \<in> lexord r \<longleftrightarrow>
     (let n = min (length a) (length b) in
      (take n a, take n b) \<in> lexord r \<or> (take n a = take n b \<and> length a < length b))"
proof (induction a arbitrary: b)
  case Nil
  then show ?case by (cases b) auto
next
  case (Cons x a)
  then show ?case by (cases b) (auto simp: Let_def)
qed

lemma mem_cmp_sign: "mem_cmp a b \<in> {-1, 0, 1}"
  by (induction a b rule: mem_cmp.induct) auto

lemma ba_less_eq:
  "ba_less a b = (let n = min (length a) (length b); c = mem_cmp (take n a) (take n b)
     in if c \<noteq> 0 then c < 0 else length a < length b)"
  "ba_greater a b = (let n = min (length a) (length b); c = mem_cmp (take n a) (take n b)
     in if c \<noteq> 0 then c > 0 else length a > length b)"
  by (cases "min (length a) (length b)"; simp add: ba_less_def ba_greater_def)+

lemma ba_greater_less: "ba_greater a b \<longleftrightarrow> ba_less b a"
proof -
  define n c d where "n = min (length a) (length b)"
    and "c = mem_cmp (take n a) (take n b)" and "d = mem_cmp (take n b) (take n a)"
  have "c < 0 \<longleftrightarrow> d > 0" "d < 0 \<longleftrightarrow> c > 0"
    unfolding c_def d_def by (rule mem_cmp_neg_iff)+
  then have "c = 0 \<longleftrightarrow> d = 0" by linarith
  moreover have "ba_greater a b = (if c \<noteq> 0 then c > 0 else length a > length b)"
    "ba_less b a = (if d \<noteq> 0 then d < 0 else length b < length a)"
    unfolding ba_less_eq Let_def c_def d_def n_def by (simp_all add: min.commute)
  ultimately show ?thesis using \<open>d < 0 \<longleftrightarrow> c > 0\<close> by presburger
qed

lemma tag_octets_single: "tag < 256 \<Longrightarrow> tag \<noteq> 0 \<Longrightarrow> length (tag_octets tag) = ASN1TLength tag"
proof -
  assume "tag < 256" "tag \<noteq> 0"
  then have u: "unat tag < 256" "unat tag \<noteq> 0"
    by (simp_all add: word_less_nat_alt unat_eq_zero)
  have d: "drop_bit k tag = 0" if "8 \<le> k" for k
  proof -
    have "(2::nat) ^ 8 \<le> 2 ^ k" using that by (rule power_increasing) simp
    then have "unat tag div 2 ^ k = 0" using u by simp
    then show ?thesis
      by (simp add: word_unat_eq_iff unat_drop_bit_eq) (simp add: drop_bit_eq_div)
  qed
  have "unat (ucast tag :: byte) = unat tag"
    using u by (simp add: unsigned_ucast_eq take_bit_eq_mod unsigned_take_bit_eq)
  with u have "(ucast tag :: byte) \<noteq> 0" by (metis unat_0)
  with \<open>tag \<noteq> 0\<close> d show ?thesis
    by (simp add: tag_octets_def ASN1TLength.simps [of tag] ASN1TLength.simps [of 0])
qed

subsection \<open>Properties\<close>

text \<open>
  \<open>operator<\<close> and \<open>operator>\<close> of byte arrays, written with \<open>memcmp\<close> on the common length
  and a comparison of the sizes, are the lexicographic order and its converse.
\<close>

lemma ba_compare_lexicographic:
  "ba_less a b = ((a, b) \<in> lexord {(x, y). x < y}) \<and> ba_greater a b = ((b, a) \<in> lexord {(x, y). x < y})"
proof -
  have less: "ba_less a b = ((a, b) \<in> lexord {(x, y). x < y})" for a b
  proof -
    let ?n = "min (length a) (length b)"
    have len: "length (take ?n a) = length (take ?n b)" by simp
    have irr: "(x, x) \<notin> lexord {(x, y). x < y}" for x :: bytes by (rule lexord_irreflexive) auto
    show ?thesis
      using mem_cmp_less [OF len] mem_cmp_eq_iff [OF len] irr [of "take ?n b"]
      unfolding lexord_prefix_cases [of a b] ba_less_eq Let_def by metis
  qed
  with ba_greater_less show ?thesis by blast
qed

text \<open>
  \<open>indexOf\<close> returns the first position at which a non-empty pattern occurs, and finds
  nothing exactly when it does not occur (or is empty).
\<close>

lemma indexOf_first:
  "case ba_indexOf bs pat of
     Some p \<Rightarrow> pat \<noteq> [] \<and> p + length pat \<le> length bs \<and> take (length pat) (drop p bs) = pat \<and>
       (\<nexists>k. k < p \<and> take (length pat) (drop k bs) = pat)
   | None \<Rightarrow> (\<nexists>k. pat \<noteq> [] \<and> k + length pat \<le> length bs \<and> take (length pat) (drop k bs) = pat)"
proof (cases "ba_indexOf bs pat")
  case None
  then show ?thesis
    using ba_index_from_complete [of 0 bs pat] by (auto simp: ba_indexOf_def split: if_splits)
next
  case (Some p)
  then have ne: "pat \<noteq> []" and ix: "ba_index_from 0 bs pat = Some p"
    by (auto simp: ba_indexOf_def split: if_splits)
  show ?thesis
    using Some ne ba_index_from_sound [OF ix] ba_index_from_first [OF ix] by auto
qed

end
