(* ===== verification/Asn_Parser.thy ===== *)
theory Asn_Parser
  imports Byte_Array
begin

section \<open>The ASN.1 parser (shared/src/crypto/asn\_parser.cpp)\<close>

text \<open>
  \<open>GetASN1DataLenght\<close>, \<open>CASNParser\<close> and \<open>CASNTag\<close>.  The parser reads through a raw pointer:
  a read outside the buffer is \<open>UB\<close> in the model, so that the absence of \<open>UB\<close> is a theorem.
  \<open>cur\<close> is \<open>data.data()\<close> plus an offset; the definitions carry the offset.  Lengths come from
  the input: they are 64-bit values, and the arithmetic on them is written out where it
  could wrap.
\<close>

abbreviation excessive_length :: exn where
  "excessive_length \<equiv> Logged_Error ''Excessive length in ASN.1''"

abbreviation excessive_depth :: exn where
  "excessive_depth \<equiv> Logged_Error ''Excessive nesting depth in ASN.1''"

definition kMaxAsn1NestingDepth :: nat where
  "kMaxAsn1NestingDepth = 32"

definition raw_read :: "bytes \<Rightarrow> nat \<Rightarrow> exn + byte" where
  "raw_read data i = (if i < length data then Inr (data ! i) else Inl UB)"

text \<open>The long form of a length: \<open>n\<close> octets from offset \<open>i\<close>, most significant first.\<close>

primrec long_len :: "bytes \<Rightarrow> nat \<Rightarrow> nat \<Rightarrow> nat \<Rightarrow> exn + nat" where
  "long_len data i 0 len = Inr len"
| "long_len data i (Suc n) len =
     bindE (raw_read data i) (\<lambda>b. long_len data (Suc i) n ((len * 256) mod 2 ^ 64 + unat b))"

text \<open>
  The rest of a multi-octet tag, from the offset \<open>i\<close> of its last octet so far; the result
  is the offset of its last octet and the octets.
\<close>

function tag_rest :: "bytes \<Rightarrow> nat \<Rightarrow> bytes \<Rightarrow> exn + nat \<times> bytes" where
  "tag_rest data i tagv =
     (if i + 1 \<ge> length data then Inl excessive_length
      else
        let curv = data ! (i + 1) in
        if curv AND 0x80 \<noteq> 0x80 then Inr (i + 1, tagv @ [curv])
        else tag_rest data (i + 1) (tagv @ [curv]))"
  by pat_completeness auto
termination
  by (relation "measure (\<lambda>(data, i, tagv). length data - i)") auto

declare tag_rest.simps [simp del]

subsection \<open>GetASN1DataLenght\<close>

text \<open>
  Here the variable \<open>l\<close> of the code is one more than the offset of \<open>cur\<close>, and the loop over
  the tag compares \<open>l\<close> with the size before the read.
\<close>

function tag_skip :: "bytes \<Rightarrow> nat \<Rightarrow> exn + nat" where
  "tag_skip data l =
     (if l + 1 \<ge> length data then Inl excessive_length
      else if data ! l AND 0x80 \<noteq> 0x80 then Inr (l + 1)
      else tag_skip data (l + 1))"
  by pat_completeness auto
termination
  by (relation "measure (\<lambda>(data, l). length data - l)") auto

declare tag_skip.simps [simp del]

definition GetASN1DataLenght :: "bytes \<Rightarrow> exn + nat" where
  "GetASN1DataLenght data =
     (if length data = 0 then Inl excessive_length
      else
        bindE (raw_read data 0) (\<lambda>curv.
        bindE (if curv AND 0x1f = 0x1f then tag_skip data 1 else Inr 1) (\<lambda>l.
        if l \<ge> length data then Inl excessive_length
        else
          let remaining = length data - l in
          bindE (raw_read data l) (\<lambda>b.
          bindE (if b = 0x80 then
                   if remaining < 2 then Inl excessive_length
                   else Inr (1, length data - l - 2)
                 else if bit b 7 then
                   let llen = unat (b AND 0x7f) in
                   if llen > 8 \<or> remaining < llen + 1 then Inl excessive_length
                   else bindE (long_len data (l + 1) llen 0) (\<lambda>len. Inr (llen + 1, len))
                 else Inr (1, unat b)) (\<lambda>(llen, len).
          let header = l + llen in
          if len > (2 ^ 64 - 1) - header then Inl excessive_length
          else Inr (header + len))))))"

subsection \<open>The tree\<close>

datatype casn_tag =
  CASNTag (asn_tag: bytes) (asn_content: bytes) (asn_tags: "casn_tag list")
    (startPos: nat) (endPos: nat) (forcedSequence: bool)

definition constructed :: "bytes \<Rightarrow> bool" where
  "constructed tagv \<longleftrightarrow> (case tagv of [] \<Rightarrow> False | b # _ \<Rightarrow> b AND 0x20 = 0x20)"

definition isSequence :: "casn_tag \<Rightarrow> bool" where
  "isSequence t \<longleftrightarrow> forcedSequence t \<or> constructed (asn_tag t)"

subsection \<open>Parse\<close>

text \<open>The length field that follows the tag whose last octet is at offset \<open>l\<close>.\<close>

definition parse_len :: "bytes \<Rightarrow> nat \<Rightarrow> exn + nat \<times> nat" where
  "parse_len data l =
     (let remaining = length data - l in
      if remaining < 2 then Inl excessive_length
      else
        bindE (raw_read data (l + 1)) (\<lambda>b.
        if b = 0x80 then Inr (1, length data - l - 2)
        else if bit b 7 then
          let llen = unat (b AND 0x7f) in
          if llen > 8 \<or> remaining < llen + 2 then Inl excessive_length
          else bindE (long_len data (l + 2) llen 0) (\<lambda>len. Inr (llen + 1, len))
        else Inr (1, unat b)))"

definition parse_tag :: "bytes \<Rightarrow> nat \<Rightarrow> exn + nat \<times> bytes" where
  "parse_tag data l =
     bindE (raw_read data l) (\<lambda>curv.
       if curv AND 0x1f = 0x1f then tag_rest data l [curv] else Inr (l, [curv]))"

definition raw_slice :: "bytes \<Rightarrow> nat \<Rightarrow> nat \<Rightarrow> exn + bytes" where
  "raw_slice data i n = (if i + n \<le> length data then Inr (take n (drop i data)) else Inl UB)"

lemma tag_rest_Inr:
  "tag_rest data i tagv = Inr (l, t) \<Longrightarrow>
     i < l \<and> l < length data \<and> t = tagv @ take (l - i) (drop (Suc i) data)"
proof (induction data i tagv rule: tag_rest.induct)
  case (1 data i tagv)
  show ?case
  proof (cases "Suc i \<ge> length data \<or> data ! Suc i AND 0x80 \<noteq> 0x80")
    case True
    with 1(2) show ?thesis
      by (subst (asm) tag_rest.simps)
         (auto simp: Let_def Cons_nth_drop_Suc [symmetric] split: if_splits)
  next
    case False
    with 1(2) have r: "tag_rest data (i + 1) (tagv @ [data ! (i + 1)]) = Inr (l, t)"
      by (subst (asm) tag_rest.simps) (simp add: Let_def)
    from False have le: "\<not> length data \<le> i + 1" and hi: "\<not> data ! (i + 1) AND 0x80 \<noteq> 0x80" by simp_all
    from 1(1) [OF le refl hi r] have
      "i + 1 < l" "l < length data" "t = (tagv @ [data ! (i + 1)]) @ take (l - (i + 1)) (drop (Suc (i + 1)) data)"
      by simp_all
    moreover have "take (l - i) (drop (Suc i) data)
        = data ! (i + 1) # take (l - (i + 1)) (drop (Suc (i + 1)) data)"
      using le \<open>i + 1 < l\<close> by (simp add: Cons_nth_drop_Suc [symmetric] take_Cons' Suc_diff_Suc)
    ultimately show ?thesis by simp
  qed
qed

lemma parse_tag_Inr:
  assumes "parse_tag data i = Inr (l, t)"
  shows "i \<le> l" and "l < length data" and "t = take (l - i + 1) (drop i data)"
proof -
  have i: "i < length data" using assms by (auto simp: parse_tag_def raw_read_def split: if_splits)
  have hd: "drop i data = data ! i # drop (Suc i) data" using i by (simp add: Cons_nth_drop_Suc)
  show "i \<le> l" and "l < length data" and "t = take (l - i + 1) (drop i data)"
    using assms i hd
    by (auto simp: parse_tag_def raw_read_def split: if_splits dest: tag_rest_Inr)
qed

text \<open>
  The loop of \<open>Parse\<close> at offset \<open>tagStart\<close>; a constructed value is parsed at the next depth,
  where the depth is tested first.
\<close>

function parse_loop :: "nat \<Rightarrow> nat \<Rightarrow> bytes \<Rightarrow> nat \<Rightarrow> exn + casn_tag list" where
  "parse_loop depth startseq data tagStart =
     (if tagStart \<ge> length data then Inr []
      else
        bindE (parse_tag data tagStart) (\<lambda>(l, tagv).
        bindE (parse_len data l) (\<lambda>(llen, len).
        if tagv ! 0 = 0 \<and> len = 0 then Inr []
        else
          let remaining = length data - l; header = llen + 1 in
          if header > remaining \<or> len > remaining - header then Inl excessive_length
          else
            bindE (raw_slice data (l + llen + 1) len) (\<lambda>input.
            bindE (if constructed tagv then
                     if depth + 1 > kMaxAsn1NestingDepth then Inl excessive_depth
                     else bindE (parse_loop (depth + 1) (startseq + l + llen + 1) input 0)
                            (\<lambda>ts. Inr ([], ts))
                   else Inr (input, [])) (\<lambda>(content, ts).
            let sp = startseq + tagStart;
                ep = sp + (l - tagStart + 1) + llen + len in
            bindE (parse_loop depth startseq data (l + len + llen + 1)) (\<lambda>rest.
              Inr (CASNTag tagv content ts sp ep False # rest)))))))"
  by pat_completeness auto
termination
  by (relation "measure (\<lambda>(depth, startseq, data, l). length data - l)")
     (auto simp: raw_slice_def split: if_splits dest: parse_tag_Inr)

declare parse_loop.simps [simp del]

definition asn_Parse :: "bytes \<Rightarrow> exn + casn_tag list" where
  "asn_Parse data = parse_loop 0 0 data 0"

text \<open>\<open>Reparse\<close>: the content of a primitive value parsed as a sequence.\<close>

definition Reparse :: "casn_tag \<Rightarrow> exn + casn_tag" where
  "Reparse t =
     bindE (if asn_tag t = [3] then bindE (ba_mid (asn_content t) 1) asn_Parse
            else asn_Parse (asn_content t)) (\<lambda>ts.
     if length ts > 0 then
       Inr (CASNTag (asn_tag t) [] (asn_tags t @ ts) (startPos t) (endPos t) True)
     else Inr t)"

subsection \<open>Encode\<close>

text \<open>\<open>ContentLen\<close>, \<open>EncodeLen\<close> and \<open>CalcLen\<close>.\<close>

fun EncodeLen :: "casn_tag \<Rightarrow> exn + nat" and CalcLen :: "casn_tag list \<Rightarrow> exn + nat" where
  "EncodeLen (CASNTag tg cn ts sp ep f) =
     bindE (if f \<or> constructed tg then CalcLen ts else Inr (length cn)) (\<lambda>clen.
     bindE (ASN1LLength clen) (\<lambda>llen. Inr (length tg + llen + clen)))"
| "CalcLen [] = Inr 0"
| "CalcLen (t # ts) = bindE (EncodeLen t) (\<lambda>n. bindE (CalcLen ts) (\<lambda>m. Inr (n + m)))"

definition ContentLen :: "casn_tag \<Rightarrow> exn + nat" where
  "ContentLen t = (if isSequence t then CalcLen (asn_tags t) else Inr (length (asn_content t)))"

text \<open>
  \<open>Encode\<close> writes into a view; the result is the new content of the view and the length
  written.  A sequence writes each child into \<open>data.mid(ptrPos)\<close>.
\<close>

fun Encode :: "casn_tag \<Rightarrow> bytes \<Rightarrow> exn + bytes \<times> nat"
  and encode_tags :: "casn_tag list \<Rightarrow> nat \<Rightarrow> bytes \<Rightarrow> exn + bytes \<times> nat" where
  "Encode (CASNTag tg cn ts sp ep f) data =
     (let tlen = length tg in
      if tg = [3] \<and> f then Inl (Logged_Error ''Bit string reparsed not handled in encode!'')
      else
        bindE (ba_copy data tg 0) (\<lambda>d1.
        bindE (if f \<or> constructed tg then CalcLen ts else Inr (length cn)) (\<lambda>clen.
        bindE (ASN1LLength clen) (\<lambda>llen.
        bindE (ba_mid d1 tlen) (\<lambda>input2.
        bindE (putASN1Length clen input2) (\<lambda>d2.
        let d3 = take tlen d1 @ d2 in
        if \<not> (f \<or> constructed tg) then
          bindE (ba_mid d3 (tlen + llen)) (\<lambda>v.
          bindE (ba_copy v cn 0) (\<lambda>v'.
            Inr (take (tlen + llen) d3 @ v', tlen + llen + clen)))
        else encode_tags ts (tlen + llen) d3))))))"
| "encode_tags [] ptrPos data = Inr (data, ptrPos)"
| "encode_tags (t # ts) ptrPos data =
     bindE (ba_mid data ptrPos) (\<lambda>cur_input.
     bindE (Encode t cur_input) (\<lambda>(d, taglen).
       encode_tags ts (ptrPos + taglen) (take ptrPos data @ d)))"

definition asn_Encode :: "(nat \<Rightarrow> byte) \<Rightarrow> casn_tag list \<Rightarrow> exn + bytes" where
  "asn_Encode u ts =
     bindE (CalcLen ts) (\<lambda>reqSize.
     bindE (encode_tags ts 0 (alloc u reqSize)) (\<lambda>(d, n). Inr d))"

subsection \<open>Access with verification\<close>

definition tagInt :: "casn_tag \<Rightarrow> ulong" where
  "tagInt t = foldl (\<lambda>val b. push_bit 8 val OR ucast b) 0 (asn_tag t)"

definition Child :: "casn_tag \<Rightarrow> nat \<Rightarrow> byte \<Rightarrow> exn + casn_tag" where
  "Child t num expectedTag =
     (if num \<ge> length (asn_tags t) then Inl (Logged_Error ''ASN.1 structure verification error'')
      else if asn_tag (asn_tags t ! num) = [expectedTag] then Inr (asn_tags t ! num)
      else Inl (Logged_Error ''ASN.1 tag verification error''))"

definition CheckTag :: "casn_tag \<Rightarrow> byte \<Rightarrow> exn + casn_tag" where
  "CheckTag t checkTag =
     (if asn_tag t \<noteq> [checkTag] then Inl (Logged_Error ''ASN.1 tag verification error'') else Inr t)"

definition Verify_content :: "casn_tag \<Rightarrow> bytes \<Rightarrow> exn + unit" where
  "Verify_content t checkContent =
     (if asn_content t \<noteq> checkContent then Inl (Logged_Error ''ASN.1 tag verification error'')
      else Inr ())"


subsection \<open>No read outside the buffer\<close>

lemma long_len_total: "i + n \<le> length data \<Longrightarrow> \<exists>v. long_len data i n len = Inr v"
proof (induction n arbitrary: i len)
  case 0
  then show ?case by simp
next
  case (Suc n)
  then show ?case by (simp add: raw_read_def)
qed

lemma long_len_error: "long_len data i n len = Inl e \<Longrightarrow> length data < i + n"
  using long_len_total [of i n data len] by (metis not_le sum.distinct(1))

lemma tag_rest_error: "tag_rest data i tagv = Inl e \<Longrightarrow> e = excessive_length"
proof (induction data i tagv rule: tag_rest.induct)
  case (1 data i tagv)
  from 1(2) show ?case
    by (subst (asm) tag_rest.simps) (auto simp: Let_def split: if_splits intro: 1(1))
qed

lemma tag_skip_error: "tag_skip data l = Inl e \<Longrightarrow> e = excessive_length"
proof (induction data l rule: tag_skip.induct)
  case (1 data l)
  from 1(2) show ?case
    by (subst (asm) tag_skip.simps) (auto split: if_splits intro: 1(1))
qed

lemma tag_skip_Inr: "tag_skip data l = Inr m \<Longrightarrow> l < m \<and> m < length data"
proof (induction data l rule: tag_skip.induct)
  case (1 data l)
  show ?case
  proof (cases "l + 1 \<ge> length data \<or> data ! l AND 0x80 \<noteq> 0x80")
    case True
    with 1(2) show ?thesis by (subst (asm) tag_skip.simps) (auto split: if_splits)
  next
    case False
    with 1(2) have "tag_skip data (l + 1) = Inr m"
      by (subst (asm) tag_skip.simps) simp
    with 1(1) False show ?thesis by force
  qed
qed

lemma parse_tag_error: "parse_tag data i = Inl e \<Longrightarrow> i < length data \<Longrightarrow> e = excessive_length"
  by (auto simp: parse_tag_def raw_read_def split: if_splits dest: tag_rest_error)

lemma parse_len_error: "parse_len data l = Inl e \<Longrightarrow> e = excessive_length"
  by (auto simp: parse_len_def raw_read_def bindE_eq_Inl Let_def split: if_splits dest!: long_len_error)

lemma parse_len_Inr: "parse_len data l = Inr (llen, len) \<Longrightarrow> l + 1 < length data \<and> 0 < llen"
  by (auto simp: parse_len_def bindE_eq_Inr Let_def split: if_splits)

text \<open>
  A nonempty step of the loop, taken apart: what the tag, the length and the slice are, and
  which two calls of the parser give the result.
\<close>

definition step_value :: "nat \<Rightarrow> nat \<Rightarrow> bytes \<Rightarrow> nat \<Rightarrow> nat \<Rightarrow> bytes \<Rightarrow> exn + bytes \<times> casn_tag list" where
  "step_value depth startseq input l llen tagv =
     (if constructed tagv then
        if depth + 1 > kMaxAsn1NestingDepth then Inl excessive_depth
        else bindE (parse_loop (depth + 1) (startseq + l + llen + 1) input 0) (\<lambda>ts. Inr ([], ts))
      else Inr (input, []))"

lemma parse_loop_step:
  assumes "i < length data" and "parse_tag data i = Inr (l, tagv)" and "parse_len data l = Inr (llen, len)"
    and "\<not> (tagv ! 0 = 0 \<and> len = 0)" and "llen + 1 \<le> length data - l"
    and "len \<le> length data - l - (llen + 1)"
  shows "parse_loop depth startseq data i =
    bindE (step_value depth startseq (take len (drop (l + llen + 1) data)) l llen tagv) (\<lambda>(content, ts).
    bindE (parse_loop depth startseq data (l + len + llen + 1)) (\<lambda>rest.
      Inr (CASNTag tagv content ts (startseq + i) (startseq + i + (l - i + 1) + llen + len) False # rest)))"
proof -
  have "raw_slice data (l + llen + 1) len = Inr (take len (drop (l + llen + 1) data))"
    using assms(5,6) by (simp add: raw_slice_def)
  with assms show ?thesis
    by (subst parse_loop.simps) (cases "tagv ! 0 = 0"; simp add: step_value_def Let_def)
qed

lemma parse_loop_cases:
  assumes "i < length data"
  obtains (error) "parse_loop depth startseq data i = Inl excessive_length"
  | (eoc) "parse_loop depth startseq data i = Inr []"
  | (step) l tagv llen len where "parse_tag data i = Inr (l, tagv)" "parse_len data l = Inr (llen, len)"
      "\<not> (tagv ! 0 = 0 \<and> len = 0)" "llen + 1 \<le> length data - l"
      "len \<le> length data - l - (llen + 1)"
proof (cases "parse_tag data i")
  case (Inl e)
  then have "parse_loop depth startseq data i = Inl excessive_length"
    using assms parse_tag_error [OF Inl assms] by (subst parse_loop.simps) simp
  then show thesis by (rule error)
next
  case (Inr lt)
  obtain l tagv where lt: "lt = (l, tagv)" by (cases lt)
  show thesis
  proof (cases "parse_len data l")
    case (Inl e)
    then have "parse_loop depth startseq data i = Inl excessive_length"
      using assms Inr lt parse_len_error [OF Inl] by (subst parse_loop.simps) simp
    then show thesis by (rule error)
  next
    case ok: (Inr ll)
    obtain llen len where ll: "ll = (llen, len)" by (cases ll)
    show thesis
    proof (cases "(tagv ! 0 = 0 \<and> len = 0)")
      case True
      then have "parse_loop depth startseq data i = Inr []"
        using assms Inr lt ok ll by (subst parse_loop.simps) simp
      then show thesis by (rule eoc)
    next
      case False
      show thesis
      proof (cases "llen + 1 \<le> length data - l \<and> len \<le> length data - l - (llen + 1)")
        case True
        then show thesis using step Inr lt ok ll False by simp
      next
        case bad: False
        then have "parse_loop depth startseq data i = Inl excessive_length"
          using assms Inr lt ok ll False by (subst parse_loop.simps) (auto simp: Let_def)
        then show thesis by (rule error)
      qed
    qed
  qed
qed

lemma parse_loop_error:
  "parse_loop depth startseq data i = Inl e \<Longrightarrow> e \<in> {excessive_length, excessive_depth}"
proof (induction "length data - i" arbitrary: depth startseq data i e rule: less_induct)
  case less
  show ?case
  proof (cases "i < length data")
    case False
    with less(2) show ?thesis by (subst (asm) parse_loop.simps) simp
  next
    case True
    show ?thesis
    proof (cases rule: parse_loop_cases [OF True, where depth = depth and startseq = startseq, case_names error eoc step])
      case error
      with less(2) show ?thesis by simp
    next
      case eoc
      with less(2) show ?thesis by simp
    next
      case (step l tagv llen len)
      note l = parse_tag_Inr [OF step(1)]
      note eq = parse_loop_step [OF True step, of depth startseq]
      have "length (take len (drop (l + llen + 1) data)) - 0 < length data - i"
        using l step(5) True by auto
      note inner = less(1) [OF this]
      have "length data - (l + len + llen + 1) < length data - i" using l True by auto
      note rest = less(1) [OF this]
      from less(2) show ?thesis
        unfolding eq step_value_def
        by (auto simp: bindE_eq_Inl split: if_splits dest!: inner [simplified] rest [simplified])
    qed
  qed
qed

lemma GetASN1DataLenght_error: "GetASN1DataLenght data = Inl e \<Longrightarrow> e = excessive_length"
  by (auto simp: GetASN1DataLenght_def raw_read_def bindE_eq_Inl Let_def split: if_splits
      dest: tag_skip_error dest!: long_len_error)

end
