(* ===== verification/Asn_Roundtrip.thy ===== *)
theory Asn_Roundtrip
  imports Asn_Parser
begin

section \<open>What the ASN.1 parser and encoder promise each other\<close>

text \<open>
  The encoder writes the DER encoding of its tree; the parser, given that encoding, returns
  the tree; and every node the parser returns is where it says in the input.
\<close>

subsection \<open>The encoding\<close>

fun asn_bytes :: "casn_tag \<Rightarrow> bytes" and asn_bytes_list :: "casn_tag list \<Rightarrow> bytes" where
  "asn_bytes (CASNTag tg cn ts sp ep f) =
     (let c = (if f \<or> constructed tg then asn_bytes_list ts else cn)
      in tg @ length_octets (length c) @ c)"
| "asn_bytes_list [] = []"
| "asn_bytes_list (t # ts) = asn_bytes t @ asn_bytes_list ts"

text \<open>Trees whose lengths fit the four octets of the encoder and that have no reparsed bit string.\<close>

fun encodable :: "casn_tag \<Rightarrow> bool" and encodables :: "casn_tag list \<Rightarrow> bool" where
  "encodable (CASNTag tg cn ts sp ep f) \<longleftrightarrow>
     \<not> (tg = [3] \<and> f) \<and>
     (if f \<or> constructed tg then encodables ts \<and> length (asn_bytes_list ts) \<le> 0xffffffff
      else length cn \<le> 0xffffffff)"
| "encodables [] \<longleftrightarrow> True"
| "encodables (t # ts) \<longleftrightarrow> encodable t \<and> encodables ts"

lemma CalcLen_eq:
  "encodable t \<Longrightarrow> EncodeLen t = Inr (length (asn_bytes t))"
  "encodables ts \<Longrightarrow> CalcLen ts = Inr (length (asn_bytes_list ts))"
  by (induction t and ts rule: encodable_encodables.induct)
     (auto simp: ASN1LLength_Inr Let_def split: if_splits)

lemma Encode_eq:
  "encodable t \<Longrightarrow> length (asn_bytes t) \<le> length data \<Longrightarrow>
     Encode t data = Inr (asn_bytes t @ drop (length (asn_bytes t)) data, length (asn_bytes t))"
  "encodables ts \<Longrightarrow> ptrPos + length (asn_bytes_list ts) \<le> length data \<Longrightarrow>
     encode_tags ts ptrPos data =
       Inr (take ptrPos data @ asn_bytes_list ts @ drop (ptrPos + length (asn_bytes_list ts)) data,
            ptrPos + length (asn_bytes_list ts))"
proof (induction t data and ts ptrPos data rule: Encode_encode_tags.induct)
  case (1 tg cn ts sp ep f data)
  let ?c = "if f \<or> constructed tg then asn_bytes_list ts else cn"
  let ?o = "length_octets (length ?c)"
  have len: "length tg + length ?o + length ?c \<le> length data" using 1(3) by (simp add: Let_def)
  have clen: "(if f \<or> constructed tg then CalcLen ts else Inr (length cn)) = Inr (length ?c)"
    using 1(2) by (auto simp: CalcLen_eq)
  have ll: "ASN1LLength (length ?c) = Inr (length ?o)"
    using 1(2) by (intro ASN1LLength_Inr) (auto split: if_splits)
  have cp: "ba_copy data tg 0 = Inr (tg @ drop (length tg) data)"
    using len by (simp add: ba_copy_def)
  have md: "ba_mid (tg @ drop (length tg) data) (length tg) = Inr (drop (length tg) data)"
    by (simp add: ba_mid_def)
  have pl: "putASN1Length (length ?c) (drop (length tg) data)
      = Inr (?o @ drop (length tg + length ?o) data)"
    using len by (simp add: putASN1Length_def write_seq_eq add.commute)
  let ?d3 = "tg @ ?o @ drop (length tg + length ?o) data"
  show ?case
  proof (cases "f \<or> constructed tg")
    case False
    have "ba_mid ?d3 (length tg + length ?o) = Inr (drop (length tg + length ?o) data)"
      by (simp add: ba_mid_def)
    moreover have "ba_copy (drop (length tg + length ?o) data) cn 0
        = Inr (cn @ drop (length tg + length ?o + length cn) data)"
      using len False by (simp add: ba_copy_def add.commute)
    ultimately show ?thesis
      using 1(2) False clen ll cp md pl by (simp add: Let_def add.assoc)
  next
    case True
    have "encode_tags ts (length tg + length ?o) ?d3 = Inr (take (length tg + length ?o) ?d3 @ asn_bytes_list ts @
        drop (length tg + length ?o + length (asn_bytes_list ts)) ?d3,
        length tg + length ?o + length (asn_bytes_list ts))"
      using 1(2) True len pl
      by (intro 1(1) [OF refl _ cp clen ll md]) simp_all
    moreover have "drop (length tg + length ?o + length (asn_bytes_list ts)) ?d3
        = drop (length tg + length ?o + length (asn_bytes_list ts)) data"
      using True by (simp add: add.commute add.left_commute)
    ultimately show ?thesis
      using 1(2) True clen ll cp md pl by (simp add: Let_def add.assoc)
  qed
next
  case (2 ptrPos data)
  then show ?case by simp
next
  case (3 t ts ptrPos data)
  then show ?case by (simp add: ba_mid_def) (simp add: ac_simps)
qed

lemma asn_Encode_eq:
  assumes "encodables ts"
  shows "asn_Encode u ts = Inr (asn_bytes_list ts)"
  using Encode_eq(2) [OF assms, of 0 "alloc u (length (asn_bytes_list ts))"] CalcLen_eq(2) [OF assms]
  by (simp add: asn_Encode_def)

subsection \<open>Lengths and tags read back\<close>

definition octets_value :: "nat \<Rightarrow> bytes \<Rightarrow> nat" where
  "octets_value acc bs = foldl (\<lambda>v b. v * 256 + unat b) acc bs"

lemma octets_value_simps [simp]:
  "octets_value acc [] = acc" "octets_value acc (b # bs) = octets_value (acc * 256 + unat b) bs"
  by (simp_all add: octets_value_def)

lemma octets_value_ge: "acc \<le> octets_value acc bs"
proof (induction bs arbitrary: acc)
  case Nil
  then show ?case by simp
next
  case (Cons b bs)
  have "acc \<le> acc * 256 + unat b" by simp
  also have "\<dots> \<le> octets_value (acc * 256 + unat b) bs" by (rule Cons)
  finally show ?case by simp
qed

lemma long_len_be:
  "octets_value acc bs < 2 ^ 64 \<Longrightarrow>
     long_len (pre @ bs @ post) (length pre) (length bs) acc = Inr (octets_value acc bs)"
proof (induction bs arbitrary: pre acc)
  case Nil
  then show ?case by simp
next
  case (Cons b bs)
  have "acc * 256 + unat b \<le> octets_value (acc * 256 + unat b) bs" by (rule octets_value_ge)
  with Cons(2) have "acc * 256 < 2 ^ 64" by simp
  moreover have "raw_read (pre @ (b # bs) @ post) (length pre) = Inr b" by (simp add: raw_read_def)
  ultimately show ?case
    using Cons(1) [of "acc * 256 + unat b" "pre @ [b]"] Cons(2) by simp
qed

text \<open>The octets of a length, as the parser reads them.\<close>

lemma length_octets_short: "n < 0x80 \<Longrightarrow> length_octets n = [of_nat n]"
  by (simp add: length_octets_def)

lemma octet_value: "unat (of_nat (m mod 256) :: byte) = m mod 256" "m < 256 \<Longrightarrow> unat (of_nat m :: byte) = m"
  by (simp_all add: unat_of_nat)

lemma div_chain: "n div 65536 = n div 256 div (256::nat)" "n div 16777216 = n div 256 div 256 div (256::nat)"
  by (simp_all add: div_mult2_eq [symmetric])

lemma length_octets_long:
  assumes "0x80 \<le> n" and "n \<le> 0xffffffff"
  obtains bs where "length_octets n = (0x80 OR of_nat (length bs)) # bs"
    and "1 \<le> length bs" and "length bs \<le> 4" and "octets_value 0 bs = n"
proof -
  consider "n \<le> 0xff" | "0xff < n" "n \<le> 0xffff" | "0xffff < n" "n \<le> 0xffffff" | "0xffffff < n"
    by linarith
  then show thesis
  proof cases
    case 1
    have "octets_value 0 [of_nat n] = n" using 1 by (simp add: octet_value)
    then show thesis using that [of "[of_nat n]"] 1 assms(1) by (simp add: length_octets_def)
  next
    case 2
    then have "n div 256 < 256" by (simp add: div_less_iff_less_mult)
    then have "octets_value 0 [of_nat (n div 256), of_nat (n mod 256)] = n" by (simp add: octet_value)
    then show thesis
      using that [of "[of_nat (n div 256), of_nat (n mod 256)]"] 2 by (simp add: length_octets_def)
  next
    case 3
    then have "n div 256 div 256 < 256" by (simp add: div_less_iff_less_mult)
    then have "octets_value 0 [of_nat (n div 65536), of_nat (n div 256 mod 256), of_nat (n mod 256)] = n"
      by (simp add: octet_value div_chain)
    then show thesis
      using that [of "[of_nat (n div 65536), of_nat (n div 256 mod 256), of_nat (n mod 256)]"] 3
      by (simp add: length_octets_def)
  next
    case 4
    then have "n div 256 div 256 div 256 < 256" using assms(2) by (simp add: div_less_iff_less_mult)
    then have "octets_value 0 [of_nat (n div 16777216), of_nat (n div 65536 mod 256),
        of_nat (n div 256 mod 256), of_nat (n mod 256)] = n"
      by (simp add: octet_value div_chain)
    then show thesis
      using that [of "[of_nat (n div 16777216), of_nat (n div 65536 mod 256),
          of_nat (n div 256 mod 256), of_nat (n mod 256)]"] 4 assms(2)
      by (simp add: length_octets_def)
  qed
qed

lemma short_octet:
  assumes "n < 0x80"
  shows "\<not> bit (of_nat n :: byte) 7 \<and> unat (of_nat n :: byte) = n"
proof -
  have u: "unat (of_nat n :: byte) = n" using assms by (simp add: octet_value)
  have "bit (of_nat n :: byte) 7 \<longleftrightarrow> bit (unat (of_nat n :: byte)) 7" by (simp add: bit_unsigned_iff)
  also have "\<dots> \<longleftrightarrow> False" using assms by (simp only: u) (simp add: bit_iff_odd)
  finally show ?thesis using u by simp
qed

lemma long_octet:
  assumes "1 \<le> k" and "k \<le> 4"
  shows "bit (0x80 OR of_nat k :: byte) 7" and "unat ((0x80 OR of_nat k :: byte) AND 0x7f) = k"
    and "(0x80 OR of_nat k :: byte) \<noteq> 0x80"
proof -
  have "k = 1 \<or> k = 2 \<or> k = 3 \<or> k = 4" using assms by linarith
  then show "bit (0x80 OR of_nat k :: byte) 7" and "unat ((0x80 OR of_nat k :: byte) AND 0x7f) = k"
    and "(0x80 OR of_nat k :: byte) \<noteq> 0x80"
    by (elim disjE; simp)+
qed

lemma parse_len_octets:
  assumes "n \<le> 0xffffffff" and "l + 1 = length pre"
  shows "parse_len (pre @ length_octets n @ post) l = Inr (length (length_octets n), n)"
proof (cases "n < 0x80")
  case True
  note o = short_octet [OF True]
  then have ne: "(of_nat n :: byte) \<noteq> 0x80" using True by auto
  have "raw_read (pre @ length_octets n @ post) (l + 1) = Inr (of_nat n)"
    using assms(2) True by (simp add: raw_read_def length_octets_short nth_append)
  then show ?thesis
    using assms(2) o ne True by (simp add: parse_len_def Let_def length_octets_short)
next
  case False
  then obtain bs where bs: "length_octets n = (0x80 OR of_nat (length bs)) # bs"
    and k: "1 \<le> length bs" "length bs \<le> 4" and v: "octets_value 0 bs = n"
    using assms(1) length_octets_long by (metis not_less)
  let ?b = "0x80 OR of_nat (length bs) :: byte"
  have ll: "long_len (pre @ length_octets n @ post) (l + 2) (length bs) 0 = Inr n"
    using long_len_be [of 0 bs "pre @ [?b]" post] assms v by (simp add: bs)
  have "raw_read (pre @ length_octets n @ post) (l + 1) = Inr ?b"
    using assms(2) by (simp add: raw_read_def bs nth_append)
  then show ?thesis
    using long_octet [OF k] k assms(2) ll by (simp add: parse_len_def Let_def bs)
qed

text \<open>Tags: one octet, or a first octet with all five number bits set and continuation octets.\<close>

definition valid_tag :: "bytes \<Rightarrow> bool" where
  "valid_tag tg \<longleftrightarrow>
     tg \<noteq> [] \<and>
     (if hd tg AND 0x1f = 0x1f then
        tl tg \<noteq> [] \<and> (\<forall>b \<in> set (butlast (tl tg)). b AND 0x80 = 0x80) \<and> last tg AND 0x80 \<noteq> 0x80
      else tl tg = [])"

lemma tag_rest_octets:
  "cont \<noteq> [] \<Longrightarrow> \<forall>b \<in> set (butlast cont). b AND 0x80 = 0x80 \<Longrightarrow> last cont AND 0x80 \<noteq> 0x80 \<Longrightarrow>
     l + 1 = length pre \<Longrightarrow> tag_rest (pre @ cont @ post) l acc = Inr (l + length cont, acc @ cont)"
proof (induction cont arbitrary: pre l acc)
  case Nil
  then show ?case by simp
next
  case (Cons b cont)
  have nth: "(pre @ (b # cont) @ post) ! (l + 1) = b" using Cons(5) by (simp add: nth_append)
  show ?case
  proof (cases "cont = []")
    case True
    with Cons nth show ?thesis by (subst tag_rest.simps) (simp add: Let_def)
  next
    case False
    then have "tag_rest ((pre @ [b]) @ cont @ post) (l + 1) (acc @ [b]) = Inr (l + 1 + length cont, (acc @ [b]) @ cont)"
      using Cons by (intro Cons(1)) simp_all
    moreover have "b AND 0x80 = 0x80" using Cons(3) False by simp
    ultimately show ?thesis using nth Cons(5) by (subst tag_rest.simps) (simp add: Let_def)
  qed
qed

lemma parse_tag_octets:
  assumes "valid_tag tg"
  shows "parse_tag (pre @ tg @ post) (length pre) = Inr (length pre + length tg - 1, tg)"
proof -
  obtain b cont where tg: "tg = b # cont" using assms by (cases tg) (auto simp: valid_tag_def)
  have rd: "raw_read (pre @ tg @ post) (length pre) = Inr b" by (simp add: tg raw_read_def)
  show ?thesis
  proof (cases "b AND 0x1f = 0x1f")
    case True
    then have "cont \<noteq> []" "\<forall>b \<in> set (butlast cont). b AND 0x80 = 0x80" "last cont AND 0x80 \<noteq> 0x80"
      using assms by (auto simp: valid_tag_def tg)
    from tag_rest_octets [OF this, of "length pre" "pre @ [b]" post "[b]"] True rd
    show ?thesis by (simp add: parse_tag_def tg)
  next
    case False
    with assms rd show ?thesis by (simp add: parse_tag_def valid_tag_def tg)
  qed
qed

subsection \<open>Parsing the encoding\<close>

text \<open>
  Trees that DER can carry: valid tags, contents or children but not both, nesting within
  the parser's limit (\<open>d\<close> is the depth of the tree), and no end-of-contents marker, which the
  parser takes for the end.
\<close>

fun canonical :: "nat \<Rightarrow> casn_tag \<Rightarrow> bool" and canonicals :: "nat \<Rightarrow> casn_tag list \<Rightarrow> bool" where
  "canonical d (CASNTag tg cn ts sp ep f) \<longleftrightarrow>
     valid_tag tg \<and> \<not> f \<and>
     (if constructed tg then
        cn = [] \<and> d < kMaxAsn1NestingDepth \<and> canonicals (Suc d) ts \<and> length (asn_bytes_list ts) \<le> 0xffffffff
      else ts = [] \<and> length cn \<le> 0xffffffff \<and> \<not> (hd tg = 0 \<and> cn = []))"
| "canonicals d [] \<longleftrightarrow> True"
| "canonicals d (t # ts) \<longleftrightarrow> canonical d t \<and> canonicals d ts"

text \<open>The tree with the positions of its values in an encoding that starts at \<open>k\<close>.\<close>

fun place :: "nat \<Rightarrow> casn_tag \<Rightarrow> casn_tag" and places :: "nat \<Rightarrow> casn_tag list \<Rightarrow> casn_tag list" where
  "place k (CASNTag tg cn ts sp ep f) =
     (let n = length (if constructed tg then asn_bytes_list ts else cn); h = length tg + length (length_octets n) in
      CASNTag tg cn (places (k + h) ts) k (k + h + n) f)"
| "places k [] = []"
| "places k (t # ts) = place k t # places (k + length (asn_bytes t)) ts"

lemma canonical_encodable:
  "canonical d t \<Longrightarrow> encodable t"
  "canonicals d ts \<Longrightarrow> encodables ts"
  by (induction d t and d ts rule: canonical_canonicals.induct) auto

lemma constructed_not_zero: "constructed tg \<Longrightarrow> tg ! 0 \<noteq> 0"
  by (auto simp: constructed_def split: list.splits)

lemma parse_loop_canonical:
  "canonical d t \<Longrightarrow> constructed (asn_tag t) \<Longrightarrow>
     parse_loop (Suc d) start (asn_bytes_list (asn_tags t)) 0 = Inr (places start (asn_tags t))"
  "canonicals d ts \<Longrightarrow>
     parse_loop d start (pre @ asn_bytes_list ts) (length pre) = Inr (places (start + length pre) ts)"
proof (induction d t and d ts arbitrary: start and start pre rule: canonical_canonicals.induct)
  case (1 d tg cn ts sp ep f)
  then show ?case using 1(1) [of start "[]"] by simp
next
  case (2 d)
  then show ?case by (subst parse_loop.simps) simp
next
  case (3 d t ts)
  obtain tg cn cs sp ep f where t: "t = CASNTag tg cn cs sp ep f" by (cases t)
  from 3(3) have can: "canonical d t" and cans: "canonicals d ts" by simp_all
  from can have vt: "valid_tag tg" and nf: "\<not> f" by (simp_all add: t)
  have tg0: "tg \<noteq> []" using vt by (simp add: valid_tag_def)
  define c where "c = (if constructed tg then asn_bytes_list cs else cn)"
  define oc where "oc = length_octets (length c)"
  define l where "l = length pre + length tg - 1"
  define data where "data = pre @ tg @ oc @ c @ asn_bytes_list ts"
  have data_eq: "pre @ asn_bytes_list (t # ts) = data"
    by (simp add: data_def oc_def c_def t nf Let_def)
  have l: "Suc l = length pre + length tg" using tg0 by (cases tg) (simp_all add: l_def)
  have small: "length c \<le> 0xffffffff" using can by (auto simp: t c_def split: if_splits)
  have pt: "parse_tag data (length pre) = Inr (l, tg)"
    unfolding data_def l_def by (rule parse_tag_octets [OF vt])
  have pl: "parse_len data l = Inr (length oc, length c)"
    using parse_len_octets [OF small, of l "pre @ tg" "c @ asn_bytes_list ts"] l
    by (simp add: data_def oc_def)
  have eoc: "\<not> (tg ! 0 = 0 \<and> length c = 0)"
    using can constructed_not_zero [of tg] tg0 by (auto simp: t c_def hd_conv_nth split: if_splits)
  have len: "length data = l + length oc + 1 + length c + length (asn_bytes_list ts)"
    using l by (simp add: data_def)
  have sl: "take (length c) (drop (l + length oc + 1) data) = c"
    using l by (simp add: data_def)
  have i: "length pre < length data" using tg0 by (simp add: data_def)
  have step: "parse_loop d start data (length pre) =
    bindE (step_value d start c l (length oc) tg) (\<lambda>(content, us).
    bindE (parse_loop d start data (l + length c + length oc + 1)) (\<lambda>rest.
      Inr (CASNTag tg content us (start + length pre)
        (start + length pre + (l - length pre + 1) + length oc + length c) False # rest)))"
    using parse_loop_step [OF i pt pl eoc, of d start] by (simp only: sl) (simp add: len)
  have pos: "length (pre @ tg @ oc @ c) = l + length c + length oc + 1" using l by simp
  have split: "(pre @ tg @ oc @ c) @ asn_bytes_list ts = data" by (simp add: data_def)
  note rest = 3(2) [OF cans, of start "pre @ tg @ oc @ c", unfolded pos split]
  have ends: "start + length pre + (l - length pre + 1) + length oc + length c
      = start + length pre + (length tg + length oc) + length c"
    "start + (l + length c + length oc + 1) = start + length pre + length (asn_bytes t)"
    "start + l + length oc + 1 = start + length pre + (length tg + length oc)"
    using l tg0 by (simp_all add: t nf c_def oc_def l_def Let_def Suc_leI)
  show ?case
  proof (cases "constructed tg")
    case True
    have "parse_loop (Suc d) (start + l + length oc + 1) c 0 = Inr (places (start + length pre + (length tg + length oc)) cs)"
      using 3(1) [OF can, of "start + l + length oc + 1"] True unfolding ends(3) by (simp add: t c_def)
    with True can show ?thesis
      unfolding data_eq step rest ends(1,2) by (simp add: t step_value_def c_def oc_def nf Let_def add.assoc)
  next
    case False
    with can show ?thesis
      unfolding data_eq step rest ends(1,2) by (simp add: t step_value_def c_def oc_def nf Let_def add.assoc)
  qed
qed

lemma asn_Parse_placed: "canonicals 0 ts \<Longrightarrow> asn_Parse (asn_bytes_list ts) = Inr (places 0 ts)"
  using parse_loop_canonical(2) [of 0 ts 0 "[]"] by (simp add: asn_Parse_def)

text \<open>
  C28: whatever the encoder writes for a tree within DER and the parser's nesting limit, the
  parser reads back as that tree, with the positions that its values have in the encoding.
\<close>

theorem asn_parse_encode:
  assumes "canonicals 0 ts"
  shows "\<exists>data. asn_Encode u ts = Inr data \<and> asn_Parse data = Inr (places 0 ts)"
  using asn_Encode_eq [OF canonical_encodable(2) [OF assms]] asn_Parse_placed [OF assms] by blast

subsection \<open>Every node is a part of the input\<close>

text \<open>
  \<open>node_ok\<close>: the tag octets are those at \<open>startPos\<close>, the content octets those that end at
  \<open>endPos\<close>, and the children of a constructed value follow one another between its header
  and its end.
\<close>

fun node_ok :: "bytes \<Rightarrow> casn_tag \<Rightarrow> bool" and span_ok :: "bytes \<Rightarrow> nat \<Rightarrow> nat \<Rightarrow> casn_tag list \<Rightarrow> bool" where
  "node_ok D (CASNTag tg cn ts sp ep f) \<longleftrightarrow>
     tg \<noteq> [] \<and> tg = take (length tg) (drop sp D) \<and> sp + length tg < ep \<and> ep \<le> length D \<and> \<not> f \<and>
     (if constructed tg then
        cn = [] \<and> (\<exists>lo \<in> {sp + length tg <.. ep}. span_ok D lo ep ts)
      else ts = [] \<and> sp + length tg + length cn < ep \<and> cn = take (length cn) (drop (ep - length cn) D))"
| "span_ok D lo hi [] \<longleftrightarrow> lo \<le> hi"
| "span_ok D lo hi (t # ts) \<longleftrightarrow>
     startPos t = lo \<and> node_ok D t \<and> endPos t \<le> hi \<and> span_ok D (endPos t) hi ts"

lemma slice_of_slice:
  assumes "data = take (length data) (drop s D)" and "i + n \<le> length data"
  shows "take n (drop i data) = take n (drop (s + i) D)"
proof -
  have "take n (drop i data) = take n (drop i (take (length data) (drop s D)))" using assms(1) by simp
  also have "\<dots> = take n (drop (s + i) D)"
    using assms(2) by (simp add: drop_take min_absorb1 add.commute)
  finally show ?thesis .
qed

lemma parse_loop_spans:
  "parse_loop d s data i = Inr ts \<Longrightarrow> data = take (length data) (drop s D) \<Longrightarrow> s + length data \<le> length D \<Longrightarrow>
     i \<le> length data \<Longrightarrow> span_ok D (s + i) (s + length data) ts"
proof (induction "length data - i" arbitrary: d s data i ts rule: less_induct)
  case less
  show ?case
  proof (cases "i < length data")
    case False
    with less(2,5) show ?thesis by (subst (asm) parse_loop.simps) simp
  next
    case True
    show ?thesis
    proof (cases rule: parse_loop_cases [OF True, where depth = d and startseq = s, case_names error eoc step])
      case error
      with less(2) show ?thesis by simp
    next
      case eoc
      with less(2) True show ?thesis by simp
    next
      case (step l tagv llen len)
      note l = parse_tag_Inr [OF step(1)]
      define input where "input = take len (drop (l + llen + 1) data)"
      have ln: "length input = len" using step(4,5) by (simp add: input_def)
      have bound: "l + llen + 1 + len \<le> length data" using step(4,5) l(2) by linarith
      have input: "input = take len (drop (s + (l + llen + 1)) D)"
        using slice_of_slice [OF less(3)] bound by (simp add: input_def)
      from less(2) obtain content cs rest
        where sv: "step_value d s input l llen tagv = Inr (content, cs)"
        and rest: "parse_loop d s data (l + len + llen + 1) = Inr rest"
        and ts: "ts = CASNTag tagv content cs (s + i) (s + i + (l - i + 1) + llen + len) False # rest"
        unfolding parse_loop_step [OF True step] input_def [symmetric] by (auto simp: bindE_eq_Inr)
      have tl: "length tagv = l - i + 1" using l by simp
      have tag: "tagv = take (length tagv) (drop (s + i) D)"
        unfolding tl using l(1,2) by (simp only: l(3)) (rule slice_of_slice [OF less(3)], simp)
      have ep: "s + i + (l - i + 1) + llen + len = s + (l + llen + 1 + len)" using l(1) by simp
      have "length data - (l + len + llen + 1) < length data - i" using l True by auto
      then have "span_ok D (s + (l + len + llen + 1)) (s + length data) rest"
        by (rule less(1) [OF _ rest less(3,4)]) (use bound in simp)
      moreover have "node_ok D (CASNTag tagv content cs (s + i) (s + (l + llen + 1 + len)) False)"
      proof (cases "constructed tagv")
        case True
        with sv have c: "content = []" and p: "parse_loop (d + 1) (s + l + llen + 1) input 0 = Inr cs"
          by (auto simp: step_value_def bindE_eq_Inr split: if_splits)
        have "length input - 0 < length data - i" using bound l by (simp add: ln)
        moreover have "input = take (length input) (drop (s + l + llen + 1) D)"
          unfolding ln by (simp only: input add.assoc)
        ultimately have "span_ok D (s + l + llen + 1 + 0) (s + l + llen + 1 + length input) cs"
          by (rule less(1) [OF _ p]) (use less(4) bound ln in simp_all)
        then show ?thesis
          using True c tag tl parse_len_Inr [OF step(2)] bound less(4) l
          by (auto simp: ln add.assoc intro!: bexI [of _ "s + l + llen + 1"])
      next
        case False
        with sv have "content = input" "cs = []" by (auto simp: step_value_def)
        then show ?thesis
          using False tag tl parse_len_Inr [OF step(2)] bound less(4) l input
          by (auto simp: ln)
      qed
      moreover have "l + len + llen + 1 = l + llen + 1 + len" by simp
      ultimately show ?thesis
        using bound unfolding ts ep by (simp only: span_ok.simps casn_tag.sel) simp
    qed
  qed
qed

text \<open>
  C29: on every input the parser either returns one of its two errors or a tree of which
  each node is a part of the input, at the positions the node states; neither it nor the
  length function reads outside the buffer (such a read would be the error \<open>UB\<close>), and both
  always end.
\<close>

theorem asn_parse_safe:
  "(case asn_Parse data of
      Inl e \<Rightarrow> e \<in> {excessive_length, excessive_depth}
    | Inr ts \<Rightarrow> span_ok data 0 (length data) ts) \<and>
   (case GetASN1DataLenght data of Inl e \<Rightarrow> e = excessive_length | Inr _ \<Rightarrow> True)"
  using parse_loop_error [of 0 0 data 0] parse_loop_spans [of 0 0 data 0 _ data]
  by (simp add: asn_Parse_def split: sum.split) (simp add: GetASN1DataLenght_error)

subsection \<open>The length of the first value\<close>

lemma tag_skip_rest:
  "tag_rest data i acc = Inr (l, t) \<Longrightarrow> l + 1 < length data \<Longrightarrow> tag_skip data (i + 1) = Inr (l + 1)"
proof (induction data i acc rule: tag_rest.induct)
  case (1 data i acc)
  have lt: "i < l" using tag_rest_Inr [OF 1(2)] by simp
  with 1(3) have le: "\<not> length data \<le> i + 1" by simp
  show ?case
  proof (cases "data ! (i + 1) AND 0x80 = 0x80")
    case True
    with 1(2) le have r: "tag_rest data (i + 1) (acc @ [data ! (i + 1)]) = Inr (l, t)"
      by (subst (asm) tag_rest.simps) (simp add: Let_def)
    from 1(1) [OF le refl _ r 1(3)] True lt 1(3) show ?thesis
      by (subst tag_skip.simps) simp
  next
    case False
    with 1(2) le have "l = i + 1" by (subst (asm) tag_rest.simps) (simp add: Let_def)
    with False 1(3) show ?thesis by (subst tag_skip.simps) simp
  qed
qed

lemma GetASN1DataLenght_value:
  assumes "valid_tag tg" and "n \<le> 0xffffffff" and "length tg < 2 ^ 63"
  shows "GetASN1DataLenght (tg @ length_octets n @ post) = Inr (length tg + length (length_octets n) + n)"
proof -
  define data where "data = tg @ length_octets n @ post"
  have tg0: "tg \<noteq> []" using assms(1) by (simp add: valid_tag_def)
  obtain b more' where tg: "tg = b # more'" using tg0 by (cases tg) auto
  have lo: "1 \<le> length (length_octets n)" "length (length_octets n) \<le> 5"
    using assms(2) by (simp_all add: length_octets_def)
  have rd: "raw_read data 0 = Inr b" by (simp add: data_def tg raw_read_def)
  have skip: "(if b AND 0x1f = 0x1f then tag_skip data 1 else Inr 1) = Inr (length tg)"
  proof (cases "b AND 0x1f = 0x1f")
    case True
    then have "tag_rest data 0 [b] = Inr (length tg - 1, tg)"
      using parse_tag_octets [OF assms(1), of "[]" "length_octets n @ post"] rd
      by (simp add: parse_tag_def data_def)
    from tag_skip_rest [OF this] True length_octets_nonempty [OF assms(2)] show ?thesis
      by (simp add: data_def tg)
  next
    case False
    with assms(1) show ?thesis by (simp add: valid_tag_def tg)
  qed
  have len: "length tg < length data" using length_octets_nonempty [OF assms(2)] by (simp add: data_def)
  then have ne0: "data \<noteq> []" by auto
  have big: "\<not> n > 2 ^ 64 - 1 - (length tg + length (length_octets n))" using assms lo(2) by simp
  have "GetASN1DataLenght data = Inr (length tg + length (length_octets n) + n)"
  proof (cases "n < 0x80")
    case True
    note o = short_octet [OF True]
    then have ne: "(of_nat n :: byte) \<noteq> 0x80" using True by auto
    have "raw_read data (length tg) = Inr (of_nat n)"
      using True by (simp add: data_def raw_read_def length_octets_short nth_append)
    then show ?thesis
      using rd skip len ne0 o ne big True
      by (simp add: GetASN1DataLenght_def Let_def length_octets_short del: One_nat_def)
  next
    case False
    then obtain bs where bs: "length_octets n = (0x80 OR of_nat (length bs)) # bs"
      and k: "1 \<le> length bs" "length bs \<le> 4" and v: "octets_value 0 bs = n"
      using assms(2) length_octets_long by (metis not_less)
    let ?b = "0x80 OR of_nat (length bs) :: byte"
    have ll: "long_len data (length tg + 1) (length bs) 0 = Inr n"
      using long_len_be [of 0 bs "tg @ [?b]" post] assms(2) v by (simp add: data_def bs)
    have r: "raw_read data (length tg) = Inr ?b" by (simp add: data_def raw_read_def bs nth_append)
    have "\<not> length data - length tg < length bs + 1" by (simp add: data_def bs)
    then show ?thesis
      using rd skip len ne0 r ll long_octet [OF k] k big
      by (simp add: GetASN1DataLenght_def Let_def bs del: One_nat_def)
  qed
  then show ?thesis by (simp add: data_def)
qed

text \<open>
  The length the module cuts a certificate to is the length of its first DER value,
  whatever follows it in the buffer.
\<close>

lemma asn_data_length:
  assumes "canonical 0 t" and "length (asn_tag t) < 2 ^ 63"
  shows "GetASN1DataLenght (asn_bytes t @ post) = Inr (length (asn_bytes t))"
proof -
  obtain tg cn ts sp ep f where t: "t = CASNTag tg cn ts sp ep f" by (cases t)
  let ?c = "if constructed tg then asn_bytes_list ts else cn"
  have "length ?c \<le> 0xffffffff" using assms(1) by (auto simp: t split: if_splits)
  from GetASN1DataLenght_value [OF _ this, of tg "?c @ post"] assms show ?thesis
    by (auto simp: t Let_def split: if_splits)
qed

subsection \<open>Witnesses\<close>

text \<open>A certificate-like value: a sequence of an integer, a two-octet tag and an empty set.\<close>

definition sample_tree :: casn_tag where
  "sample_tree =
     CASNTag [0x30] []
       [CASNTag [0x02] [1, 2, 3] [] 2 7 False, CASNTag [0x9f, 0x21] [7] [] 7 11 False,
        CASNTag [0x31] [] [] 11 13 False] 0 13 False"

lemma sample_tree_canonical: "canonical 0 sample_tree"
  by (simp add: sample_tree_def valid_tag_def constructed_def kMaxAsn1NestingDepth_def length_octets_def Let_def)

theorem asn_parse_encode_witness:
  "canonicals 0 [sample_tree] \<and>
   (\<exists>data. asn_Encode (\<lambda>_. 0) [sample_tree] = Inr data \<and> asn_Parse data = Inr (places 0 [sample_tree]))"
  using asn_parse_encode [of "[sample_tree]"] sample_tree_canonical by simp

end
