(* ===== verification/Std_Map.thy ===== *)
theory Std_Map
  imports Prelude
begin

section \<open>Ordered associative containers\<close>

text \<open>
  \<open>std::map\<close> as the module uses it: the session table, the slot table, the attributes of
  an object, the handle tables and the TLV containers.  A map is the list of its entries in
  key order, so that the iterations of the code (\<open>begin() \<dots> end()\<close>,
  \<open>rbegin() \<dots> rend()\<close>) are iterations over the list.  \<open>map_put\<close> is
  \<open>m[k] = v\<close>, \<open>map_insert\<close> is \<open>m.insert\<close> (an existing key wins),
  \<open>map_erase\<close> is \<open>m.erase(k)\<close> and \<open>map_of\<close> is \<open>m.find\<close>.
\<close>

type_synonym ('k, 'v) std_map = "('k \<times> 'v) list"

fun map_put :: "('k::linorder, 'v) std_map \<Rightarrow> 'k \<Rightarrow> 'v \<Rightarrow> ('k, 'v) std_map" where
  "map_put [] k v = [(k, v)]"
| "map_put (e # m) k v =
     (if fst e < k then e # map_put m k v
      else if fst e = k then (k, v) # m
      else (k, v) # e # m)"

definition map_insert :: "('k::linorder, 'v) std_map \<Rightarrow> 'k \<Rightarrow> 'v \<Rightarrow> ('k, 'v) std_map" where
  "map_insert m k v = (if map_of m k = None then map_put m k v else m)"

definition map_erase :: "('k, 'v) std_map \<Rightarrow> 'k \<Rightarrow> ('k, 'v) std_map" where
  "map_erase m k = filter (\<lambda>e. fst e \<noteq> k) m"

definition map_keys :: "('k, 'v) std_map \<Rightarrow> 'k list" where
  "map_keys m = map fst m"

definition map_ok :: "('k::linorder, 'v) std_map \<Rightarrow> bool" where
  "map_ok m \<longleftrightarrow> sorted_wrt (<) (map fst m)"

subsection \<open>Lookups\<close>

lemma map_of_above: "\<forall>e \<in> set m. k < fst e \<Longrightarrow> map_of m (k::'k::linorder) = None"
  by (force simp: map_of_eq_None_iff)

lemma map_of_map_put_any: "map_of (map_put m k v) k = Some v"
  by (induction m k v rule: map_put.induct) auto

lemma map_of_map_put_other: "k' \<noteq> k \<Longrightarrow> map_of (map_put m k v) k' = map_of m k'"
  by (induction m k v rule: map_put.induct) auto

lemma map_of_put [simp]: "map_of (map_put m k v) = (map_of m)(k \<mapsto> v)"
  by (simp add: fun_eq_iff map_of_map_put_any map_of_map_put_other)

lemma map_of_map_erase [simp]: "map_of (map_erase m k) = (map_of m)(k := None)"
  by (induction m) (auto simp: map_erase_def)

lemma map_of_map_insert:
  "map_of (map_insert m k v) = (if map_of m k = None then (map_of m)(k \<mapsto> v) else map_of m)"
  by (simp add: map_insert_def)

subsection \<open>The order of the entries\<close>

lemma fst_set_map_put: "fst ` set (map_put m k v) = insert k (fst ` set m)"
  by (induction m k v rule: map_put.induct) auto

lemma map_ok_Nil [simp]: "map_ok []"
  by (simp add: map_ok_def)

lemma map_ok_Cons [simp]: "map_ok (e # m) \<longleftrightarrow> (\<forall>x \<in> set m. fst e < fst x) \<and> map_ok m"
  by (simp add: map_ok_def)

lemma map_ok_put [simp, intro]: "map_ok m \<Longrightarrow> map_ok (map_put m k v)"
proof (induction m k v rule: map_put.induct)
  case (1 k v)
  then show ?case by simp
next
  case (2 e m k v)
  have "fst x \<in> insert k (fst ` set m)" if "x \<in> set (map_put m k v)" for x
    using that fst_set_map_put [of m k v] by blast
  then have below: "\<forall>x \<in> set (map_put m k v). fst e < fst x" if "fst e < k"
    using 2(2) that by fastforce
  show ?case
    using 2 below by auto
qed

lemma map_ok_erase [simp, intro]: "map_ok m \<Longrightarrow> map_ok (map_erase m k)"
  by (induction m) (auto simp: map_erase_def)

lemma map_ok_insert [simp, intro]: "map_ok m \<Longrightarrow> map_ok (map_insert m k v)"
  by (simp add: map_insert_def)

lemma map_ok_distinct: "map_ok m \<Longrightarrow> distinct (map fst m)"
  by (induction m) fastforce+

lemma map_of_rev_distinct: "distinct (map fst m) \<Longrightarrow> map_of (rev m) = map_of m"
  by (rule map_of_inject_set [THEN iffD2]) (simp_all add: rev_map [symmetric])

lemma map_ok_lookup: "map_ok m \<Longrightarrow> (k, v) \<in> set m \<longleftrightarrow> map_of m k = Some v"
  by (metis map_of_is_SomeI map_ok_distinct map_of_SomeD)

lemma map_erase_absent: "map_of m k = None \<Longrightarrow> map_erase m k = m"
  by (induction m) (auto simp: map_erase_def split: if_splits)

lemma length_map_put_fresh: "map_of m k = None \<Longrightarrow> length (map_put m k v) = Suc (length m)"
  by (induction m k v rule: map_put.induct) (auto split: if_splits)

lemma set_map_put_fresh: "map_of m k = None \<Longrightarrow> set (map_put m k v) = insert (k, v) (set m)"
  by (induction m k v rule: map_put.induct) (auto split: if_splits)

lemma set_map_erase [simp]: "set (map_erase m k) = {e \<in> set m. fst e \<noteq> k}"
  by (auto simp: map_erase_def)

subsection \<open>The interface\<close>

text \<open>
  What the clients rely on: an update reads back, an erase forgets, nothing else moves, and
  the order of the entries is kept.  \<open>build\<close> is the code's way of filling a map, a
  sequence of \<open>m[k] = v\<close>.
\<close>

locale assoc_container =
  fixes lookup :: "'m \<Rightarrow> 'k \<Rightarrow> 'v option"
    and put :: "'m \<Rightarrow> 'k \<Rightarrow> 'v \<Rightarrow> 'm"
    and erase :: "'m \<Rightarrow> 'k \<Rightarrow> 'm"
    and ok :: "'m \<Rightarrow> bool"
  assumes lookup_put: "ok m \<Longrightarrow> lookup (put m k v) = (lookup m)(k \<mapsto> v)"
    and lookup_erase: "ok m \<Longrightarrow> lookup (erase m k) = (lookup m)(k := None)"
    and ok_put: "ok m \<Longrightarrow> ok (put m k v)"
    and ok_erase: "ok m \<Longrightarrow> ok (erase m k)"
begin

lemma ok_build: "ok m \<Longrightarrow> ok (foldl (\<lambda>m e. put m (fst e) (snd e)) m es)"
  by (induction es arbitrary: m) (auto intro: ok_put)

lemma lookup_build:
  "ok m \<Longrightarrow> lookup (foldl (\<lambda>m e. put m (fst e) (snd e)) m es) = lookup m ++ map_of (rev es)"
proof (induction es arbitrary: m)
  case Nil
  then show ?case by simp
next
  case (Cons e es)
  have "lookup (foldl (\<lambda>m e. put m (fst e) (snd e)) (put m (fst e) (snd e)) es)
      = lookup (put m (fst e) (snd e)) ++ map_of (rev es)"
    using Cons by (simp add: ok_put)
  with Cons.prems show ?case
    by (auto simp: lookup_put fun_eq_iff map_add_def split: option.split)
qed

lemma put_then_erase: "ok m \<Longrightarrow> lookup (erase (put m k v) k) = (lookup m)(k := None)"
  by (simp add: lookup_put lookup_erase ok_put)

end

interpretation std_map: assoc_container map_of map_put map_erase map_ok
  by unfold_locales (auto simp: fun_eq_iff)

lemma map_put_same: "map_ok m \<Longrightarrow> map_of m k = Some v \<Longrightarrow> map_put m k v = m"
  by (induction m k v rule: map_put.induct) (auto split: if_splits dest!: map_of_SomeD)

end
