(* ===== verification/Padding.thy ===== *)
theory Padding
  imports Byte_Array
begin

section \<open>Padding schemes (shared/src/util/util.cpp)\<close>

text \<open>
  The PKCS\#1 block types 0, 1 and 2 with which RSA blocks are built and checked, the ISO
  7816-4 padding of the secure messaging, the zero padding of the retail MAC, and the
  \<open>DigestInfo\<close> prefixes.  A padded block is written in place: the payload is already at the
  right end of the array, and the functions fill what is to its left.
\<close>

abbreviation padding_error :: exn where
  "padding_error \<equiv> Logged_Error ''Padding error''"

abbreviation padding_length_error :: exn where
  "padding_length_error \<equiv> Logged_Error ''Invalid padding length''"

text \<open>\<open>ba.mid(start, n).fill(v)\<close> on an array that holds the range.\<close>

definition fill_range :: "bytes \<Rightarrow> nat \<Rightarrow> nat \<Rightarrow> byte \<Rightarrow> bytes" where
  "fill_range bs start n v = take start bs @ replicate n v @ drop (start + n) bs"

subsection \<open>PKCS\#1 block types\<close>

definition PutPaddingBT0 :: "bytes \<Rightarrow> nat \<Rightarrow> exn + bytes" where
  "PutPaddingBT0 ba dwLen =
     (if dwLen > length ba then Inl padding_length_error
      else Inr (fill_range ba 0 (length ba - dwLen) 0))"

definition PutPaddingBT1 :: "bytes \<Rightarrow> nat \<Rightarrow> exn + bytes" where
  "PutPaddingBT1 ba dwLen =
     (if length ba < 3 \<or> dwLen > length ba - 3 then Inl padding_length_error
      else Inr ((fill_range (ba[0 := 0, 1 := 1]) 2 (length ba - dwLen - 3) 0xff)
                  [length ba - dwLen - 1 := 0]))"

text \<open>
  Block type 2 draws its padding from \<open>RAND_bytes\<close>, first the whole string and then every
  zero octet again until it is not zero.  The generator is the list of the octets it
  delivers; a list that has run out is a call of \<open>RAND_bytes\<close> that fails.
\<close>

fun redraw :: "bytes \<Rightarrow> exn + (byte \<times> bytes)" where
  "redraw [] = Inl (Logged_Error ''RAND_bytes failed'')"
| "redraw (r # rs) = (if r = 0 then redraw rs else Inr (r, rs))"

fun nonzero_loop :: "bytes \<Rightarrow> bytes \<Rightarrow> exn + (bytes \<times> bytes)" where
  "nonzero_loop [] rnd = Inr ([], rnd)"
| "nonzero_loop (p # ps) rnd =
     bindE (if p = 0 then redraw rnd else Inr (p, rnd)) (\<lambda>(q, rnd').
     bindE (nonzero_loop ps rnd') (\<lambda>(qs, rnd''). Inr (q # qs, rnd'')))"

definition PutPaddingBT2 :: "bytes \<Rightarrow> bytes \<Rightarrow> nat \<Rightarrow> exn + (bytes \<times> bytes)" where
  "PutPaddingBT2 rnd ba dwLen =
     (if length ba < 3 \<or> dwLen > length ba - 3 then Inl padding_length_error
      else let n = length ba - dwLen - 3 in
        if length rnd < n then Inl (Logged_Error ''RAND_bytes failed'')
        else bindE (nonzero_loop (take n rnd) (drop n rnd)) (\<lambda>(ps, rnd').
          Inr ((take 2 (ba[0 := 0, 1 := 2]) @ ps @ drop (2 + n) (ba[0 := 0, 1 := 2]))
                 [length ba - dwLen - 1 := 0], rnd')))"

fun bt1_scan :: "nat \<Rightarrow> bytes \<Rightarrow> exn + nat" where
  "bt1_scan i [] = Inl padding_error"
| "bt1_scan i (b # bs) =
     (if b = 0 then (if i - 2 < 8 then Inl padding_error else Inr (i + 1))
      else if b \<noteq> 0xff then Inl padding_error
      else bt1_scan (Suc i) bs)"

definition RemovePaddingBT1 :: "bytes \<Rightarrow> exn + nat" where
  "RemovePaddingBT1 pd =
     (if length pd < 11 then Inl padding_error
      else if pd ! 0 \<noteq> 0 then Inl padding_error
      else if pd ! 1 \<noteq> 1 then Inl padding_error
      else bt1_scan 2 (drop 2 pd))"

fun bt2_scan :: "nat \<Rightarrow> bytes \<Rightarrow> exn + nat" where
  "bt2_scan i [] = Inl padding_error"
| "bt2_scan i (b # bs) = (if b = 0 then Inr (i + 1) else bt2_scan (Suc i) bs)"

definition RemovePaddingBT2 :: "bytes \<Rightarrow> exn + nat" where
  "RemovePaddingBT2 pd =
     bindE (ba_at pd 0) (\<lambda>b0. if b0 \<noteq> 0 then Inl padding_error else
     bindE (ba_at pd 1) (\<lambda>b1. if b1 \<noteq> 2 then Inl padding_error else
     bt2_scan 2 (drop 2 pd)))"

subsection \<open>DigestInfo prefixes\<close>

definition SHA1Algo :: bytes where
  "SHA1Algo =
     [0x30, 0x21, 0x30, 0x09] @ [0x06, 0x05, 0x2b, 0x0e, 0x03, 0x02, 0x1a] @ [0x05, 0x00, 0x04, 0x14]"

definition SHA256Algo :: bytes where
  "SHA256Algo =
     [0x30, 0x31, 0x30, 0x0D] @
     [0x06, 0x09, 0x60, 0x86, 0x48, 0x01, 0x65, 0x03, 0x04, 0x02, 0x01] @ [0x05, 0x00, 0x04, 0x20]"

definition RemoveSha1 :: "bytes \<Rightarrow> exn + nat" where
  "RemoveSha1 pd =
     bindE (ba_left pd (length SHA1Algo)) (\<lambda>l.
       if l = SHA1Algo then Inr (length SHA1Algo)
       else Inl (Logged_Error ''SHA-1 algorithm OID not found''))"

definition RemoveSha256 :: "bytes \<Rightarrow> exn + nat" where
  "RemoveSha256 pd =
     bindE (ba_left pd (length SHA256Algo)) (\<lambda>l.
       if l = SHA256Algo then Inr (length SHA256Algo)
       else Inl (Logged_Error ''SHA-256 algorithm OID not found''))"

subsection \<open>ISO 7816-4 and zero padding\<close>

definition ANSIPadLen :: "ulong \<Rightarrow> ulong" where
  "ANSIPadLen len = (if len AND 7 = 0 then len else len - (len AND 7) + 8)"

definition ISOPadLen :: "ulong \<Rightarrow> ulong" where
  "ISOPadLen len = (if len AND 7 = 0 then len + 8 else len - (len AND 7) + 8)"

definition ISOPadLen16 :: "ulong \<Rightarrow> ulong" where
  "ISOPadLen16 len = len - (len AND 0x0f) + 16"

definition ANSIPad :: "bytes \<Rightarrow> nat \<Rightarrow> exn + bytes" where
  "ANSIPad data n =
     bindE (ba_mid data n) (\<lambda>rest. Inr (take n data @ ba_fill rest 0))"

text \<open>\<open>ISOPad(Data, DataLen)\<close> in place, and the versions that allocate the padded copy.\<close>

definition ISOPad_at :: "bytes \<Rightarrow> nat \<Rightarrow> exn + bytes" where
  "ISOPad_at data n =
     bindE (ba_mid data n) (\<lambda>rest. ba_put (take n data @ ba_fill rest 0) n 0x80)"

definition ISOPad :: "(nat \<Rightarrow> byte) \<Rightarrow> bytes \<Rightarrow> exn + bytes" where
  "ISOPad u data =
     bindE (ba_copy (alloc u (unat (ISOPadLen (of_nat (length data))))) data 0) (\<lambda>resp.
     ISOPad_at resp (length data))"

definition ISOPad16 :: "(nat \<Rightarrow> byte) \<Rightarrow> bytes \<Rightarrow> exn + bytes" where
  "ISOPad16 u data =
     bindE (ba_copy (alloc u (unat (ISOPadLen16 (of_nat (length data))))) data 0) (\<lambda>resp.
     ISOPad_at resp (length data))"

text \<open>The scan from the end of \<open>RemoveISOPad\<close>, on the reversed array.\<close>

fun iso_scan :: "bytes \<Rightarrow> exn + nat" where
  "iso_scan [] = Inl padding_error"
| "iso_scan (b # rest) =
     (if b \<noteq> 0 then (if b \<noteq> 0x80 then Inl padding_error else Inr (length rest))
      else iso_scan rest)"

definition RemoveISOPad :: "bytes \<Rightarrow> exn + nat" where
  "RemoveISOPad pd = iso_scan (rev pd)"

definition ByteArrayToInt :: "bytes \<Rightarrow> ulong" where
  "ByteArrayToInt ba = foldl (\<lambda>val b. push_bit 8 val OR ucast b) 0 ba"

subsection \<open>Block type 1 round trip\<close>

lemma PutPaddingBT1_eq:
  assumes "length payload + 3 \<le> length ba" and "drop (length ba - length payload) ba = payload"
  shows "PutPaddingBT1 ba (length payload) =
    Inr ([0, 1] @ replicate (length ba - length payload - 3) 0xff @ [0] @ payload)"
proof -
  define k where "k = length ba - length payload - 3"
  have len: "length ba = k + 3 + length payload" using assms(1) by (simp add: k_def)
  obtain a b c rest where ba: "ba = a # b # rest" "rest = take k rest @ c # payload"
  proof -
    obtain a b rest where ba: "ba = a # b # rest"
      using len by (metis Suc_le_length_iff add_Suc_right le_add2 numeral_3_eq_3 add.commute)
    have "length (drop k rest) = Suc (length payload)" using len ba by simp
    then obtain c cs where c: "drop k rest = c # cs" "length cs = length payload"
      by (metis length_Suc_conv)
    have "cs = drop (Suc k) rest" using c(1) by (metis drop_Suc list.sel(3) tl_drop)
    also have "\<dots> = payload" using assms(2) len ba by (simp add: numeral_3_eq_3)
    finally show ?thesis using that ba c(1) by (metis append_take_drop_id)
  qed
  have "length (take k rest) = k" using len ba(1) by simp
  then have "drop k rest = c # payload" using ba(2) by (metis append_eq_conv_conj)
  then show ?thesis
    using len ba(1) assms(1)
    by (simp add: PutPaddingBT1_def fill_range_def list_update_append k_def [symmetric] numeral_3_eq_3
        numeral_2_eq_2 Suc_diff_le)
qed

lemma bt1_scan_pad:
  "8 \<le> i - 2 + n \<Longrightarrow> 2 \<le> i \<Longrightarrow> bt1_scan i (replicate n 0xff @ 0 # rest) = Inr (i + n + 1)"
  by (induction n arbitrary: i) auto

lemma bt1_scan_shape:
  "bt1_scan i bs = Inr p \<Longrightarrow> 2 \<le> i \<Longrightarrow>
     \<exists>n rest. bs = replicate n 0xff @ 0 # rest \<and> p = i + n + 1 \<and> 8 \<le> i - 2 + n"
proof (induction i bs rule: bt1_scan.induct)
  case (1 i)
  then show ?case by simp
next
  case (2 i b bs)
  show ?case
  proof (cases "b = 0")
    case True
    with 2 show ?thesis by (intro exI [of _ 0]) (auto split: if_splits)
  next
    case False
    with 2(2) have b: "b = 0xff" and r: "bt1_scan (Suc i) bs = Inr p"
      by (auto split: if_splits)
    from 2(1) [OF False _ r] b 2(3) obtain n rest where
      "bs = replicate n 0xff @ 0 # rest" "p = Suc i + n + 1" "8 \<le> Suc i - 2 + n" by auto
    with b 2(3) show ?thesis by (intro exI [of _ "Suc n"] exI [of _ rest]) auto
  qed
qed

lemma RemovePaddingBT1_pad:
  assumes "8 \<le> n"
  shows "RemovePaddingBT1 ([0, 1] @ replicate n 0xff @ [0] @ payload) = Inr (n + 3)"
  using assms bt1_scan_pad [of 2 n payload] by (simp add: RemovePaddingBT1_def)

lemma RemovePaddingBT1_shape:
  assumes "RemovePaddingBT1 pd = Inr p"
  shows "\<exists>n payload. 8 \<le> n \<and> pd = [0, 1] @ replicate n 0xff @ [0] @ payload \<and> p = n + 3"
proof -
  from assms have h: "11 \<le> length pd" "pd ! 0 = 0" "pd ! 1 = 1" "bt1_scan 2 (drop 2 pd) = Inr p"
    by (auto simp: RemovePaddingBT1_def split: if_splits)
  obtain a b rest where pd: "pd = a # b # rest"
    using h(1) by (metis Suc_le_length_iff numeral_eq_Suc pred_numeral_simps(2) eval_nat_numeral(3))
  from bt1_scan_shape [OF h(4)] obtain n payload where
    "drop 2 pd = replicate n 0xff @ 0 # payload" "p = 2 + n + 1" "8 \<le> n" by auto
  with pd h(2,3) show ?thesis
    by (intro exI [of _ n] exI [of _ payload]) (simp add: numeral_2_eq_2)
qed

subsection \<open>Block type 2\<close>

lemma redraw_nonzero: "redraw rnd = Inr (q, rnd') \<Longrightarrow> q \<noteq> 0"
  by (induction rnd) (auto split: if_splits)

lemma nonzero_loop_sound:
  "nonzero_loop ps rnd = Inr (qs, rnd') \<Longrightarrow> length qs = length ps \<and> 0 \<notin> set qs"
proof (induction ps arbitrary: rnd qs)
  case Nil
  then show ?case by simp
next
  case (Cons p ps)
  then obtain q r qs' where q: "(if p = 0 then redraw rnd else Inr (p, rnd)) = Inr (q, r)"
    and qs': "nonzero_loop ps r = Inr (qs', rnd')" "qs = q # qs'"
    by (auto simp: bindE_eq_Inr split: prod.splits)
  have "q \<noteq> 0" using q redraw_nonzero by (auto split: if_splits)
  with Cons.IH [OF qs'(1)] qs'(2) show ?case by simp
qed

lemma bt2_scan_pad: "0 \<notin> set ps \<Longrightarrow> bt2_scan i (ps @ 0 # rest) = Inr (i + length ps + 1)"
  by (induction ps arbitrary: i) auto

subsection \<open>ISO padding round trip\<close>

lemma iso_scan_zeros: "iso_scan (replicate n 0 @ rest) = iso_scan rest"
  by (induction n) auto

lemma RemoveISOPad_pad: "RemoveISOPad (data @ [0x80] @ replicate n 0) = Inr (length data)"
  by (simp add: RemoveISOPad_def iso_scan_zeros)

lemma ISOPad_at_eq:
  assumes "length data < length resp" and "take (length data) resp = data"
  shows "ISOPad_at resp (length data) =
    Inr (data @ [0x80] @ replicate (length resp - length data - 1) 0)"
proof -
  obtain n where n: "length resp - length data = Suc n"
    using assms(1) by (metis Suc_diff_Suc)
  have "ba_fill (drop (length data) resp) 0 = replicate (Suc n) 0"
    using n by (simp add: ba_fill_replicate)
  then show ?thesis
    using assms n by (simp add: ISOPad_at_def ba_mid_def ba_put_def list_update_append)
qed

lemma unat_and_low:
  "unat ((len::ulong) AND 7) = unat len mod 8" "unat (len AND 0x0f) = unat len mod 16"
proof -
  have "len AND 7 = take_bit 3 len" "len AND 0x0f = take_bit 4 len"
    by (simp_all add: take_bit_eq_mask mask_eq_exp_minus_1)
  then have "unat (len AND 7) = take_bit 3 (unat len)" "unat (len AND 0x0f) = take_bit 4 (unat len)"
    by (simp_all add: unsigned_take_bit_eq)
  then show "unat (len AND 7) = unat len mod 8" "unat (len AND 0x0f) = unat len mod 16"
    by (simp_all add: take_bit_eq_mod)
qed

lemma unat_round_up:
  assumes "unat (len::ulong) + unat c < 2 ^ 64" and "r \<le> len"
  shows "unat (len - r + c) = unat len - unat r + unat c"
proof -
  have sub: "unat (len - r) = unat len - unat r" using assms(2) by (rule unat_sub)
  then have "unat (len - r) + unat c < 2 ^ LENGTH(64)" using assms(1) by simp
  then show ?thesis using sub unat_add_lem by metis
qed

lemma and_low_le: "(len::ulong) AND 7 \<le> len" "len AND 0x0f \<le> len"
  by (simp_all add: word_le_nat_alt unat_and_low)

lemma unat_ISOPadLen:
  assumes "unat len + 8 < 2 ^ 64"
  shows "unat (ISOPadLen len) = unat len - unat len mod 8 + 8"
proof -
  have up: "unat (len - (len AND 7) + 8) = unat len - unat len mod 8 + 8"
    using unat_round_up [of len 8 "len AND 7"] assms and_low_le by (simp add: unat_and_low)
  have "unat len mod 8 = 0" if "len AND 7 = 0"
    using that unat_and_low(1) [of len] by simp
  with up show ?thesis by (auto simp: ISOPadLen_def)
qed

lemma unat_ISOPadLen16:
  assumes "unat len + 16 < 2 ^ 64"
  shows "unat (ISOPadLen16 len) = unat len - unat len mod 16 + 16"
  using unat_round_up [of len 16 "len AND 0x0f"] assms and_low_le
  by (simp add: unat_and_low ISOPadLen16_def)

lemma round_up_8: "(m::nat) mod 8 \<noteq> 0 \<Longrightarrow> m - m mod 8 + 8 = (m + 7) div 8 * 8"
proof -
  assume r: "m mod 8 \<noteq> 0"
  have m: "m = m div 8 * 8 + m mod 8" by simp
  have "m mod 8 < 8" by simp
  with r have "(m + 7) div 8 = m div 8 + 1" using m by presburger
  with m show ?thesis by linarith
qed

lemma unat_ANSIPadLen:
  assumes "unat len + 8 < 2 ^ 64"
  shows "unat (ANSIPadLen len) = (unat len + 7) div 8 * 8"
proof (cases "len AND 7 = 0")
  case True
  then have "unat len mod 8 = 0" using unat_and_low(1) [of len] by simp
  then have "(unat len + 7) div 8 * 8 = unat len" by presburger
  with True show ?thesis by (simp add: ANSIPadLen_def)
next
  case False
  then have "unat len mod 8 \<noteq> 0"
    using unat_and_low(1) [of len] by (metis unat_eq_zero)
  moreover have "unat (len - (len AND 7) + 8) = unat len - unat len mod 8 + 8"
    using unat_round_up [of len 8 "len AND 7"] assms and_low_le by (simp add: unat_and_low)
  ultimately show ?thesis
    using False round_up_8 [of "unat len"] by (simp only: ANSIPadLen_def if_False simp_thms)
qed

lemma ISOPad_eq:
  assumes "length data + 8 < 2 ^ 64"
  shows "ISOPad u data = Inr (data @ [0x80] @ replicate (7 - length data mod 8) 0)"
proof -
  let ?n = "unat (ISOPadLen (of_nat (length data)))"
  have u: "unat (of_nat (length data) :: ulong) = length data"
    using assms by (simp add: unat_of_nat)
  have n: "?n = length data - length data mod 8 + 8"
    using unat_ISOPadLen [of "of_nat (length data)"] assms by (simp add: u)
  have lt: "length data < ?n" "?n - length data - 1 = 7 - length data mod 8"
    unfolding n by (auto simp: less_eq_Suc_le)
  let ?resp = "data @ drop (length data) (alloc u ?n)"
  have "ba_copy (alloc u ?n) data 0 = Inr ?resp"
    using lt(1) by (simp add: ba_copy_def)
  moreover have "ISOPad_at ?resp (length data) = Inr (data @ [0x80] @ replicate (?n - length data - 1) 0)"
    using ISOPad_at_eq [of data ?resp] lt(1) by simp
  ultimately show ?thesis using lt(2) by (simp add: ISOPad_def)
qed

lemma ISOPad16_eq:
  assumes "length data + 16 < 2 ^ 64"
  shows "ISOPad16 u data = Inr (data @ [0x80] @ replicate (15 - length data mod 16) 0)"
proof -
  let ?n = "unat (ISOPadLen16 (of_nat (length data)))"
  have u: "unat (of_nat (length data) :: ulong) = length data"
    using assms by (simp add: unat_of_nat)
  have n: "?n = length data - length data mod 16 + 16"
    using unat_ISOPadLen16 [of "of_nat (length data)"] assms by (simp add: u)
  have lt: "length data < ?n" "?n - length data - 1 = 15 - length data mod 16"
    unfolding n by (auto simp: less_eq_Suc_le)
  let ?resp = "data @ drop (length data) (alloc u ?n)"
  have "ba_copy (alloc u ?n) data 0 = Inr ?resp"
    using lt(1) by (simp add: ba_copy_def)
  moreover have "ISOPad_at ?resp (length data) = Inr (data @ [0x80] @ replicate (?n - length data - 1) 0)"
    using ISOPad_at_eq [of data ?resp] lt(1) by simp
  ultimately show ?thesis using lt(2) by (simp add: ISOPad16_def)
qed

lemma redraw_enough:
  "Suc n \<le> length (filter (\<lambda>b. b \<noteq> 0) rnd) \<Longrightarrow>
     \<exists>q rnd'. redraw rnd = Inr (q, rnd') \<and> n \<le> length (filter (\<lambda>b. b \<noteq> 0) rnd')"
  by (induction rnd) auto

lemma nonzero_loop_enough:
  "length (filter (\<lambda>b. b = 0) ps) \<le> length (filter (\<lambda>b. b \<noteq> 0) rnd) \<Longrightarrow>
     \<exists>qs rnd'. nonzero_loop ps rnd = Inr (qs, rnd')"
proof (induction ps arbitrary: rnd)
  case Nil
  then show ?case by simp
next
  case (Cons p ps)
  obtain q rnd' where q: "(if p = 0 then redraw rnd else Inr (p, rnd)) = Inr (q, rnd')"
    and n: "length (filter (\<lambda>b. b = 0) ps) \<le> length (filter (\<lambda>b. b \<noteq> 0) rnd')"
  proof (cases "p = 0")
    case True
    then show ?thesis
      using Cons.prems that redraw_enough [of "length (filter (\<lambda>b. b = 0) ps)" rnd] by auto
  next
    case False
    then show ?thesis using Cons.prems that by simp
  qed
  from Cons.IH [OF n] q show ?case by auto
qed

lemma nonzero_split:
  fixes rnd :: bytes
  assumes "k \<le> length (filter (\<lambda>b. b \<noteq> 0) rnd)"
  shows "length (filter (\<lambda>b. b = 0) (take k rnd)) \<le> length (filter (\<lambda>b. b \<noteq> 0) (drop k rnd))"
proof -
  have "k \<le> length rnd" using assms length_filter_le le_trans by blast
  moreover have "length (filter (\<lambda>b. b \<noteq> 0) rnd) =
      length (filter (\<lambda>b. b \<noteq> 0) (take k rnd)) + length (filter (\<lambda>b. b \<noteq> 0) (drop k rnd))"
    by (metis append_take_drop_id filter_append length_append)
  moreover have "length (filter (\<lambda>b. b = 0) (take k rnd)) + length (filter (\<lambda>b. b \<noteq> 0) (take k rnd))
      = length (take k rnd)"
    by (rule sum_length_filter_compl)
  ultimately show ?thesis using assms by simp
qed

lemma PutPaddingBT2_eq:
  assumes "3 \<le> length room"
    and "length room - 3 \<le> length (filter (\<lambda>b. b \<noteq> 0) rnd)"
  shows "\<exists>ps rnd'. PutPaddingBT2 rnd (room @ payload) (length payload) =
      Inr ([0, 2] @ ps @ [0] @ payload, rnd') \<and> length ps = length room - 3 \<and> 0 \<notin> set ps"
proof -
  define n where "n = length room - 3"
  obtain a b c rest where room: "room = a # b # rest @ [c]" "length rest = n"
  proof -
    obtain a b r where "room = a # b # r" "length r = Suc n"
      using assms(1) unfolding n_def
      by (cases room; cases "tl room") (auto simp: numeral_3_eq_3)
    with that show ?thesis by (metis append_butlast_last_id length_0_conv length_butlast diff_Suc_1 nat.distinct(1))
  qed
  obtain ps rnd' where ps: "nonzero_loop (take n rnd) (drop n rnd) = Inr (ps, rnd')"
    using nonzero_loop_enough [OF nonzero_split] assms(2) unfolding n_def by blast
  have "n \<le> length rnd" using assms(2) length_filter_le le_trans unfolding n_def by blast
  with nonzero_loop_sound [OF ps] have len: "length ps = n" "0 \<notin> set ps" by auto
  have "PutPaddingBT2 rnd (room @ payload) (length payload) = Inr ([0, 2] @ ps @ [0] @ payload, rnd')"
    using ps len room \<open>n \<le> length rnd\<close>
    by (simp add: PutPaddingBT2_def list_update_append)
  with len show ?thesis unfolding n_def by blast
qed

lemma drop_block: "length ps + 3 = n \<Longrightarrow> drop n ([a, b] @ ps @ [c] @ payload) = payload"
  by (auto simp: numeral_3_eq_3)

subsection \<open>Properties\<close>

text \<open>
  C38: \<open>RemovePaddingBT1\<close> accepts exactly the PKCS\#1 block type 1 blocks with at least eight
  padding octets, and returns the position of the payload.
\<close>

theorem bt1_accepts:
  "RemovePaddingBT1 pd = Inr p \<longleftrightarrow>
     (\<exists>n payload. 8 \<le> n \<and> pd = [0, 1] @ replicate n 0xff @ [0] @ payload \<and> p = n + 3)"
  using RemovePaddingBT1_shape RemovePaddingBT1_pad by blast

text \<open>
  A block of \<open>11\<close> octets or more of room and a payload, padded in place by
  \<open>PutPaddingBT1\<close>, is unpadded to the payload, which is left as it was.
\<close>

lemma bt1_roundtrip:
  assumes "11 \<le> length room"
  shows "\<exists>block. PutPaddingBT1 (room @ payload) (length payload) = Inr block \<and>
    RemovePaddingBT1 block = Inr (length room) \<and> drop (length room) block = payload"
proof -
  let ?n = "length room - 3"
  have "PutPaddingBT1 (room @ payload) (length payload)
      = Inr ([0, 1] @ replicate ?n 0xff @ [0] @ payload)"
    using PutPaddingBT1_eq [of payload "room @ payload"] assms by simp
  moreover have "RemovePaddingBT1 ([0, 1] @ replicate ?n 0xff @ [0] @ payload) = Inr (length room)"
    using RemovePaddingBT1_pad [of ?n payload] assms by simp
  moreover have "drop (length room) ([0, 1] @ replicate ?n 0xff @ [0] @ payload) = payload"
    using assms by (intro drop_block) simp
  ultimately show ?thesis by blast
qed

text \<open>
  C39: block type 2: whenever the random generator delivers as many non-zero octets as there
  is padding, the loop that redraws the zero octets ends, the padding has no zero octet,
  and \<open>RemovePaddingBT2\<close> finds the payload again.
\<close>

theorem bt2_roundtrip:
  assumes "3 \<le> length room"
    and "length room - 3 \<le> length (filter (\<lambda>b. b \<noteq> 0) rnd)"
  shows "\<exists>block rnd'. PutPaddingBT2 rnd (room @ payload) (length payload) = Inr (block, rnd') \<and>
    0 \<notin> set (take (length room - 3) (drop 2 block)) \<and>
    RemovePaddingBT2 block = Inr (length room) \<and> drop (length room) block = payload"
proof -
  obtain ps rnd' where eq: "PutPaddingBT2 rnd (room @ payload) (length payload) =
      Inr ([0, 2] @ ps @ [0] @ payload, rnd')" and ps: "length ps = length room - 3" "0 \<notin> set ps"
    using PutPaddingBT2_eq [OF assms] by blast
  have "RemovePaddingBT2 ([0, 2] @ ps @ [0] @ payload) = Inr (length room)"
    using bt2_scan_pad [OF ps(2), of 2 payload] ps(1) assms(1)
    by (simp add: RemovePaddingBT2_def ba_at_def)
  moreover have "drop (length room) ([0, 2] @ ps @ [0] @ payload) = payload"
    using ps(1) assms(1) by (intro drop_block) simp
  moreover have "0 \<notin> set (take (length room - 3) (drop 2 ([0, 2] @ ps @ [0] @ payload)))"
    using ps by simp
  ultimately show ?thesis using eq by blast
qed

theorem bt2_roundtrip_witness:
  "\<exists>block rnd'. PutPaddingBT2 [5, 0, 6, 7] ([0, 0, 0, 0, 0, 0] @ [9]) (length [9::byte]) = Inr (block, rnd') \<and>
    0 \<notin> set (take (length [0, 0, 0, 0, 0, 0::byte] - 3) (drop 2 block)) \<and>
    RemovePaddingBT2 block = Inr (length [0, 0, 0, 0, 0, 0::byte]) \<and>
    drop (length [0, 0, 0, 0, 0, 0::byte]) block = [9]"
  by (rule bt2_roundtrip) simp_all

text \<open>
  The ISO 7816-4 padding of the secure messaging, in blocks of 8 and of 16: the padded
  length is the next multiple of the block (a whole block is added to full data) and
  \<open>RemoveISOPad\<close> returns the length of the data.
\<close>

lemma iso_roundtrip:
  assumes "length data + 16 < 2 ^ 64"
  shows "\<exists>r r16. ISOPad u data = Inr r \<and> ISOPad16 u data = Inr r16 \<and>
    length r = (length data div 8 + 1) * 8 \<and> length r16 = (length data div 16 + 1) * 16 \<and>
    take (length data) r = data \<and> take (length data) r16 = data \<and>
    RemoveISOPad r = Inr (length data) \<and> RemoveISOPad r16 = Inr (length data)"
proof -
  have "length data + 1 + (7 - length data mod 8) = (length data div 8 + 1) * 8"
    "length data + 1 + (15 - length data mod 16) = (length data div 16 + 1) * 16"
    by presburger+
  then show ?thesis
    using assms RemoveISOPad_pad [of data "7 - length data mod 8"]
      RemoveISOPad_pad [of data "15 - length data mod 16"]
    by (simp add: ISOPad_eq ISOPad16_eq)
qed

end
