(* ===== verification/Cryptoki.thy ===== *)
theory Cryptoki
  imports Std_Map Padding
begin

section \<open>Cryptoki constants and caller structures (shared/src/pkcs11/pkcs11t.h)\<close>

text \<open>
  The numeric constants the module compares with or stores, and the attribute structure
  the applications pass.  Constants are abbreviations, so that the simplifier evaluates them.
\<close>

abbreviation (input) CK_UNAVAILABLE_INFORMATION :: ulong where "CK_UNAVAILABLE_INFORMATION \<equiv> - 1"
abbreviation (input) CK_INVALID_HANDLE :: ulong where "CK_INVALID_HANDLE \<equiv> 0"

text \<open>User types; \<open>CKU_NOBODY\<close> is the sentinel of \<open>slot.h\<close>.\<close>

abbreviation (input) CKU_SO :: ulong where "CKU_SO \<equiv> 0"
abbreviation (input) CKU_USER :: ulong where "CKU_USER \<equiv> 1"
abbreviation (input) CKU_NOBODY :: ulong where "CKU_NOBODY \<equiv> 0xffffff"

abbreviation (input) CKF_RW_SESSION :: ulong where "CKF_RW_SESSION \<equiv> 2"
abbreviation (input) CKF_SERIAL_SESSION :: ulong where "CKF_SERIAL_SESSION \<equiv> 4"
abbreviation (input) CKF_DONT_BLOCK :: ulong where "CKF_DONT_BLOCK \<equiv> 1"
abbreviation (input) CKF_LIBRARY_CANT_CREATE_OS_THREADS :: ulong where
  "CKF_LIBRARY_CANT_CREATE_OS_THREADS \<equiv> 1"
abbreviation (input) CKF_OS_LOCKING_OK :: ulong where "CKF_OS_LOCKING_OK \<equiv> 2"
abbreviation (input) CKF_TOKEN_PRESENT :: ulong where "CKF_TOKEN_PRESENT \<equiv> 1"
abbreviation (input) CKF_REMOVABLE_DEVICE :: ulong where "CKF_REMOVABLE_DEVICE \<equiv> 2"
abbreviation (input) CKF_HW_SLOT :: ulong where "CKF_HW_SLOT \<equiv> 4"

abbreviation (input) CKF_HW :: ulong where "CKF_HW \<equiv> 1"
abbreviation (input) CKF_ENCRYPT :: ulong where "CKF_ENCRYPT \<equiv> 0x100"
abbreviation (input) CKF_DECRYPT :: ulong where "CKF_DECRYPT \<equiv> 0x200"
abbreviation (input) CKF_DIGEST :: ulong where "CKF_DIGEST \<equiv> 0x400"
abbreviation (input) CKF_SIGN :: ulong where "CKF_SIGN \<equiv> 0x800"
abbreviation (input) CKF_SIGN_RECOVER :: ulong where "CKF_SIGN_RECOVER \<equiv> 0x1000"
abbreviation (input) CKF_VERIFY :: ulong where "CKF_VERIFY \<equiv> 0x2000"
abbreviation (input) CKF_VERIFY_RECOVER :: ulong where "CKF_VERIFY_RECOVER \<equiv> 0x4000"

abbreviation (input) CKS_RO_PUBLIC_SESSION :: ulong where "CKS_RO_PUBLIC_SESSION \<equiv> 0"
abbreviation (input) CKS_RO_USER_FUNCTIONS :: ulong where "CKS_RO_USER_FUNCTIONS \<equiv> 1"
abbreviation (input) CKS_RW_PUBLIC_SESSION :: ulong where "CKS_RW_PUBLIC_SESSION \<equiv> 2"
abbreviation (input) CKS_RW_USER_FUNCTIONS :: ulong where "CKS_RW_USER_FUNCTIONS \<equiv> 3"
abbreviation (input) CKS_RW_SO_FUNCTIONS :: ulong where "CKS_RW_SO_FUNCTIONS \<equiv> 4"

abbreviation (input) CKO_DATA :: ulong where "CKO_DATA \<equiv> 0"
abbreviation (input) CKO_CERTIFICATE :: ulong where "CKO_CERTIFICATE \<equiv> 1"
abbreviation (input) CKO_PUBLIC_KEY :: ulong where "CKO_PUBLIC_KEY \<equiv> 2"
abbreviation (input) CKO_PRIVATE_KEY :: ulong where "CKO_PRIVATE_KEY \<equiv> 3"

abbreviation (input) CKM_RSA_PKCS :: ulong where "CKM_RSA_PKCS \<equiv> 1"
abbreviation (input) CKM_MD5_RSA_PKCS :: ulong where "CKM_MD5_RSA_PKCS \<equiv> 5"
abbreviation (input) CKM_SHA1_RSA_PKCS :: ulong where "CKM_SHA1_RSA_PKCS \<equiv> 6"
abbreviation (input) CKM_SHA256_RSA_PKCS :: ulong where "CKM_SHA256_RSA_PKCS \<equiv> 0x40"
abbreviation (input) CKM_MD5 :: ulong where "CKM_MD5 \<equiv> 0x210"
abbreviation (input) CKM_SHA_1 :: ulong where "CKM_SHA_1 \<equiv> 0x220"
abbreviation (input) CKM_SHA256 :: ulong where "CKM_SHA256 \<equiv> 0x250"

abbreviation (input) CKA_CLASS :: ulong where "CKA_CLASS \<equiv> 0"
abbreviation (input) CKA_TOKEN :: ulong where "CKA_TOKEN \<equiv> 1"
abbreviation (input) CKA_PRIVATE :: ulong where "CKA_PRIVATE \<equiv> 2"
abbreviation (input) CKA_LABEL :: ulong where "CKA_LABEL \<equiv> 3"
abbreviation (input) CKA_VALUE :: ulong where "CKA_VALUE \<equiv> 0x11"
abbreviation (input) CKA_CERTIFICATE_TYPE :: ulong where "CKA_CERTIFICATE_TYPE \<equiv> 0x80"
abbreviation (input) CKA_ISSUER :: ulong where "CKA_ISSUER \<equiv> 0x81"
abbreviation (input) CKA_SERIAL_NUMBER :: ulong where "CKA_SERIAL_NUMBER \<equiv> 0x82"
abbreviation (input) CKA_KEY_TYPE :: ulong where "CKA_KEY_TYPE \<equiv> 0x100"
abbreviation (input) CKA_SUBJECT :: ulong where "CKA_SUBJECT \<equiv> 0x101"
abbreviation (input) CKA_ID :: ulong where "CKA_ID \<equiv> 0x102"
abbreviation (input) CKA_SIGN :: ulong where "CKA_SIGN \<equiv> 0x108"
abbreviation (input) CKA_SIGN_RECOVER :: ulong where "CKA_SIGN_RECOVER \<equiv> 0x109"
abbreviation (input) CKA_VERIFY :: ulong where "CKA_VERIFY \<equiv> 0x10A"
abbreviation (input) CKA_VERIFY_RECOVER :: ulong where "CKA_VERIFY_RECOVER \<equiv> 0x10B"
abbreviation (input) CKA_START_DATE :: ulong where "CKA_START_DATE \<equiv> 0x110"
abbreviation (input) CKA_END_DATE :: ulong where "CKA_END_DATE \<equiv> 0x111"
abbreviation (input) CKA_MODULUS :: ulong where "CKA_MODULUS \<equiv> 0x120"
abbreviation (input) CKA_MODULUS_BITS :: ulong where "CKA_MODULUS_BITS \<equiv> 0x121"
abbreviation (input) CKA_PUBLIC_EXPONENT :: ulong where "CKA_PUBLIC_EXPONENT \<equiv> 0x122"
abbreviation (input) CKA_PRIME_1 :: ulong where "CKA_PRIME_1 \<equiv> 0x124"
abbreviation (input) CKA_PRIME_2 :: ulong where "CKA_PRIME_2 \<equiv> 0x125"
abbreviation (input) CKA_EXPONENT_1 :: ulong where "CKA_EXPONENT_1 \<equiv> 0x126"
abbreviation (input) CKA_EXPONENT_2 :: ulong where "CKA_EXPONENT_2 \<equiv> 0x127"
abbreviation (input) CKA_COEFFICIENT :: ulong where "CKA_COEFFICIENT \<equiv> 0x128"

text \<open>
  \<open>CK_ATTRIBUTE\<close>: the type, the caller's value buffer (\<open>None\<close> is the null pointer) and
  the length field.
\<close>

record ck_attribute =
  atype :: ulong
  pValue :: "bytes option"
  ulValueLen :: ulong

text \<open>\<open>CK_MECHANISM\<close>; \<open>pParameter\<close> is compared with null only.\<close>

record ck_mechanism =
  mechanism :: ulong
  pParameter_null :: bool
  ulParameterLen :: ulong

text \<open>\<open>ByteArrayToVar(ba, CK_BBOOL)\<close> reads the first octet.\<close>

definition ByteArrayToVar_BBOOL :: "bytes \<Rightarrow> exn + byte" where
  "ByteArrayToVar_BBOOL bs = (case bs of [] \<Rightarrow> Inl UB | b # _ \<Rightarrow> Inr b)"

lemma ByteArrayToVar_BBOOL_Cons [simp]: "ByteArrayToVar_BBOOL (b # bs) = Inr b"
  by (simp add: ByteArrayToVar_BBOOL_def)

text \<open>
  \<open>x - 11\<close> on the \<open>CK_ULONG\<close> that holds the size of a modulus: for a modulus shorter than
  11 octets the difference wraps around.
\<close>

definition ulong_minus_11 :: "nat \<Rightarrow> nat" where
  "ulong_minus_11 k = unat ((of_nat k :: ulong) - 11)"

lemma ulong_minus_11_eq:
  assumes "11 \<le> k" and "k < 2 ^ 64"
  shows "ulong_minus_11 k = k - 11"
proof -
  have "unat (of_nat k :: ulong) = k" using assms(2) by (simp add: unat_of_nat)
  moreover from this assms(1) have "(11::ulong) \<le> of_nat k" by (simp add: word_le_nat_alt)
  ultimately show ?thesis by (simp add: ulong_minus_11_def unat_sub)
qed

end
