(* ===== verification/P11_Object.thy ===== *)
theory P11_Object
  imports Cryptoki
begin

section \<open>Token objects (pkcs11/src/pkcs11/p11\_object.cpp)\<close>

text \<open>
  An object is a class and a map of attributes.  \<open>okind\<close> is the dynamic type, which selects
  the override of the virtual \<open>getAttribute\<close>.  An attribute that is missing is first asked
  for at the card template (\<open>templateReadObjectAttributes\<close>); the only template the module
  registers is the CIE one, whose function has an empty body, so the object is not changed.
  The call goes through \<open>pSlot->pTemplate\<close>: the argument \<open>tmpl\<close> says whether that pointer
  is set, and a call through the null pointer is undefined.
\<close>

datatype obj_kind = Plain_Object | Certificate | Data_Object | Public_Key | Private_Key

record p11_object =
  okind :: obj_kind
  ObjClass :: ulong
  bReadValue :: bool
  attributes :: "(ulong, bytes) std_map"

definition addAttribute :: "p11_object \<Rightarrow> ulong \<Rightarrow> bytes \<Rightarrow> p11_object" where
  "addAttribute obj ty data = obj\<lparr>attributes := map_put (attributes obj) ty data\<rparr>"

definition new_P11Object :: "obj_kind \<Rightarrow> ulong \<Rightarrow> p11_object" where
  "new_P11Object k objClass =
     addAttribute \<lparr>okind = k, ObjClass = objClass, bReadValue = False, attributes = []\<rparr>
       CKA_CLASS (VarToByteArray64 objClass)"

definition new_P11Certificate :: p11_object where
  "new_P11Certificate = (new_P11Object Certificate CKO_CERTIFICATE)\<lparr>bReadValue := False\<rparr>"

definition new_P11PublicKey :: p11_object where
  "new_P11PublicKey = (new_P11Object Public_Key CKO_PUBLIC_KEY)\<lparr>bReadValue := False\<rparr>"

definition new_P11PrivateKey :: p11_object where
  "new_P11PrivateKey = (new_P11Object Private_Key CKO_PRIVATE_KEY)\<lparr>bReadValue := False\<rparr>"

definition CIEtemplateReadObjectAttributes :: "p11_object \<Rightarrow> p11_object" where
  "CIEtemplateReadObjectAttributes obj = obj"

subsection \<open>Reading attributes\<close>

definition base_getAttribute :: "p11_object \<Rightarrow> ulong \<Rightarrow> bytes option" where
  "base_getAttribute obj ty = map_of (attributes obj) ty"

definition reading_getAttribute :: "bool \<Rightarrow> p11_object \<Rightarrow> ulong \<Rightarrow> exn + bytes option" where
  "reading_getAttribute tmpl obj ty =
     (if map_of (attributes obj) ty = None \<and> \<not> bReadValue obj then
        if \<not> tmpl then Inl UB
        else Inr (base_getAttribute (CIEtemplateReadObjectAttributes obj) ty)
      else Inr (base_getAttribute obj ty))"

definition private_getAttribute :: "bool \<Rightarrow> p11_object \<Rightarrow> ulong \<Rightarrow> exn + bytes option" where
  "private_getAttribute tmpl obj ty =
     (if ty = CKA_PRIME_1 \<or> ty = CKA_PRIME_2 \<or> ty = CKA_EXPONENT_1 \<or> ty = CKA_EXPONENT_2
         \<or> ty = CKA_COEFFICIENT
      then throw_p11 CKR_ATTRIBUTE_SENSITIVE
      else reading_getAttribute tmpl obj ty)"

definition getAttribute :: "bool \<Rightarrow> p11_object \<Rightarrow> ulong \<Rightarrow> exn + bytes option" where
  "getAttribute tmpl obj ty =
     (case okind obj of
        Plain_Object \<Rightarrow> Inr (base_getAttribute obj ty)
      | Private_Key \<Rightarrow> private_getAttribute tmpl obj ty
      | _ \<Rightarrow> reading_getAttribute tmpl obj ty)"

definition IsPrivate :: "bool \<Rightarrow> p11_object \<Rightarrow> exn + bool" where
  "IsPrivate tmpl obj =
     bindE (getAttribute tmpl obj CKA_PRIVATE) (\<lambda>v.
       case v of None \<Rightarrow> Inr False
       | Some ba \<Rightarrow> bindE (ByteArrayToVar_BBOOL ba) (\<lambda>b. Inr (b = 1)))"

text \<open>
  \<open>GetAttributeValue\<close>: one entry of the caller's template, then the loop.  An exception of
  \<open>getAttribute\<close> leaves the loop with the entries handled so far already filled in.
\<close>

definition gav_entry :: "bytes option \<Rightarrow> ck_attribute \<Rightarrow> ck_attribute \<times> bool \<times> bool" where
  "gav_entry attr a =
     (case attr of
        Some v \<Rightarrow>
          (case pValue a of
             None \<Rightarrow> (a\<lparr>ulValueLen := of_nat (length v)\<rparr>, False, False)
           | Some buf \<Rightarrow>
               if length v > unat (ulValueLen a)
               then (a\<lparr>ulValueLen := CK_UNAVAILABLE_INFORMATION\<rparr>, False, True)
               else (a\<lparr>pValue := Some (v @ drop (length v) buf),
                       ulValueLen := of_nat (length v)\<rparr>, False, False))
      | None \<Rightarrow> (a\<lparr>ulValueLen := CK_UNAVAILABLE_INFORMATION\<rparr>, True, False))"

fun gav_loop :: "bool \<Rightarrow> p11_object \<Rightarrow> bool \<Rightarrow> bool \<Rightarrow> ck_attribute list
    \<Rightarrow> (exn + bool \<times> bool) \<times> ck_attribute list" where
  "gav_loop tmpl obj bad small [] = (Inr (bad, small), [])"
| "gav_loop tmpl obj bad small (a # as) =
     (case getAttribute tmpl obj (atype a) of
        Inl e \<Rightarrow> (Inl e, a # as)
      | Inr attr \<Rightarrow>
          (case gav_entry attr a of (a', i, sm) \<Rightarrow>
             (case gav_loop tmpl obj (bad \<or> i) (small \<or> sm) as of (r, as') \<Rightarrow> (r, a' # as'))))"

definition obj_GetAttributeValue :: "bool \<Rightarrow> p11_object \<Rightarrow> ck_attribute list
    \<Rightarrow> (exn + ck_rv) \<times> ck_attribute list" where
  "obj_GetAttributeValue tmpl obj tpl =
     (case gav_loop tmpl obj False False tpl of
        (Inl e, out) \<Rightarrow> (Inl e, out)
      | (Inr (attribInvalid, bufferTooSmall), out) \<Rightarrow>
          (Inr (if attribInvalid then CKR_ATTRIBUTE_TYPE_INVALID
                else if bufferTooSmall then CKR_BUFFER_TOO_SMALL
                else CKR_OK), out))"

text \<open>
  \<open>SetAttributes\<close>.  The deep copy of an array with a null pointer allocates and copies
  nothing, so its content is unspecified (\<open>u\<close>).
\<close>

definition attr_bytes :: "(nat \<Rightarrow> byte) \<Rightarrow> ck_attribute \<Rightarrow> bytes" where
  "attr_bytes u a =
     (case pValue a of Some m \<Rightarrow> take (unat (ulValueLen a)) m
      | None \<Rightarrow> alloc u (unat (ulValueLen a)))"

definition SetAttributes :: "(nat \<Rightarrow> byte) \<Rightarrow> p11_object \<Rightarrow> ck_attribute list \<Rightarrow> p11_object" where
  "SetAttributes u obj tpl =
     (let obj' = foldl (\<lambda>ob a. addAttribute ob (atype a) (attr_bytes u a)) obj tpl
      in if okind obj = Certificate \<or> okind obj = Data_Object then obj'\<lparr>bReadValue := True\<rparr>
         else obj')"

subsection \<open>Properties of attribute reading\<close>

lemma getAttribute_tmpl:
  "getAttribute True obj ty =
     (if okind obj = Private_Key \<and>
         ty \<in> {CKA_PRIME_1, CKA_PRIME_2, CKA_EXPONENT_1, CKA_EXPONENT_2, CKA_COEFFICIENT}
      then throw_p11 CKR_ATTRIBUTE_SENSITIVE
      else Inr (map_of (attributes obj) ty))"
  by (cases "okind obj")
     (auto simp: getAttribute_def private_getAttribute_def reading_getAttribute_def
        base_getAttribute_def CIEtemplateReadObjectAttributes_def)

lemma IsPrivate_tmpl:
  "IsPrivate True obj =
     (case map_of (attributes obj) CKA_PRIVATE of
        None \<Rightarrow> Inr False | Some [] \<Rightarrow> Inl UB | Some (b # _) \<Rightarrow> Inr (b = 1))"
  by (auto simp: IsPrivate_def getAttribute_tmpl ByteArrayToVar_BBOOL_def
      split: option.splits list.splits)

lemma getAttribute_present:
  "map_of (attributes obj) ty = Some v \<Longrightarrow> getAttribute tmpl obj ty = Inr r \<Longrightarrow> r = Some v"
  by (auto simp: getAttribute_def private_getAttribute_def reading_getAttribute_def
      base_getAttribute_def split: obj_kind.splits if_splits)

text \<open>
  The attributes of a template entry list, as the code answers them: the loop is a map over
  the entries whenever no entry throws.
\<close>

lemma gav_loop_eq:
  assumes "\<forall>a \<in> set as. getAttribute tmpl obj (atype a) = Inr (f (atype a))"
  shows "gav_loop tmpl obj bad small as =
    (Inr (bad \<or> (\<exists>a \<in> set as. f (atype a) = None),
          small \<or> (\<exists>a \<in> set as. \<exists>v. f (atype a) = Some v \<and> pValue a \<noteq> None \<and> length v > unat (ulValueLen a))),
     map (\<lambda>a. fst (gav_entry (f (atype a)) a)) as)"
  using assms
proof (induction as arbitrary: bad small)
  case Nil
  then show ?case by simp
next
  case (Cons a as)
  obtain a' i sm where e: "gav_entry (f (atype a)) a = (a', i, sm)" by (cases "gav_entry (f (atype a)) a")
  have i: "i \<longleftrightarrow> f (atype a) = None"
    and sm: "sm \<longleftrightarrow> (\<exists>v. f (atype a) = Some v \<and> pValue a \<noteq> None \<and> length v > unat (ulValueLen a))"
    using e by (auto simp: gav_entry_def split: option.splits if_splits)
  from Cons show ?case
    by (simp add: e i sm disj_assoc)
qed

lemma gav_entry_frame:
  "gav_entry v a = (a', i, sm) \<Longrightarrow>
     atype a' = atype a \<and> (pValue a' = None \<longleftrightarrow> pValue a = None)"
  by (auto simp: gav_entry_def split: option.splits if_splits)

text \<open>The caller's buffers keep their length: no entry is written past the length it states.\<close>

lemma gav_entry_bounds:
  assumes "gav_entry v a = (a', i, sm)" and "pValue a = Some buf" and "unat (ulValueLen a) \<le> length buf"
  shows "\<exists>buf'. pValue a' = Some buf' \<and> length buf' = length buf
    \<and> drop (unat (ulValueLen a)) buf' = drop (unat (ulValueLen a)) buf"
  using assms by (auto simp: gav_entry_def split: option.splits if_splits)

subsection \<open>Properties\<close>

text \<open>The five CRT components of a private key, which the module never reveals.\<close>

definition crt_components :: "ulong set" where
  "crt_components = {CKA_PRIME_1, CKA_PRIME_2, CKA_EXPONENT_1, CKA_EXPONENT_2, CKA_COEFFICIENT}"

text \<open>
  What PKCS\#11 says of one entry of the template of \<open>C_GetAttributeValue\<close>: before, after, and
  the attribute's value.
\<close>

definition entry_answered :: "bytes option \<Rightarrow> ck_attribute \<Rightarrow> ck_attribute \<Rightarrow> bool" where
  "entry_answered v a a' \<longleftrightarrow>
     atype a' = atype a \<and>
     (case (v, pValue a) of
        (None, _) \<Rightarrow> pValue a' = pValue a \<and> ulValueLen a' = CK_UNAVAILABLE_INFORMATION
      | (Some v, None) \<Rightarrow> pValue a' = None \<and> ulValueLen a' = of_nat (length v)
      | (Some v, Some buf) \<Rightarrow>
          if length v \<le> unat (ulValueLen a) then
            ulValueLen a' = of_nat (length v) \<and>
            (\<exists>buf'. pValue a' = Some buf' \<and> length buf' = length buf \<and>
                    take (length v) buf' = v \<and> drop (length v) buf' = drop (length v) buf)
          else pValue a' = pValue a \<and> ulValueLen a' = CK_UNAVAILABLE_INFORMATION)"

definition buffers_ok :: "ck_attribute list \<Rightarrow> bool" where
  "buffers_ok tpl \<longleftrightarrow>
     list_all (\<lambda>a. case pValue a of None \<Rightarrow> True | Some buf \<Rightarrow> unat (ulValueLen a) \<le> length buf) tpl"

lemma gav_entry_answered:
  assumes "case pValue a of None \<Rightarrow> True | Some buf \<Rightarrow> unat (ulValueLen a) \<le> length buf"
  shows "entry_answered v a (fst (gav_entry v a))"
  using assms by (auto simp: entry_answered_def gav_entry_def split: option.splits)

lemma gav_loop_sensitive:
  "okind obj = Private_Key \<Longrightarrow> a \<in> set tpl \<Longrightarrow> atype a \<in> crt_components \<Longrightarrow>
     fst (gav_loop True obj bad small tpl) = throw_p11 CKR_ATTRIBUTE_SENSITIVE"
proof (induction tpl arbitrary: bad small)
  case Nil
  then show ?case by simp
next
  case (Cons b tpl)
  show ?case
  proof (cases "atype b \<in> crt_components")
    case True
    then show ?thesis using Cons.prems(1) by (auto simp: getAttribute_tmpl crt_components_def)
  next
    case False
    then have "getAttribute True obj (atype b) = Inr (map_of (attributes obj) (atype b))"
      by (auto simp: getAttribute_tmpl crt_components_def)
    moreover have "a \<in> set tpl" using Cons.prems False by auto
    ultimately show ?thesis
      using Cons.IH [OF Cons.prems(1) _ Cons.prems(3)] by (simp add: split_beta)
  qed
qed



text \<open>
  A template that asks a private key for one of its primes, exponents or its coefficient
  fails with \<open>CKR_ATTRIBUTE_SENSITIVE\<close>, whatever else it asks for and whatever attributes the
  object holds.
\<close>

lemma crt_components_sensitive:
  assumes "okind obj = Private_Key" and "a \<in> set tpl" and "atype a \<in> crt_components"
  shows "fst (obj_GetAttributeValue True obj tpl) = throw_p11 CKR_ATTRIBUTE_SENSITIVE"
  using gav_loop_sensitive [OF assms, of False False]
  by (auto simp: obj_GetAttributeValue_def split: prod.splits sum.splits)

end
