(* ===== verification/Object_Table.thy ===== *)
theory Object_Table
  imports P11_Object
begin

section \<open>The slot and its object handles (pkcs11/src/pkcs11/slot.cpp)\<close>

text \<open>
  The state of a \<open>CSlot\<close> and the operations on its objects.  Objects live behind
  \<open>shared_ptr\<close>s: \<open>objs\<close> is the memory they live in, an object pointer is an address, and
  \<open>objNext\<close> is the next free address (\<open>make_shared\<close>).  \<open>ObjP11Map\<close> and
  \<open>HandleP11Map\<close> give the objects their handles, on first use.  \<open>pTemplate\<close> is the
  position of the template in the template list, \<open>None\<close> for the null pointer;
  \<open>pTemplateData\<close> is the template's own data, of a type the slot does not know.
\<close>

type_synonym obj_ptr = nat

datatype slot_event = NoEvent | Removed | Inserted

record 'd cslot =
  hSlot :: ulong
  szName :: string
  bUpdated :: bool
  baSerial :: bytes
  pSerialTemplate :: "nat option"
  baATR :: bytes
  dwP11ObjCnt :: ulong
  HandleP11Map :: "(ulong, obj_ptr) std_map"
  ObjP11Map :: "(obj_ptr, ulong) std_map"
  User :: ulong
  dwSessionCount :: ulong
  P11Objects :: "obj_ptr list"
  objs :: "obj_ptr \<Rightarrow> p11_object"
  objNext :: obj_ptr
  pTemplate :: "nat option"
  pTemplateData :: "'d option"
  lastEvent :: slot_event
  hCard :: ulong
  hContext :: ulong

definition new_CSlot :: "ulong \<Rightarrow> string \<Rightarrow> 'd cslot" where
  "new_CSlot ctx szReader =
     \<lparr>hSlot = 0, szName = szReader, bUpdated = False, baSerial = [], pSerialTemplate = None,
      baATR = [], dwP11ObjCnt = 0, HandleP11Map = [], ObjP11Map = [], User = CKU_NOBODY,
      dwSessionCount = 0, P11Objects = [], objs = (\<lambda>_. new_P11Object Plain_Object 0),
      objNext = 0, pTemplate = None, pTemplateData = None, lastEvent = NoEvent, hCard = 0,
      hContext = ctx\<rparr>"

text \<open>Attributes and privacy of an object of the slot, through the slot's template pointer.\<close>

definition slot_attr :: "'d cslot \<Rightarrow> obj_ptr \<Rightarrow> ulong \<Rightarrow> exn + bytes option" where
  "slot_attr sl p ty = getAttribute (pTemplate sl \<noteq> None) (objs sl p) ty"

definition slot_private :: "'d cslot \<Rightarrow> obj_ptr \<Rightarrow> exn + bool" where
  "slot_private sl p = IsPrivate (pTemplate sl \<noteq> None) (objs sl p)"

subsection \<open>Handles\<close>

definition GetNewObjectID :: "'d cslot \<Rightarrow> ulong \<times> 'd cslot" where
  "GetNewObjectID sl = (dwP11ObjCnt sl + 1, sl\<lparr>dwP11ObjCnt := dwP11ObjCnt sl + 1\<rparr>)"

text \<open>The second half of \<open>GetIDFromObject\<close>: the handle of the object, a new one on first use.\<close>

definition assign_handle :: "'d cslot \<Rightarrow> obj_ptr \<Rightarrow> ulong \<times> 'd cslot" where
  "assign_handle sl p =
     (case map_of (ObjP11Map sl) p of
        Some h \<Rightarrow> (h, sl)
      | None \<Rightarrow>
          (case GetNewObjectID sl of (hObject, sl1) \<Rightarrow>
             (hObject,
              sl1\<lparr>ObjP11Map := map_put (ObjP11Map sl1) p hObject,
                  HandleP11Map := map_put (HandleP11Map sl1) hObject p\<rparr>)))"

definition GetIDFromObject :: "'d cslot \<Rightarrow> obj_ptr \<Rightarrow> (exn + ulong) \<times> 'd cslot" where
  "GetIDFromObject sl p =
     (case slot_private sl p of
        Inl e \<Rightarrow> (Inl e, sl)
      | Inr priv \<Rightarrow>
          if priv \<and> User sl \<noteq> CKU_USER then (throw_p11 CKR_USER_NOT_LOGGED_IN, sl)
          else (case assign_handle sl p of (h, sl') \<Rightarrow> (Inr h, sl')))"

definition GetObjectFromID :: "'d cslot \<Rightarrow> ulong \<Rightarrow> obj_ptr option" where
  "GetObjectFromID sl hObject = map_of (HandleP11Map sl) hObject"

definition DelObjectHandle :: "'d cslot \<Rightarrow> obj_ptr \<Rightarrow> 'd cslot" where
  "DelObjectHandle sl p =
     (case map_of (ObjP11Map sl) p of
        None \<Rightarrow> sl
      | Some h \<Rightarrow> sl\<lparr>HandleP11Map := map_erase (HandleP11Map sl) h,
                     ObjP11Map := map_erase (ObjP11Map sl) p\<rparr>)"

subsection \<open>Objects\<close>

text \<open>\<open>std::make_shared\<close> of an object, and \<open>AddP11Object\<close>.\<close>

definition make_object :: "'d cslot \<Rightarrow> p11_object \<Rightarrow> obj_ptr \<times> 'd cslot" where
  "make_object sl ob =
     (objNext sl, sl\<lparr>objs := (objs sl)(objNext sl := ob), objNext := objNext sl + 1\<rparr>)"

definition AddP11Object :: "'d cslot \<Rightarrow> obj_ptr \<Rightarrow> 'd cslot" where
  "AddP11Object sl p = sl\<lparr>P11Objects := P11Objects sl @ [p]\<rparr>"

definition ClearP11Objects :: "'d cslot \<Rightarrow> 'd cslot" where
  "ClearP11Objects sl = sl\<lparr>P11Objects := [], ObjP11Map := [], HandleP11Map := []\<rparr>"

definition DelP11Object :: "'d cslot \<Rightarrow> obj_ptr \<Rightarrow> (exn + unit) \<times> 'd cslot" where
  "DelP11Object sl p =
     (if p \<notin> set (P11Objects sl) then (Inl (Logged_Error ''Unable to find object''), sl)
      else
        let sl1 = sl\<lparr>P11Objects := remove1 p (P11Objects sl)\<rparr> in
        (Inr (), case map_of (ObjP11Map sl1) p of
           None \<Rightarrow> sl1
         | Some h \<Rightarrow> sl1\<lparr>ObjP11Map := map_erase (ObjP11Map sl1) p,
                        HandleP11Map := map_erase (HandleP11Map sl1) h\<rparr>))"

fun find_object :: "'d cslot \<Rightarrow> ulong \<Rightarrow> ulong \<Rightarrow> bytes \<Rightarrow> obj_ptr list \<Rightarrow> exn + obj_ptr option" where
  "find_object sl objClass attr val [] = Inr None"
| "find_object sl objClass attr val (p # ps) =
     (if ObjClass (objs sl p) = objClass then
        bindE (slot_attr sl p attr) (\<lambda>attrVal.
          if attrVal = Some val then Inr (Some p) else find_object sl objClass attr val ps)
      else find_object sl objClass attr val ps)"

definition FindP11Object :: "'d cslot \<Rightarrow> ulong \<Rightarrow> ulong \<Rightarrow> bytes \<Rightarrow> exn + obj_ptr option" where
  "FindP11Object sl objClass attr val = find_object sl objClass attr val (P11Objects sl)"

subsection \<open>The handle tables are inverse to each other\<close>

text \<open>
  \<open>handles_ok\<close>: both tables are in order, each is the inverse of the other, and every handle
  was produced by the counter (handles start at 1, so 0 is never one).
\<close>

definition handles_ok :: "'d cslot \<Rightarrow> bool" where
  "handles_ok sl \<longleftrightarrow>
     map_ok (HandleP11Map sl) \<and> map_ok (ObjP11Map sl) \<and>
     (\<forall>h p. map_of (HandleP11Map sl) h = Some p \<longleftrightarrow> map_of (ObjP11Map sl) p = Some h) \<and>
     (\<forall>h p. map_of (HandleP11Map sl) h = Some p \<longrightarrow> 0 < h \<and> h \<le> dwP11ObjCnt sl)"

lemma handles_ok_cong:
  "HandleP11Map a = HandleP11Map b \<Longrightarrow> ObjP11Map a = ObjP11Map b \<Longrightarrow> dwP11ObjCnt a = dwP11ObjCnt b \<Longrightarrow>
     handles_ok a = handles_ok b"
  by (simp add: handles_ok_def)

lemma handles_ok_new: "handles_ok (new_CSlot ctx nm)"
  by (simp add: handles_ok_def new_CSlot_def)

lemma succ_fresh:
  assumes "(c::ulong) \<noteq> -1"
  shows "c < c + 1" "0 < c + 1"
proof -
  have "unat c \<noteq> 2 ^ 64 - 1"
    using assms by (auto simp: word_unat_eq_iff unsigned_minus_1_eq_mask mask_eq_exp_minus_1)
  moreover have "unat c < 2 ^ 64" using unsigned_less [of c] by simp
  ultimately have "unat c + unat (1::ulong) < 2 ^ LENGTH(64)" by simp
  then have "unat (c + 1) = unat c + 1" using unat_add_lem by (metis unat_1)
  then show "c < c + 1" "0 < c + 1"
    by (simp_all add: word_less_nat_alt)
qed

lemma assign_handle_ok:
  assumes "handles_ok sl" and "dwP11ObjCnt sl \<noteq> -1" and "assign_handle sl p = (h, sl')"
  shows "handles_ok sl'" and "map_of (HandleP11Map sl') h = Some p"
    and "map_of (HandleP11Map sl) h = Some p \<or> map_of (HandleP11Map sl) h = None"
    and "\<And>h'. h' \<noteq> h \<Longrightarrow> map_of (HandleP11Map sl') h' = map_of (HandleP11Map sl) h'"
proof -
  have inv: "\<And>h p. map_of (HandleP11Map sl) h = Some p \<longleftrightarrow> map_of (ObjP11Map sl) p = Some h"
    and le: "\<And>h p. map_of (HandleP11Map sl) h = Some p \<Longrightarrow> 0 < h \<and> h \<le> dwP11ObjCnt sl"
    and ok: "map_ok (HandleP11Map sl)" "map_ok (ObjP11Map sl)"
    using assms(1) by (auto simp: handles_ok_def)
  note fresh = succ_fresh [OF assms(2)]
  have new: "map_of (HandleP11Map sl) (dwP11ObjCnt sl + 1) = None"
    using le fresh(1) by (metis leD option.exhaust)
  have unused: "map_of (ObjP11Map sl) q \<noteq> Some (dwP11ObjCnt sl + 1)" for q
    using new inv by (metis option.discI)
  have bound: "h \<le> dwP11ObjCnt sl + 1" if "map_of (ObjP11Map sl) q = Some h" for q h
    using that le inv fresh(1) by (meson less_imp_le order.trans)
  have "handles_ok sl' \<and> map_of (HandleP11Map sl') h = Some p \<and>
    (map_of (HandleP11Map sl) h = Some p \<or> map_of (HandleP11Map sl) h = None) \<and>
    (\<forall>h'. h' \<noteq> h \<longrightarrow> map_of (HandleP11Map sl') h' = map_of (HandleP11Map sl) h')"
  proof (cases "map_of (ObjP11Map sl) p")
    case None
    with assms(3) have h: "h = dwP11ObjCnt sl + 1"
      and sl': "sl' = sl\<lparr>dwP11ObjCnt := h, ObjP11Map := map_put (ObjP11Map sl) p h,
          HandleP11Map := map_put (HandleP11Map sl) h p\<rparr>"
      by (auto simp: assign_handle_def GetNewObjectID_def)
    have "handles_ok sl'"
      unfolding handles_ok_def
      using ok inv le None unused fresh new bound
      by (auto simp: sl' h)
    with new show ?thesis by (simp add: sl' h)
  next
    case (Some k)
    with assms(3) have "h = k" "sl' = sl" by (simp_all add: assign_handle_def)
    with Some inv assms(1) show ?thesis by simp
  qed
  then show "handles_ok sl'" and "map_of (HandleP11Map sl') h = Some p"
    and "map_of (HandleP11Map sl) h = Some p \<or> map_of (HandleP11Map sl) h = None"
    and "\<And>h'. h' \<noteq> h \<Longrightarrow> map_of (HandleP11Map sl') h' = map_of (HandleP11Map sl) h'"
    by auto
qed

lemma DelObjectHandle_ok:
  assumes "handles_ok sl"
  shows "handles_ok (DelObjectHandle sl p)"
    and "map_of (HandleP11Map (DelObjectHandle sl p)) h =
      (if map_of (HandleP11Map sl) h = Some p then None else map_of (HandleP11Map sl) h)"
proof -
  have inv: "\<And>h p. map_of (HandleP11Map sl) h = Some p \<longleftrightarrow> map_of (ObjP11Map sl) p = Some h"
    and ok: "map_ok (HandleP11Map sl)" "map_ok (ObjP11Map sl)"
    using assms by (auto simp: handles_ok_def)
  have inj: "q = q'" if "map_of (ObjP11Map sl) q = Some h" "map_of (ObjP11Map sl) q' = Some h" for q q' h
    using that inv by (metis option.inject)
  show "map_of (HandleP11Map (DelObjectHandle sl p)) h =
      (if map_of (HandleP11Map sl) h = Some p then None else map_of (HandleP11Map sl) h)"
    using inv by (auto simp: DelObjectHandle_def split: option.split)
  show "handles_ok (DelObjectHandle sl p)"
    using assms inv ok by (auto simp: handles_ok_def DelObjectHandle_def split: option.split dest: inj)
qed

subsection \<open>The interface the sessions use\<close>

text \<open>
  The contract of a handle table, independent of how it is stored: handles resolve to the
  object they were issued for, are stable, are distinct for distinct objects, and are void
  once the object's handle is deleted.  \<open>room\<close> says that the handle counter has not been
  used up.
\<close>

locale handle_table =
  fixes resolve :: "'s \<Rightarrow> 'h \<Rightarrow> 'p option"
    and issue :: "'s \<Rightarrow> 'p \<Rightarrow> 'h \<times> 's"
    and forget :: "'s \<Rightarrow> 'p \<Rightarrow> 's"
    and ok :: "'s \<Rightarrow> bool"
    and room :: "'s \<Rightarrow> bool"
  assumes issue_ok: "ok s \<Longrightarrow> room s \<Longrightarrow> ok (snd (issue s p))"
    and issue_resolve: "ok s \<Longrightarrow> room s \<Longrightarrow> resolve (snd (issue s p)) (fst (issue s p)) = Some p"
    and issue_old: "ok s \<Longrightarrow> room s \<Longrightarrow> resolve s (fst (issue s p)) \<in> {None, Some p}"
    and issue_other: "ok s \<Longrightarrow> room s \<Longrightarrow> h \<noteq> fst (issue s p) \<Longrightarrow>
      resolve (snd (issue s p)) h = resolve s h"
    and issue_stable: "ok s \<Longrightarrow> resolve s h = Some p \<Longrightarrow> issue s p = (h, s)"
    and forget_ok: "ok s \<Longrightarrow> ok (forget s p)"
    and forget_resolve: "ok s \<Longrightarrow>
      resolve (forget s p) h = (if resolve s h = Some p then None else resolve s h)"
begin

lemma resolve_inj: "ok s \<Longrightarrow> resolve s h = Some p \<Longrightarrow> resolve s h' = Some p \<Longrightarrow> h = h'"
  using issue_stable by (metis fst_conv)

lemma issue_keeps: "ok s \<Longrightarrow> room s \<Longrightarrow> resolve s h = Some q \<Longrightarrow> resolve (snd (issue s p)) h = Some q"
  using issue_other issue_old issue_resolve by (metis insertE option.distinct(1) singletonD)

lemma issue_distinct:
  assumes "ok s" "room s" "resolve s h = Some q" "q \<noteq> p"
  shows "fst (issue s p) \<noteq> h"
  using issue_resolve [OF assms(1,2)] issue_keeps [OF assms(1,2,3)] assms(4) by (metis option.inject)

lemma issue_again:
  assumes "ok s" "room s"
  shows "issue (snd (issue s p)) p = issue s p"
  using issue_stable [OF issue_ok [OF assms] issue_resolve [OF assms]] by simp

lemma forgotten_void: "ok s \<Longrightarrow> resolve (forget s p) h \<noteq> Some p"
  by (simp add: forget_resolve)

lemma forget_all_ok: "ok s \<Longrightarrow> ok (foldl forget s ps)"
  by (induction ps arbitrary: s) (auto intro: forget_ok)

lemma forget_all_void:
  "ok s \<Longrightarrow> resolve (foldl forget s ps) h =
     (case resolve s h of None \<Rightarrow> None | Some p \<Rightarrow> if p \<in> set ps then None else Some p)"
  by (induction ps arbitrary: s) (auto simp: forget_ok forget_resolve split: option.splits)

end

interpretation slot_handles: handle_table GetObjectFromID assign_handle DelObjectHandle
  handles_ok "\<lambda>sl. dwP11ObjCnt sl \<noteq> -1"
proof (unfold_locales, goal_cases)
  case (1 s p)
  then show ?case by (metis assign_handle_ok(1) prod.collapse)
next
  case (2 s p)
  then show ?case unfolding GetObjectFromID_def by (metis assign_handle_ok(2) prod.collapse)
next
  case (3 s p)
  then show ?case
    using assign_handle_ok(3) [of s p "fst (assign_handle s p)" "snd (assign_handle s p)"]
    by (auto simp: GetObjectFromID_def)
next
  case (4 s h p)
  then show ?case
    using assign_handle_ok(4) [of s p "fst (assign_handle s p)" "snd (assign_handle s p)"]
    by (simp add: GetObjectFromID_def)
next
  case (5 s h p)
  then show ?case by (auto simp: GetObjectFromID_def handles_ok_def assign_handle_def)
next
  case (6 s p)
  then show ?case by (rule DelObjectHandle_ok)
next
  case (7 s p h)
  then show ?case by (simp add: GetObjectFromID_def DelObjectHandle_ok)
qed

subsection \<open>Consequences for the operations\<close>

lemma GetIDFromObject_frame:
  "snd (GetIDFromObject sl p) \<in> {sl, snd (assign_handle sl p)}"
  by (auto simp: GetIDFromObject_def split: sum.splits prod.splits)

lemma assign_handle_frame:
  "snd (assign_handle sl p) =
     sl\<lparr>dwP11ObjCnt := dwP11ObjCnt (snd (assign_handle sl p)),
        ObjP11Map := ObjP11Map (snd (assign_handle sl p)),
        HandleP11Map := HandleP11Map (snd (assign_handle sl p))\<rparr>"
  by (auto simp: assign_handle_def GetNewObjectID_def split: option.splits)

lemma DelObjectHandle_frame:
  "DelObjectHandle sl p =
     sl\<lparr>HandleP11Map := HandleP11Map (DelObjectHandle sl p), ObjP11Map := ObjP11Map (DelObjectHandle sl p)\<rparr>"
  by (auto simp: DelObjectHandle_def split: option.splits)

lemma DelP11Object_handles:
  assumes "handles_ok sl" and "DelP11Object sl p = (r, sl')"
  shows "handles_ok sl'"
proof -
  have "handles_ok (DelObjectHandle sl p)" using assms(1) by (rule slot_handles.forget_ok)
  moreover have "sl' = sl \<or> (HandleP11Map sl' = HandleP11Map (DelObjectHandle sl p) \<and>
      ObjP11Map sl' = ObjP11Map (DelObjectHandle sl p) \<and>
      dwP11ObjCnt sl' = dwP11ObjCnt (DelObjectHandle sl p))"
    using assms(2) by (auto simp: DelP11Object_def DelObjectHandle_def Let_def
        split: if_splits option.splits)
  ultimately show ?thesis using assms(1) handles_ok_cong by metis
qed

lemma find_object_sound:
  "find_object sl c ty v ps = Inr (Some p) \<Longrightarrow>
     p \<in> set ps \<and> ObjClass (objs sl p) = c \<and> slot_attr sl p ty = Inr (Some v)"
  by (induction ps) (auto simp: bindE_eq_Inr split: if_splits)

lemma find_object_none:
  "find_object sl c ty v ps = Inr None \<Longrightarrow> p \<in> set ps \<Longrightarrow> ObjClass (objs sl p) = c \<Longrightarrow>
     slot_attr sl p ty \<noteq> Inr (Some v)"
  by (induction ps) (auto simp: bindE_eq_Inr split: if_splits)

lemma DelP11Object_eq:
  "p \<in> set (P11Objects sl) \<Longrightarrow>
     DelP11Object sl p = (Inr (), DelObjectHandle (sl\<lparr>P11Objects := remove1 p (P11Objects sl)\<rparr>) p)"
  by (auto simp: DelP11Object_def DelObjectHandle_def Let_def split: option.split)

subsection \<open>Properties\<close>

text \<open>
  C32: \<open>GetIDFromObject\<close> on an object the user may see.  It returns a handle, never 0, that
  resolves to the object; all handles issued before keep their object; no other object has
  the handle; and asking again returns the same handle and changes nothing.
\<close>

theorem handle_issued:
  assumes "handles_ok sl" and "dwP11ObjCnt sl \<noteq> -1"
    and "slot_private sl p = Inr priv" and "priv \<longrightarrow> User sl = CKU_USER"
  shows "\<exists>h sl'. GetIDFromObject sl p = (Inr h, sl') \<and> handles_ok sl' \<and> h \<noteq> 0 \<and>
    GetObjectFromID sl' h = Some p \<and>
    (\<forall>h' q. GetObjectFromID sl h' = Some q \<longrightarrow> GetObjectFromID sl' h' = Some q \<and> (h' = h \<longleftrightarrow> q = p)) \<and>
    GetIDFromObject sl' p = (Inr h, sl')"
proof -
  obtain h sl' where as: "assign_handle sl p = (h, sl')" by (cases "assign_handle sl p")
  have fr: "slot_private sl' p = Inr priv" "User sl' = User sl"
    using assms(3) as
    by (auto simp: assign_handle_def GetNewObjectID_def slot_private_def split: option.splits)
  note r = slot_handles.issue_ok [OF assms(1,2), of p] slot_handles.issue_resolve [OF assms(1,2), of p]
    slot_handles.issue_again [OF assms(1,2), of p]
  have g: "GetIDFromObject sl p = (Inr h, sl')" "GetIDFromObject sl' p = (Inr h, sl')"
    using assms(3,4) fr as r(3) by (simp_all add: GetIDFromObject_def)
  have ok: "handles_ok sl'" and res: "GetObjectFromID sl' h = Some p" using r(1,2) as by simp_all
  then have "h \<noteq> 0" by (auto simp: handles_ok_def GetObjectFromID_def)
  moreover have "\<forall>h' q. GetObjectFromID sl h' = Some q \<longrightarrow> GetObjectFromID sl' h' = Some q \<and> (h' = h \<longleftrightarrow> q = p)"
    using slot_handles.issue_keeps [OF assms(1,2)] slot_handles.resolve_inj [OF ok] res as
    by (metis option.inject snd_conv)
  ultimately show ?thesis using g ok res by blast
qed

theorem handle_issued_witness:
  "\<exists>h sl'. GetIDFromObject (new_CSlot 0 ''reader'' :: unit cslot) 0 = (Inr h, sl') \<and> handles_ok sl' \<and> h \<noteq> 0 \<and>
    GetObjectFromID sl' h = Some 0 \<and>
    (\<forall>h' q. GetObjectFromID (new_CSlot 0 ''reader'' :: unit cslot) h' = Some q \<longrightarrow>
       GetObjectFromID sl' h' = Some q \<and> (h' = h \<longleftrightarrow> q = 0)) \<and>
    GetIDFromObject sl' 0 = (Inr h, sl')"
  by (rule handle_issued [where priv = False])
    (simp_all add: handles_ok_new, simp_all add: new_CSlot_def slot_private_def IsPrivate_def getAttribute_def
      base_getAttribute_def new_P11Object_def addAttribute_def)

text \<open>
  Deleting an object of the slot succeeds, voids its handle (if it had one) and no other,
  and keeps the two tables inverse to each other.
\<close>

lemma object_deleted:
  assumes "handles_ok sl" and "p \<in> set (P11Objects sl)"
  shows "\<exists>sl'. DelP11Object sl p = (Inr (), sl') \<and> handles_ok sl' \<and>
    P11Objects sl' = remove1 p (P11Objects sl) \<and>
    (\<forall>h. GetObjectFromID sl' h = (if GetObjectFromID sl h = Some p then None else GetObjectFromID sl h))"
proof -
  let ?sl = "sl\<lparr>P11Objects := remove1 p (P11Objects sl)\<rparr>"
  have ok: "handles_ok ?sl" using assms(1) by (simp add: handles_ok_def)
  have "P11Objects (DelObjectHandle ?sl p) = P11Objects ?sl"
    by (auto simp: DelObjectHandle_def split: option.split)
  then show ?thesis
    using DelP11Object_eq [OF assms(2)] slot_handles.forget_ok [OF ok, of p] slot_handles.forget_resolve [OF ok, of p]
    by (simp add: GetObjectFromID_def)
qed

end
