(* ===== verification/Mechanism.thy ===== *)
theory Mechanism
  imports Object_Table
begin

section \<open>Cryptographic mechanisms (pkcs11/src/pkcs11/mechanism.cpp)\<close>

text \<open>
  The digest, signature and verification objects a session holds while an operation is
  active.  The hash functions and the RSA primitive are OpenSSL's: they are the fields of a
  record the definitions take as an argument.  A mechanism finds its key through its
  session's slot, which is an argument here.
\<close>

record crypto_env =
  sha1_digest :: "bytes \<Rightarrow> bytes"
  sha256_digest :: "bytes \<Rightarrow> bytes"
  md5_digest :: "bytes \<Rightarrow> bytes"
  RSA_PURE :: "bytes \<Rightarrow> bytes \<Rightarrow> bytes \<Rightarrow> exn + bytes"

text \<open>What the code relies on: the digests have the lengths OpenSSL documents.\<close>

definition digests_sized :: "crypto_env \<Rightarrow> bool" where
  "digests_sized cr \<longleftrightarrow>
     (\<forall>d. length (sha1_digest cr d) = 20 \<and> length (sha256_digest cr d) = 32 \<and>
          length (md5_digest cr d) = 16)"

subsection \<open>Digests: CDigestSHA, CDigestSHA256, CDigestMD5\<close>

datatype hash_alg = SHA1 | SHA256 | MD5

record digest_mech =
  dalg :: hash_alg
  ddata :: bytes

definition hash_of :: "crypto_env \<Rightarrow> hash_alg \<Rightarrow> bytes \<Rightarrow> bytes" where
  "hash_of cr a =
     (case a of SHA1 \<Rightarrow> sha1_digest cr | SHA256 \<Rightarrow> sha256_digest cr | MD5 \<Rightarrow> md5_digest cr)"

definition DigestLength :: "hash_alg \<Rightarrow> nat" where
  "DigestLength a = (case a of SHA1 \<Rightarrow> 20 | SHA256 \<Rightarrow> 32 | MD5 \<Rightarrow> 16)"

text \<open>The \<open>DigestInfo\<close> prefixes: the sequence headers, the object identifier, the end of the header.\<close>

definition DigestInfo :: "hash_alg \<Rightarrow> bytes" where
  "DigestInfo a =
     (case a of
        SHA1 \<Rightarrow>
          [0x30, 0x21, 0x30, 0x09] @ [0x06, 0x05, 0x2b, 0x0e, 0x03, 0x02, 0x1a] @ [0x05, 0x00, 0x04, 0x14]
      | SHA256 \<Rightarrow>
          [0x30, 0x31, 0x30, 0x0d] @
          [0x06, 0x09, 0x60, 0x86, 0x48, 0x01, 0x65, 0x03, 0x04, 0x02, 0x01] @ [0x05, 0x00, 0x04, 0x20]
      | MD5 \<Rightarrow>
          [0x30, 0x20, 0x30, 0x0C] @
          [0x06, 0x08, 0x2A, 0x86, 0x48, 0x86, 0xF7, 0x0D, 0x02, 0x05] @ [0x05, 0x00, 0x04, 0x10])"

definition digest_mtType :: "hash_alg \<Rightarrow> ulong" where
  "digest_mtType a = (case a of SHA1 \<Rightarrow> CKM_SHA_1 | SHA256 \<Rightarrow> CKM_SHA256 | MD5 \<Rightarrow> CKM_MD5)"

definition mech_DigestInit :: "hash_alg \<Rightarrow> digest_mech" where
  "mech_DigestInit a = \<lparr>dalg = a, ddata = []\<rparr>"

definition mech_DigestUpdate :: "digest_mech \<Rightarrow> bytes \<Rightarrow> digest_mech" where
  "mech_DigestUpdate m part = m\<lparr>ddata := ddata m @ part\<rparr>"

definition mech_DigestFinal :: "crypto_env \<Rightarrow> digest_mech \<Rightarrow> byte_view \<Rightarrow> exn + byte_view" where
  "mech_DigestFinal cr m v = view_copy v (hash_of cr (dalg m) (ddata m))"

text \<open>\<open>DigestFinal\<close> into an array of the code's own, starting at \<open>start\<close>.\<close>

definition mech_DigestFinal_at :: "crypto_env \<Rightarrow> digest_mech \<Rightarrow> bytes \<Rightarrow> exn + bytes" where
  "mech_DigestFinal_at cr m arr = ba_copy arr (hash_of cr (dalg m) (ddata m)) 0"

definition mech_DigestGetOperationState :: "digest_mech \<Rightarrow> exn + bytes" where
  "mech_DigestGetOperationState m = throw_p11 CKR_FUNCTION_NOT_SUPPORTED"

definition mech_DigestSetOperationState :: "digest_mech \<Rightarrow> bytes \<Rightarrow> exn + digest_mech" where
  "mech_DigestSetOperationState m st = throw_p11 CKR_FUNCTION_NOT_SUPPORTED"

subsection \<open>Keys\<close>

text \<open>The key object behind a handle, with the two assertions of the \<open>*Length\<close> functions.\<close>

definition mech_key :: "'d cslot \<Rightarrow> ulong \<Rightarrow> ulong \<Rightarrow> exn + obj_ptr" where
  "mech_key sl h cls =
     (case GetObjectFromID sl h of
        None \<Rightarrow> Inl (Logged_Error ''Error determining object from ID'')
      | Some p \<Rightarrow> if ObjClass (objs sl p) = cls then Inr p
                  else Inl (Logged_Error ''Incorrect object type''))"

definition attr_or_error :: "'d cslot \<Rightarrow> obj_ptr \<Rightarrow> ulong \<Rightarrow> exn \<Rightarrow> exn + bytes" where
  "attr_or_error sl p ty err =
     bindE (slot_attr sl p ty) (\<lambda>v. case v of None \<Rightarrow> Inl err | Some ba \<Rightarrow> Inr ba)"

abbreviation no_modulus :: exn where
  "no_modulus \<equiv> Logged_Error ''Unable to read public key modulus''"

abbreviation no_exponent :: exn where
  "no_exponent \<equiv> Logged_Error ''Unable to read public key exponent''"

text \<open>
  \<open>CSignRSA::SignLength\<close> and \<open>CSignRecoverRSA::SignRecoverLength\<close>; \<open>CVerifyRSA::VerifyLength\<close>,
  whose assertion dereferences the attribute pointer it should test, so a key without a
  modulus is undefined behaviour there; \<open>CVerifyRecoverRSA::VerifyRecoverLength\<close>.
\<close>

definition SignLength :: "'d cslot \<Rightarrow> ulong \<Rightarrow> exn + nat" where
  "SignLength sl h =
     bindE (mech_key sl h CKO_PRIVATE_KEY) (\<lambda>p.
     bindE (attr_or_error sl p CKA_MODULUS no_modulus) (\<lambda>m. Inr (length m)))"

definition SignRecoverLength :: "'d cslot \<Rightarrow> ulong \<Rightarrow> exn + nat" where
  "SignRecoverLength sl h =
     bindE (mech_key sl h CKO_PRIVATE_KEY) (\<lambda>p.
     bindE (attr_or_error sl p CKA_MODULUS no_modulus) (\<lambda>m. Inr (length m)))"

definition VerifyLength :: "'d cslot \<Rightarrow> ulong \<Rightarrow> exn + nat" where
  "VerifyLength sl h =
     bindE (mech_key sl h CKO_PUBLIC_KEY) (\<lambda>p.
     bindE (attr_or_error sl p CKA_MODULUS UB) (\<lambda>m. Inr (length m)))"

definition VerifyRecoverLength :: "'d cslot \<Rightarrow> ulong \<Rightarrow> exn + nat" where
  "VerifyRecoverLength sl h =
     bindE (mech_key sl h CKO_PUBLIC_KEY) (\<lambda>p.
     bindE (attr_or_error sl p CKA_MODULUS no_modulus) (\<lambda>m. Inr (length m)))"

definition VerifyDecryptSignature :: "crypto_env \<Rightarrow> 'd cslot \<Rightarrow> ulong \<Rightarrow> bytes \<Rightarrow> exn + bytes" where
  "VerifyDecryptSignature cr sl h sig =
     bindE (mech_key sl h CKO_PUBLIC_KEY) (\<lambda>p.
     bindE (attr_or_error sl p CKA_PUBLIC_EXPONENT no_exponent) (\<lambda>e.
     bindE (attr_or_error sl p CKA_MODULUS no_modulus) (\<lambda>n.
       if length sig \<noteq> length n then throw_p11 CKR_SIGNATURE_LEN_RANGE
       else RSA_PURE cr n e sig)))"

definition VerifyRecoverDecryptSignature :: "crypto_env \<Rightarrow> 'd cslot \<Rightarrow> ulong \<Rightarrow> bytes \<Rightarrow> exn + bytes" where
  "VerifyRecoverDecryptSignature cr sl h sig =
     bindE (mech_key sl h CKO_PUBLIC_KEY) (\<lambda>p.
     bindE (attr_or_error sl p CKA_PUBLIC_EXPONENT no_exponent) (\<lambda>e.
     bindE (attr_or_error sl p CKA_MODULUS no_modulus) (\<lambda>n.
       if length sig \<noteq> length n then throw_p11 CKR_SIGNATURE_LEN_RANGE
       else RSA_PURE cr n e sig)))"

subsection \<open>Signature mechanisms: CRSA\_PKCS1 and CSignRSAwithDigest\<close>

datatype sign_mech =
    Sign_PKCS1 (sKey: ulong) (sBuffer: bytes)
  | Sign_Digest (sKey: ulong) (sDigest: digest_mech)

definition sign_mtType :: "sign_mech \<Rightarrow> ulong" where
  "sign_mtType m =
     (case m of Sign_PKCS1 _ _ \<Rightarrow> CKM_RSA_PKCS
      | Sign_Digest _ d \<Rightarrow>
          (case dalg d of SHA1 \<Rightarrow> CKM_SHA1_RSA_PKCS | SHA256 \<Rightarrow> CKM_SHA256_RSA_PKCS
           | MD5 \<Rightarrow> CKM_MD5_RSA_PKCS))"

definition SignSupportMultipart :: "sign_mech \<Rightarrow> bool" where
  "SignSupportMultipart m = (case m of Sign_PKCS1 _ _ \<Rightarrow> False | Sign_Digest _ _ \<Rightarrow> True)"

fun mech_SignReset :: "sign_mech \<Rightarrow> sign_mech" where
  "mech_SignReset (Sign_PKCS1 k b) = Sign_PKCS1 k []"
| "mech_SignReset (Sign_Digest k d) = Sign_Digest k (mech_DigestInit (dalg d))"

fun mech_SignUpdate :: "sign_mech \<Rightarrow> bytes \<Rightarrow> sign_mech" where
  "mech_SignUpdate (Sign_PKCS1 k b) part = Sign_PKCS1 k (b @ part)"
| "mech_SignUpdate (Sign_Digest k d) part = Sign_Digest k (mech_DigestUpdate d part)"

definition pkcs1_SignFinal :: "'d cslot \<Rightarrow> ulong \<Rightarrow> bytes \<Rightarrow> exn + bytes" where
  "pkcs1_SignFinal sl k b =
     bindE (SignLength sl k) (\<lambda>ulSignatureLength.
       if length b > ulong_minus_11 ulSignatureLength then throw_p11 CKR_DATA_LEN_RANGE
       else Inr b)"

definition digest_SignFinal :: "crypto_env \<Rightarrow> (nat \<Rightarrow> byte) \<Rightarrow> digest_mech \<Rightarrow> exn + bytes" where
  "digest_SignFinal cr u d =
     bindE (mech_DigestFinal_at cr d (alloc u (DigestLength (dalg d)))) (\<lambda>buf.
       Inr (DigestInfo (dalg d) @ buf))"

text \<open>The virtual call \<open>pSignMechanism->SignFinal()\<close> selects the class's method.\<close>

fun mech_SignFinal :: "crypto_env \<Rightarrow> (nat \<Rightarrow> byte) \<Rightarrow> 'd cslot \<Rightarrow> sign_mech \<Rightarrow> exn + bytes" where
  "mech_SignFinal cr u sl (Sign_PKCS1 k b) = pkcs1_SignFinal sl k b"
| "mech_SignFinal cr u sl (Sign_Digest k d) = digest_SignFinal cr u d"

fun mech_SignGetOperationState :: "sign_mech \<Rightarrow> exn + bytes" where
  "mech_SignGetOperationState (Sign_PKCS1 k b) = Inr []"
| "mech_SignGetOperationState (Sign_Digest k d) = mech_DigestGetOperationState d"

fun mech_SignSetOperationState :: "sign_mech \<Rightarrow> bytes \<Rightarrow> exn + sign_mech" where
  "mech_SignSetOperationState (Sign_PKCS1 k b) st =
     (if length st \<noteq> 0 then throw_p11 CKR_SAVED_STATE_INVALID else Inr (Sign_PKCS1 k b))"
| "mech_SignSetOperationState (Sign_Digest k d) st =
     bindE (mech_DigestSetOperationState d st) (\<lambda>d'. Inr (Sign_Digest k d'))"

text \<open>\<open>CRSA_PKCS1::SignRecover\<close>: the length check; the data are returned as they are.\<close>

definition mech_SignRecover :: "'d cslot \<Rightarrow> ulong \<Rightarrow> bytes \<Rightarrow> exn + bytes" where
  "mech_SignRecover sl k data =
     bindE (SignRecoverLength sl k) (\<lambda>ulSignatureLength.
       if length data > ulong_minus_11 ulSignatureLength then throw_p11 CKR_DATA_LEN_RANGE
       else Inr data)"

subsection \<open>Verification mechanisms\<close>

datatype verify_mech =
    Verify_PKCS1 (vKey: ulong) (vBuffer: bytes)
  | Verify_Digest (vKey: ulong) (vDigest: digest_mech)

definition verify_mtType :: "verify_mech \<Rightarrow> ulong" where
  "verify_mtType m =
     (case m of Verify_PKCS1 _ _ \<Rightarrow> CKM_RSA_PKCS
      | Verify_Digest _ d \<Rightarrow>
          (case dalg d of SHA1 \<Rightarrow> CKM_SHA1_RSA_PKCS | SHA256 \<Rightarrow> CKM_SHA256_RSA_PKCS
           | MD5 \<Rightarrow> CKM_MD5_RSA_PKCS))"

definition VerifySupportMultipart :: "verify_mech \<Rightarrow> bool" where
  "VerifySupportMultipart m = (case m of Verify_PKCS1 _ _ \<Rightarrow> False | Verify_Digest _ _ \<Rightarrow> True)"

fun mech_VerifyUpdate :: "verify_mech \<Rightarrow> bytes \<Rightarrow> verify_mech" where
  "mech_VerifyUpdate (Verify_PKCS1 k b) part = Verify_PKCS1 k (b @ part)"
| "mech_VerifyUpdate (Verify_Digest k d) part = Verify_Digest k (mech_DigestUpdate d part)"

definition pkcs1_VerifyFinal ::
  "crypto_env \<Rightarrow> (nat \<Rightarrow> byte) \<Rightarrow> 'd cslot \<Rightarrow> ulong \<Rightarrow> bytes \<Rightarrow> bytes \<Rightarrow> exn + unit" where
  "pkcs1_VerifyFinal cr u sl k b sig =
     bindE (VerifyLength sl k) (\<lambda>ulVerifyLength.
       if length sig \<noteq> ulVerifyLength then throw_p11 CKR_SIGNATURE_LEN_RANGE
       else if length b > ulong_minus_11 ulVerifyLength then throw_p11 CKR_DATA_LEN_RANGE
       else
         bindE (VerifyDecryptSignature cr sl k sig) (\<lambda>plain.
         bindE (ba_rightcopy (alloc u ulVerifyLength) b 0) (\<lambda>e1.
         bindE (PutPaddingBT1 e1 (length b)) (\<lambda>expected.
           if plain = expected then Inr () else throw_p11 CKR_SIGNATURE_INVALID))))"

definition digest_VerifyFinal ::
  "crypto_env \<Rightarrow> (nat \<Rightarrow> byte) \<Rightarrow> 'd cslot \<Rightarrow> ulong \<Rightarrow> digest_mech \<Rightarrow> bytes \<Rightarrow> exn + unit" where
  "digest_VerifyFinal cr u sl k d sig =
     bindE (VerifyLength sl k) (\<lambda>ulVerifyLength.
       if length sig \<noteq> ulVerifyLength then throw_p11 CKR_SIGNATURE_LEN_RANGE
       else
         bindE (VerifyDecryptSignature cr sl k sig) (\<lambda>plain.
         let ulDigestLen = DigestLength (dalg d); info = DigestInfo (dalg d);
             e0 = alloc u ulVerifyLength in
         bindE (ba_right e0 ulDigestLen) (\<lambda>ba1.
         bindE (mech_DigestFinal_at cr d ba1) (\<lambda>dg.
         bindE (ba_rightcopy (take (ulVerifyLength - ulDigestLen) e0 @ dg) info ulDigestLen) (\<lambda>e1.
         bindE (PutPaddingBT1 e1 (ulDigestLen + length info)) (\<lambda>expected.
           if plain = expected then Inr () else throw_p11 CKR_SIGNATURE_INVALID))))))"

fun mech_VerifyFinal ::
  "crypto_env \<Rightarrow> (nat \<Rightarrow> byte) \<Rightarrow> 'd cslot \<Rightarrow> verify_mech \<Rightarrow> bytes \<Rightarrow> exn + unit" where
  "mech_VerifyFinal cr u sl (Verify_PKCS1 k b) sig = pkcs1_VerifyFinal cr u sl k b sig"
| "mech_VerifyFinal cr u sl (Verify_Digest k d) sig = digest_VerifyFinal cr u sl k d sig"

lemmas mech_final_defs = pkcs1_SignFinal_def digest_SignFinal_def pkcs1_VerifyFinal_def digest_VerifyFinal_def

fun mech_VerifyGetOperationState :: "verify_mech \<Rightarrow> exn + bytes" where
  "mech_VerifyGetOperationState (Verify_PKCS1 k b) = Inr []"
| "mech_VerifyGetOperationState (Verify_Digest k d) = mech_DigestGetOperationState d"

fun mech_VerifySetOperationState :: "verify_mech \<Rightarrow> bytes \<Rightarrow> exn + verify_mech" where
  "mech_VerifySetOperationState (Verify_PKCS1 k b) st =
     (if length st \<noteq> 0 then throw_p11 CKR_SAVED_STATE_INVALID else Inr (Verify_PKCS1 k b))"
| "mech_VerifySetOperationState (Verify_Digest k d) st =
     bindE (mech_DigestSetOperationState d st) (\<lambda>d'. Inr (Verify_Digest k d'))"

definition mech_VerifyRecover :: "crypto_env \<Rightarrow> 'd cslot \<Rightarrow> ulong \<Rightarrow> bytes \<Rightarrow> exn + bytes" where
  "mech_VerifyRecover cr sl k sig =
     bindE (VerifyRecoverLength sl k) (\<lambda>len.
       if length sig \<noteq> len then throw_p11 CKR_SIGNATURE_LEN_RANGE
       else
         bindE (VerifyRecoverDecryptSignature cr sl k sig) (\<lambda>plain.
         bindE (case RemovePaddingBT1 plain of Inl _ \<Rightarrow> throw_p11 CKR_SIGNATURE_INVALID
                | Inr n \<Rightarrow> Inr n) (\<lambda>dwPadLen.
         bindE (ba_mid plain dwPadLen) (\<lambda>data.
           if length data > ulong_minus_11 len then throw_p11 CKR_DATA_LEN_RANGE
           else Inr data))))"

subsection \<open>What verification accepts\<close>

text \<open>EMSA-PKCS1-v1\_5 (RFC 8017, 9.2): the block a signature over a payload encodes.\<close>

definition emsa_pkcs1 :: "nat \<Rightarrow> bytes \<Rightarrow> bytes" where
  "emsa_pkcs1 k t = [0, 1] @ replicate (k - length t - 3) 0xff @ [0] @ t"

lemma length_hash_of [simp]: "digests_sized cr \<Longrightarrow> length (hash_of cr a d) = DigestLength a"
  by (cases a) (auto simp: digests_sized_def hash_of_def DigestLength_def)

lemma DigestInfo_length:
  "length (DigestInfo a) = (case a of SHA1 \<Rightarrow> 15 | SHA256 \<Rightarrow> 19 | MD5 \<Rightarrow> 18)"
  by (cases a) (simp_all add: DigestInfo_def)

text \<open>The payload that a mechanism signs or verifies.\<close>

definition sign_payload :: "crypto_env \<Rightarrow> sign_mech \<Rightarrow> bytes" where
  "sign_payload cr m =
     (case m of Sign_PKCS1 _ b \<Rightarrow> b
      | Sign_Digest _ d \<Rightarrow> DigestInfo (dalg d) @ hash_of cr (dalg d) (ddata d))"

definition verify_payload :: "crypto_env \<Rightarrow> verify_mech \<Rightarrow> bytes" where
  "verify_payload cr m =
     (case m of Verify_PKCS1 _ b \<Rightarrow> b
      | Verify_Digest _ d \<Rightarrow> DigestInfo (dalg d) @ hash_of cr (dalg d) (ddata d))"

lemma mech_SignFinal_payload:
  assumes "digests_sized cr" and "mech_SignFinal cr u sl m = Inr b"
  shows "b = sign_payload cr m"
  using assms
  by (cases m) (auto simp: mech_final_defs sign_payload_def mech_DigestFinal_at_def ba_copy_def bindE_eq_Inr
      split: if_splits)

lemma PutPaddingBT1_rightcopy:
  assumes "length t + 3 \<le> k"
  shows "bindE (ba_rightcopy (alloc u k) t 0) (\<lambda>e1. PutPaddingBT1 e1 (length t)) = Inr (emsa_pkcs1 k t)"
proof -
  let ?e = "take (k - length t) (alloc u k) @ t"
  have "ba_rightcopy (alloc u k) t 0 = Inr ?e"
    using assms by (simp add: ba_rightcopy_def)
  moreover have "PutPaddingBT1 ?e (length t) = Inr (emsa_pkcs1 k t)"
    using PutPaddingBT1_eq [of t ?e] assms by (simp add: emsa_pkcs1_def)
  ultimately show ?thesis by simp
qed

lemma expected_with_digest:
  fixes u :: "nat \<Rightarrow> byte"
  assumes "digests_sized cr" and "DigestLength (dalg d) + length (DigestInfo (dalg d)) + 3 \<le> k"
  defines "e0 \<equiv> alloc u k" and "dl \<equiv> DigestLength (dalg d)" and "info \<equiv> DigestInfo (dalg d)"
  shows "bindE (ba_right e0 dl) (\<lambda>ba1. bindE (mech_DigestFinal_at cr d ba1) (\<lambda>dg.
      bindE (ba_rightcopy (take (k - dl) e0 @ dg) info dl) (\<lambda>e1.
      bindE (PutPaddingBT1 e1 (dl + length info)) K)))
    = K (emsa_pkcs1 k (info @ hash_of cr (dalg d) (ddata d)))"
proof -
  let ?h = "hash_of cr (dalg d) (ddata d)"
  let ?e = "take (k - (dl + length info)) e0 @ info @ ?h"
  have h: "length ?h = dl" using assms(1) by (simp add: dl_def)
  have le: "dl \<le> k" "dl + length info + 3 \<le> k" using assms(2) by (simp_all add: dl_def info_def)
  have "ba_right e0 dl = Inr (drop (k - dl) e0)" using le by (simp add: e0_def ba_slices)
  moreover have "mech_DigestFinal_at cr d (drop (k - dl) e0) = Inr ?h"
    using le h by (simp add: mech_DigestFinal_at_def ba_copy_def e0_def)
  moreover have "ba_rightcopy (take (k - dl) e0 @ ?h) info dl = Inr ?e"
  proof -
    have "min (k - (dl + length info)) (k - dl) = k - (dl + length info)" by simp
    moreover have "length (take (k - dl) e0 @ ?h) = k" using le h by (simp add: e0_def)
    moreover have "k - dl - length info = k - (dl + length info)" by simp
    ultimately show ?thesis
      using le h by (simp add: ba_rightcopy_def e0_def add.commute)
  qed
  moreover have "PutPaddingBT1 ?e (dl + length info) = Inr (emsa_pkcs1 k (info @ ?h))"
    using PutPaddingBT1_eq [of "info @ ?h" ?e] le h
    by (simp add: emsa_pkcs1_def e0_def add.commute)
  ultimately show ?thesis by simp
qed

text \<open>
  A verification that reaches the comparison accepts exactly the signatures whose RSA
  value is the EMSA-PKCS1-v1\_5 block of the payload; every other signature is
  \<open>CKR_SIGNATURE_INVALID\<close>.
\<close>

lemma mech_VerifyFinal_iff:
  assumes "digests_sized cr" and "VerifyLength sl (vKey m) = Inr k" and "k < 2 ^ 64" and "62 \<le> k"
    and "length sig = k" and "VerifyDecryptSignature cr sl (vKey m) sig = Inr plain"
    and "length (verify_payload cr m) + 11 \<le> k"
  shows "mech_VerifyFinal cr u sl m sig =
    (if plain = emsa_pkcs1 k (verify_payload cr m) then Inr () else throw_p11 CKR_SIGNATURE_INVALID)"
proof (cases m)
  case (Verify_PKCS1 h b)
  let ?K = "\<lambda>expected. if plain = expected then Inr () else throw_p11 CKR_SIGNATURE_INVALID"
  have len: "\<not> length b > ulong_minus_11 k"
    using assms(3,4,7) Verify_PKCS1 by (simp add: ulong_minus_11_eq verify_payload_def)
  have "bindE (ba_rightcopy (alloc u k) b 0) (\<lambda>e1. bindE (PutPaddingBT1 e1 (length b)) ?K)
      = bindE (bindE (ba_rightcopy (alloc u k) b 0) (\<lambda>e1. PutPaddingBT1 e1 (length b))) ?K"
    by (simp add: bindE_def split: sum.split)
  also have "\<dots> = ?K (emsa_pkcs1 k b)"
    using assms(7) Verify_PKCS1 by (simp add: PutPaddingBT1_rightcopy verify_payload_def)
  finally show ?thesis
    using assms len Verify_PKCS1 by (simp add: mech_final_defs verify_payload_def)
next
  case (Verify_Digest h d)
  have "DigestLength (dalg d) + length (DigestInfo (dalg d)) + 3 \<le> k"
    using assms(1,7) Verify_Digest by (simp add: verify_payload_def)
  note eq = expected_with_digest [OF assms(1) this, where u = u
      and K = "\<lambda>expected. if plain = expected then Inr () else throw_p11 CKR_SIGNATURE_INVALID"]
  have "mech_VerifyFinal cr u sl (Verify_Digest h d) sig =
    (if plain = emsa_pkcs1 k (verify_payload cr (Verify_Digest h d)) then Inr ()
     else throw_p11 CKR_SIGNATURE_INVALID)"
    using assms(2,5,6) Verify_Digest by (simp add: mech_final_defs verify_payload_def Let_def eq split del: if_split)
  then show ?thesis using Verify_Digest by simp
qed

end
