(* ===== verification/Tlv.thy ===== *)
theory Tlv
  imports Std_Map Byte_Array
begin

section \<open>Tag-length-value containers (shared/src/util/tlv.cpp)\<close>

text \<open>
  \<open>CTLV\<close> parses a buffer into a map from tags to entries, \<open>CTLVCreate\<close> serialises a map.
  An entry has a one-octet length, or the octet 255 and a 32-bit little-endian length.
  Lengths and offsets are kept at the widths the code computes them with: the sum of the
  sizes in \<open>getBuffer\<close> and \<open>dwLen + 2\<close> in the parser are \<open>uint32_t\<close>.
\<close>

type_synonym tlv_map = "(byte, bytes) std_map"

abbreviation tlv_error :: "string \<Rightarrow> exn" where
  "tlv_error msg \<equiv> Logged_Error (''CTLV: '' @ msg)"

subsection \<open>The parser\<close>

function (sequential) ctlv_loop :: "bytes \<Rightarrow> nat \<Rightarrow> tlv_map \<Rightarrow> exn + tlv_map" where
  "ctlv_loop data dwPtr m =
     (if dwPtr < length data then
        let remaining = length data - dwPtr in
        if remaining < 2 then Inl (tlv_error ''truncated TLV header'')
        else let btLen = data ! (dwPtr + 1) in
          if btLen < 255 then
            if remaining < unat btLen + 2 then Inl (tlv_error ''truncated short-form value'')
            else bindE (ba_mid_n data dwPtr (unat btLen + 2)) (\<lambda>e.
              ctlv_loop data (dwPtr + (unat btLen + 2)) (map_put m (data ! dwPtr) e))
          else
            if remaining < 6 then Inl (tlv_error ''truncated long-form length'')
            else let dwLen = le_value (take 4 (drop (dwPtr + 2) data)) in
              if remaining - 6 < dwLen then Inl (tlv_error ''truncated long-form value'')
              else bindE (ba_mid_n data dwPtr ((dwLen + 2) mod 2 ^ 32 + 4)) (\<lambda>e.
                ctlv_loop data (dwPtr + ((dwLen + 2) mod 2 ^ 32 + 4)) (map_put m (data ! dwPtr) e))
      else Inr m)"
  by pat_completeness auto
termination
  by (relation "measure (\<lambda>(data, dwPtr, m). length data - dwPtr)") auto

declare ctlv_loop.simps [simp del]

definition CTLV :: "bytes \<Rightarrow> exn + tlv_map" where
  "CTLV data = ctlv_loop data 0 []"

text \<open>\<open>getTAG\<close> returns the entry; \<open>getValue\<close> strips its header, or returns the null array.\<close>

definition tlv_getTAG :: "tlv_map \<Rightarrow> byte \<Rightarrow> bytes option" where
  "tlv_getTAG m tag = map_of m tag"

definition tlv_getValue :: "tlv_map \<Rightarrow> byte \<Rightarrow> exn + bytes option" where
  "tlv_getValue m tag =
     (case map_of m tag of
        Some e \<Rightarrow>
          bindE (ba_at e 1) (\<lambda>b.
            if b < 0xff then bindE (ba_mid e 2) (\<lambda>v. Inr (Some v))
            else bindE (ba_mid e 6) (\<lambda>v. Inr (Some v)))
      | None \<Rightarrow> Inr None)"

subsection \<open>The builder\<close>

definition tlvc_getValue :: "tlv_map \<Rightarrow> byte \<Rightarrow> bytes option" where
  "tlvc_getValue m tag = map_of m tag"

definition tlvc_addValue :: "tlv_map \<Rightarrow> byte \<Rightarrow> tlv_map" where
  "tlvc_addValue m tag = map_put m tag []"

definition tlvc_setValue :: "tlv_map \<Rightarrow> byte \<Rightarrow> bytes \<Rightarrow> tlv_map" where
  "tlvc_setValue m tag v = map_put m tag v"

fun tlvc_size :: "tlv_map \<Rightarrow> nat" where
  "tlvc_size [] = 0"
| "tlvc_size ((t, v) # m) =
     (if length v < 0xff then length v + 2 else length v + 2 + 4) + tlvc_size m"

fun tlvc_write :: "tlv_map \<Rightarrow> nat \<Rightarrow> bytes \<Rightarrow> exn + bytes" where
  "tlvc_write [] dwPtr buf = Inr buf"
| "tlvc_write ((t, v) # m) dwPtr buf =
     bindE (ba_put buf dwPtr t) (\<lambda>buf.
     let p = (dwPtr + 1) mod 2 ^ 32 in
     if length v < 0xff then
       bindE (ba_put buf p (of_nat (length v))) (\<lambda>buf.
       bindE (ba_copy buf v ((p + 1) mod 2 ^ 32)) (\<lambda>buf.
       tlvc_write m ((p + 1 + length v) mod 2 ^ 32) buf))
     else
       bindE (ba_put buf p 0xff) (\<lambda>buf.
       bindE (ba_copy buf (le_bytes 4 (length v)) ((p + 1) mod 2 ^ 32)) (\<lambda>buf.
       bindE (ba_copy buf v ((p + 5) mod 2 ^ 32)) (\<lambda>buf.
       tlvc_write m ((p + 5 + length v) mod 2 ^ 32) buf))))"

definition tlvc_getBuffer :: "(nat \<Rightarrow> byte) \<Rightarrow> tlv_map \<Rightarrow> exn + bytes" where
  "tlvc_getBuffer u m = tlvc_write m 0 (alloc u (tlvc_size m mod 2 ^ 32))"

subsection \<open>What the builder writes\<close>

definition tlv_entry :: "byte \<Rightarrow> bytes \<Rightarrow> bytes" where
  "tlv_entry t v =
     (if length v < 0xff then [t, of_nat (length v)] @ v
      else [t, 0xff] @ le_bytes 4 (length v) @ v)"

fun tlv_bytes :: "tlv_map \<Rightarrow> bytes" where
  "tlv_bytes [] = []"
| "tlv_bytes ((t, v) # m) = tlv_entry t v @ tlv_bytes m"

lemma length_tlv_entry:
  "length (tlv_entry t v) = (if length v < 0xff then length v + 2 else length v + 6)"
  by (simp add: tlv_entry_def)

lemma length_tlv_bytes: "length (tlv_bytes m) = tlvc_size m"
  by (induction m rule: tlv_bytes.induct) (auto simp: length_tlv_entry)

lemma ba_put_mid: "ba_put (pre @ x # post) (length pre) b = Inr (pre @ b # post)"
  by (simp add: ba_put_def)

lemma ba_copy_mid:
  "length src \<le> length post \<Longrightarrow>
     ba_copy (pre @ post) src (length pre) = Inr (pre @ src @ drop (length src) post)"
  by (simp add: ba_copy_def)

text \<open>
  The write loop at offset \<open>length pre\<close> of a buffer with exactly the room the remaining
  entries need replaces that room by their serialisation.
\<close>

lemma tlvc_write_eq:
  "length pre + tlvc_size m < 2 ^ 32 \<Longrightarrow> length room = tlvc_size m \<Longrightarrow>
     tlvc_write m (length pre) (pre @ room) = Inr (pre @ tlv_bytes m)"
proof (induction m arbitrary: pre room)
  case Nil
  then show ?case by simp
next
  case (Cons e m)
  obtain t v where e: "e = (t, v)" by (cases e)
  obtain x y room' where room: "room = x # y # room'"
    using Cons.prems(2) e by (cases room; cases "tl room") (auto split: if_splits)
  show ?case
  proof (cases "length v < 0xff")
    case True
    let ?pre = "pre @ tlv_entry t v"
    have IH: "tlvc_write m (length ?pre) (?pre @ drop (length v) room') = Inr (?pre @ tlv_bytes m)"
      using Cons.prems True by (intro Cons.IH) (auto simp: e room length_tlv_entry)
    have p1: "ba_put (pre @ x # y # room') (length pre) t = Inr (pre @ t # y # room')"
      by (rule ba_put_mid)
    have p2: "ba_put (pre @ t # y # room') (length pre + 1) b = Inr ((pre @ [t, b]) @ room')" for b
      using ba_put_mid [of "pre @ [t]" y room' b] by simp
    have c: "ba_copy ((pre @ [t, b]) @ room') v (length pre + 1 + 1)
        = Inr ((pre @ [t, b]) @ v @ drop (length v) room')" for b
      using ba_copy_mid [of v room' "pre @ [t, b]"] Cons.prems True by (simp add: e room)
    from Cons.prems True have "length pre + 1 + 1 + length v < 2 ^ 32" by (simp add: e)
    with IH True show ?thesis
      by (simp add: e room p1 p2 [simplified] c [simplified] tlv_entry_def Let_def)
  next
    case False
    let ?pre = "pre @ tlv_entry t v"
    have IH: "tlvc_write m (length ?pre) (?pre @ drop (4 + length v) room') = Inr (?pre @ tlv_bytes m)"
      using Cons.prems False by (intro Cons.IH) (auto simp: e room length_tlv_entry)
    have p1: "ba_put (pre @ x # y # room') (length pre) t = Inr (pre @ t # y # room')"
      by (rule ba_put_mid)
    have p2: "ba_put (pre @ t # y # room') (length pre + 1) 0xff = Inr ((pre @ [t, 0xff]) @ room')"
      using ba_put_mid [of "pre @ [t]" y room'] by simp
    have c1: "ba_copy ((pre @ [t, 0xff]) @ room') (le_bytes 4 (length v)) (length pre + 1 + 1)
        = Inr ((pre @ [t, 0xff] @ le_bytes 4 (length v)) @ drop 4 room')"
      using ba_copy_mid [of "le_bytes 4 (length v)" room' "pre @ [t, 0xff]"] Cons.prems False
      by (simp add: e room)
    have c2: "ba_copy ((pre @ [t, 0xff] @ le_bytes 4 (length v)) @ drop 4 room') v (length pre + 6)
        = Inr ((pre @ [t, 0xff] @ le_bytes 4 (length v)) @ v @ drop (length v + 4) room')"
      using ba_copy_mid [of v "drop 4 room'" "pre @ [t, 0xff] @ le_bytes 4 (length v)"] Cons.prems False
      by (simp add: e room add.commute)
    from Cons.prems False have "length pre + 1 + 5 + length v < 2 ^ 32" by (simp add: e)
    with IH False show ?thesis
      by (simp add: e room p1 p2 [simplified] c1 [simplified] c2 [simplified append_assoc append_Cons append_Nil] tlv_entry_def Let_def ac_simps)
  qed
qed

lemma tlvc_getBuffer_eq: "tlvc_size m < 2 ^ 32 \<Longrightarrow> tlvc_getBuffer u m = Inr (tlv_bytes m)"
  using tlvc_write_eq [of "[]" m "alloc u (tlvc_size m)"] by (simp add: tlvc_getBuffer_def)

subsection \<open>Reading a serialised map back\<close>

lemma ctlv_loop_end: "ctlv_loop data (length data) m = Inr m"
  by (subst ctlv_loop.simps) simp

lemma ctlv_loop_entry:
  assumes "length (tlv_entry t v) + length post < 2 ^ 32"
  shows "ctlv_loop (pre @ tlv_entry t v @ post) (length pre) m =
    ctlv_loop (pre @ tlv_entry t v @ post) (length pre + length (tlv_entry t v))
      (map_put m t (tlv_entry t v))"
proof (cases "length v < 0xff")
  case True
  then have "unat (of_nat (length v) :: byte) = length v" "(of_nat (length v) :: byte) < 255"
    by (simp_all add: unat_of_nat word_less_nat_alt)
  with True show ?thesis
    by (subst ctlv_loop.simps) (simp add: tlv_entry_def nth_append ba_mid_n_def Let_def)
next
  case False
  have "le_value (le_bytes 4 (length v)) = length v"
    using assms False by (simp add: le_value_le_bytes length_tlv_entry)
  with assms False show ?thesis
    by (subst ctlv_loop.simps) (simp add: tlv_entry_def nth_append ba_mid_n_def Let_def take_Cons')
qed

lemma ctlv_loop_bytes:
  "tlvc_size es < 2 ^ 32 \<Longrightarrow>
     ctlv_loop (pre @ tlv_bytes es) (length pre) m =
       Inr (foldl (\<lambda>m e. map_put m (fst e) (snd e)) m (map (\<lambda>(t, v). (t, tlv_entry t v)) es))"
proof (induction es arbitrary: pre m)
  case Nil
  then show ?case using ctlv_loop_end [of pre] by simp
next
  case (Cons e es)
  obtain t v where e: "e = (t, v)" by (cases e)
  from Cons.prems have sz: "length (tlv_entry t v) + length (tlv_bytes es) < 2 ^ 32"
    by (auto simp: e length_tlv_entry length_tlv_bytes split: if_splits)
  have "tlvc_size es < 2 ^ 32" using Cons.prems by (simp add: e)
  from Cons.IH [OF this, of "pre @ tlv_entry t v"] ctlv_loop_entry [OF sz]
  show ?case by (simp add: e)
qed

lemma tlv_getValue_entry:
  assumes "map_of m t = Some (tlv_entry t v)"
  shows "tlv_getValue m t = Inr (Some v)"
proof (cases "length v < 0xff")
  case True
  then have "(of_nat (length v) :: byte) < 255"
    by (simp add: word_less_nat_alt unat_of_nat)
  with True assms show ?thesis
    by (simp add: tlv_getValue_def tlv_entry_def ba_at_def ba_mid_def)
next
  case False
  with assms show ?thesis
    by (simp add: tlv_getValue_def tlv_entry_def ba_at_def ba_mid_def)
qed

lemma ctlv_roundtrip:
  assumes "map_ok m" and "tlvc_size m < 2 ^ 32"
  shows "\<exists>m'. bindE (tlvc_getBuffer u m) CTLV = Inr m' \<and> (\<forall>t. tlv_getValue m' t = Inr (map_of m t))"
proof -
  let ?es = "map (\<lambda>(t, v). (t, tlv_entry t v)) m"
  let ?m' = "foldl (\<lambda>m e. map_put m (fst e) (snd e)) [] ?es"
  have parse: "bindE (tlvc_getBuffer u m) CTLV = Inr ?m'"
    using ctlv_loop_bytes [of m "[]" "[]"] assms(2)
    by (simp add: tlvc_getBuffer_eq CTLV_def)
  have "map fst ?es = map fst m" by (induction m) auto
  then have "distinct (map fst ?es)" using map_ok_distinct [OF assms(1)] by (simp only:)
  then have "map_of (rev ?es) = map_of ?es"
    by (rule map_of_rev_distinct)
  then have "map_of ?m' = map_of ?es"
    using std_map.lookup_build [of "[]" ?es] by simp
  moreover have "map_of ?es t = map_option (tlv_entry t) (map_of m t)" for t
    by (induction m) auto
  ultimately have look: "map_of ?m' t = map_option (tlv_entry t) (map_of m t)" for t
    by simp
  have "tlv_getValue ?m' t = Inr (map_of m t)" for t
  proof (cases "map_of m t")
    case None
    then show ?thesis by (simp add: tlv_getValue_def look)
  next
    case (Some v)
    then show ?thesis by (simp add: tlv_getValue_entry look)
  qed
  with parse show ?thesis by blast
qed

subsection \<open>The parser on arbitrary input\<close>

text \<open>
  Whatever the input, the parser stops and either reports one of its four truncation errors
  or delivers entries that are contiguous pieces of the input; the bounds check inside
  \<open>mid\<close> never fires.
\<close>

definition tlv_truncations :: "exn set" where
  "tlv_truncations =
     {tlv_error ''truncated TLV header'', tlv_error ''truncated short-form value'',
      tlv_error ''truncated long-form length'', tlv_error ''truncated long-form value''}"

lemma ctlv_loop_safe:
  "dwPtr \<le> length data \<Longrightarrow>
   (\<forall>t e. map_of m t = Some e \<longrightarrow> (\<exists>i n. i + n \<le> length data \<and> e = take n (drop i data))) \<Longrightarrow>
   (case ctlv_loop data dwPtr m of
      Inl err \<Rightarrow> err \<in> tlv_truncations
    | Inr m' \<Rightarrow> \<forall>t e. map_of m' t = Some e \<longrightarrow> (\<exists>i n. i + n \<le> length data \<and> e = take n (drop i data)))"
proof (induction data dwPtr m rule: ctlv_loop.induct)
  case (1 data dwPtr m)
  let ?rem = "length data - dwPtr"
  let ?b = "data ! (dwPtr + 1)"
  let ?l = "le_value (take 4 (drop (dwPtr + 2) data))"
  have put: "\<forall>t e. map_of (map_put m (data ! dwPtr) (take n (drop dwPtr data))) t = Some e \<longrightarrow>
      (\<exists>i n. i + n \<le> length data \<and> e = take n (drop i data))"
    if "dwPtr + n \<le> length data" for n
    using that 1(4) by auto
  consider (fin) "\<not> dwPtr < length data"
    | (err) "dwPtr < length data" "?rem < 2 \<or> (?b < 255 \<and> ?rem < unat ?b + 2) \<or>
        (\<not> ?b < 255 \<and> (?rem < 6 \<or> ?rem - 6 < ?l))"
    | (short) "dwPtr < length data" "\<not> ?rem < 2" "?b < 255" "\<not> ?rem < unat ?b + 2"
    | (long) "dwPtr < length data" "\<not> ?rem < 2" "\<not> ?b < 255" "\<not> ?rem < 6" "\<not> ?rem - 6 < ?l"
    by blast
  then show ?case
  proof cases
    case fin
    with 1(4) show ?thesis by (subst ctlv_loop.simps) simp
  next
    case err
    then show ?thesis
      by (subst ctlv_loop.simps) (auto simp: Let_def tlv_truncations_def)
  next
    case short
    then have n: "dwPtr + (unat ?b + 2) \<le> length data" by simp
    then have s: "ba_mid_n data dwPtr (unat ?b + 2) = Inr (take (unat ?b + 2) (drop dwPtr data))"
      by (simp add: ba_mid_n_def)
    from 1(1) [OF short(1) refl short(2) refl short(3,4) s n put [OF n]] short s show ?thesis
      by (subst ctlv_loop.simps) (simp add: Let_def)
  next
    case long
    let ?n = "(?l + 2) mod 2 ^ 32 + 4"
    have "(?l + 2) mod 2 ^ 32 \<le> ?l + 2" by simp
    then have n: "dwPtr + ?n \<le> length data" using long by linarith
    then have s: "ba_mid_n data dwPtr ?n = Inr (take ?n (drop dwPtr data))"
      by (simp add: ba_mid_n_def)
    from 1(2) [OF long(1) refl long(2) refl long(3,4) refl long(5) s n put [OF n]] long s show ?thesis
      by (subst ctlv_loop.simps) (simp add: Let_def)
  qed
qed

subsection \<open>Properties\<close>

text \<open>
  C30: the parser reads back, for every tag, the value the builder was given, and nothing for the
  other tags: the contract of the operation-state blobs of the sessions.
\<close>

theorem tlv_roundtrip:
  assumes "map_ok m" and "tlvc_size m < 2 ^ 32"
  shows "\<exists>m'. bindE (tlvc_getBuffer u m) CTLV = Inr m' \<and> (\<forall>t. tlv_getValue m' t = Inr (map_of m t))"
  using assms by (rule ctlv_roundtrip)

theorem tlv_roundtrip_witness:
  "\<exists>m'. bindE (tlvc_getBuffer (\<lambda>_. 0) [(1, [5, 6]), (8, replicate 300 0xAA)]) CTLV = Inr m' \<and>
     (\<forall>t. tlv_getValue m' t = Inr (map_of [(1, [5, 6]), (8, replicate 300 0xAA)] t))"
  by (rule tlv_roundtrip) (simp_all add: map_ok_def)

text \<open>
  C31: on every input the parser ends, and either reports one of its four truncation errors or
  delivers entries that are contiguous pieces of the input: the bounds checks in front of
  \<open>mid\<close> are complete.
\<close>

theorem tlv_parse_safe:
  "case CTLV data of
     Inl err \<Rightarrow> err \<in> tlv_truncations
   | Inr m \<Rightarrow> ran (map_of m) \<subseteq> {take n (drop i data) | i n. i + n \<le> length data}"
  using ctlv_loop_safe [of 0 data "[]"] by (fastforce simp: CTLV_def ran_def split: sum.splits)

end
