(* ===== verification/P11_State.thy ===== *)
theory P11_State
  imports Mechanism Tlv
begin

section \<open>Sessions, card templates and the state of the module\<close>

text \<open>
  The records the operations of \<open>session.cpp\<close>, \<open>slot.cpp\<close> and \<open>pkcs11_functions.cpp\<close>
  work on.

  A card template (\<open>pkcs11/src/pkcs11/card_template.h\<close>) is a table of functions that the
  slot calls through \<open>pTemplate->FunctionList\<close>; it works on the slot and on the outside
  world (readers, cards, cache), which is a type parameter.  The module builds one template
  only, so the table is a parameter of the operations and \<open>pTemplate\<close> is the address of the
  template object, which decides null tests and pointer comparisons.
\<close>

type_synonym ('d, 'w, 'a) card_op = "'d cslot \<times> 'w \<Rightarrow> (exn + 'a) \<times> 'd cslot \<times> 'w"

record ('d, 'w) template_functions =
  templateInitCard :: "('d, 'w, unit) card_op"
  templateFinalCard :: "('d, 'w, unit) card_op"
  templateInitSession :: "('d, 'w, unit) card_op"
  templateFinalSession :: "('d, 'w, unit) card_op"
  templateMatchCard :: "('d, 'w, bool) card_op"
  templateGetSerial :: "('d, 'w, bytes) card_op"
  templateGetModel :: "('d, 'w, string) card_op"
  templateGetTokenFlags :: "('d, 'w, ulong) card_op"
  templateLogin :: "ulong \<Rightarrow> bytes \<Rightarrow> ('d, 'w, unit) card_op"
  templateLogout :: "ulong \<Rightarrow> ('d, 'w, unit) card_op"
  templateSign :: "obj_ptr \<Rightarrow> bytes \<Rightarrow> ulong \<Rightarrow> ('d, 'w, bytes) card_op"
  templateSignRecover :: "obj_ptr \<Rightarrow> bytes \<Rightarrow> ulong \<Rightarrow> ('d, 'w, bytes) card_op"
  templateGenerateRandom :: "nat \<Rightarrow> ('d, 'w, bytes) card_op"
  templateInitPIN :: "bytes \<Rightarrow> ('d, 'w, unit) card_op"
  templateSetPIN :: "bytes \<Rightarrow> bytes \<Rightarrow> ulong \<Rightarrow> ('d, 'w, unit) card_op"
  templateGetObjectSize :: "obj_ptr \<Rightarrow> ('d, 'w, ulong) card_op"
  templateSetAttribute :: "obj_ptr \<Rightarrow> ck_attribute list \<Rightarrow> ('d, 'w, unit) card_op"
  templateCreateObject :: "ck_attribute list \<Rightarrow> ('d, 'w, obj_ptr option) card_op"
  templateDestroyObject :: "obj_ptr \<Rightarrow> ('d, 'w, unit) card_op"

text \<open>
  The transport (\<open>ISmartCardTransport\<close>): each call returns the PC/SC status, its outputs and
  the new world.  \<open>GetStatusChange\<close> with a zero timeout on one reader gives the event state.
  \<open>Reconnect\<close> takes the initialisation of the card (leave, reset, unpower) and \<open>TransportTransmit\<close>
  gives the octets the card answered.
\<close>

record 'w transport_functions =
  EstablishContext :: "'w \<Rightarrow> int \<times> ulong \<times> 'w"
  ReleaseContext :: "ulong \<Rightarrow> 'w \<Rightarrow> int \<times> 'w"
  IsValidContext :: "ulong \<Rightarrow> 'w \<Rightarrow> int \<times> 'w"
  ListReaders :: "ulong \<Rightarrow> 'w \<Rightarrow> int \<times> string list \<times> 'w"
  GetStatusChange :: "ulong \<Rightarrow> string \<Rightarrow> 'w \<Rightarrow> int \<times> ulong \<times> 'w"
  TransportConnect :: "ulong \<Rightarrow> string \<Rightarrow> 'w \<Rightarrow> int \<times> ulong \<times> 'w"
  Disconnect :: "ulong \<Rightarrow> 'w \<Rightarrow> int \<times> 'w"
  BeginTransaction :: "ulong \<Rightarrow> 'w \<Rightarrow> int \<times> 'w"
  EndTransaction :: "ulong \<Rightarrow> 'w \<Rightarrow> int \<times> 'w"
  GetAttrib :: "ulong \<Rightarrow> 'w \<Rightarrow> int \<times> bytes \<times> 'w"
  Reconnect :: "ulong \<Rightarrow> ulong \<Rightarrow> 'w \<Rightarrow> int \<times> 'w"
  TransportTransmit :: "ulong \<Rightarrow> bytes \<Rightarrow> 'w \<Rightarrow> int \<times> bytes \<times> 'w"

text \<open>
  What the operations take besides the state: the template's table, the transport, the hash
  and RSA functions and the content of memory that the code allocates without initialising it.
\<close>

record ('d, 'w) env =
  tmpl :: "('d, 'w) template_functions"
  transport :: "'w transport_functions"
  crypto :: crypto_env
  uninit :: "nat \<Rightarrow> byte"

subsection \<open>Sessions\<close>

text \<open>
  \<open>CSession\<close> (\<open>session.h\<close>).  \<open>pSlot\<close> is the address of the slot; a mechanism pointer is
  \<open>None\<close> when null.  The two recover mechanisms are always \<open>CRSA_PKCS1\<close> objects, of which
  only the key handle is kept.  \<open>pApplication\<close> and \<open>notify\<close> are stored by the code and never
  read.
\<close>

record csession =
  hSessionHandle :: ulong
  slotID :: ulong
  flags :: ulong
  pSlot :: nat
  bFindInit :: bool
  findResult :: "ulong list"
  pDigestMechanism :: "digest_mech option"
  pVerifyMechanism :: "verify_mech option"
  pVerifyRecoverMechanism :: "ulong option"
  pSignMechanism :: "sign_mech option"
  pSignRecoverMechanism :: "ulong option"

definition new_CSession :: "nat \<Rightarrow> ulong \<Rightarrow> csession" where
  "new_CSession p fl =
     \<lparr>hSessionHandle = 0, slotID = 0, flags = fl, pSlot = p, bFindInit = False, findResult = [],
      pDigestMechanism = None, pVerifyMechanism = None, pVerifyRecoverMechanism = None,
      pSignMechanism = None, pSignRecoverMechanism = None\<rparr>"

text \<open>What an operation of a session reads and writes: the session, its slot and the world.\<close>

record ('d, 'w) sctx =
  sess :: csession
  slot :: "'d cslot"
  wrld :: 'w

definition upd_sess :: "(csession \<Rightarrow> csession) \<Rightarrow> ('d, 'w) sctx \<Rightarrow> ('d, 'w) sctx" where
  "upd_sess f c = c\<lparr>sess := f (sess c)\<rparr>"

text \<open>A call through \<open>pSlot->pTemplate->FunctionList\<close>: undefined when \<open>pTemplate\<close> is null.\<close>

definition call_template ::
  "('d, 'w, 'a) card_op \<Rightarrow> ('d, 'w) sctx \<Rightarrow> (exn + 'a) \<times> ('d, 'w) sctx" where
  "call_template f c =
     (if pTemplate (slot c) = None then (Inl UB, c)
      else (case f (slot c, wrld c) of (r, sl, w) \<Rightarrow> (r, c\<lparr>slot := sl, wrld := w\<rparr>)))"

subsection \<open>The module\<close>

text \<open>
  The static members of \<open>CSlot\<close>, \<open>CSession\<close> and \<open>CCardTemplate\<close> and the globals of
  \<open>pkcs11_functions.cpp\<close>.  \<open>slots\<close> is the memory the \<open>CSlot\<close> objects live in.
  \<open>g_transport\<close> says whether the pointer is set, \<open>Thread\<close> whether the monitor thread is
  joinable.
\<close>

record ('d, 'w) p11_state =
  bP11Initialized :: bool
  bP11Terminate :: bool
  g_transport :: bool
  g_mCardTemplates :: "nat list"
  templateNext :: nat
  dwSlotCnt :: ulong
  g_mSlots :: "(ulong, nat) std_map"
  slots :: "nat \<Rightarrow> 'd cslot"
  slotNext :: nat
  dwSessionCnt :: ulong
  g_mSessions :: "(ulong, csession) std_map"
  bMonitorUpdate :: bool
  Thread :: bool
  world :: 'w

definition initial_state :: "'w \<Rightarrow> ('d, 'w) p11_state" where
  "initial_state w =
     \<lparr>bP11Initialized = False, bP11Terminate = False, g_transport = False, g_mCardTemplates = [],
      templateNext = 0, dwSlotCnt = 0, g_mSlots = [], slots = (\<lambda>_. new_CSlot 0 []), slotNext = 0,
      dwSessionCnt = 0, g_mSessions = [], bMonitorUpdate = False, Thread = False, world = w\<rparr>"

text \<open>Running an operation on a slot, and on a session with its slot.\<close>

definition on_slot ::
  "nat \<Rightarrow> ('d cslot \<times> 'w \<Rightarrow> (exn + 'a) \<times> 'd cslot \<times> 'w) \<Rightarrow> ('d, 'w) p11_state
     \<Rightarrow> (exn + 'a) \<times> ('d, 'w) p11_state" where
  "on_slot p f s =
     (case f (slots s p, world s) of (r, sl, w) \<Rightarrow> (r, s\<lparr>slots := (slots s)(p := sl), world := w\<rparr>))"

definition on_session ::
  "ulong \<Rightarrow> csession \<Rightarrow> (('d, 'w) sctx \<Rightarrow> (exn + 'a) \<times> ('d, 'w) sctx) \<Rightarrow> ('d, 'w) p11_state
     \<Rightarrow> (exn + 'a) \<times> ('d, 'w) p11_state" where
  "on_session h se f s =
     (case f \<lparr>sess = se, slot = slots s (pSlot se), wrld = world s\<rparr> of (r, c) \<Rightarrow>
        (r, s\<lparr>g_mSessions := map_put (g_mSessions s) h (sess c),
              slots := (slots s)(pSlot se := slot c), world := wrld c\<rparr>))"

end
