(* ===== verification/Session.thy ===== *)
theory Session
  imports P11_State
begin

section \<open>Session operations (pkcs11/src/pkcs11/session.cpp)\<close>

text \<open>
  One definition per member function of \<open>CSession\<close>, on the session, its slot and the world.
  A returned exception comes with the state the objects are left in, so an operation that
  is terminated, kept or lost by a failing call is visible in the result.  An output
  argument is a \<open>byte_view\<close>: the caller's memory, or null for a length query, and its size.
  Attribute templates have fewer than \<open>2\<^sup>3\<^sup>2\<close> entries (the loops count in \<open>unsigned int\<close>).
\<close>

definition GetSessionFromID :: "('d, 'w) p11_state \<Rightarrow> ulong \<Rightarrow> csession option" where
  "GetSessionFromID s h = map_of (g_mSessions s) h"

definition is_RW :: "csession \<Rightarrow> bool" where
  "is_RW se \<longleftrightarrow> flags se AND CKF_RW_SESSION \<noteq> 0"

definition ExistsRO :: "(ulong, csession) std_map \<Rightarrow> nat \<Rightarrow> bool" where
  "ExistsRO sessions p \<longleftrightarrow> list_ex (\<lambda>(h, se). pSlot se = p \<and> \<not> is_RW se) sessions"

definition ExistsSO_RW :: "(ulong, csession) std_map \<Rightarrow> nat \<Rightarrow> 'd cslot \<Rightarrow> bool" where
  "ExistsSO_RW sessions p sl \<longleftrightarrow>
     User sl = CKU_SO \<and> list_ex (\<lambda>(h, se). pSlot se = p \<and> is_RW se) sessions"

subsection \<open>Login and logout\<close>

definition set_user :: "ulong \<Rightarrow> ('d, 'w) sctx \<Rightarrow> ('d, 'w) sctx" where
  "set_user u c = c\<lparr>slot := (slot c)\<lparr>User := u\<rparr>\<rparr>"

definition Login :: "('d, 'w) env \<Rightarrow> (ulong, csession) std_map \<Rightarrow> ulong \<Rightarrow> bytes
    \<Rightarrow> ('d, 'w) sctx \<Rightarrow> (exn + unit) \<times> ('d, 'w) sctx" where
  "Login env sessions userType pin c =
     (if User (slot c) = CKU_USER \<and> userType = CKU_SO then
        (throw_p11 CKR_USER_ANOTHER_ALREADY_LOGGED_IN, c)
      else if User (slot c) = CKU_SO \<and> userType = CKU_USER then
        (throw_p11 CKR_USER_ANOTHER_ALREADY_LOGGED_IN, c)
      else if userType = CKU_SO \<and> ExistsRO sessions (pSlot (sess c)) then
        (throw_p11 CKR_SESSION_READ_ONLY_EXISTS, c)
      else if User (slot c) \<noteq> CKU_NOBODY then (throw_p11 CKR_USER_ALREADY_LOGGED_IN, c)
      else
        bindS (call_template (templateLogin (tmpl env) userType pin) c) (\<lambda>_ c.
          (Inr (), set_user userType c)))"

text \<open>The loop of \<open>Logout\<close>: the handles of the private objects are deleted.\<close>

fun revoke_private :: "obj_ptr list \<Rightarrow> 'd cslot \<Rightarrow> (exn + unit) \<times> 'd cslot" where
  "revoke_private [] sl = (Inr (), sl)"
| "revoke_private (p # ps) sl =
     (case slot_private sl p of
        Inl e \<Rightarrow> (Inl e, sl)
      | Inr priv \<Rightarrow> revoke_private ps (if priv then DelObjectHandle sl p else sl))"

definition Logout :: "('d, 'w) env \<Rightarrow> ('d, 'w) sctx \<Rightarrow> (exn + unit) \<times> ('d, 'w) sctx" where
  "Logout env c =
     bindS (call_template (templateLogout (tmpl env) (User (slot c))) c) (\<lambda>_ c.
       case revoke_private (P11Objects (slot c)) (slot c) of
         (Inl e, sl) \<Rightarrow> (Inl e, c\<lparr>slot := sl\<rparr>)
       | (Inr _, sl) \<Rightarrow> (Inr (), set_user CKU_NOBODY (c\<lparr>slot := sl\<rparr>)))"

subsection \<open>Opening and closing\<close>

definition GetNewSessionID :: "('d, 'w) p11_state \<Rightarrow> ulong \<times> ('d, 'w) p11_state" where
  "GetNewSessionID s = (dwSessionCnt s + 1, s\<lparr>dwSessionCnt := dwSessionCnt s + 1\<rparr>)"

text \<open>
  \<open>AddSession\<close>: the session is registered after \<open>templateInitSession\<close> has succeeded.
\<close>

definition AddSession :: "('d, 'w) env \<Rightarrow> csession \<Rightarrow> ('d, 'w) p11_state
    \<Rightarrow> (exn + ulong) \<times> ('d, 'w) p11_state" where
  "AddSession env se s =
     (case GetNewSessionID s of (h, s) \<Rightarrow>
        let p = pSlot se in
        if pTemplate (slots s p) = None then (Inl UB, s)
        else
          bindS (on_slot p (templateInitSession (tmpl env)) s) (\<lambda>_ s.
            (Inr h, s\<lparr>slots := (slots s)(p := (slots s p)\<lparr>dwSessionCount := dwSessionCount (slots s p) + 1\<rparr>),
                     g_mSessions := map_insert (g_mSessions s) h (se\<lparr>hSessionHandle := h\<rparr>)\<rparr>)))"

definition DeleteSession :: "('d, 'w) env \<Rightarrow> ulong \<Rightarrow> ('d, 'w) p11_state
    \<Rightarrow> (exn + unit) \<times> ('d, 'w) p11_state" where
  "DeleteSession env h s =
     (case GetSessionFromID s h of
        None \<Rightarrow> (Inl (Logged_Error ''Session not opened''), s)
      | Some se \<Rightarrow>
          let p = pSlot se;
              s = s\<lparr>slots := (slots s)(p := (slots s p)\<lparr>dwSessionCount := dwSessionCount (slots s p) - 1\<rparr>)\<rparr>
          in
          bindS (if dwSessionCount (slots s p) = 0 \<and> User (slots s p) \<noteq> CKU_NOBODY
                 then on_session h se (Logout env) s else (Inr (), s)) (\<lambda>_ s.
          if pTemplate (slots s p) = None then (Inl UB, s)
          else
            bindS (on_slot p (templateFinalSession (tmpl env)) s) (\<lambda>_ s.
              (Inr (), s\<lparr>g_mSessions := map_erase (g_mSessions s) h\<rparr>))))"

subsection \<open>Object search\<close>

text \<open>The value of a template entry, as a \<open>ByteArray\<close> over the caller's memory.\<close>

definition attr_value :: "ck_attribute \<Rightarrow> exn + bytes" where
  "attr_value a =
     (case pValue a of
        None \<Rightarrow> if ulValueLen a = 0 then Inr [] else Inl UB
      | Some m \<Rightarrow> if unat (ulValueLen a) \<le> length m then Inr (take (unat (ulValueLen a)) m)
                  else Inl UB)"

text \<open>The inner loop: \<open>False\<close> is \<open>bSkip\<close>.\<close>

fun match_attrs :: "'d cslot \<Rightarrow> obj_ptr \<Rightarrow> ck_attribute list \<Rightarrow> exn + bool" where
  "match_attrs sl p [] = Inr True"
| "match_attrs sl p (a # as) =
     (case slot_attr sl p (atype a) of
        Inl e \<Rightarrow> if e = P11_Error CKR_USER_NOT_LOGGED_IN then Inr False else Inl e
      | Inr None \<Rightarrow> Inr False
      | Inr (Some v) \<Rightarrow>
          if length v \<noteq> unat (ulValueLen a) then Inr False
          else bindE (attr_value a) (\<lambda>w. if v \<noteq> w then Inr False else match_attrs sl p as))"

fun find_loop :: "ck_attribute list \<Rightarrow> obj_ptr list \<Rightarrow> ('d, 'w) sctx \<Rightarrow> (exn + unit) \<times> ('d, 'w) sctx" where
  "find_loop tpl [] c = (Inr (), c)"
| "find_loop tpl (p # ps) c =
     (case (if tpl = [] then Inr True else match_attrs (slot c) p tpl) of
        Inl e \<Rightarrow> (Inl e, c)
      | Inr False \<Rightarrow> find_loop tpl ps c
      | Inr True \<Rightarrow>
          (case GetIDFromObject (slot c) p of
             (Inl e, sl) \<Rightarrow>
               if e = P11_Error CKR_USER_NOT_LOGGED_IN then find_loop tpl ps (c\<lparr>slot := sl\<rparr>)
               else (Inl e, c\<lparr>slot := sl\<rparr>)
           | (Inr h, sl) \<Rightarrow>
               find_loop tpl ps
                 (upd_sess (\<lambda>se. se\<lparr>findResult := findResult se @ [h]\<rparr>) (c\<lparr>slot := sl\<rparr>))))"

definition FindObjectsInit :: "ck_attribute list \<Rightarrow> ('d, 'w) sctx \<Rightarrow> (exn + unit) \<times> ('d, 'w) sctx" where
  "FindObjectsInit tpl c =
     (if bFindInit (sess c) then (throw_p11 CKR_OPERATION_ACTIVE, c)
      else
        bindS (find_loop tpl (P11Objects (slot c)) (upd_sess (\<lambda>se. se\<lparr>findResult := []\<rparr>) c))
          (\<lambda>_ c. (Inr (), upd_sess (\<lambda>se. se\<lparr>bFindInit := True\<rparr>) c)))"

text \<open>The loop of \<open>FindObjects\<close>: the handles written to \<open>phObject\<close>, and what is left.\<close>

primrec find_pop :: "nat \<Rightarrow> ulong list \<Rightarrow> ulong list \<times> ulong list" where
  "find_pop 0 fr = ([], fr)"
| "find_pop (Suc n) fr =
     (if fr = [] then ([], fr)
      else (case find_pop n (butlast fr) of (hs, rest) \<Rightarrow> (last fr # hs, rest)))"

definition FindObjects :: "ulong \<Rightarrow> ('d, 'w) sctx \<Rightarrow> (exn + ulong list) \<times> ('d, 'w) sctx" where
  "FindObjects ulMaxObjectCount c =
     (if \<not> bFindInit (sess c) then (throw_p11 CKR_OPERATION_NOT_INITIALIZED, c)
      else (case find_pop (unat ulMaxObjectCount) (findResult (sess c)) of (hs, rest) \<Rightarrow>
              (Inr hs, upd_sess (\<lambda>se. se\<lparr>findResult := rest\<rparr>) c)))"

definition FindObjectsFinal :: "('d, 'w) sctx \<Rightarrow> (exn + unit) \<times> ('d, 'w) sctx" where
  "FindObjectsFinal c =
     (if \<not> bFindInit (sess c) then (throw_p11 CKR_OPERATION_NOT_INITIALIZED, c)
      else (Inr (), upd_sess (\<lambda>se. se\<lparr>findResult := [], bFindInit := False\<rparr>) c))"

subsection \<open>Objects and their attributes\<close>

definition GetAttributeValue :: "ulong \<Rightarrow> ck_attribute list \<Rightarrow> ('d, 'w) sctx
    \<Rightarrow> (exn + ck_rv) \<times> ck_attribute list" where
  "GetAttributeValue hObject tpl c =
     (case GetObjectFromID (slot c) hObject of
        None \<Rightarrow> (throw_p11 CKR_OBJECT_HANDLE_INVALID, tpl)
      | Some p \<Rightarrow>
          (case slot_private (slot c) p of
             Inl e \<Rightarrow> (Inl e, tpl)
           | Inr priv \<Rightarrow>
               if priv \<and> User (slot c) \<noteq> CKU_USER then (throw_p11 CKR_USER_NOT_LOGGED_IN, tpl)
               else obj_GetAttributeValue (pTemplate (slot c) \<noteq> None) (objs (slot c) p) tpl))"

definition CreateObject :: "('d, 'w) env \<Rightarrow> ck_attribute list \<Rightarrow> ('d, 'w) sctx
    \<Rightarrow> (exn + ulong) \<times> ('d, 'w) sctx" where
  "CreateObject env tpl c =
     (if \<not> is_RW (sess c) then (throw_p11 CKR_SESSION_READ_ONLY, c)
      else if User (slot c) \<noteq> CKU_USER then (throw_p11 CKR_USER_NOT_LOGGED_IN, c)
      else
        bindS (call_template (templateCreateObject (tmpl env) tpl) c) (\<lambda>pObject c.
          case pObject of
            Some p \<Rightarrow> (case GetIDFromObject (slot c) p of (r, sl) \<Rightarrow> (r, c\<lparr>slot := sl\<rparr>))
          | None \<Rightarrow> (throw_p11 CKR_GENERAL_ERROR, c)))"

definition GenerateKey :: "('d, 'w) sctx \<Rightarrow> (exn + ulong) \<times> ('d, 'w) sctx" where
  "GenerateKey c = (throw_p11 CKR_FUNCTION_NOT_SUPPORTED, c)"

definition GenerateKeyPair :: "('d, 'w) sctx \<Rightarrow> (exn + ulong \<times> ulong) \<times> ('d, 'w) sctx" where
  "GenerateKeyPair c = (throw_p11 CKR_FUNCTION_NOT_SUPPORTED, c)"

definition DestroyObject :: "('d, 'w) env \<Rightarrow> ulong \<Rightarrow> ('d, 'w) sctx
    \<Rightarrow> (exn + unit) \<times> ('d, 'w) sctx" where
  "DestroyObject env hObject c =
     (if \<not> is_RW (sess c) then (throw_p11 CKR_SESSION_READ_ONLY, c)
      else if User (slot c) \<noteq> CKU_USER then (throw_p11 CKR_USER_NOT_LOGGED_IN, c)
      else
        (case GetObjectFromID (slot c) hObject of
           None \<Rightarrow> (throw_p11 CKR_OBJECT_HANDLE_INVALID, c)
         | Some p \<Rightarrow>
             bindS (call_template (templateDestroyObject (tmpl env) p) c) (\<lambda>_ c.
               case DelP11Object (slot c) p of (r, sl) \<Rightarrow> (r, c\<lparr>slot := sl\<rparr>))))"

definition GetObjectSize :: "('d, 'w) env \<Rightarrow> ulong \<Rightarrow> ('d, 'w) sctx
    \<Rightarrow> (exn + ulong) \<times> ('d, 'w) sctx" where
  "GetObjectSize env hObject c =
     (case GetObjectFromID (slot c) hObject of
        None \<Rightarrow> (throw_p11 CKR_OBJECT_HANDLE_INVALID, c)
      | Some p \<Rightarrow>
          bindS (liftS (slot_private (slot c) p) c) (\<lambda>priv c.
            if priv \<and> User (slot c) \<noteq> CKU_USER then (throw_p11 CKR_USER_NOT_LOGGED_IN, c)
            else call_template (templateGetObjectSize (tmpl env) p) c))"

definition SetAttributeValue :: "('d, 'w) env \<Rightarrow> ulong \<Rightarrow> ck_attribute list \<Rightarrow> ('d, 'w) sctx
    \<Rightarrow> (exn + unit) \<times> ('d, 'w) sctx" where
  "SetAttributeValue env hObject tpl c =
     (case GetObjectFromID (slot c) hObject of
        None \<Rightarrow> (throw_p11 CKR_OBJECT_HANDLE_INVALID, c)
      | Some p \<Rightarrow>
          if \<not> is_RW (sess c) then (throw_p11 CKR_SESSION_READ_ONLY, c)
          else if User (slot c) \<noteq> CKU_USER then (throw_p11 CKR_USER_NOT_LOGGED_IN, c)
          else call_template (templateSetAttribute (tmpl env) p tpl) c)"

end
