(* ===== verification/Session_Crypto.thy ===== *)
theory Session_Crypto
  imports Session
begin

section \<open>Digest, signature and verification on a session (session.cpp)\<close>

text \<open>
  The operations that hold a mechanism in the session.  Each \<open>...Init\<close> installs it, and
  the closing call removes it; which failures keep it and which lose it follows the
  \<open>resetter\<close> and the moves of the code.
\<close>

abbreviation set_digest :: "digest_mech option \<Rightarrow> ('d, 'w) sctx \<Rightarrow> ('d, 'w) sctx" where
  "set_digest m \<equiv> upd_sess (\<lambda>se. se\<lparr>pDigestMechanism := m\<rparr>)"
abbreviation set_verify :: "verify_mech option \<Rightarrow> ('d, 'w) sctx \<Rightarrow> ('d, 'w) sctx" where
  "set_verify m \<equiv> upd_sess (\<lambda>se. se\<lparr>pVerifyMechanism := m\<rparr>)"
abbreviation set_sign :: "sign_mech option \<Rightarrow> ('d, 'w) sctx \<Rightarrow> ('d, 'w) sctx" where
  "set_sign m \<equiv> upd_sess (\<lambda>se. se\<lparr>pSignMechanism := m\<rparr>)"
abbreviation set_verify_recover :: "ulong option \<Rightarrow> ('d, 'w) sctx \<Rightarrow> ('d, 'w) sctx" where
  "set_verify_recover m \<equiv> upd_sess (\<lambda>se. se\<lparr>pVerifyRecoverMechanism := m\<rparr>)"
abbreviation set_sign_recover :: "ulong option \<Rightarrow> ('d, 'w) sctx \<Rightarrow> ('d, 'w) sctx" where
  "set_sign_recover m \<equiv> upd_sess (\<lambda>se. se\<lparr>pSignRecoverMechanism := m\<rparr>)"

subsection \<open>Digest\<close>

definition DigestInit :: "ck_mechanism \<Rightarrow> ('d, 'w) sctx \<Rightarrow> (exn + unit) \<times> ('d, 'w) sctx" where
  "DigestInit pMechanism c =
     (if pDigestMechanism (sess c) \<noteq> None then (throw_p11 CKR_OPERATION_ACTIVE, c)
      else if mechanism pMechanism = CKM_SHA_1 then
        (Inr (), set_digest (Some (mech_DigestInit SHA1)) c)
      else if mechanism pMechanism = CKM_SHA256 then
        (Inr (), set_digest (Some (mech_DigestInit SHA256)) c)
      else if mechanism pMechanism = CKM_MD5 then
        (Inr (), set_digest (Some (mech_DigestInit MD5)) c)
      else (throw_p11 CKR_MECHANISM_INVALID, c))"

definition DigestUpdate :: "bytes \<Rightarrow> ('d, 'w) sctx \<Rightarrow> (exn + unit) \<times> ('d, 'w) sctx" where
  "DigestUpdate data c =
     (case pDigestMechanism (sess c) of
        None \<Rightarrow> (throw_p11 CKR_OPERATION_NOT_INITIALIZED, c)
      | Some m \<Rightarrow> (Inr (), set_digest (Some (mech_DigestUpdate m data)) c))"

definition DigestFinal :: "('d, 'w) env \<Rightarrow> byte_view \<Rightarrow> ('d, 'w) sctx
    \<Rightarrow> (exn + byte_view) \<times> ('d, 'w) sctx" where
  "DigestFinal env out c =
     (case pDigestMechanism (sess c) of
        None \<Rightarrow> (throw_p11 CKR_OPERATION_NOT_INITIALIZED, c)
      | Some mech \<Rightarrow>
          let ulReqLen = DigestLength (dalg mech); moved = set_digest None c in
          if \<not> isNull out \<and> vsize out < ulReqLen then (throw_p11 CKR_BUFFER_TOO_SMALL, c)
          else
            (case view_left out ulReqLen of
               Inl e \<Rightarrow> (Inl e, moved)
             | Inr out \<Rightarrow>
                 if isNull out then (Inr out, c)
                 else (mech_DigestFinal (crypto env) mech out, moved)))"

definition Digest :: "('d, 'w) env \<Rightarrow> bytes \<Rightarrow> byte_view \<Rightarrow> ('d, 'w) sctx
    \<Rightarrow> (exn + byte_view) \<times> ('d, 'w) sctx" where
  "Digest env data out c =
     (case pDigestMechanism (sess c) of
        None \<Rightarrow> (throw_p11 CKR_OPERATION_NOT_INITIALIZED, c)
      | Some mech \<Rightarrow>
          let ulReqLen = DigestLength (dalg mech) in
          if \<not> isNull out \<and> vsize out < ulReqLen then (throw_p11 CKR_BUFFER_TOO_SMALL, c)
          else
            (case view_left out ulReqLen of
               Inl e \<Rightarrow> (Inl e, c)
             | Inr out \<Rightarrow>
                 if isNull out then (Inr out, c)
                 else bindS (DigestUpdate data c) (\<lambda>_ c. DigestFinal env out c)))"

subsection \<open>Keys\<close>

text \<open>The checks that the four \<open>...Init\<close> functions with a key begin with.\<close>

definition check_key :: "('d, 'w) sctx \<Rightarrow> ulong \<Rightarrow> ulong \<Rightarrow> ulong \<Rightarrow> exn + unit" where
  "check_key c hKey cls attr =
     (case GetObjectFromID (slot c) hKey of
        None \<Rightarrow> throw_p11 CKR_KEY_HANDLE_INVALID
      | Some p \<Rightarrow>
          if ObjClass (objs (slot c) p) \<noteq> cls then throw_p11 CKR_KEY_HANDLE_INVALID
          else
            bindE (slot_private (slot c) p) (\<lambda>priv.
            if priv \<and> User (slot c) \<noteq> CKU_USER then throw_p11 CKR_USER_NOT_LOGGED_IN
            else
              bindE (slot_attr (slot c) p attr) (\<lambda>baAttrVal.
              case baAttrVal of
                None \<Rightarrow> throw_p11 CKR_KEY_FUNCTION_NOT_PERMITTED
              | Some ba \<Rightarrow>
                  bindE (ByteArrayToVar_BBOOL ba) (\<lambda>b.
                    if b = 0 then throw_p11 CKR_KEY_FUNCTION_NOT_PERMITTED else Inr ()))))"

text \<open>The signature mechanisms with a digest, as the \<open>switch\<close> statements list them.\<close>

definition rsa_hash :: "ulong \<Rightarrow> hash_alg option" where
  "rsa_hash m =
     (if m = CKM_SHA1_RSA_PKCS then Some SHA1
      else if m = CKM_SHA256_RSA_PKCS then Some SHA256
      else if m = CKM_MD5_RSA_PKCS then Some MD5
      else None)"

subsection \<open>Verification\<close>

definition VerifyInit :: "ck_mechanism \<Rightarrow> ulong \<Rightarrow> ('d, 'w) sctx \<Rightarrow> (exn + unit) \<times> ('d, 'w) sctx" where
  "VerifyInit pMechanism hKey c =
     (if pVerifyMechanism (sess c) \<noteq> None then (throw_p11 CKR_OPERATION_ACTIVE, c)
      else
        bindS (liftS (check_key c hKey CKO_PUBLIC_KEY CKA_VERIFY) c) (\<lambda>_ c.
          case rsa_hash (mechanism pMechanism) of
            Some a \<Rightarrow> (Inr (), set_verify (Some (Verify_Digest hKey (mech_DigestInit a))) c)
          | None \<Rightarrow>
              if mechanism pMechanism = CKM_RSA_PKCS then
                (Inr (), set_verify (Some (Verify_PKCS1 hKey [])) c)
              else (throw_p11 CKR_MECHANISM_INVALID, c)))"

definition VerifyUpdate :: "bytes \<Rightarrow> ('d, 'w) sctx \<Rightarrow> (exn + unit) \<times> ('d, 'w) sctx" where
  "VerifyUpdate data c =
     (case pVerifyMechanism (sess c) of
        None \<Rightarrow> (throw_p11 CKR_OPERATION_NOT_INITIALIZED, c)
      | Some m \<Rightarrow> (Inr (), set_verify (Some (mech_VerifyUpdate m data)) c))"

definition VerifyFinal :: "('d, 'w) env \<Rightarrow> bytes \<Rightarrow> ('d, 'w) sctx \<Rightarrow> (exn + unit) \<times> ('d, 'w) sctx" where
  "VerifyFinal env sig c =
     (case pVerifyMechanism (sess c) of
        None \<Rightarrow> (throw_p11 CKR_OPERATION_NOT_INITIALIZED, c)
      | Some m \<Rightarrow> (mech_VerifyFinal (crypto env) (uninit env) (slot c) m sig, set_verify None c))"

definition Verify :: "('d, 'w) env \<Rightarrow> bytes \<Rightarrow> bytes \<Rightarrow> ('d, 'w) sctx
    \<Rightarrow> (exn + unit) \<times> ('d, 'w) sctx" where
  "Verify env data sig c =
     (if pVerifyMechanism (sess c) = None then (throw_p11 CKR_OPERATION_NOT_INITIALIZED, c)
      else bindS (VerifyUpdate data c) (\<lambda>_ c. VerifyFinal env sig c))"

definition VerifyRecoverInit :: "ck_mechanism \<Rightarrow> ulong \<Rightarrow> ('d, 'w) sctx
    \<Rightarrow> (exn + unit) \<times> ('d, 'w) sctx" where
  "VerifyRecoverInit pMechanism hKey c =
     (if pVerifyRecoverMechanism (sess c) \<noteq> None then (throw_p11 CKR_OPERATION_ACTIVE, c)
      else
        bindS (liftS (check_key c hKey CKO_PUBLIC_KEY CKA_VERIFY_RECOVER) c) (\<lambda>_ c.
          if mechanism pMechanism = CKM_RSA_PKCS then
            (Inr (), set_verify_recover (Some hKey) c)
          else (throw_p11 CKR_MECHANISM_INVALID, c)))"

definition VerifyRecover :: "('d, 'w) env \<Rightarrow> bytes \<Rightarrow> byte_view \<Rightarrow> ('d, 'w) sctx
    \<Rightarrow> (exn + byte_view) \<times> ('d, 'w) sctx" where
  "VerifyRecover env sig out c =
     (case pVerifyRecoverMechanism (sess c) of
        None \<Rightarrow> (throw_p11 CKR_OPERATION_NOT_INITIALIZED, c)
      | Some k \<Rightarrow>
          let moved = set_verify_recover None c in
          bindS (liftS (VerifyRecoverLength (slot c) k) moved) (\<lambda>_ moved.
          bindS (liftS (mech_VerifyRecover (crypto env) (slot c) k sig) moved) (\<lambda>baData moved.
          if \<not> isNull out \<and> vsize out < length baData then (throw_p11 CKR_BUFFER_TOO_SMALL, c)
          else
            (case view_left out (length baData) of
               Inl e \<Rightarrow> (Inl e, moved)
             | Inr out \<Rightarrow>
                 if isNull out then (Inr out, c)
                 else (view_copy out baData, moved)))))"

subsection \<open>Signature\<close>

definition SignInit :: "ck_mechanism \<Rightarrow> ulong \<Rightarrow> ('d, 'w) sctx \<Rightarrow> (exn + unit) \<times> ('d, 'w) sctx" where
  "SignInit pMechanism hKey c =
     (if pSignMechanism (sess c) \<noteq> None then (throw_p11 CKR_OPERATION_ACTIVE, c)
      else
        bindS (liftS (check_key c hKey CKO_PRIVATE_KEY CKA_SIGN) c) (\<lambda>_ c.
          case rsa_hash (mechanism pMechanism) of
            Some a \<Rightarrow> (Inr (), set_sign (Some (Sign_Digest hKey (mech_DigestInit a))) c)
          | None \<Rightarrow>
              if mechanism pMechanism = CKM_RSA_PKCS then
                (Inr (), set_sign (Some (Sign_PKCS1 hKey [])) c)
              else (throw_p11 CKR_MECHANISM_INVALID, c)))"

definition SignUpdate :: "bytes \<Rightarrow> ('d, 'w) sctx \<Rightarrow> (exn + unit) \<times> ('d, 'w) sctx" where
  "SignUpdate data c =
     (case pSignMechanism (sess c) of
        None \<Rightarrow> (throw_p11 CKR_OPERATION_NOT_INITIALIZED, c)
      | Some m \<Rightarrow> (Inr (), set_sign (Some (mech_SignUpdate m data)) c))"

text \<open>The key of an active signature, looked up again before it is used.\<close>

definition sign_key :: "('d, 'w) sctx \<Rightarrow> ulong \<Rightarrow> exn + obj_ptr" where
  "sign_key c hKey =
     (case GetObjectFromID (slot c) hKey of
        None \<Rightarrow> throw_p11 CKR_KEY_HANDLE_INVALID
      | Some p \<Rightarrow>
          if ObjClass (objs (slot c) p) \<noteq> CKO_PRIVATE_KEY then throw_p11 CKR_KEY_HANDLE_INVALID
          else
            bindE (slot_private (slot c) p) (\<lambda>priv.
              if priv \<and> User (slot c) \<noteq> CKU_USER then throw_p11 CKR_USER_NOT_LOGGED_IN else Inr p))"

text \<open>
  \<open>SignFinal\<close>: the \<open>resetter\<close> drops the mechanism on every exit it was not released on.
  When the caller's buffer is too small, \<open>left\<close> is asked for more than the buffer has.
\<close>

definition SignFinal :: "('d, 'w) env \<Rightarrow> byte_view \<Rightarrow> ('d, 'w) sctx
    \<Rightarrow> (exn + byte_view) \<times> ('d, 'w) sctx" where
  "SignFinal env out c =
     (case pSignMechanism (sess c) of
        None \<Rightarrow> (throw_p11 CKR_OPERATION_NOT_INITIALIZED, c)
      | Some m \<Rightarrow>
          bindS (liftS (sign_key c (sKey m)) (set_sign None c)) (\<lambda>p reset.
          if isNull out then
            bindS (liftS (SignLength (slot c) (sKey m)) reset) (\<lambda>n _.
              (Inr \<lparr>vmem = None, vsize = n\<rparr>, c))
          else
            bindS (liftS (mech_SignFinal (crypto env) (uninit env) (slot c) m) reset)
              (\<lambda>baSignBuffer reset.
            bindS (call_template (templateSign (tmpl env) p baSignBuffer (sign_mtType m)) reset)
              (\<lambda>baSignature reset.
            if vsize out < length baSignature then
              (case view_left out (length baSignature) of
                 Inl e \<Rightarrow> (Inl e, reset)
               | Inr _ \<Rightarrow> (throw_p11 CKR_BUFFER_TOO_SMALL, set_sign (Some m) reset))
            else
              (bindE (view_copy out baSignature) (\<lambda>out. view_left out (length baSignature)),
               reset)))))"

definition Sign :: "('d, 'w) env \<Rightarrow> bytes \<Rightarrow> byte_view \<Rightarrow> ('d, 'w) sctx
    \<Rightarrow> (exn + byte_view) \<times> ('d, 'w) sctx" where
  "Sign env data out c =
     (case pSignMechanism (sess c) of
        None \<Rightarrow> (throw_p11 CKR_OPERATION_NOT_INITIALIZED, c)
      | Some m \<Rightarrow>
          bindS (SignUpdate data (set_sign (Some (mech_SignReset m)) c)) (\<lambda>_ c.
            SignFinal env out c))"

definition SignRecoverInit :: "ck_mechanism \<Rightarrow> ulong \<Rightarrow> ('d, 'w) sctx
    \<Rightarrow> (exn + unit) \<times> ('d, 'w) sctx" where
  "SignRecoverInit pMechanism hKey c =
     (if pSignRecoverMechanism (sess c) \<noteq> None then (throw_p11 CKR_OPERATION_ACTIVE, c)
      else
        bindS (liftS (check_key c hKey CKO_PRIVATE_KEY CKA_SIGN_RECOVER) c) (\<lambda>_ c.
          if mechanism pMechanism = CKM_RSA_PKCS then
            (Inr (), set_sign_recover (Some hKey) c)
          else (throw_p11 CKR_MECHANISM_INVALID, c)))"

text \<open>
  \<open>SignRecover\<close> passes the template an empty buffer, not the data, and leaves the caller's
  memory as it is.
\<close>

definition SignRecover :: "('d, 'w) env \<Rightarrow> bytes \<Rightarrow> byte_view \<Rightarrow> ('d, 'w) sctx
    \<Rightarrow> (exn + byte_view) \<times> ('d, 'w) sctx" where
  "SignRecover env data out c =
     (case pSignRecoverMechanism (sess c) of
        None \<Rightarrow> (throw_p11 CKR_OPERATION_NOT_INITIALIZED, c)
      | Some k \<Rightarrow>
          bindS (liftS (sign_key c k) (set_sign_recover None c)) (\<lambda>p reset.
          if isNull out then
            bindS (liftS (SignRecoverLength (slot c) k) reset) (\<lambda>n _.
              (Inr \<lparr>vmem = None, vsize = n\<rparr>, c))
          else
            bindS (liftS (mech_SignRecover (slot c) k data) reset) (\<lambda>_ reset.
            bindS (call_template (templateSignRecover (tmpl env) p [] CKM_RSA_PKCS) reset)
              (\<lambda>baSignature reset.
            if vsize out < length baSignature then
              (case view_left out (length baSignature) of
                 Inl e \<Rightarrow> (Inl e, reset)
               | Inr _ \<Rightarrow> (throw_p11 CKR_BUFFER_TOO_SMALL, set_sign_recover (Some k) reset))
            else (Inr out, reset)))))"

subsection \<open>Random numbers and PINs\<close>

definition GenerateRandom :: "('d, 'w) env \<Rightarrow> byte_view \<Rightarrow> ('d, 'w) sctx
    \<Rightarrow> (exn + byte_view) \<times> ('d, 'w) sctx" where
  "GenerateRandom env out c =
     bindS (call_template (templateGenerateRandom (tmpl env) (vsize out)) c) (\<lambda>baRandom c.
       (view_copy out baRandom, c))"

definition InitPIN :: "('d, 'w) env \<Rightarrow> bytes \<Rightarrow> ('d, 'w) sctx \<Rightarrow> (exn + unit) \<times> ('d, 'w) sctx" where
  "InitPIN env pin c =
     (if User (slot c) \<noteq> CKU_SO then (throw_p11 CKR_USER_NOT_LOGGED_IN, c)
      else call_template (templateInitPIN (tmpl env) pin) c)"

definition SetPIN :: "('d, 'w) env \<Rightarrow> bytes \<Rightarrow> bytes \<Rightarrow> ('d, 'w) sctx
    \<Rightarrow> (exn + unit) \<times> ('d, 'w) sctx" where
  "SetPIN env oldPin newPin c =
     call_template (templateSetPIN (tmpl env) oldPin newPin (User (slot c))) c"

end
