(* ===== verification/Operation_State.thy ===== *)
theory Operation_State
  imports Session_Crypto
begin

section \<open>Saving and restoring the operation state (session.cpp)\<close>

text \<open>
  \<open>C_GetOperationState\<close> and \<open>C_SetOperationState\<close> serialise the active operations of a
  session as nested TLV records; the tags are those of \<open>OperationStateTag\<close> (\<open>session.h\<close>).
\<close>

abbreviation (input) OS_Flags :: byte where "OS_Flags \<equiv> 0"
abbreviation (input) OS_User :: byte where "OS_User \<equiv> 1"
abbreviation (input) OS_Digest :: byte where "OS_Digest \<equiv> 2"
abbreviation (input) OS_Sign :: byte where "OS_Sign \<equiv> 3"
abbreviation (input) OS_Verify :: byte where "OS_Verify \<equiv> 4"
abbreviation (input) OS_Encrypt :: byte where "OS_Encrypt \<equiv> 5"
abbreviation (input) OS_Algo :: byte where "OS_Algo \<equiv> 7"
abbreviation (input) OS_Data :: byte where "OS_Data \<equiv> 8"
abbreviation (input) OS_Key :: byte where "OS_Key \<equiv> 9"

abbreviation saved_state_invalid :: "exn + 'a" where
  "saved_state_invalid \<equiv> throw_p11 CKR_SAVED_STATE_INVALID"

text \<open>\<open>getValue\<close> of a tag that has to be there.\<close>

definition tlv_required :: "tlv_map \<Rightarrow> byte \<Rightarrow> exn + bytes" where
  "tlv_required m tag =
     bindE (tlv_getValue m tag) (\<lambda>v. case v of None \<Rightarrow> saved_state_invalid | Some x \<Rightarrow> Inr x)"

definition plain_mechanism :: "ulong \<Rightarrow> ck_mechanism" where
  "plain_mechanism m = \<lparr>mechanism = m, pParameter_null = True, ulParameterLen = 0\<rparr>"

text \<open>The handle of the key with a given identifier, as the restore looks it up.\<close>

definition saved_key :: "ulong \<Rightarrow> bytes \<Rightarrow> ('d, 'w) sctx \<Rightarrow> (exn + ulong) \<times> ('d, 'w) sctx" where
  "saved_key cls key c =
     (case FindP11Object (slot c) cls CKA_ID key of
        Inl e \<Rightarrow> (Inl e, c)
      | Inr None \<Rightarrow> (Inl (Logged_Error ''Error determining object from ID''), c)
      | Inr (Some p) \<Rightarrow> (case GetIDFromObject (slot c) p of (r, sl) \<Rightarrow> (r, c\<lparr>slot := sl\<rparr>)))"

definition restore_sign :: "bytes \<Rightarrow> ('d, 'w) sctx \<Rightarrow> (exn + unit) \<times> ('d, 'w) sctx" where
  "restore_sign st c =
     bindS (liftS (CTLV st) (set_sign None c)) (\<lambda>m c.
     bindS (liftS (tlv_required m OS_Algo) c) (\<lambda>algo c.
     bindS (liftS (ByteArrayToVar64 algo) c) (\<lambda>mt c.
     bindS (liftS (tlv_required m OS_Key) c) (\<lambda>key c.
     bindS (saved_key CKO_PRIVATE_KEY key c) (\<lambda>hKey c.
     bindS (liftS (tlv_required m OS_Data) c) (\<lambda>data c.
     bindS (SignInit (plain_mechanism mt) hKey c) (\<lambda>_ c.
       case pSignMechanism (sess c) of
         None \<Rightarrow> (Inl UB, c)
       | Some mech \<Rightarrow>
           bindS (liftS (mech_SignSetOperationState mech data) c) (\<lambda>mech c.
             (Inr (), set_sign (Some mech) c)))))))))"

definition restore_verify :: "bytes \<Rightarrow> ('d, 'w) sctx \<Rightarrow> (exn + unit) \<times> ('d, 'w) sctx" where
  "restore_verify st c =
     bindS (liftS (CTLV st) (set_verify None c)) (\<lambda>m c.
     bindS (liftS (tlv_required m OS_Algo) c) (\<lambda>algo c.
     bindS (liftS (ByteArrayToVar64 algo) c) (\<lambda>mt c.
     bindS (liftS (tlv_required m OS_Key) c) (\<lambda>key c.
     bindS (saved_key CKO_PUBLIC_KEY key c) (\<lambda>hKey c.
     bindS (liftS (tlv_required m OS_Data) c) (\<lambda>data c.
     bindS (VerifyInit (plain_mechanism mt) hKey c) (\<lambda>_ c.
       case pVerifyMechanism (sess c) of
         None \<Rightarrow> (Inl UB, c)
       | Some mech \<Rightarrow>
           bindS (liftS (mech_VerifySetOperationState mech data) c) (\<lambda>mech c.
             (Inr (), set_verify (Some mech) c)))))))))"

definition restore_digest :: "bytes \<Rightarrow> ('d, 'w) sctx \<Rightarrow> (exn + unit) \<times> ('d, 'w) sctx" where
  "restore_digest st c =
     bindS (liftS (CTLV st) (set_digest None c)) (\<lambda>m c.
     bindS (liftS (tlv_required m OS_Algo) c) (\<lambda>algo c.
     bindS (liftS (ByteArrayToVar64 algo) c) (\<lambda>mt c.
     bindS (liftS (tlv_required m OS_Data) c) (\<lambda>data c.
     bindS (DigestInit (plain_mechanism mt) c) (\<lambda>_ c.
       case pDigestMechanism (sess c) of
         None \<Rightarrow> (Inl UB, c)
       | Some mech \<Rightarrow>
           bindS (liftS (mech_DigestSetOperationState mech data) c) (\<lambda>mech c.
             (Inr (), set_digest (Some mech) c)))))))"

text \<open>The part of the state under a tag, restored when it is there.\<close>

definition restore_part :: "tlv_map \<Rightarrow> byte \<Rightarrow> (bytes \<Rightarrow> ('d, 'w) sctx \<Rightarrow> (exn + unit) \<times> ('d, 'w) sctx)
    \<Rightarrow> ('d, 'w) sctx \<Rightarrow> (exn + unit) \<times> ('d, 'w) sctx" where
  "restore_part m tag f c =
     bindS (liftS (tlv_getValue m tag) c) (\<lambda>v c.
       case v of None \<Rightarrow> (Inr (), c) | Some st \<Rightarrow> f st c)"

definition SetOperationState :: "bytes \<Rightarrow> ('d, 'w) sctx \<Rightarrow> (exn + unit) \<times> ('d, 'w) sctx" where
  "SetOperationState st c =
     bindS (liftS (CTLV st) c) (\<lambda>m c.
     bindS (liftS (tlv_required m OS_Flags) c) (\<lambda>fl c.
     bindS (liftS (tlv_required m OS_User) c) (\<lambda>us c.
     if fl \<noteq> VarToByteArray64 (flags (sess c)) then (saved_state_invalid, c)
     else if us \<noteq> VarToByteArray64 (User (slot c)) then (saved_state_invalid, c)
     else
       bindS (restore_part m OS_Sign restore_sign c) (\<lambda>_ c.
       bindS (restore_part m OS_Verify restore_verify c) (\<lambda>_ c.
       bindS (liftS (tlv_getValue m OS_Encrypt) c) (\<lambda>_ c.
       restore_part m OS_Digest restore_digest c))))))"

subsection \<open>Saving\<close>

text \<open>The identifier of the key of an active operation.\<close>

definition active_key_id :: "('d, 'w) sctx \<Rightarrow> ulong \<Rightarrow> exn + bytes" where
  "active_key_id c h =
     (case GetObjectFromID (slot c) h of
        None \<Rightarrow> Inl (Logged_Error ''Error determining object from ID'')
      | Some p \<Rightarrow> attr_or_error (slot c) p CKA_ID (Logged_Error ''Unable to find ID attribute''))"

text \<open>The record of one operation: its algorithm, its data unless empty, its key.\<close>

definition save_op :: "('d, 'w) env \<Rightarrow> ulong \<Rightarrow> exn + bytes \<Rightarrow> (exn + bytes) option \<Rightarrow> exn + bytes" where
  "save_op env mt data key =
     bindE data (\<lambda>d.
     let m = tlvc_setValue [] OS_Algo (VarToByteArray64 mt);
         m = (if d = [] then m else tlvc_setValue m OS_Data d)
     in (case key of
           None \<Rightarrow> tlvc_getBuffer (uninit env) m
         | Some k \<Rightarrow> bindE k (\<lambda>kid. tlvc_getBuffer (uninit env) (tlvc_setValue m OS_Key kid))))"

definition save_part :: "tlv_map \<Rightarrow> byte \<Rightarrow> (exn + bytes) option \<Rightarrow> exn + tlv_map" where
  "save_part m tag part =
     (case part of
        None \<Rightarrow> Inr m
      | Some p \<Rightarrow> bindE p (\<lambda>b. Inr (tlvc_setValue (tlvc_addValue m tag) tag b)))"

definition saved_state :: "('d, 'w) env \<Rightarrow> ('d, 'w) sctx \<Rightarrow> exn + bytes" where
  "saved_state env c =
     (let m = tlvc_setValue [] OS_Flags (VarToByteArray64 (flags (sess c)));
          m = tlvc_setValue m OS_User (VarToByteArray64 (flags (sess c)))
      in
      bindE (save_part m OS_Sign
               (map_option (\<lambda>mech. save_op env (sign_mtType mech) (mech_SignGetOperationState mech)
                                     (Some (active_key_id c (sKey mech))))
                  (pSignMechanism (sess c)))) (\<lambda>m.
      bindE (save_part m OS_Verify
               (map_option (\<lambda>mech. save_op env (verify_mtType mech) (mech_VerifyGetOperationState mech)
                                     (Some (active_key_id c (vKey mech))))
                  (pVerifyMechanism (sess c)))) (\<lambda>m.
      bindE (save_part m OS_Digest
               (map_option (\<lambda>mech. save_op env (digest_mtType (dalg mech))
                                     (mech_DigestGetOperationState mech) None)
                  (pDigestMechanism (sess c)))) (\<lambda>m.
      tlvc_getBuffer (uninit env) m))))"

definition GetOperationState :: "('d, 'w) env \<Rightarrow> byte_view \<Rightarrow> ('d, 'w) sctx
    \<Rightarrow> (exn + byte_view) \<times> ('d, 'w) sctx" where
  "GetOperationState env out c =
     bindS (liftS (saved_state env c) c) (\<lambda>st c.
       if length st = 0 then (throw_p11 CKR_OPERATION_NOT_INITIALIZED, c)
       else if isNull out then (Inr \<lparr>vmem = None, vsize = length st\<rparr>, c)
       else if vsize out < length st then (throw_p11 CKR_BUFFER_TOO_SMALL, c)
       else (view_copy out st, c))"

end
