(* ===== verification/Session_Theorems.thy ===== *)
theory Session_Theorems
  imports Operation_State
begin

section \<open>Theorems on the session operations\<close>

text \<open>
  Multi-part operations against one-part ones, what a verification accepts, what a signature
  sends to the card, the saved operation state, the object search and the protection of
  private objects.
\<close>

lemma upd_sess_simps [simp]:
  "sess (upd_sess f c) = f (sess c)" "slot (upd_sess f c) = slot c" "wrld (upd_sess f c) = wrld c"
  "upd_sess f (upd_sess g c) = upd_sess (\<lambda>se. f (g se)) c"
  by (simp_all add: upd_sess_def)

lemma upd_sess_id: "f (sess c) = sess c \<Longrightarrow> upd_sess f c = c"
  by (simp add: upd_sess_def)

lemma set_mech_same:
  "pDigestMechanism (sess c) = m1 \<Longrightarrow> set_digest m1 c = c"
  "pVerifyMechanism (sess c) = m2 \<Longrightarrow> set_verify m2 c = c"
  "pSignMechanism (sess c) = m3 \<Longrightarrow> set_sign m3 c = c"
  by (auto intro!: upd_sess_id)

subsection \<open>A small token\<close>

text \<open>
  A slot with a public and a private key of 64 octets (handles 1 and 2), the state of a
  session on it, and stand-ins for the library functions: the input of the examples.
\<close>

definition demo_public :: p11_object where
  "demo_public = foldl (\<lambda>ob (ty, v). addAttribute ob ty v) new_P11PublicKey
     [(CKA_PRIVATE, [0]), (CKA_VERIFY, [1]), (CKA_ID, [1]), (CKA_MODULUS, replicate 64 0xff),
      (CKA_PUBLIC_EXPONENT, [1, 0, 1])]"

definition demo_private :: p11_object where
  "demo_private = foldl (\<lambda>ob (ty, v). addAttribute ob ty v) new_P11PrivateKey
     [(CKA_PRIVATE, [1]), (CKA_SIGN, [1]), (CKA_ID, [1]), (CKA_MODULUS, replicate 64 0xff)]"

definition demo_slot :: "ulong \<Rightarrow> unit cslot" where
  "demo_slot user =
     (new_CSlot 0 ''reader'')\<lparr>pTemplate := Some 0, P11Objects := [0, 1],
        objs := (\<lambda>p. if p = 0 then demo_public else demo_private), objNext := 2,
        HandleP11Map := [(1, 0), (2, 1)], ObjP11Map := [(0, 1), (1, 2)], dwP11ObjCnt := 2,
        User := user\<rparr>"

definition demo_ctx :: "ulong \<Rightarrow> (unit, unit) sctx" where
  "demo_ctx user = \<lparr>sess = new_CSession 0 (CKF_SERIAL_SESSION OR CKF_RW_SESSION), slot = demo_slot user, wrld = ()\<rparr>"

definition demo_crypto :: crypto_env where
  "demo_crypto = \<lparr>sha1_digest = (\<lambda>_. replicate 20 1), sha256_digest = (\<lambda>_. replicate 32 2),
     md5_digest = (\<lambda>_. replicate 16 3), RSA_PURE = (\<lambda>n e s. Inr s)\<rparr>"

definition demo_template :: "('d, 'w) template_functions" where
  "demo_template =
     \<lparr>templateInitCard = (\<lambda>st. (Inr (), st)), templateFinalCard = (\<lambda>st. (Inr (), st)),
      templateInitSession = (\<lambda>st. (Inr (), st)), templateFinalSession = (\<lambda>st. (Inr (), st)),
      templateMatchCard = (\<lambda>st. (Inr True, st)), templateGetSerial = (\<lambda>st. (Inr [], st)),
      templateGetModel = (\<lambda>st. (Inr [], st)), templateGetTokenFlags = (\<lambda>st. (Inr 0, st)),
      templateLogin = (\<lambda>u pin st. (Inr (), st)), templateLogout = (\<lambda>u st. (Inr (), st)),
      templateSign = (\<lambda>p b m st. (Inr (b @ replicate (64 - length b) 9), st)),
      templateSignRecover = (\<lambda>p b m st. (Inr [], st)), templateGenerateRandom = (\<lambda>n st. (Inr (replicate n 4), st)),
      templateInitPIN = (\<lambda>p st. (Inr (), st)), templateSetPIN = (\<lambda>o' n u st. (Inr (), st)),
      templateGetObjectSize = (\<lambda>p st. (Inr 0, st)), templateSetAttribute = (\<lambda>p a st. (Inr (), st)),
      templateCreateObject = (\<lambda>a st. (Inr None, st)), templateDestroyObject = (\<lambda>p st. (Inr (), st))\<rparr>"

definition demo_transport :: "'w transport_functions" where
  "demo_transport =
     \<lparr>EstablishContext = (\<lambda>w. (0, 1, w)), ReleaseContext = (\<lambda>h w. (0, w)), IsValidContext = (\<lambda>h w. (0, w)),
      ListReaders = (\<lambda>h w. (0, [''reader''], w)), GetStatusChange = (\<lambda>h n w. (0, 0x20, w)),
      TransportConnect = (\<lambda>h n w. (0, 1, w)), Disconnect = (\<lambda>h w. (0, w)),
      BeginTransaction = (\<lambda>h w. (0, w)), EndTransaction = (\<lambda>h w. (0, w)), GetAttrib = (\<lambda>h w. (0, [], w)),
      Reconnect = (\<lambda>h i w. (0, w)), TransportTransmit = (\<lambda>h a w. (0, [0x90, 0], w))\<rparr>"

definition demo_env :: "('d, 'w) env" where
  "demo_env = \<lparr>tmpl = demo_template, transport = demo_transport, crypto = demo_crypto, uninit = (\<lambda>_. 0)\<rparr>"

lemmas demo_simps = demo_public_def demo_private_def demo_slot_def demo_ctx_def new_P11PublicKey_def
  new_P11PrivateKey_def new_P11Object_def addAttribute_def new_CSession_def new_CSlot_def

lemma demo_digests_sized: "digests_sized demo_crypto"
  by (simp add: digests_sized_def demo_crypto_def)

lemma demo_handles_ok: "handles_ok (demo_slot u)"
  by (auto simp: handles_ok_def demo_slot_def split: if_splits)

lemma demo_objects:
  "GetObjectFromID (demo_slot u) 1 = Some 0" "GetObjectFromID (demo_slot u) 2 = Some (Suc 0)"
  "slot_private (demo_slot u) 0 = Inr False" "slot_private (demo_slot u) (Suc 0) = Inr True"
  "pTemplate (demo_slot u) = Some 0" "User (demo_slot u) = u" "P11Objects (demo_slot u) = [0, Suc 0]"
  "objs (demo_slot u) 0 = demo_public" "objs (demo_slot u) (Suc 0) = demo_private"
  "slot_attr (demo_slot u) (Suc 0) CKA_SIGN = Inr (Some [1])"
  by (simp_all add: GetObjectFromID_def slot_private_def IsPrivate_tmpl slot_attr_def getAttribute_tmpl demo_simps)

lemma demo_SignInit:
  "SignInit \<lparr>mechanism = CKM_SHA256_RSA_PKCS, pParameter_null = True, ulParameterLen = 0\<rparr> 2 (demo_ctx CKU_USER) =
     (Inr (), set_sign (Some (Sign_Digest 2 (mech_DigestInit SHA256))) (demo_ctx CKU_USER))"
proof -
  have "ObjClass demo_private = CKO_PRIVATE_KEY" by (simp add: demo_simps)
  then show ?thesis
    by (simp add: SignInit_def check_key_def rsa_hash_def demo_ctx_def new_CSession_def demo_objects)
qed

subsection \<open>Multi-part operations\<close>

text \<open>A sequence of \<open>...Update\<close> calls.\<close>

primrec updates :: "(bytes \<Rightarrow> 'c \<Rightarrow> (exn + unit) \<times> 'c) \<Rightarrow> bytes list \<Rightarrow> 'c \<Rightarrow> (exn + unit) \<times> 'c" where
  "updates f [] c = (Inr (), c)"
| "updates f (p # ps) c = bindS (f p c) (\<lambda>_. updates f ps)"

lemma mech_Update_append:
  "mech_DigestUpdate (mech_DigestUpdate d a) b = mech_DigestUpdate d (a @ b)"
  "mech_SignUpdate (mech_SignUpdate s a) b = mech_SignUpdate s (a @ b)"
  "mech_VerifyUpdate (mech_VerifyUpdate v a) b = mech_VerifyUpdate v (a @ b)"
  by (simp_all add: mech_DigestUpdate_def) (cases s; cases v; simp add: mech_DigestUpdate_def)+

lemma mech_Update_Nil:
  "mech_DigestUpdate d [] = d" "mech_SignUpdate s [] = s" "mech_VerifyUpdate v [] = v"
  by (simp_all add: mech_DigestUpdate_def) (cases s; cases v; simp add: mech_DigestUpdate_def)+

lemma updates_digest:
  "pDigestMechanism (sess c) = Some d \<Longrightarrow>
     updates DigestUpdate parts c = (Inr (), set_digest (Some (mech_DigestUpdate d (concat parts))) c)"
  by (induction parts arbitrary: c d)
    (simp_all add: set_mech_same mech_Update_Nil mech_Update_append DigestUpdate_def)

lemma updates_sign:
  "pSignMechanism (sess c) = Some m \<Longrightarrow>
     updates SignUpdate parts c = (Inr (), set_sign (Some (mech_SignUpdate m (concat parts))) c)"
  by (induction parts arbitrary: c m)
    (simp_all add: set_mech_same mech_Update_Nil mech_Update_append SignUpdate_def)

lemma updates_verify:
  "pVerifyMechanism (sess c) = Some m \<Longrightarrow>
     updates VerifyUpdate parts c = (Inr (), set_verify (Some (mech_VerifyUpdate m (concat parts))) c)"
  by (induction parts arbitrary: c m)
    (simp_all add: set_mech_same mech_Update_Nil mech_Update_append VerifyUpdate_def)

lemma mech_SignReset_update: "mech_SignReset m = m \<Longrightarrow> mech_SignReset (mech_SignUpdate m d) = m"
  by (cases m) (auto simp: mech_DigestInit_def mech_DigestUpdate_def)

text \<open>
  C34: verification in parts, however the data are cut, is verification of the concatenation in
  one call, in result and in final state, also when no verification is active.
\<close>

theorem verify_multipart:
  "bindS (updates VerifyUpdate parts c) (\<lambda>_. VerifyFinal env sig) = Verify env (concat parts) sig c"
proof (cases "pVerifyMechanism (sess c)")
  case None
  then show ?thesis by (cases parts) (simp_all add: Verify_def VerifyUpdate_def VerifyFinal_def)
next
  case (Some m)
  then show ?thesis by (simp add: updates_verify Verify_def VerifyUpdate_def)
qed

text \<open>
  C35: after \<open>SignInit\<close>, a signature in parts, however the data are cut, is the signature of the
  concatenation in one call: the same card command, the same result and the same final
  state, in every case of the closing call.
\<close>

theorem sign_multipart:
  assumes "SignInit mech hKey c = (Inr (), c')"
  shows "bindS (updates SignUpdate parts c') (\<lambda>_. SignFinal env out) = Sign env (concat parts) out c'"
proof -
  obtain m where "pSignMechanism (sess c') = Some m" "mech_SignReset m = m"
    using assms
    by (auto simp: SignInit_def bindS_eq_Inr mech_DigestInit_def split: if_splits option.splits)
  then show ?thesis
    by (simp add: updates_sign Sign_def SignUpdate_def)
qed

theorem sign_multipart_witness:
  "bindS (updates SignUpdate [[1], [2, 3]] (set_sign (Some (Sign_Digest 2 (mech_DigestInit SHA256))) (demo_ctx CKU_USER)))
     (\<lambda>_. SignFinal demo_env (view_of (Some (replicate 64 0)) 64)) =
   Sign demo_env (concat [[1], [2, 3]]) (view_of (Some (replicate 64 0)) 64) (set_sign (Some (Sign_Digest 2 (mech_DigestInit SHA256))) (demo_ctx CKU_USER))"
  by (rule sign_multipart [OF demo_SignInit])

text \<open>
  A digest in parts.  \<open>DigestInit\<close>, any number of updates and \<open>DigestFinal\<close> into a large
  enough buffer deliver the hash of the concatenated parts in the buffer's first octets,
  report its length, leave the rest of the buffer alone and return the session to the state
  before.
\<close>

lemma digest_value:
  assumes "digests_sized (crypto env)" and "pDigestMechanism (sess c) = None"
    and "mechanism mech = digest_mtType a" and "vmem out = Some buf" and "DigestLength a \<le> vsize out"
  shows "bindS (DigestInit mech c) (\<lambda>_ c. bindS (updates DigestUpdate parts c) (\<lambda>_. DigestFinal env out)) =
    (Inr \<lparr>vmem = Some (hash_of (crypto env) a (concat parts) @ drop (DigestLength a) buf),
          vsize = DigestLength a\<rparr>, c)"
proof -
  have init: "DigestInit mech c = (Inr (), set_digest (Some (mech_DigestInit a)) c)"
    using assms(2,3) by (cases a) (simp_all add: DigestInit_def digest_mtType_def)
  have "length (hash_of (crypto env) a (concat parts)) = DigestLength a" "DigestLength a \<noteq> 0"
    using assms(1) by (simp, cases a) (simp_all add: DigestLength_def)
  then have "hash_of (crypto env) a (concat parts) \<noteq> []" by auto
  then show ?thesis
    using assms(1,2,4,5) set_mech_same(1) [of c None]
    by (cases out) (simp add: init updates_digest DigestFinal_def mech_DigestFinal_def view_left_def view_copy_def
        isNull_def mech_DigestUpdate_def mech_DigestInit_def Let_def)
qed

subsection \<open>Verification and signature\<close>

lemma demo_verify_facts:
  "VerifyLength (demo_slot u) 1 = Inr 64"
  "VerifyDecryptSignature demo_crypto (demo_slot u) 1 (replicate 64 5) = Inr (replicate 64 5)"
  "SignLength (demo_slot u) 2 = Inr 64"
  by (simp_all add: VerifyLength_def VerifyDecryptSignature_def SignLength_def mech_key_def attr_or_error_def
      slot_attr_def getAttribute_tmpl demo_objects)
    (simp_all add: demo_simps demo_crypto_def)

text \<open>
  C8: the closing call of a verification accepts exactly the signatures whose RSA value is the
  EMSA-PKCS1-v1\_5 block of the payload (the data, or the \<open>DigestInfo\<close> of their hash); any
  other signature of the right length is \<open>CKR_SIGNATURE_INVALID\<close>.  Either way the operation is
  over and nothing else changes.
\<close>

theorem verify_accepts_exactly:
  assumes "digests_sized (crypto env)" and "pVerifyMechanism (sess c) = Some m"
    and "VerifyLength (slot c) (vKey m) = Inr k" and "62 \<le> k" and "k < 2 ^ 64" and "length sig = k"
    and "VerifyDecryptSignature (crypto env) (slot c) (vKey m) sig = Inr plain"
    and "length (verify_payload (crypto env) m) + 11 \<le> k"
  shows "VerifyFinal env sig c =
    (if plain = emsa_pkcs1 k (verify_payload (crypto env) m) then Inr ()
     else throw_p11 CKR_SIGNATURE_INVALID, set_verify None c)"
  using mech_VerifyFinal_iff [OF assms(1,3,5,4,6,7,8), of "uninit env"] assms(2)
  by (simp add: VerifyFinal_def)

theorem verify_accepts_exactly_witness:
  "VerifyFinal demo_env (replicate 64 5) (set_verify (Some (Verify_PKCS1 1 [1, 2])) (demo_ctx CKU_NOBODY)) =
    (if replicate 64 5 = emsa_pkcs1 64 (verify_payload (crypto (demo_env :: (unit, unit) env)) (Verify_PKCS1 1 [1, 2]))
     then Inr () else throw_p11 CKR_SIGNATURE_INVALID,
     set_verify None (set_verify (Some (Verify_PKCS1 1 [1, 2])) (demo_ctx CKU_NOBODY)))"
  by (rule verify_accepts_exactly)
    (simp_all add: demo_env_def demo_digests_sized demo_ctx_def demo_verify_facts verify_payload_def)

text \<open>The key test of the closing call, and what the payload has to satisfy.\<close>

definition payload_fits :: "('d, 'w) sctx \<Rightarrow> sign_mech \<Rightarrow> bool" where
  "payload_fits c m =
     (case m of
        Sign_PKCS1 k b \<Rightarrow> (case SignLength (slot c) k of Inr n \<Rightarrow> length b \<le> ulong_minus_11 n | Inl _ \<Rightarrow> False)
      | Sign_Digest _ _ \<Rightarrow> True)"

lemma mech_SignFinal_eq:
  assumes "digests_sized cr" and "payload_fits c m"
  shows "mech_SignFinal cr u (slot c) m = Inr (sign_payload cr m)"
  using assms
  by (cases m) (auto simp: mech_final_defs payload_fits_def sign_payload_def mech_DigestFinal_at_def ba_copy_def split: sum.splits)


lemma demo_sign_key: "sign_key (set_sign m (demo_ctx CKU_USER)) 2 = Inr (Suc 0)"
proof -
  have "ObjClass demo_private = CKO_PRIVATE_KEY" by (simp add: demo_simps)
  then show ?thesis by (simp add: sign_key_def demo_ctx_def demo_objects)
qed


text \<open>
  A length query of a signature (null buffer) does not use the card: it returns the size of
  the key's modulus and leaves the session, the slot and the card as they are, so the
  operation stays active.
\<close>

lemma sign_length_query:
  assumes "pSignMechanism (sess c) = Some m" and "sign_key c (sKey m) = Inr p"
    and "slot_attr (slot c) p CKA_MODULUS = Inr (Some n)"
  shows "SignFinal env (view_of None k) c = (Inr (view_of None (length n)), c)"
proof -
  have "GetObjectFromID (slot c) (sKey m) = Some p \<and> ObjClass (objs (slot c) p) = CKO_PRIVATE_KEY"
    using assms(2) by (auto simp: sign_key_def bindE_eq_Inr split: option.splits if_splits)
  then show ?thesis
    using assms
    by (simp add: SignFinal_def isNull_def view_of_def SignLength_def mech_key_def attr_or_error_def)
qed

end
