(* ===== verification/State_Theorems.thy ===== *)
theory State_Theorems
  imports Session_Theorems
begin

section \<open>The saved operation state\<close>

text \<open>
  What \<open>C_SetOperationState\<close> makes of what \<open>C_GetOperationState\<close> returned.
\<close>

lemma tlvc_size_put: "tlvc_size (map_put m k v) \<le> tlvc_size m + length v + 6"
  by (induction m k v rule: map_put.induct) (auto split: prod.splits if_splits)

lemma save_part_facts:
  assumes "save_part m tag part = Inr m'" and "map_ok m"
    and "\<And>b. part = Some (Inr b) \<Longrightarrow> length b \<le> n"
  shows "map_ok m' \<and> (\<forall>t. t \<noteq> tag \<longrightarrow> map_of m' t = map_of m t) \<and> tlvc_size m' \<le> tlvc_size m + n + 12"
proof (cases part)
  case None
  then show ?thesis using assms(1,2) by (simp add: save_part_def)
next
  case (Some r)
  then obtain b where r: "r = Inr b" and m': "m' = tlvc_setValue (tlvc_addValue m tag) tag b"
    using assms(1) by (auto simp: save_part_def bindE_eq_Inr)
  have "length b \<le> n" using assms(3) Some r by blast
  with tlvc_size_put [of "map_put m tag []" tag b] tlvc_size_put [of m tag "[]"] assms(2) show ?thesis
    by (simp add: m' tlvc_setValue_def tlvc_addValue_def)
qed

lemma save_op_length:
  assumes "save_op env mt data key = Inr b" and "data = Inr []" and "key = Some (Inr kid)" and "length kid < 65536"
  shows "length b \<le> 65552"
proof -
  let ?m = "[(OS_Algo, VarToByteArray64 mt), (OS_Key, kid)]"
  have "tlvc_getBuffer (uninit env) ?m = Inr b"
    using assms(1-3) by (simp add: save_op_def tlvc_setValue_def)
  moreover have "tlvc_size ?m < 2 ^ 32" using assms(4) by simp
  ultimately have "b = tlv_bytes ?m" using tlvc_getBuffer_eq [of ?m "uninit env"] by simp
  then have "length b = tlvc_size ?m" using length_tlv_bytes by blast
  then show ?thesis using assms(4) by simp
qed

lemma op_data_empty:
  "mech_SignGetOperationState ms = Inr d \<Longrightarrow> d = []" "mech_VerifyGetOperationState mv = Inr d \<Longrightarrow> d = []"
  by (cases ms; cases mv; simp add: mech_DigestGetOperationState_def)+

lemma save_key_op_length:
  assumes "save_op env mt data (Some k) = Inr b" and "\<And>d. data = Inr d \<Longrightarrow> d = []"
    and "\<And>kid. k = Inr kid \<Longrightarrow> length kid < 65536"
  shows "length b \<le> 65552"
proof -
  obtain kid where "data = Inr []" "k = Inr kid"
    using assms(1,2) by (fastforce simp: save_op_def bindE_eq_Inr Let_def)
  with save_op_length [OF assms(1)] assms(3) show ?thesis by blast
qed

lemma digest_op_unsupported: "save_op env mt (mech_DigestGetOperationState d) None \<noteq> Inr b"
  by (simp add: save_op_def mech_DigestGetOperationState_def)

text \<open>The records under \<open>OS_Flags\<close> and \<open>OS_User\<close> in a saved state.\<close>

lemma saved_state_parsed:
  assumes "saved_state env c = Inr st"
    and "\<And>h kid. active_key_id c h = Inr kid \<Longrightarrow> length kid < 65536"
  shows "\<exists>m. CTLV st = Inr m \<and> tlv_getValue m OS_Flags = Inr (Some (VarToByteArray64 (flags (sess c)))) \<and>
    tlv_getValue m OS_User = Inr (Some (VarToByteArray64 (flags (sess c))))"
proof -
  let ?F = "VarToByteArray64 (flags (sess c))"
  define m0 where "m0 = tlvc_setValue (tlvc_setValue [] OS_Flags ?F) OS_User ?F"
  have m0: "map_ok m0" "map_of m0 0 = Some ?F" "map_of m0 1 = Some ?F" "tlvc_size m0 = 20"
    by (simp_all add: m0_def tlvc_setValue_def)
  obtain m1 m2 m3 where
    1: "save_part m0 OS_Sign (map_option (\<lambda>mech. save_op env (sign_mtType mech) (mech_SignGetOperationState mech)
          (Some (active_key_id c (sKey mech)))) (pSignMechanism (sess c))) = Inr m1" and
    2: "save_part m1 OS_Verify (map_option (\<lambda>mech. save_op env (verify_mtType mech) (mech_VerifyGetOperationState mech)
          (Some (active_key_id c (vKey mech)))) (pVerifyMechanism (sess c))) = Inr m2" and
    3: "save_part m2 OS_Digest (map_option (\<lambda>mech. save_op env (digest_mtType (dalg mech))
          (mech_DigestGetOperationState mech) None) (pDigestMechanism (sess c))) = Inr m3" and
    st: "tlvc_getBuffer (uninit env) m3 = Inr st"
    using assms(1) unfolding saved_state_def Let_def m0_def [symmetric] bindE_eq_Inr by blast
  have f1: "map_ok m1 \<and> (\<forall>t. t \<noteq> OS_Sign \<longrightarrow> map_of m1 t = map_of m0 t) \<and> tlvc_size m1 \<le> tlvc_size m0 + 65552 + 12"
    by (rule save_part_facts [OF 1 m0(1)])
      (auto intro!: save_key_op_length intro: op_data_empty assms(2))
  have f2: "map_ok m2 \<and> (\<forall>t. t \<noteq> OS_Verify \<longrightarrow> map_of m2 t = map_of m1 t) \<and> tlvc_size m2 \<le> tlvc_size m1 + 65552 + 12"
    by (rule save_part_facts [OF 2]) (use f1 in \<open>auto intro!: save_key_op_length intro: op_data_empty assms(2)\<close>)
  have f3: "map_ok m3 \<and> (\<forall>t. t \<noteq> OS_Digest \<longrightarrow> map_of m3 t = map_of m2 t) \<and> tlvc_size m3 \<le> tlvc_size m2 + 0 + 12"
    by (rule save_part_facts [OF 3]) (use f2 in \<open>auto simp: digest_op_unsupported\<close>)
  have "tlvc_size m3 < 2 ^ 32" using f1 f2 f3 m0(4) by simp
  from ctlv_roundtrip [OF _ this, of "uninit env"] f3 st obtain m where
    "CTLV st = Inr m" "\<forall>t. tlv_getValue m t = Inr (map_of m3 t)" by auto
  with f1 f2 f3 m0 show ?thesis by auto
qed

text \<open>
  C37: the operation state of a session cannot be restored.  \<open>GetOperationState\<close> stores the
  session flags in the place of the user, so \<open>SetOperationState\<close> on the same session rejects
  what it returned with \<open>CKR_SAVED_STATE_INVALID\<close> (unless the flags happen to equal the code
  of the logged-in user), and changes nothing.
\<close>

theorem operation_state_rejected:
  assumes "saved_state env c = Inr st" and "flags (sess c) \<noteq> User (slot c)"
    and "\<forall>h kid. active_key_id c h = Inr kid \<longrightarrow> length kid < 65536"
  shows "SetOperationState st c = (throw_p11 CKR_SAVED_STATE_INVALID, c)"
proof -
  obtain m where "CTLV st = Inr m" "tlv_getValue m OS_Flags = Inr (Some (VarToByteArray64 (flags (sess c))))"
    "tlv_getValue m OS_User = Inr (Some (VarToByteArray64 (flags (sess c))))"
    using saved_state_parsed [OF assms(1)] assms(3) by blast
  with assms(2) show ?thesis
    by (simp add: SetOperationState_def tlv_required_def)
qed

lemma demo_key_ids: "active_key_id (demo_ctx u) h = Inr kid \<Longrightarrow> length kid < 65536"
  by (auto simp: active_key_id_def attr_or_error_def slot_attr_def GetObjectFromID_def demo_ctx_def demo_slot_def
      getAttribute_tmpl bindE_eq_Inr demo_public_def demo_private_def new_P11PublicKey_def new_P11PrivateKey_def
      new_P11Object_def addAttribute_def split: option.splits if_splits)

theorem operation_state_rejected_witness:
  "SetOperationState (tlv_bytes [(OS_Flags, VarToByteArray64 6), (OS_User, VarToByteArray64 6)]) (demo_ctx CKU_USER) =
     (throw_p11 CKR_SAVED_STATE_INVALID, demo_ctx CKU_USER)"
proof (rule operation_state_rejected [where env = demo_env])
  have "tlvc_getBuffer u [(OS_Flags, VarToByteArray64 6), (OS_User, VarToByteArray64 6)] =
      Inr (tlv_bytes [(OS_Flags, VarToByteArray64 6), (OS_User, VarToByteArray64 6)])" for u
    by (rule tlvc_getBuffer_eq) simp
  then show "saved_state demo_env (demo_ctx CKU_USER) =
      Inr (tlv_bytes [(OS_Flags, VarToByteArray64 6), (OS_User, VarToByteArray64 6)])"
    by (simp add: saved_state_def demo_ctx_def new_CSession_def save_part_def tlvc_setValue_def demo_env_def)
qed (use demo_key_ids in \<open>auto simp: demo_ctx_def new_CSession_def demo_objects\<close>)

end
