(* ===== verification/Search_Theorems.thy ===== *)
theory Search_Theorems
  imports Session_Theorems
begin

section \<open>Object search and private objects\<close>

text \<open>
  The result of \<open>C_FindObjectsInit\<close>, the enumeration by \<open>C_FindObjects\<close>, and the access to
  private objects without a login.
\<close>

subsection \<open>What a search finds\<close>

text \<open>An object matches a template when it has every attribute of it with the given value.\<close>

definition entry_matches :: "'d cslot \<Rightarrow> obj_ptr \<Rightarrow> ck_attribute \<Rightarrow> bool" where
  "entry_matches sl p a \<longleftrightarrow>
     (case slot_attr sl p (atype a) of Inr (Some v) \<Rightarrow> attr_value a = Inr v | _ \<Rightarrow> False)"

definition matches :: "'d cslot \<Rightarrow> ck_attribute list \<Rightarrow> obj_ptr \<Rightarrow> bool" where
  "matches sl tpl p \<longleftrightarrow> list_all (entry_matches sl p) tpl"

definition visible :: "'d cslot \<Rightarrow> obj_ptr \<Rightarrow> bool" where
  "visible sl p \<longleftrightarrow>
     (case slot_private sl p of Inr priv \<Rightarrow> \<not> priv \<or> User sl = CKU_USER | Inl _ \<Rightarrow> False)"

text \<open>A template over readable memory that asks for no CRT component.\<close>

definition search_template :: "ck_attribute list \<Rightarrow> bool" where
  "search_template tpl \<longleftrightarrow>
     list_all (\<lambda>a. atype a \<notin> crt_components \<and> (case attr_value a of Inr _ \<Rightarrow> True | Inl _ \<Rightarrow> False)) tpl"

definition privacy_known :: "'d cslot \<Rightarrow> obj_ptr list \<Rightarrow> bool" where
  "privacy_known sl ps \<longleftrightarrow> list_all (\<lambda>p. case slot_private sl p of Inr _ \<Rightarrow> True | Inl _ \<Rightarrow> False) ps"

lemma attr_value_length: "attr_value a = Inr w \<Longrightarrow> length w = unat (ulValueLen a)"
  by (auto simp: attr_value_def split: option.splits if_splits)

lemma match_attrs_eq:
  assumes "pTemplate sl \<noteq> None" and "search_template tpl"
  shows "match_attrs sl p tpl = Inr (matches sl tpl p)"
  using assms(2)
proof (induction tpl)
  case Nil
  then show ?case by (simp add: matches_def)
next
  case (Cons a tpl)
  then obtain w where w: "attr_value a = Inr w" and nc: "atype a \<notin> crt_components"
    by (auto simp: search_template_def split: sum.splits)
  have attr: "slot_attr sl p (atype a) = Inr (map_of (attributes (objs sl p)) (atype a))"
    using assms(1) nc by (auto simp: slot_attr_def getAttribute_tmpl crt_components_def)
  have "search_template tpl" using Cons.prems by (simp add: search_template_def)
  with Cons.IH w attr attr_value_length [OF w] show ?case
    by (auto simp: matches_def entry_matches_def split: option.splits)
qed

text \<open>Issuing handles does not change what a search looks at.\<close>

definition same_objects :: "'d cslot \<Rightarrow> 'd cslot \<Rightarrow> bool" where
  "same_objects sl sl' \<longleftrightarrow>
     objs sl' = objs sl \<and> pTemplate sl' = pTemplate sl \<and> User sl' = User sl \<and> P11Objects sl' = P11Objects sl"

lemma same_objects_cong:
  "same_objects sl sl' \<Longrightarrow> slot_private sl' = slot_private sl \<and> matches sl' = matches sl \<and> visible sl' = visible sl"
proof -
  assume s: "same_objects sl sl'"
  then have p: "slot_private sl' = slot_private sl" and a: "slot_attr sl' = slot_attr sl"
    by (simp_all add: same_objects_def slot_private_def slot_attr_def fun_eq_iff)
  have "entry_matches sl' = entry_matches sl" by (simp add: entry_matches_def a fun_eq_iff)
  then have "matches sl' tpl q = matches sl tpl q" for tpl q by (simp only: matches_def)
  then have "matches sl' = matches sl" by (intro ext)
  moreover have "User sl' = User sl" using s by (simp add: same_objects_def)
  then have "visible sl' q = visible sl q" for q by (simp only: visible_def p)
  then have "visible sl' = visible sl" by (intro ext)
  ultimately show ?thesis using p by blast
qed

lemma assign_handle_same: "assign_handle sl p = (h, sl') \<Longrightarrow> same_objects sl sl'"
  by (auto simp: assign_handle_def GetNewObjectID_def same_objects_def split: option.splits)

lemma assign_handle_count: "assign_handle sl p = (h, sl') \<Longrightarrow> unat (dwP11ObjCnt sl') \<le> Suc (unat (dwP11ObjCnt sl))"
proof -
  assume as: "assign_handle sl p = (h, sl')"
  have "unat (dwP11ObjCnt sl + 1) \<le> unat (dwP11ObjCnt sl) + unat (1::ulong)"
    by (metis unat_word_ariths(1) mod_less_eq_dividend)
  with as show ?thesis by (auto simp: assign_handle_def GetNewObjectID_def split: option.splits)
qed

lemma GetIDFromObject_visible:
  "GetIDFromObject sl p =
     (if visible sl p then (case assign_handle sl p of (h, sl') \<Rightarrow> (Inr h, sl'))
      else (case slot_private sl p of Inl e \<Rightarrow> Inl e | Inr _ \<Rightarrow> throw_p11 CKR_USER_NOT_LOGGED_IN, sl))"
  by (auto simp: GetIDFromObject_def visible_def split: sum.splits prod.splits)

lemma room_not_max: "unat (x::ulong) + n < 2 ^ 64 - 1 \<Longrightarrow> x \<noteq> -1"
  by (auto simp: unsigned_minus_1_eq_mask mask_eq_exp_minus_1)

text \<open>The outcome of the search loop over \<open>ps\<close> from \<open>c\<close>: the handles \<open>hs\<close> it appended.\<close>

definition searched :: "ck_attribute list \<Rightarrow> obj_ptr list \<Rightarrow> ('d, 'w) sctx \<Rightarrow> ulong list \<Rightarrow> ('d, 'w) sctx \<Rightarrow> bool" where
  "searched tpl ps c hs c' \<longleftrightarrow>
     same_objects (slot c) (slot c') \<and> handles_ok (slot c') \<and> wrld c' = wrld c \<and>
     sess c' = (sess c)\<lparr>findResult := findResult (sess c) @ hs\<rparr> \<and>
     map (GetObjectFromID (slot c')) hs = map Some (filter (\<lambda>p. matches (slot c) tpl p \<and> visible (slot c) p) ps) \<and>
     (\<forall>h q. GetObjectFromID (slot c) h = Some q \<longrightarrow> GetObjectFromID (slot c') h = Some q)"

lemma searched_Cons:
  assumes c1: "c1 = upd_sess (\<lambda>se. se\<lparr>findResult := findResult se @ [h]\<rparr>) (c\<lparr>slot := sl\<rparr>)"
    and as: "assign_handle (slot c) p = (h, sl)" and ok: "handles_ok (slot c)" "dwP11ObjCnt (slot c) \<noteq> -1"
    and vis: "matches (slot c) tpl p" "visible (slot c) p" and s: "searched tpl ps c1 hs c'"
  shows "searched tpl (p # ps) c (h # hs) c'"
proof -
  have same: "same_objects (slot c) sl" using as by (rule assign_handle_same)
  have res: "GetObjectFromID sl h = Some p" using slot_handles.issue_resolve [OF ok, of p] as by simp
  have keeps: "GetObjectFromID sl h' = Some q" if "GetObjectFromID (slot c) h' = Some q" for h' q
    using slot_handles.issue_keeps [OF ok that, of p] as by simp
  have "GetObjectFromID (slot c') h = Some p" using s res by (simp add: searched_def c1)
  then show ?thesis
    using s vis same keeps same_objects_cong [OF same]
    by (auto simp: searched_def c1 same_objects_def)
qed

lemma find_loop_searched:
  assumes "pTemplate (slot c) \<noteq> None" and "search_template tpl"
    and "privacy_known (slot c) ps" and "handles_ok (slot c)"
    and "unat (dwP11ObjCnt (slot c)) + length ps < 2 ^ 64 - 1"
  shows "\<exists>hs c'. find_loop tpl ps c = (Inr (), c') \<and> searched tpl ps c hs c'"
  using assms
proof (induction ps arbitrary: c)
  case Nil
  then show ?case
    by (intro exI [of _ "[]"] exI [of _ c]) (simp add: searched_def same_objects_def)
next
  case (Cons p ps)
  have m: "(if tpl = [] then Inr True else match_attrs (slot c) p tpl) = Inr (matches (slot c) tpl p)"
    using match_attrs_eq [OF Cons.prems(1,2)] by (simp add: matches_def)
  obtain b where b: "slot_private (slot c) p = Inr b"
    using Cons.prems(3) by (auto simp: privacy_known_def split: sum.splits)
  show ?case
  proof (cases "matches (slot c) tpl p \<and> visible (slot c) p")
    case False
    then have "find_loop tpl (p # ps) c = find_loop tpl ps c"
      using m b by (cases "matches (slot c) tpl p") (simp_all add: GetIDFromObject_visible)
    moreover have "\<exists>hs c'. find_loop tpl ps c = (Inr (), c') \<and> searched tpl ps c hs c'"
      using Cons by (simp add: privacy_known_def)
    ultimately show ?thesis using False by (auto simp: searched_def)
  next
    case True
    obtain h sl where as: "assign_handle (slot c) p = (h, sl)" by (cases "assign_handle (slot c) p")
    define c1 where "c1 = upd_sess (\<lambda>se. se\<lparr>findResult := findResult se @ [h]\<rparr>) (c\<lparr>slot := sl\<rparr>)"
    have step: "find_loop tpl (p # ps) c = find_loop tpl ps c1"
      using m True as by (simp add: GetIDFromObject_visible c1_def)
    have max: "dwP11ObjCnt (slot c) \<noteq> -1" using Cons.prems(5) by (rule room_not_max)
    have same: "same_objects (slot c) sl" using as by (rule assign_handle_same)
    have "handles_ok sl" using slot_handles.issue_ok [OF Cons.prems(4) max, of p] as by simp
    then have "\<exists>hs c'. find_loop tpl ps c1 = (Inr (), c') \<and> searched tpl ps c1 hs c'"
      using Cons.prems assign_handle_count [OF as] same same_objects_cong [OF same]
      by (intro Cons.IH) (auto simp: c1_def privacy_known_def same_objects_def)
    then obtain hs c' where loop: "find_loop tpl ps c1 = (Inr (), c')" and s: "searched tpl ps c1 hs c'" by blast
    have "searched tpl (p # ps) c (h # hs) c'"
      using searched_Cons [OF c1_def as Cons.prems(4) max _ _ s] True by blast
    with step loop show ?thesis by metis
  qed
qed

text \<open>
  C7: \<open>C_FindObjectsInit\<close> on a recognised token.  The search succeeds, and the handles it
  collects resolve, in order, to exactly those objects of the slot that have every attribute
  of the template with the given value and that the user may see: private objects are found
  only after the user has logged in.  Handles issued earlier stay valid.
\<close>

theorem search_finds:
  assumes "\<not> bFindInit (sess c)" and "pTemplate (slot c) \<noteq> None" and "search_template tpl"
    and "privacy_known (slot c) (P11Objects (slot c))" and "handles_ok (slot c)"
    and "unat (dwP11ObjCnt (slot c)) + length (P11Objects (slot c)) < 2 ^ 64 - 1"
  shows "\<exists>c'. FindObjectsInit tpl c = (Inr (), c') \<and> bFindInit (sess c') \<and> handles_ok (slot c') \<and>
    map (GetObjectFromID (slot c')) (findResult (sess c')) =
      map Some (filter (\<lambda>p. matches (slot c) tpl p \<and> visible (slot c) p) (P11Objects (slot c))) \<and>
    (\<forall>h q. GetObjectFromID (slot c) h = Some q \<longrightarrow> GetObjectFromID (slot c') h = Some q)"
proof -
  let ?c = "upd_sess (\<lambda>se. se\<lparr>findResult := []\<rparr>) c"
  obtain hs c' where "find_loop tpl (P11Objects (slot c)) ?c = (Inr (), c')"
    "searched tpl (P11Objects (slot c)) ?c hs c'"
    using find_loop_searched [of ?c tpl "P11Objects (slot c)"] assms by auto
  with assms(1) show ?thesis by (auto simp: FindObjectsInit_def searched_def)
qed

theorem search_finds_witness:
  "\<exists>c'. FindObjectsInit [\<lparr>atype = CKA_ID, pValue = Some [1], ulValueLen = 1\<rparr>] (demo_ctx CKU_NOBODY) = (Inr (), c') \<and>
    bFindInit (sess c') \<and> handles_ok (slot c') \<and>
    map (GetObjectFromID (slot c')) (findResult (sess c')) =
      map Some (filter (\<lambda>p. matches (slot (demo_ctx CKU_NOBODY)) [\<lparr>atype = CKA_ID, pValue = Some [1], ulValueLen = 1\<rparr>] p \<and>
                            visible (slot (demo_ctx CKU_NOBODY)) p) (P11Objects (slot (demo_ctx CKU_NOBODY)))) \<and>
    (\<forall>h q. GetObjectFromID (slot (demo_ctx CKU_NOBODY)) h = Some q \<longrightarrow> GetObjectFromID (slot c') h = Some q)"
  by (rule search_finds)
    (simp_all add: demo_ctx_def demo_objects demo_handles_ok new_CSession_def search_template_def crt_components_def
      attr_value_def privacy_known_def, simp add: demo_slot_def)

subsection \<open>The enumeration\<close>

lemma find_pop_eq: "find_pop n fr = (take n (rev fr), rev (drop n (rev fr)))"
proof (induction n arbitrary: fr)
  case 0
  then show ?case by simp
next
  case (Suc n)
  show ?case
  proof (cases fr rule: rev_cases)
    case Nil
    then show ?thesis by simp
  next
    case (snoc ys y)
    then show ?thesis by (simp add: Suc)
  qed
qed

text \<open>Successive calls of \<open>FindObjects\<close>: the handles they deliver, in order.\<close>

primrec find_calls :: "ulong list \<Rightarrow> ('d, 'w) sctx \<Rightarrow> (exn + ulong list) \<times> ('d, 'w) sctx" where
  "find_calls [] c = (Inr [], c)"
| "find_calls (n # ns) c =
     bindS (FindObjects n c) (\<lambda>hs c. bindS (find_calls ns c) (\<lambda>hs' c. (Inr (hs @ hs'), c)))"

text \<open>
  C36: \<open>C_FindObjects\<close>, called any number of times with any limits, delivers the handles found
  by the search, the last found first, each once and none after the total of the limits; the
  rest stays for later calls.
\<close>

theorem search_enumerates:
  assumes "bFindInit (sess c)"
  shows "\<exists>c'. find_calls ns c = (Inr (take (sum_list (map unat ns)) (rev (findResult (sess c)))), c') \<and>
    bFindInit (sess c') \<and> slot c' = slot c \<and>
    rev (findResult (sess c')) = drop (sum_list (map unat ns)) (rev (findResult (sess c)))"
  using assms
proof (induction ns arbitrary: c)
  case Nil
  then show ?case by simp
next
  case (Cons n ns)
  let ?rest = "rev (drop (unat n) (rev (findResult (sess c))))"
  let ?c = "upd_sess (\<lambda>se. se\<lparr>findResult := ?rest\<rparr>) c"
  have "FindObjects n c = (Inr (take (unat n) (rev (findResult (sess c)))), ?c)"
    using Cons.prems by (simp add: FindObjects_def find_pop_eq)
  moreover have "\<exists>c'. find_calls ns ?c = (Inr (take (sum_list (map unat ns)) (rev (findResult (sess ?c)))), c') \<and>
      bFindInit (sess c') \<and> slot c' = slot ?c \<and>
      rev (findResult (sess c')) = drop (sum_list (map unat ns)) (rev (findResult (sess ?c)))"
    using Cons.prems by (intro Cons.IH) simp
  ultimately show ?case by (auto simp: take_add add.commute)
qed

theorem search_enumerates_witness:
  "\<exists>c'. find_calls [1, 5] (upd_sess (\<lambda>se. se\<lparr>bFindInit := True, findResult := [7, 8, 9]\<rparr>) (demo_ctx CKU_USER)) =
      (Inr (take (sum_list (map unat [1, 5 :: ulong]))
         (rev (findResult (sess (upd_sess (\<lambda>se. se\<lparr>bFindInit := True, findResult := [7, 8, 9]\<rparr>) (demo_ctx CKU_USER)))))), c') \<and>
    bFindInit (sess c') \<and>
    slot c' = slot (upd_sess (\<lambda>se. se\<lparr>bFindInit := True, findResult := [7, 8, 9]\<rparr>) (demo_ctx CKU_USER)) \<and>
    rev (findResult (sess c')) = drop (sum_list (map unat [1, 5 :: ulong]))
      (rev (findResult (sess (upd_sess (\<lambda>se. se\<lparr>bFindInit := True, findResult := [7, 8, 9]\<rparr>) (demo_ctx CKU_USER)))))"
  by (rule search_enumerates) simp

subsection \<open>Private objects\<close>

text \<open>
  C10: a private object is closed to everyone but the logged-in user.  Without that login,
  reading its attributes, asking for its size and starting a signature with it fail with
  \<open>CKR_USER_NOT_LOGGED_IN\<close>; nothing is written to the caller's template and no state, on
  either side of the card interface, changes.
\<close>

theorem private_needs_login:
  assumes "GetObjectFromID (slot c) h = Some p" and "slot_private (slot c) p = Inr True" and "User (slot c) \<noteq> CKU_USER"
    and "pSignMechanism (sess c) = None" and "ObjClass (objs (slot c) p) = CKO_PRIVATE_KEY"
  shows "GetAttributeValue h tpl c = (throw_p11 CKR_USER_NOT_LOGGED_IN, tpl) \<and>
    GetObjectSize env h c = (throw_p11 CKR_USER_NOT_LOGGED_IN, c) \<and>
    SignInit mech h c = (throw_p11 CKR_USER_NOT_LOGGED_IN, c)"
  using assms by (simp add: GetAttributeValue_def GetObjectSize_def SignInit_def check_key_def)

theorem private_needs_login_witness:
  "GetAttributeValue 2 [\<lparr>atype = CKA_MODULUS, pValue = None, ulValueLen = 0\<rparr>] (demo_ctx CKU_SO) =
      (throw_p11 CKR_USER_NOT_LOGGED_IN, [\<lparr>atype = CKA_MODULUS, pValue = None, ulValueLen = 0\<rparr>]) \<and>
    GetObjectSize demo_env 2 (demo_ctx CKU_SO) = (throw_p11 CKR_USER_NOT_LOGGED_IN, demo_ctx CKU_SO) \<and>
    SignInit (plain_mechanism CKM_RSA_PKCS) 2 (demo_ctx CKU_SO) = (throw_p11 CKR_USER_NOT_LOGGED_IN, demo_ctx CKU_SO)"
proof (rule private_needs_login [where p = "Suc 0"])
  show "ObjClass (objs (slot (demo_ctx CKU_SO)) (Suc 0)) = CKO_PRIVATE_KEY"
    by (simp add: demo_ctx_def demo_objects) (simp add: demo_simps)
qed (simp_all add: demo_ctx_def demo_objects new_CSession_def)

end
