(* ===== verification/Atr.thy ===== *)
theory Atr
  imports Prelude "HOL-Library.Sublist"
begin

section \<open>Chip recognition from the ATR (shared/src/csp/atr.cpp)\<close>

text \<open>
  The table of known chips, the search through it and the fallback for unlisted variants
  of the ITJ4 applet family.
\<close>

datatype CIE_Type =
    CIE_Unknown | CIE_Gemalto | CIE_Gemalto2 | CIE_STM | CIE_STM2 | CIE_STM3 | CIE_NXP
  | CIE_ACTALIS | CIE_ACTALIS2 | CIE_BIT4ID | CIE_BIT4ID2 | CIE_BIT4ID3 | CIE_ACTALIS3

record cie_atr =
  cie_type :: CIE_Type
  type_name :: string
  atr_bytes :: bytes

definition atr_entry :: "CIE_Type \<Rightarrow> string \<Rightarrow> bytes \<Rightarrow> cie_atr" where
  "atr_entry t n b = \<lparr>cie_type = t, type_name = n, atr_bytes = b\<rparr>"

definition atr_list :: "cie_atr list" where
  "atr_list =
    [atr_entry CIE_NXP ''NXP'' [0x80, 0x31, 0x80, 0x65, 0x49, 0x54, 0x4E, 0x58, 0x50],
     atr_entry CIE_Gemalto ''Gemalto'' [0x80, 0x31, 0x80, 0x65, 0xB0, 0x85, 0x04, 0x00, 0x11],
     atr_entry CIE_Gemalto2 ''Gemalto2'' [0x80, 0x31, 0x80, 0x65, 0xB0, 0x85, 0x03, 0x00, 0xEF],
     atr_entry CIE_STM ''STM'' [0x80, 0x66, 0x47, 0x50, 0x00, 0xB8, 0x00, 0x7F],
     atr_entry CIE_STM2 ''STM2'' [0x80, 0x80, 0x01, 0x01],
     atr_entry CIE_STM3 ''STM3''
       [0x80, 0x01, 0x80, 0x66, 0x47, 0x50, 0x00, 0xB8, 0x00, 0x94, 0x82, 0x90, 0x00, 0xC5],
     atr_entry CIE_ACTALIS ''Actalis''
       [0x80, 0x01, 0x80, 0x31, 0x80, 0x65, 0x49, 0x54, 0x4A,
        0x34, 0x41, 0x12, 0x0F, 0xFF, 0x82, 0x90, 0x00, 0x88],
     atr_entry CIE_ACTALIS2 ''Actalis2023''
       [0x80, 0x01, 0x80, 0x31, 0x80, 0x65, 0x49, 0x54, 0x4A,
        0x34, 0x43, 0x12, 0x0F, 0xFF, 0x82, 0x90, 0x00, 0x8A],
     atr_entry CIE_ACTALIS3 ''Actalis_B946''
       [0x80, 0x01, 0x80, 0x31, 0x80, 0x65, 0x49, 0x54, 0x4A,
        0x34, 0x4C, 0x12, 0x0F, 0xFF, 0x82, 0x90, 0x00, 0x85],
     atr_entry CIE_BIT4ID ''Bit4Id''
       [0x80, 0x01, 0x80, 0x31, 0x80, 0x65, 0x49, 0x54, 0x4A,
        0x34, 0x42, 0x12, 0x0F, 0xFF, 0x82, 0x90, 0x00, 0x8B],
     atr_entry CIE_BIT4ID2 ''Bit4Id2023''
       [0x80, 0x01, 0x80, 0x31, 0x80, 0x65, 0x49, 0x54, 0x4A,
        0x34, 0x44, 0x12, 0x0F, 0xFF, 0x82, 0x90, 0x00, 0x8D],
     atr_entry CIE_BIT4ID3 ''Bit4id_B9547''
       [0x80, 0x01, 0x80, 0x31, 0x80, 0x65, 0x49, 0x54, 0x4A,
        0x34, 0x49, 0x12, 0x0F, 0xFF, 0x82, 0x90, 0x00, 0x80]]"

text \<open>\<open>std::search\<close>: whether the needle occurs as a contiguous part of the haystack.\<close>

fun std_search :: "bytes \<Rightarrow> bytes \<Rightarrow> bool" where
  "std_search [] needle = (needle = [])"
| "std_search (x # xs) needle =
     (if take (length needle) (x # xs) = needle then True else std_search xs needle)"

definition ContainsSubsequence :: "bytes \<Rightarrow> bytes \<Rightarrow> bool" where
  "ContainsSubsequence haystack needle =
     (if length needle > length haystack then False else std_search haystack needle)"

definition find_atr :: "bytes \<Rightarrow> cie_atr option" where
  "find_atr atr = find (\<lambda>el. ContainsSubsequence atr (atr_bytes el)) atr_list"

definition get_type :: "bytes \<Rightarrow> CIE_Type" where
  "get_type atr = (case find_atr atr of Some el \<Rightarrow> cie_type el | None \<Rightarrow> CIE_Unknown)"

definition cie_family :: "CIE_Type \<Rightarrow> CIE_Type" where
  "cie_family t =
     (case t of CIE_Gemalto2 \<Rightarrow> CIE_Gemalto
      | CIE_ACTALIS2 \<Rightarrow> CIE_ACTALIS | CIE_ACTALIS3 \<Rightarrow> CIE_ACTALIS
      | CIE_BIT4ID2 \<Rightarrow> CIE_BIT4ID | CIE_BIT4ID3 \<Rightarrow> CIE_BIT4ID
      | _ \<Rightarrow> t)"

definition itj4_family :: bytes where
  "itj4_family = [0x80, 0x31, 0x80, 0x65, 0x49, 0x54, 0x4A, 0x34]"

text \<open>\<open>get_family_type\<close> with the value of \<open>*usedFallback\<close>.\<close>

definition get_family_type :: "bytes \<Rightarrow> CIE_Type \<times> bool" where
  "get_family_type atr =
     (let exact = get_type atr in
      if exact \<noteq> CIE_Unknown then (cie_family exact, False)
      else if ContainsSubsequence atr itj4_family then (CIE_ACTALIS, True)
      else (CIE_Unknown, False))"

definition get_manufacturer :: "bytes \<Rightarrow> string" where
  "get_manufacturer atr =
     (case find_atr atr of
        Some el \<Rightarrow> type_name el
      | None \<Rightarrow> if fst (get_family_type atr) = CIE_ACTALIS then ''Actalis'' else '''')"

text \<open>\<open>atr_to_hex\<close>, with the digits table it indexes.\<close>

definition hex_digits :: string where
  "hex_digits = ''0123456789ABCDEF''"

definition atr_to_hex :: "bytes \<Rightarrow> string" where
  "atr_to_hex atr =
     concat (map (\<lambda>i. (if i \<noteq> 0 then '' '' else '''')
                   @ [hex_digits ! unat (drop_bit 4 (atr ! i)), hex_digits ! unat (atr ! i AND 0x0F)])
              [0..<length atr])"

subsection \<open>Recognition\<close>

lemma std_search_sublist: "std_search xs ys \<longleftrightarrow> sublist ys xs"
proof (induction xs)
  case Nil
  then show ?case by auto
next
  case (Cons x xs)
  have "take (length ys) (x # xs) = ys \<longleftrightarrow> prefix ys (x # xs)"
    by (metis append_eq_conv_conj append_take_drop_id prefix_def)
  with Cons show ?case by (auto simp: sublist_Cons_right)
qed

lemma ContainsSubsequence_sublist: "ContainsSubsequence xs ys \<longleftrightarrow> sublist ys xs"
  by (auto simp: ContainsSubsequence_def std_search_sublist dest: sublist_length_le)

lemma atr_list_types: "list_all (\<lambda>e. cie_type e \<noteq> CIE_Unknown \<and> type_name e \<noteq> '''') atr_list"
  by (simp add: atr_list_def atr_entry_def)

lemma find_atr_Some:
  assumes "find_atr atr = Some el"
  shows "el \<in> set atr_list" and "sublist (atr_bytes el) atr"
  using assms by (auto simp: find_atr_def find_Some_iff ContainsSubsequence_sublist)

lemma find_atr_None: "find_atr atr = None \<longleftrightarrow> (\<forall>el \<in> set atr_list. \<not> sublist (atr_bytes el) atr)"
  by (auto simp: find_atr_def find_None_iff ContainsSubsequence_sublist)

lemma get_type_Unknown: "get_type atr = CIE_Unknown \<longleftrightarrow> find_atr atr = None"
  using find_atr_Some(1) atr_list_types
  by (auto simp: get_type_def list_all_iff split: option.splits)

end
