(* ===== verification/Slot.thy ===== *)
theory Slot
  imports Operation_State Atr
begin

section \<open>Slots (pkcs11/src/pkcs11/slot.cpp, card\_context.cpp, card\_template.cpp)\<close>

text \<open>
  The slot list, the life of a slot (\<open>Init\<close>, \<open>Final\<close>), its PC/SC context and the card
  events of the monitor thread.  \<open>bP11Initialized\<close> cannot change during a call, which holds
  the module's mutex, so it is tested once.
\<close>

abbreviation (input) SCARD_S_SUCCESS :: int where "SCARD_S_SUCCESS \<equiv> 0"
abbreviation (input) SCARD_E_INVALID_HANDLE :: int where "SCARD_E_INVALID_HANDLE \<equiv> 0x80100003"
abbreviation (input) SCARD_E_NO_SERVICE :: int where "SCARD_E_NO_SERVICE \<equiv> 0x8010001D"
abbreviation (input) SCARD_E_SERVICE_STOPPED :: int where "SCARD_E_SERVICE_STOPPED \<equiv> 0x8010001E"
abbreviation (input) SCARD_E_NO_READERS_AVAILABLE :: int where
  "SCARD_E_NO_READERS_AVAILABLE \<equiv> 0x8010002E"
abbreviation (input) ERROR_INVALID_HANDLE :: int where "ERROR_INVALID_HANDLE \<equiv> 6"

abbreviation (input) SCARD_STATE_CHANGED :: ulong where "SCARD_STATE_CHANGED \<equiv> 2"
abbreviation (input) SCARD_STATE_UNAVAILABLE :: ulong where "SCARD_STATE_UNAVAILABLE \<equiv> 8"
abbreviation (input) SCARD_STATE_EMPTY :: ulong where "SCARD_STATE_EMPTY \<equiv> 0x10"
abbreviation (input) SCARD_STATE_PRESENT :: ulong where "SCARD_STATE_PRESENT \<equiv> 0x20"

subsection \<open>CCardContext\<close>

text \<open>The operations on the context handle and the world.\<close>

definition getContext :: "'w transport_functions \<Rightarrow> ulong \<times> 'w \<Rightarrow> (exn + unit) \<times> ulong \<times> 'w" where
  "getContext tr = (\<lambda>(hc, w).
     case EstablishContext tr w of (ris, h, w) \<Rightarrow>
       if ris = SCARD_S_SUCCESS then (Inr (), h, w)
       else if ris = SCARD_E_NO_SERVICE \<or> ris = SCARD_E_NO_READERS_AVAILABLE then (Inr (), 0, w)
       else (Inl (Windows_Error ris), hc, w))"

definition new_CCardContext :: "'w transport_functions \<Rightarrow> 'w \<Rightarrow> (exn + unit) \<times> ulong \<times> 'w" where
  "new_CCardContext tr w = getContext tr (0, w)"

definition delete_CCardContext :: "'w transport_functions \<Rightarrow> ulong \<Rightarrow> 'w \<Rightarrow> 'w" where
  "delete_CCardContext tr hc w = (if hc \<noteq> 0 then snd (ReleaseContext tr hc w) else w)"

definition context_validate :: "'w transport_functions \<Rightarrow> ulong \<times> 'w \<Rightarrow> (exn + unit) \<times> ulong \<times> 'w" where
  "context_validate tr = (\<lambda>(hc, w).
     let (hc, w) = (if hc \<noteq> 0 then
                      (case IsValidContext tr hc w of (ris, w) \<Rightarrow>
                         (if ris \<noteq> SCARD_S_SUCCESS then 0 else hc, w))
                    else (hc, w))
     in if hc = 0 then getContext tr (hc, w) else (Inr (), hc, w))"

definition context_renew :: "'w transport_functions \<Rightarrow> ulong \<times> 'w \<Rightarrow> (exn + unit) \<times> ulong \<times> 'w" where
  "context_renew tr = (\<lambda>(hc, w).
     case (if hc \<noteq> 0 then ReleaseContext tr hc w else (SCARD_S_SUCCESS, w)) of (ris, w) \<Rightarrow>
       if ris \<noteq> SCARD_S_SUCCESS then (Inl (Windows_Error ris), hc, w)
       else getContext tr (0, w))"

text \<open>A context operation on the context of a slot.\<close>

definition slot_context :: "(ulong \<times> 'w \<Rightarrow> (exn + unit) \<times> ulong \<times> 'w) \<Rightarrow> ('d, 'w, unit) card_op" where
  "slot_context f = (\<lambda>(sl, w). case f (hContext sl, w) of (r, hc, w) \<Rightarrow> (r, sl\<lparr>hContext := hc\<rparr>, w))"

definition stale_context :: "int \<Rightarrow> bool" where
  "stale_context ris \<longleftrightarrow>
     ris = SCARD_E_SERVICE_STOPPED \<or> ris = SCARD_E_INVALID_HANDLE \<or> ris = ERROR_INVALID_HANDLE"

subsection \<open>Reader state, connection and ATR\<close>

text \<open>
  \<open>IsTokenPresent\<close> and \<open>Connect\<close> retry once with a new context when theirs is stale; the
  argument of the loops is \<open>retry\<close>.
\<close>

function token_loop :: "'w transport_functions \<Rightarrow> bool \<Rightarrow> 'd cslot \<times> 'w \<Rightarrow> (exn + bool) \<times> 'd cslot \<times> 'w" where
  "token_loop tr retry (sl, w) =
     (case GetStatusChange tr (hContext sl) (szName sl) w of (ris, dwEventState, w) \<Rightarrow>
        if ris = SCARD_S_SUCCESS then
          if dwEventState AND SCARD_STATE_UNAVAILABLE = SCARD_STATE_UNAVAILABLE then
            (throw_p11 CKR_DEVICE_REMOVED, sl, w)
          else (Inr (dwEventState AND SCARD_STATE_PRESENT = SCARD_STATE_PRESENT), sl, w)
        else if stale_context ris then
          if retry then (Inl (Windows_Error ris), sl, w)
          else bindS (slot_context (context_renew tr) (sl, w)) (\<lambda>_ st. token_loop tr True st)
        else if ris = SCARD_E_NO_READERS_AVAILABLE then (throw_p11 CKR_DEVICE_REMOVED, sl, w)
        else (Inl (Windows_Error ris), sl, w))"
  by pat_completeness auto
termination
  by (relation "measure (\<lambda>(tr, retry, st). if retry then 0 else 1)") auto

definition IsTokenPresent :: "'w transport_functions \<Rightarrow> ('d, 'w, bool) card_op" where
  "IsTokenPresent tr st =
     bindS (slot_context (context_validate tr) st) (\<lambda>_ st. token_loop tr False st)"

function connect_loop :: "'w transport_functions \<Rightarrow> bool \<Rightarrow> 'd cslot \<times> 'w \<Rightarrow> (exn + unit) \<times> 'd cslot \<times> 'w" where
  "connect_loop tr retry (sl, w) =
     (case TransportConnect tr (hContext sl) (szName sl) w of (ris, h, w) \<Rightarrow>
        if ris = SCARD_S_SUCCESS then (Inr (), sl\<lparr>hCard := h\<rparr>, w)
        else if stale_context ris then
          if retry then (Inl (Windows_Error ris), sl, w)
          else bindS (slot_context (context_renew tr) (sl, w)) (\<lambda>_ st. connect_loop tr True st)
        else (Inl (Windows_Error ris), sl, w))"
  by pat_completeness auto
termination
  by (relation "measure (\<lambda>(tr, retry, st). if retry then 0 else 1)") auto

declare token_loop.simps [simp del] connect_loop.simps [simp del]

definition Connect :: "'w transport_functions \<Rightarrow> ('d, 'w, unit) card_op" where
  "Connect tr st =
     bindS (slot_context (context_validate tr) st) (\<lambda>_ st. connect_loop tr False st)"

definition GetATR_card :: "'w transport_functions \<Rightarrow> 'd cslot \<times> 'w \<Rightarrow> bytes \<times> 'w" where
  "GetATR_card tr = (\<lambda>(sl, w).
     case GetAttrib tr (hCard sl) w of (ret, atr, w) \<Rightarrow>
       (if ret = SCARD_S_SUCCESS then atr else [], w))"

definition GetATR :: "'w transport_functions \<Rightarrow> ('d, 'w, bytes) card_op" where
  "GetATR tr = (\<lambda>(sl, w).
     if length (baATR sl) \<noteq> 0 then (Inr (baATR sl), sl, w)
     else (case GetATR_card tr (sl, w) of (atr, w) \<Rightarrow> (Inr atr, sl\<lparr>baATR := atr\<rparr>, w)))"

subsection \<open>Card templates\<close>

definition AddTemplate :: "nat \<Rightarrow> ('d, 'w) p11_state \<Rightarrow> ('d, 'w) p11_state" where
  "AddTemplate t s = s\<lparr>g_mCardTemplates := g_mCardTemplates s @ [t]\<rparr>"

definition InitTemplateList :: "('d, 'w) p11_state \<Rightarrow> ('d, 'w) p11_state" where
  "InitTemplateList s = AddTemplate (templateNext s) (s\<lparr>templateNext := templateNext s + 1\<rparr>)"

definition DeleteTemplateList :: "('d, 'w) p11_state \<Rightarrow> ('d, 'w) p11_state" where
  "DeleteTemplateList s = s\<lparr>g_mCardTemplates := []\<rparr>"

text \<open>\<open>GetTemplate\<close>: the first template that matches; an exception counts as no match.\<close>

fun GetTemplate :: "('d, 'w) env \<Rightarrow> nat list \<Rightarrow> ('d, 'w, nat option) card_op" where
  "GetTemplate env [] st = (Inr None, st)"
| "GetTemplate env (t # ts) st =
     (case templateMatchCard (tmpl env) st of
        (Inr True, st) \<Rightarrow> (Inr (Some t), st)
      | (Inr False, st) \<Rightarrow> GetTemplate env ts st
      | (Inl e, st) \<Rightarrow> if e \<in> {UB, Hang} then (Inl e, st) else GetTemplate env ts st)"

text \<open>The test on \<open>pTemplate\<close> that \<open>GetTokenInfo\<close> and \<open>Init\<close> begin with.\<close>

definition need_template :: "('d, 'w) env \<Rightarrow> nat list \<Rightarrow> ('d, 'w, unit) card_op" where
  "need_template env ts = (\<lambda>(sl, w).
     if pTemplate sl \<noteq> None then (Inr (), sl, w)
     else
       bindS (GetTemplate env ts (sl, w)) (\<lambda>t (sl, w).
         if t = None then (throw_p11 CKR_TOKEN_NOT_RECOGNIZED, sl\<lparr>pTemplate := t\<rparr>, w)
         else (Inr (), sl\<lparr>pTemplate := t\<rparr>, w)))"

subsection \<open>Init and Final\<close>

definition Init :: "('d, 'w) env \<Rightarrow> nat \<Rightarrow> ('d, 'w) p11_state \<Rightarrow> (exn + unit) \<times> ('d, 'w) p11_state" where
  "Init env p s =
     (if bUpdated (slots s p) then (Inr (), s)
      else
        bindS (on_slot p (need_template env (g_mCardTemplates s)) s) (\<lambda>_ s.
        bindS (on_slot p (templateInitCard (tmpl env)) s) (\<lambda>_ s.
          (Inr (), s\<lparr>slots := (slots s)(p := (slots s p)\<lparr>bUpdated := True\<rparr>)\<rparr>))))"

definition Final :: "('d, 'w) env \<Rightarrow> nat \<Rightarrow> ('d, 'w) p11_state \<Rightarrow> (exn + unit) \<times> ('d, 'w) p11_state" where
  "Final env p s =
     (if \<not> bUpdated (slots s p) then (Inr (), s)
      else if pTemplate (slots s p) = None then (Inl UB, s)
      else
        bindS (on_slot p (templateFinalCard (tmpl env)) s) (\<lambda>_ s.
          (Inr (), s\<lparr>slots := (slots s)(p := (slots s p)\<lparr>pTemplate := None, baATR := [], baSerial := [],
                                P11Objects := [], User := CKU_NOBODY, dwSessionCount := 0,
                                bUpdated := False\<rparr>),
                    g_mSessions := filter (\<lambda>(h, se). pSlot se \<noteq> p) (g_mSessions s)\<rparr>)))"

subsection \<open>Sessions of a slot\<close>

fun close_sessions :: "('d, 'w) env \<Rightarrow> ulong list \<Rightarrow> ('d, 'w) p11_state
    \<Rightarrow> (exn + unit) \<times> ('d, 'w) p11_state" where
  "close_sessions env [] s = (Inr (), s)"
| "close_sessions env (h # hs) s =
     bindS (DeleteSession env h s) (\<lambda>_ s. close_sessions env hs s)"

definition sessions_on :: "nat \<Rightarrow> (ulong, csession) std_map \<Rightarrow> (ulong, csession) std_map" where
  "sessions_on p m = filter (\<lambda>(h, se). pSlot se = p) m"

definition CloseAllSessions :: "('d, 'w) env \<Rightarrow> nat \<Rightarrow> ('d, 'w) p11_state
    \<Rightarrow> (exn + unit) \<times> ('d, 'w) p11_state" where
  "CloseAllSessions env p s =
     close_sessions env (map (\<lambda>(h, se). hSessionHandle se) (sessions_on p (g_mSessions s))) s"

definition SessionCount :: "'d cslot \<Rightarrow> ulong" where
  "SessionCount sl = dwSessionCount sl"

definition RWSessionCount :: "nat \<Rightarrow> (ulong, csession) std_map \<Rightarrow> nat" where
  "RWSessionCount p m = length (filter (\<lambda>(h, se). pSlot se = p \<and> is_RW se) m)"

subsection \<open>The slot list\<close>

definition GetSlotFromID :: "('d, 'w) p11_state \<Rightarrow> ulong \<Rightarrow> nat option" where
  "GetSlotFromID s hSlotId = map_of (g_mSlots s) hSlotId"

definition GetSlotFromReaderName :: "('d, 'w) p11_state \<Rightarrow> string \<Rightarrow> nat option" where
  "GetSlotFromReaderName s name =
     map_option snd (find (\<lambda>(sid, p). szName (slots s p) = name) (g_mSlots s))"

definition AddSlot :: "nat \<Rightarrow> ('d, 'w) p11_state \<Rightarrow> ('d, 'w) p11_state" where
  "AddSlot p s =
     (let sid = dwSlotCnt s + 1 in
      s\<lparr>dwSlotCnt := sid, slots := (slots s)(p := (slots s p)\<lparr>hSlot := sid\<rparr>),
        g_mSlots := map_insert (g_mSlots s) sid p\<rparr>)"

text \<open>\<open>DeleteSlot\<close> closes the slot; the slot stays in \<open>g_mSlots\<close>.\<close>

definition DeleteSlot :: "('d, 'w) env \<Rightarrow> ulong \<Rightarrow> ('d, 'w) p11_state
    \<Rightarrow> (exn + unit) \<times> ('d, 'w) p11_state" where
  "DeleteSlot env hSlotId s =
     (case GetSlotFromID s hSlotId of
        None \<Rightarrow> (throw_p11 CKR_SLOT_ID_INVALID, s)
      | Some p \<Rightarrow> bindS (CloseAllSessions env p s) (\<lambda>_ s. Final env p s))"

fun delete_slots :: "('d, 'w) env \<Rightarrow> (ulong, nat) std_map \<Rightarrow> ('d, 'w) p11_state
    \<Rightarrow> (exn + unit) \<times> ('d, 'w) p11_state" where
  "delete_slots env [] s = (Inr (), s)"
| "delete_slots env ((sid, p) # m) s =
     bindS (DeleteSlot env (hSlot (slots s p)) s) (\<lambda>_ s. delete_slots env m s)"

definition DeleteSlotList :: "('d, 'w) env \<Rightarrow> ('d, 'w) p11_state
    \<Rightarrow> (exn + unit) \<times> ('d, 'w) p11_state" where
  "DeleteSlotList env s = delete_slots env (g_mSlots s) (s\<lparr>Thread := False\<rparr>)"

text \<open>\<open>make_shared<CSlot>\<close>: the constructor of the slot's context may throw.\<close>

definition make_slot :: "('d, 'w) env \<Rightarrow> string \<Rightarrow> ('d, 'w) p11_state
    \<Rightarrow> (exn + nat) \<times> ('d, 'w) p11_state" where
  "make_slot env name s =
     (case new_CCardContext (transport env) (world s) of
        (Inl e, _, w) \<Rightarrow> (Inl e, s\<lparr>world := w\<rparr>)
      | (Inr _, hc, w) \<Rightarrow>
          (Inr (slotNext s),
           s\<lparr>world := w, slots := (slots s)(slotNext s := new_CSlot hc name), slotNext := slotNext s + 1\<rparr>))"

text \<open>
  The first loop of \<open>InitSlotList\<close>, over the names of the multi-string; the result is
  \<open>bMapChanged\<close>.
\<close>

fun add_readers :: "('d, 'w) env \<Rightarrow> string list \<Rightarrow> bool \<Rightarrow> ('d, 'w) p11_state
    \<Rightarrow> (exn + bool) \<times> ('d, 'w) p11_state" where
  "add_readers env [] changed s = (Inr changed, s)"
| "add_readers env (name # names) changed s =
     (if name = [] then (Inr changed, s)
      else
        (case GetSlotFromReaderName s name of
           Some _ \<Rightarrow> add_readers env names changed s
         | None \<Rightarrow>
             bindS (make_slot env name s) (\<lambda>p s. add_readers env names True (AddSlot p s))))"

text \<open>
  The second loop, at the position \<open>i\<close> of \<open>it\<close>.  For a reader that is gone the code steps
  \<open>it\<close> back, deletes the slot and steps forward again; \<open>DeleteSlot\<close> leaves the entry in the
  map, so \<open>it\<close> is where it was, and stepping back from the first entry is undefined.
\<close>

fun sweep_slots :: "nat \<Rightarrow> ('d, 'w) env \<Rightarrow> string list \<Rightarrow> nat \<Rightarrow> bool \<Rightarrow> ('d, 'w) p11_state
    \<Rightarrow> (exn + bool) \<times> ('d, 'w) p11_state" where
  "sweep_slots 0 env names i changed s = (Inl Hang, s)"
| "sweep_slots (Suc n) env names i changed s =
     (if i \<ge> length (g_mSlots s) then (Inr changed, s)
      else
        (case g_mSlots s ! i of (sid, p) \<Rightarrow>
           if szName (slots s p) \<in> set (takeWhile (\<lambda>x. x \<noteq> []) names) then
             sweep_slots n env names (i + 1) changed s
           else if i = 0 then (Inl UB, s)
           else bindS (DeleteSlot env (hSlot (slots s p)) s) (\<lambda>_ s.
                  sweep_slots n env names i True s)))"

text \<open>
  The body of \<open>InitSlotList\<close> with the context it constructs.  The fuel of the second loop
  is one more than the number of slots: a pass that comes to a live reader each time ends
  within it.
\<close>

definition init_slots :: "('d, 'w) env \<Rightarrow> ulong \<Rightarrow> ('d, 'w) p11_state
    \<Rightarrow> (exn + unit) \<times> ('d, 'w) p11_state" where
  "init_slots env hc s =
     (if \<not> bP11Initialized s then (Inr (), s)
      else if hc = 0 then (Inr (), s)
      else
        (case ListReaders (transport env) hc (world s) of (ris, _, w) \<Rightarrow>
           let s = s\<lparr>world := w\<rparr> in
           if ris \<noteq> SCARD_S_SUCCESS then
             if ris = SCARD_E_NO_READERS_AVAILABLE \<or> ris = SCARD_E_NO_SERVICE then (Inr (), s)
             else (Inl (Windows_Error ris), s)
           else
             (case ListReaders (transport env) hc (world s) of (ris, readers, w) \<Rightarrow>
                let s = s\<lparr>world := w\<rparr> in
                if ris \<noteq> SCARD_S_SUCCESS then (Inl (Windows_Error ris), s)
                else
                  bindS (add_readers env readers False s) (\<lambda>changed s.
                  bindS (sweep_slots (Suc (length (g_mSlots s))) env readers 0 changed s) (\<lambda>changed s.
                    (Inr (), s\<lparr>bMonitorUpdate := changed, Thread := True\<rparr>))))))"

definition InitSlotList :: "('d, 'w) env \<Rightarrow> ('d, 'w) p11_state
    \<Rightarrow> (exn + unit) \<times> ('d, 'w) p11_state" where
  "InitSlotList env s =
     (case new_CCardContext (transport env) (world s) of
        (Inl e, _, w) \<Rightarrow> (Inl e, s\<lparr>world := w\<rparr>)
      | (Inr _, hc, w) \<Rightarrow>
          (case init_slots env hc (s\<lparr>world := w\<rparr>) of (r, s) \<Rightarrow>
             (r, s\<lparr>world := delete_CCardContext (transport env) hc (world s)\<rparr>)))"

subsection \<open>Slot and token information\<close>

definition str_bytes :: "string \<Rightarrow> bytes" where
  "str_bytes = map of_char"

text \<open>A fixed-size field: filled with an octet, then overwritten from the left.\<close>

definition field :: "nat \<Rightarrow> byte \<Rightarrow> bytes \<Rightarrow> bytes" where
  "field n f src = src @ replicate (n - length src) f"

record ck_slot_info =
  si_flags :: ulong
  slotDescription :: bytes
  si_manufacturerID :: bytes

text \<open>
  \<open>GetInfo\<close>.  The description is the name without its last character; for an empty name
  the length \<open>size() - 1\<close> wraps and the copy reads 64 octets of an empty string.
\<close>

definition GetInfo :: "'w transport_functions \<Rightarrow> ('d, 'w, ck_slot_info) card_op" where
  "GetInfo tr st =
     bindS (IsTokenPresent tr st) (\<lambda>present (sl, w).
       if szName sl = [] then (Inl UB, sl, w)
       else
         (Inr \<lparr>si_flags = (CKF_REMOVABLE_DEVICE OR CKF_HW_SLOT) OR (if present then CKF_TOKEN_PRESENT else 0),
               slotDescription = field 64 0 (str_bytes (take (min 64 (length (szName sl) - 1)) (szName sl))),
               si_manufacturerID = field 32 0 (str_bytes (take (min 32 (length (szName sl))) (szName sl)))\<rparr>,
          sl, w))"

record ck_token_info =
  label :: bytes
  manufacturerID :: bytes
  model :: bytes
  serialNumber :: bytes
  ti_flags :: ulong
  ulMaxSessionCount :: ulong
  ulSessionCount :: ulong
  ulMaxRwSessionCount :: ulong
  ulRwSessionCount :: ulong
  ulMaxPinLen :: ulong
  ulMinPinLen :: ulong
  ulTotalPublicMemory :: ulong
  ulFreePublicMemory :: ulong
  ulTotalPrivateMemory :: ulong
  ulFreePrivateMemory :: ulong
  utcTime :: bytes

abbreviation (input) MAXSESSIONS :: ulong where "MAXSESSIONS \<equiv> 0xffffff"

text \<open>The serial number is read from the card once per template.\<close>

definition read_serial :: "('d, 'w) env \<Rightarrow> ('d, 'w, unit) card_op" where
  "read_serial env = (\<lambda>(sl, w).
     if baSerial sl = [] \<or> pSerialTemplate sl \<noteq> pTemplate sl then
       bindS (templateGetSerial (tmpl env) (sl\<lparr>pSerialTemplate := pTemplate sl\<rparr>, w)) (\<lambda>ser (sl, w).
         (Inr (), sl\<lparr>baSerial := ser\<rparr>, w))
     else (Inr (), sl, w))"

text \<open>
  \<open>GetTokenInfo\<close>.  The name of the only template is \<open>CIE\<close>.  The manufacturer is copied into
  its 32 octets without a length test.
\<close>

definition GetTokenInfo :: "('d, 'w) env \<Rightarrow> nat \<Rightarrow> ('d, 'w) p11_state
    \<Rightarrow> (exn + ck_token_info) \<times> ('d, 'w) p11_state" where
  "GetTokenInfo env p s =
     bindS (on_slot p (need_template env (g_mCardTemplates s)) s) (\<lambda>_ s.
     let manifacturer = get_manufacturer (baATR (slots s p)) in
     if length manifacturer = 0 then (throw_p11 CKR_TOKEN_NOT_RECOGNIZED, s)
     else if length manifacturer > 32 then (Inl UB, s)
     else
       bindS (on_slot p (read_serial env) s) (\<lambda>_ s.
       bindS (on_slot p (templateGetModel (tmpl env)) s) (\<lambda>md s.
       bindS (on_slot p (templateGetTokenFlags (tmpl env)) s) (\<lambda>dwFlags s.
         (Inr \<lparr>label = field 32 0x20 (str_bytes ''CIE''),
               manufacturerID = field 32 0x20 (str_bytes manifacturer),
               model = field 16 0x20 (str_bytes (take 16 md)),
               serialNumber = field 16 0x20 (take 16 (baSerial (slots s p))),
               ti_flags = dwFlags,
               ulMaxSessionCount = MAXSESSIONS,
               ulSessionCount = SessionCount (slots s p),
               ulMaxRwSessionCount = MAXSESSIONS,
               ulRwSessionCount = of_nat (RWSessionCount p (g_mSessions s)),
               ulMaxPinLen = 8,
               ulMinPinLen = 4,
               ulTotalPublicMemory = CK_UNAVAILABLE_INFORMATION,
               ulFreePublicMemory = CK_UNAVAILABLE_INFORMATION,
               ulTotalPrivateMemory = CK_UNAVAILABLE_INFORMATION,
               ulFreePrivateMemory = CK_UNAVAILABLE_INFORMATION,
               utcTime = str_bytes ''1234567890123456''\<rparr>, s)))))"

subsection \<open>The monitor thread\<close>

text \<open>
  What the monitor does for one slot when \<open>GetStatusChange\<close> reports the event state
  \<open>ev\<close> and the known state is \<open>cur\<close> (the loop body of \<open>slotMonitor\<close>, under the mutex).
\<close>

definition card_removed :: "ulong \<Rightarrow> ulong \<Rightarrow> bool" where
  "card_removed cur ev \<longleftrightarrow>
     cur AND SCARD_STATE_PRESENT \<noteq> 0 \<and>
     (ev AND SCARD_STATE_EMPTY \<noteq> 0 \<or> ev AND SCARD_STATE_UNAVAILABLE \<noteq> 0)"

definition card_inserted :: "ulong \<Rightarrow> ulong \<Rightarrow> bool" where
  "card_inserted cur ev \<longleftrightarrow>
     (cur AND SCARD_STATE_UNAVAILABLE \<noteq> 0 \<or> cur AND SCARD_STATE_EMPTY \<noteq> 0) \<and>
     ev AND SCARD_STATE_PRESENT \<noteq> 0"

definition upd_slot :: "nat \<Rightarrow> ('d cslot \<Rightarrow> 'd cslot) \<Rightarrow> ('d, 'w) p11_state \<Rightarrow> ('d, 'w) p11_state" where
  "upd_slot p f s = s\<lparr>slots := (slots s)(p := f (slots s p))\<rparr>"

definition monitor_slot :: "('d, 'w) env \<Rightarrow> nat \<Rightarrow> ulong \<Rightarrow> ulong \<Rightarrow> ('d, 'w) p11_state
    \<Rightarrow> (exn + ulong) \<times> ('d, 'w) p11_state" where
  "monitor_slot env p cur ev s =
     bindS (if card_removed cur ev then
              bindS (Final env p (upd_slot p (\<lambda>sl. sl\<lparr>lastEvent := Removed\<rparr>) s)) (\<lambda>_ s.
                (Inr (), upd_slot p (\<lambda>sl. sl\<lparr>baATR := []\<rparr>) s))
            else (Inr (), s)) (\<lambda>_ s.
     bindS (if card_inserted cur ev then
              bindS (on_slot p (GetATR (transport env))
                      (upd_slot p (\<lambda>sl. sl\<lparr>lastEvent := Inserted\<rparr>) s)) (\<lambda>_ s. (Inr (), s))
            else (Inr (), s)) (\<lambda>_ s.
       (Inr (ev AND NOT SCARD_STATE_CHANGED), s)))"

end
