(* ===== verification/P11_Functions.thy ===== *)
theory P11_Functions
  imports Slot
begin

section \<open>The exported functions (pkcs11/src/pkcs11/pkcs11\_functions.cpp)\<close>

text \<open>
  Each \<open>C_\<close> function of the module: the checks of its arguments, the lookup of the session
  or slot, the member function it calls, and the guard that turns exceptions into return
  codes.  A call is one atomic step: it holds \<open>p11Mutex\<close>.  The result is the return code,
  the output arguments (\<open>None\<close> when none is written) and the new state; the return code
  \<open>None\<close> is a call that does not return one (undefined behaviour, or a loop that does not
  end).  Logging is modelled where it reads the caller's memory (\<open>WriteAttributes\<close>).
\<close>

type_synonym ('a, 'd, 'w) api = "ck_rv option \<times> 'a option \<times> ('d, 'w) p11_state"

definition pkcs11_guard :: "(exn + 'a) \<times> ('d, 'w) p11_state \<Rightarrow> ('a, 'd, 'w) api" where
  "pkcs11_guard body =
     (case body of
        (Inr a, s) \<Rightarrow> (Some CKR_OK, Some a, s)
      | (Inl e, s) \<Rightarrow>
          (case e of
             P11_Error rv \<Rightarrow> (Some rv, None, s)
           | UB \<Rightarrow> (None, None, s)
           | Hang \<Rightarrow> (None, None, s)
           | _ \<Rightarrow> (Some CKR_GENERAL_ERROR, None, s)))"

definition when_initialized :: "(('d, 'w) p11_state \<Rightarrow> (exn + 'a) \<times> ('d, 'w) p11_state)
    \<Rightarrow> ('d, 'w) p11_state \<Rightarrow> (exn + 'a) \<times> ('d, 'w) p11_state" where
  "when_initialized f s =
     (if \<not> bP11Initialized s then (throw_p11 CKR_CRYPTOKI_NOT_INITIALIZED, s) else f s)"

definition with_session :: "ulong \<Rightarrow> (csession \<Rightarrow> ('d, 'w) p11_state \<Rightarrow> (exn + 'a) \<times> ('d, 'w) p11_state)
    \<Rightarrow> ('d, 'w) p11_state \<Rightarrow> (exn + 'a) \<times> ('d, 'w) p11_state" where
  "with_session h f = when_initialized (\<lambda>s.
     case GetSessionFromID s h of
       None \<Rightarrow> (throw_p11 CKR_SESSION_HANDLE_INVALID, s)
     | Some se \<Rightarrow> f se s)"

definition in_session :: "ulong \<Rightarrow> (('d, 'w) sctx \<Rightarrow> (exn + 'a) \<times> ('d, 'w) sctx)
    \<Rightarrow> ('d, 'w) p11_state \<Rightarrow> (exn + 'a) \<times> ('d, 'w) p11_state" where
  "in_session h f = with_session h (\<lambda>se. on_session h se f)"

definition with_slot :: "ulong \<Rightarrow> (nat \<Rightarrow> ('d, 'w) p11_state \<Rightarrow> (exn + 'a) \<times> ('d, 'w) p11_state)
    \<Rightarrow> ('d, 'w) p11_state \<Rightarrow> (exn + 'a) \<times> ('d, 'w) p11_state" where
  "with_slot slID f = when_initialized (\<lambda>s.
     case GetSlotFromID s slID of
       None \<Rightarrow> (throw_p11 CKR_SLOT_ID_INVALID, s)
     | Some p \<Rightarrow> f p s)"

subsection \<open>Template arguments and mechanisms\<close>

abbreviation (input) CKA_OBJECT_ID :: ulong where "CKA_OBJECT_ID \<equiv> 0x12"
abbreviation (input) CKA_MODIFIABLE :: ulong where "CKA_MODIFIABLE \<equiv> 0x170"

text \<open>
  \<open>WriteAttributes\<close> formats each entry for the log: the arguments are evaluated whether or
  not the log is on.  A class is read as \<open>CK_ULONG\<close>, a flag as one octet, a label as a
  null-terminated string, a value as \<open>ulValueLen\<close> octets.
\<close>

definition write_attribute :: "ck_attribute \<Rightarrow> exn + unit" where
  "write_attribute a =
     (case pValue a of
        None \<Rightarrow> Inr ()
      | Some m \<Rightarrow>
          if atype a = CKA_CLASS then if length m < 8 then Inl UB else Inr ()
          else if atype a = CKA_TOKEN \<or> atype a = CKA_PRIVATE \<or> atype a = CKA_MODIFIABLE then
            if length m < 1 then Inl UB else Inr ()
          else if atype a = CKA_LABEL \<or> atype a = CKA_OBJECT_ID then
            if 0 \<notin> set m then Inl UB else Inr ()
          else if atype a = CKA_VALUE then
            if length m < unat (ulValueLen a) then Inl UB else Inr ()
          else Inr ())"

fun WriteAttributes :: "ck_attribute list \<Rightarrow> exn + unit" where
  "WriteAttributes [] = Inr ()"
| "WriteAttributes (a # as) = bindE (write_attribute a) (\<lambda>_. WriteAttributes as)"

text \<open>The pair \<open>pTemplate\<close>, \<open>ulCount\<close>: the entries the code reads.\<close>

definition template_arg :: "ck_attribute list option \<Rightarrow> ulong \<Rightarrow> exn + ck_attribute list" where
  "template_arg tpl ulCount =
     (case tpl of
        None \<Rightarrow> if ulCount > 0 then throw_p11 CKR_ARGUMENTS_BAD else Inr []
      | Some as \<Rightarrow> if unat ulCount \<le> length as then Inr (take (unat ulCount) as) else Inl UB)"

definition CheckMechanismParam :: "ck_mechanism \<Rightarrow> bool" where
  "CheckMechanismParam m = (if pParameter_null m \<and> ulParameterLen m = 0 then True else False)"

text \<open>The checks of \<open>pMechanism\<close> that the \<open>...Init\<close> functions share.\<close>

definition with_mechanism :: "ck_mechanism option \<Rightarrow> (ck_mechanism \<Rightarrow> ('d, 'w) sctx \<Rightarrow> (exn + 'a) \<times> ('d, 'w) sctx)
    \<Rightarrow> ('d, 'w) sctx \<Rightarrow> (exn + 'a) \<times> ('d, 'w) sctx" where
  "with_mechanism pMechanism f c =
     (case pMechanism of
        None \<Rightarrow> (throw_p11 CKR_ARGUMENTS_BAD, c)
      | Some m \<Rightarrow>
          if \<not> CheckMechanismParam m then (throw_p11 CKR_MECHANISM_PARAM_INVALID, c) else f m c)"

definition p11_mechanisms :: "ulong list" where
  "p11_mechanisms =
     [CKM_RSA_PKCS, CKM_MD5, CKM_SHA_1, CKM_SHA256, CKM_SHA1_RSA_PKCS, CKM_SHA256_RSA_PKCS,
      CKM_MD5_RSA_PKCS]"

subsection \<open>Initialisation\<close>

text \<open>\<open>CK_C_INITIALIZE_ARGS\<close>: the reserved pointer, the flags, whether a mutex function is given.\<close>

record initialize_args =
  ia_reserved :: bool
  ia_flags :: ulong
  ia_mutex_functions :: bool

definition check_init_args :: "initialize_args option \<Rightarrow> exn + unit" where
  "check_init_args pReserved =
     (case pReserved of
        None \<Rightarrow> Inr ()
      | Some iargs \<Rightarrow>
          if ia_reserved iargs then throw_p11 CKR_ARGUMENTS_BAD
          else if ia_flags iargs AND CKF_OS_LOCKING_OK \<noteq> 0 then Inr ()
          else if ia_flags iargs = 0 then
            if ia_mutex_functions iargs then throw_p11 CKR_CANT_LOCK else Inr ()
          else if ia_flags iargs AND CKF_LIBRARY_CANT_CREATE_OS_THREADS \<noteq> 0 then
            throw_p11 CKR_NEED_TO_CREATE_THREADS
          else throw_p11 CKR_ARGUMENTS_BAD)"

definition C_Initialize :: "('d, 'w) env \<Rightarrow> initialize_args option \<Rightarrow> ('d, 'w) p11_state
    \<Rightarrow> (unit, 'd, 'w) api" where
  "C_Initialize env pReserved s = pkcs11_guard
     (if bP11Initialized s then (throw_p11 CKR_CRYPTOKI_ALREADY_INITIALIZED, s)
      else
        (case check_init_args pReserved of
           Inl e \<Rightarrow> (Inl e, s)
         | Inr _ \<Rightarrow>
             let s = (if g_mCardTemplates s = [] then InitTemplateList s else s);
                 s = s\<lparr>g_transport := True, bP11Initialized := True\<rparr>
             in (case InitSlotList env s of
                   (Inl e, s) \<Rightarrow> (Inl e, s\<lparr>bP11Initialized := False\<rparr>)
                 | (Inr _, s) \<Rightarrow> (Inr (), s))))"

text \<open>
  \<open>C_UpdateSlotList\<close> dereferences \<open>g_transport\<close>, which is null before the first
  \<open>C_Initialize\<close>.
\<close>

definition C_UpdateSlotList :: "('d, 'w) env \<Rightarrow> ('d, 'w) p11_state \<Rightarrow> (unit, 'd, 'w) api" where
  "C_UpdateSlotList env s = pkcs11_guard
     (if \<not> g_transport s then (Inl UB, s) else InitSlotList env s)"

text \<open>Destruction of a slot: \<open>~CSlot\<close> calls \<open>Final\<close>, then the context member is released.\<close>

definition destroy_slot :: "('d, 'w) env \<Rightarrow> nat \<Rightarrow> ('d, 'w) p11_state
    \<Rightarrow> (exn + unit) \<times> ('d, 'w) p11_state" where
  "destroy_slot env p s =
     (case Final env p s of
        (Inl _, s) \<Rightarrow> (Inl UB, s)
      | (Inr _, s) \<Rightarrow>
          (Inr (), s\<lparr>world := delete_CCardContext (transport env) (hContext (slots s p)) (world s)\<rparr>))"

fun for_slots :: "(nat \<Rightarrow> ('d, 'w) p11_state \<Rightarrow> (exn + unit) \<times> ('d, 'w) p11_state)
    \<Rightarrow> (ulong, nat) std_map \<Rightarrow> ('d, 'w) p11_state \<Rightarrow> (exn + unit) \<times> ('d, 'w) p11_state" where
  "for_slots f [] s = (Inr (), s)"
| "for_slots f ((i, p) # m) s = bindS (f p s) (\<lambda>_ s. for_slots f m s)"

text \<open>\<open>C_Finalize\<close>; the argument is whether \<open>pReserved\<close> is set.\<close>

definition C_Finalize :: "('d, 'w) env \<Rightarrow> bool \<Rightarrow> ('d, 'w) p11_state \<Rightarrow> (unit, 'd, 'w) api" where
  "C_Finalize env reserved s = pkcs11_guard
     (if reserved then (throw_p11 CKR_ARGUMENTS_BAD, s)
      else
        when_initialized (\<lambda>s.
          let s = s\<lparr>bP11Initialized := False, Thread := False, bP11Terminate := False\<rparr> in
          bindS (for_slots (CloseAllSessions env) (g_mSlots s) s) (\<lambda>_ s.
          bindS (for_slots (destroy_slot env) (g_mSlots s) s) (\<lambda>_ s.
            (Inr (), s\<lparr>g_mSlots := []\<rparr>)))) s)"

subsection \<open>Slots and tokens\<close>

text \<open>
  The loops of \<open>C_GetSlotList\<close>, from the last slot to the first: the handles written, the
  count, and whether the list was too short.
\<close>

fun list_present :: "('d, 'w) env \<Rightarrow> bool \<Rightarrow> nat \<Rightarrow> (ulong, nat) std_map \<Rightarrow> ulong list \<Rightarrow> nat \<Rightarrow> bool
    \<Rightarrow> ('d, 'w) p11_state \<Rightarrow> (exn + ulong list \<times> nat \<times> bool) \<times> ('d, 'w) p11_state" where
  "list_present env want n [] out cnt over s = (Inr (out, cnt, over), s)"
| "list_present env want n ((i, p) # m) out cnt over s =
     bindS (on_slot p (IsTokenPresent (transport env)) s) (\<lambda>present s.
       if present then
         list_present env want n m
           (if want \<and> cnt < n then out @ [hSlot (slots s p)] else out)
           (cnt + 1) (over \<or> (want \<and> \<not> cnt < n)) s
       else list_present env want n m out cnt over s)"

fun list_all_slots :: "nat \<Rightarrow> (ulong, nat) std_map \<Rightarrow> ulong list \<Rightarrow> nat \<Rightarrow> bool
    \<Rightarrow> ulong list \<times> nat \<times> bool" where
  "list_all_slots n [] out cnt over = (out, cnt, over)"
| "list_all_slots n ((i, p) # m) out cnt over =
     list_all_slots n m (if cnt < n then out @ [i] else out) (cnt + 1) (over \<or> \<not> cnt < n)"

text \<open>
  \<open>want\<close> says that \<open>pSlotList\<close> is not null, \<open>n\<close> is \<open>*pulCount\<close>.  The count is written also
  when the call ends with \<open>CKR_BUFFER_TOO_SMALL\<close>.
\<close>

definition C_GetSlotList :: "('d, 'w) env \<Rightarrow> bool \<Rightarrow> bool \<Rightarrow> nat \<Rightarrow> ('d, 'w) p11_state
    \<Rightarrow> (ulong list \<times> nat, 'd, 'w) api" where
  "C_GetSlotList env tokenPresent want n s =
     (case pkcs11_guard (when_initialized (\<lambda>s.
        if tokenPresent then
          if g_mSlots s = [] then (Inr ([], 0, False), s)
          else list_present env want n (rev (g_mSlots s)) [] 0 False s
        else if \<not> want then (Inr ([], length (g_mSlots s), False), s)
        else (Inr (list_all_slots n (rev (g_mSlots s)) [] 0 False), s)) s) of
        (rv, Some (out, cnt, over), s) \<Rightarrow>
          (if over then Some CKR_BUFFER_TOO_SMALL else rv, Some (out, cnt), s)
      | (rv, None, s) \<Rightarrow> (rv, None, s))"

text \<open>Below, \<open>null\<close> says that the pointer argument is null.\<close>

definition C_GetTokenInfo :: "('d, 'w) env \<Rightarrow> ulong \<Rightarrow> bool \<Rightarrow> ('d, 'w) p11_state
    \<Rightarrow> (ck_token_info, 'd, 'w) api" where
  "C_GetTokenInfo env slID null s = pkcs11_guard (with_slot slID (\<lambda>p s.
     if null then (throw_p11 CKR_ARGUMENTS_BAD, s)
     else
       bindS (on_slot p (IsTokenPresent (transport env)) s) (\<lambda>present s.
         if \<not> present then (throw_p11 CKR_TOKEN_NOT_PRESENT, s)
         else GetTokenInfo env p s)) s)"

definition C_GetSlotInfo :: "('d, 'w) env \<Rightarrow> ulong \<Rightarrow> bool \<Rightarrow> ('d, 'w) p11_state
    \<Rightarrow> (ck_slot_info, 'd, 'w) api" where
  "C_GetSlotInfo env slID null s = pkcs11_guard (with_slot slID (\<lambda>p s.
     if null then (throw_p11 CKR_ARGUMENTS_BAD, s)
     else on_slot p (GetInfo (transport env)) s) s)"

record ck_info =
  cryptokiVersion :: "nat \<times> nat"
  in_manufacturerID :: bytes
  in_flags :: ulong
  libraryDescription :: bytes

text \<open>\<open>C_GetInfo\<close>; the library version is a constant of the build and is left out.\<close>

definition C_GetInfo :: "bool \<Rightarrow> ('d, 'w) p11_state \<Rightarrow> (ck_info, 'd, 'w) api" where
  "C_GetInfo null s = pkcs11_guard (when_initialized (\<lambda>s.
     if null then (Inl UB, s)
     else (Inr \<lparr>cryptokiVersion = (2, 40),
                in_manufacturerID = str_bytes ''opencie                         '',
                in_flags = 0,
                libraryDescription = str_bytes ''opencie-pkcs11                  ''\<rparr>, s)) s)"

text \<open>
  \<open>C_GetMechanismList\<close>: the list written (if any) and the count; the count is written by
  the length query only.
\<close>

definition C_GetMechanismList :: "ulong \<Rightarrow> bool \<Rightarrow> nat \<Rightarrow> ('d, 'w) p11_state
    \<Rightarrow> (ulong list option \<times> nat, 'd, 'w) api" where
  "C_GetMechanismList slID want n s = pkcs11_guard (with_slot slID (\<lambda>p s.
     let dwNumMechansms = length p11_mechanisms in
     if \<not> want then (Inr (None, dwNumMechansms), s)
     else if n \<ge> dwNumMechansms then (Inr (Some p11_mechanisms, n), s)
     else (throw_p11 CKR_BUFFER_TOO_SMALL, s)) s)"

record ck_mechanism_info =
  ulMinKeySize :: nat
  ulMaxKeySize :: nat
  mi_flags :: ulong

definition mechanism_info :: "ulong \<Rightarrow> exn + ck_mechanism_info" where
  "mechanism_info ty =
     (if ty = CKM_RSA_PKCS then
        Inr \<lparr>ulMinKeySize = 1024, ulMaxKeySize = 2048,
             mi_flags = CKF_HW OR CKF_ENCRYPT OR CKF_DECRYPT OR CKF_SIGN OR CKF_VERIFY OR
                        CKF_SIGN_RECOVER OR CKF_VERIFY_RECOVER\<rparr>
      else if ty = CKM_SHA1_RSA_PKCS \<or> ty = CKM_SHA256_RSA_PKCS \<or> ty = CKM_MD5_RSA_PKCS then
        Inr \<lparr>ulMinKeySize = 1024, ulMaxKeySize = 2048, mi_flags = CKF_HW OR CKF_SIGN OR CKF_VERIFY\<rparr>
      else if ty = CKM_MD5 \<or> ty = CKM_SHA_1 \<or> ty = CKM_SHA256 then
        Inr \<lparr>ulMinKeySize = 0, ulMaxKeySize = 0, mi_flags = CKF_DIGEST\<rparr>
      else throw_p11 CKR_MECHANISM_INVALID)"

definition C_GetMechanismInfo :: "ulong \<Rightarrow> ulong \<Rightarrow> ('d, 'w) p11_state
    \<Rightarrow> (ck_mechanism_info, 'd, 'w) api" where
  "C_GetMechanismInfo slID ty s =
     pkcs11_guard (with_slot slID (\<lambda>p s. (mechanism_info ty, s)) s)"

text \<open>
  \<open>C_WaitForSlotEvent\<close> without blocking; a blocking call waits for the monitor's event and
  then makes the same scan.
\<close>

definition slot_event_scan :: "('d, 'w) p11_state \<Rightarrow> (exn + ulong) \<times> ('d, 'w) p11_state" where
  "slot_event_scan s =
     (case find (\<lambda>(i, p). lastEvent (slots s p) \<noteq> NoEvent) (g_mSlots s) of
        Some (i, p) \<Rightarrow> (Inr (hSlot (slots s p)), upd_slot p (\<lambda>sl. sl\<lparr>lastEvent := NoEvent\<rparr>) s)
      | None \<Rightarrow> (throw_p11 CKR_NO_EVENT, s))"

definition C_WaitForSlotEvent_nonblocking :: "ulong \<Rightarrow> bool \<Rightarrow> ('d, 'w) p11_state
    \<Rightarrow> (ulong, 'd, 'w) api" where
  "C_WaitForSlotEvent_nonblocking fl reserved s = pkcs11_guard
     (if reserved then (throw_p11 CKR_ARGUMENTS_BAD, s)
      else if fl \<noteq> CKF_DONT_BLOCK then (throw_p11 CKR_ARGUMENTS_BAD, s)
      else when_initialized slot_event_scan s)"

text \<open>
  A blocking call waits for \<open>p11slotEvent\<close> in a loop; this is one pass of the loop, after
  the event was set: the call returns, or (\<open>None\<close>) waits again.
\<close>

definition C_WaitForSlotEvent_wake :: "('d, 'w) p11_state \<Rightarrow> (exn + ulong) option \<times> ('d, 'w) p11_state" where
  "C_WaitForSlotEvent_wake s =
     (if \<not> bP11Initialized s then (Some (throw_p11 CKR_CRYPTOKI_NOT_INITIALIZED), s)
      else (case slot_event_scan s of (Inr h, s) \<Rightarrow> (Some (Inr h), s) | (Inl _, s) \<Rightarrow> (None, s)))"

subsection \<open>Sessions\<close>

definition C_OpenSession :: "('d, 'w) env \<Rightarrow> ulong \<Rightarrow> ulong \<Rightarrow> bool \<Rightarrow> ('d, 'w) p11_state
    \<Rightarrow> (ulong, 'd, 'w) api" where
  "C_OpenSession env slID fl null s = pkcs11_guard (when_initialized (\<lambda>s.
     if fl AND CKF_SERIAL_SESSION = 0 then (throw_p11 CKR_SESSION_PARALLEL_NOT_SUPPORTED, s)
     else if null then (throw_p11 CKR_ARGUMENTS_BAD, s)
     else
       (case GetSlotFromID s slID of
          None \<Rightarrow> (throw_p11 CKR_SLOT_ID_INVALID, s)
        | Some p \<Rightarrow>
            let pSession = new_CSession p fl in
            if fl AND CKF_RW_SESSION = 0 \<and> ExistsSO_RW (g_mSessions s) p (slots s p) then
              (throw_p11 CKR_SESSION_READ_WRITE_SO_EXISTS, s)
            else
              bindS (Init env p s) (\<lambda>_ s.
              bindS (AddSession env (pSession\<lparr>slotID := slID\<rparr>) s) (\<lambda>h s.
              bindS (on_slot p (templateGetModel (tmpl env)) s) (\<lambda>_ s. (Inr h, s)))))) s)"

definition C_CloseSession :: "('d, 'w) env \<Rightarrow> ulong \<Rightarrow> ('d, 'w) p11_state \<Rightarrow> (unit, 'd, 'w) api" where
  "C_CloseSession env h s = pkcs11_guard (with_session h (\<lambda>se. DeleteSession env h) s)"

definition C_CloseAllSessions :: "('d, 'w) env \<Rightarrow> ulong \<Rightarrow> ('d, 'w) p11_state \<Rightarrow> (unit, 'd, 'w) api" where
  "C_CloseAllSessions env slID s = pkcs11_guard (with_slot slID (CloseAllSessions env) s)"

record ck_session_info =
  se_slotID :: ulong
  se_state :: ulong
  se_flags :: ulong
  ulDeviceError :: ulong

definition session_state :: "ulong \<Rightarrow> csession \<Rightarrow> ulong" where
  "session_state user se =
     (if user = CKU_NOBODY then if is_RW se then CKS_RW_PUBLIC_SESSION else CKS_RO_PUBLIC_SESSION
      else if user = CKU_USER then if is_RW se then CKS_RW_USER_FUNCTIONS else CKS_RO_USER_FUNCTIONS
      else CKS_RW_SO_FUNCTIONS)"

definition C_GetSessionInfo :: "ulong \<Rightarrow> ('d, 'w) p11_state \<Rightarrow> (ck_session_info, 'd, 'w) api" where
  "C_GetSessionInfo h s = pkcs11_guard (with_session h (\<lambda>se s.
     (Inr \<lparr>se_slotID = hSlot (slots s (pSlot se)),
           se_state = session_state (User (slots s (pSlot se))) se,
           se_flags = (if is_RW se then CKF_RW_SESSION else 0) OR CKF_SERIAL_SESSION,
           ulDeviceError = 0\<rparr>, s)) s)"

definition C_Login :: "('d, 'w) env \<Rightarrow> ulong \<Rightarrow> ulong \<Rightarrow> bytes \<Rightarrow> ('d, 'w) p11_state
    \<Rightarrow> (unit, 'd, 'w) api" where
  "C_Login env h ut pin s = pkcs11_guard (with_session h (\<lambda>se s.
     if ut \<noteq> CKU_SO \<and> ut \<noteq> CKU_USER then (throw_p11 CKR_USER_TYPE_INVALID, s)
     else on_session h se (Login env (g_mSessions s) ut pin) s) s)"

definition C_Logout :: "('d, 'w) env \<Rightarrow> ulong \<Rightarrow> ('d, 'w) p11_state \<Rightarrow> (unit, 'd, 'w) api" where
  "C_Logout env h s = pkcs11_guard (with_session h (\<lambda>se s.
     if User (slots s (pSlot se)) = CKU_NOBODY then (throw_p11 CKR_USER_NOT_LOGGED_IN, s)
     else on_session h se (Logout env) s) s)"

definition C_InitPIN :: "('d, 'w) env \<Rightarrow> ulong \<Rightarrow> bytes \<Rightarrow> ('d, 'w) p11_state \<Rightarrow> (unit, 'd, 'w) api" where
  "C_InitPIN env h pin s = pkcs11_guard (in_session h (InitPIN env pin) s)"

definition C_SetPIN :: "('d, 'w) env \<Rightarrow> ulong \<Rightarrow> bytes \<Rightarrow> bytes \<Rightarrow> ('d, 'w) p11_state
    \<Rightarrow> (unit, 'd, 'w) api" where
  "C_SetPIN env h old new s = pkcs11_guard (in_session h (SetPIN env old new) s)"

definition C_GetOperationState :: "('d, 'w) env \<Rightarrow> ulong \<Rightarrow> byte_view \<Rightarrow> ('d, 'w) p11_state
    \<Rightarrow> (byte_view, 'd, 'w) api" where
  "C_GetOperationState env h out s = pkcs11_guard (in_session h (GetOperationState env out) s)"

definition C_SetOperationState :: "ulong \<Rightarrow> bytes \<Rightarrow> ulong \<Rightarrow> ulong \<Rightarrow> ('d, 'w) p11_state
    \<Rightarrow> (unit, 'd, 'w) api" where
  "C_SetOperationState h st hEncryptionKey hAuthenticationKey s = pkcs11_guard (in_session h (\<lambda>c.
     if hEncryptionKey \<noteq> CK_INVALID_HANDLE then (throw_p11 CKR_KEY_NOT_NEEDED, c)
     else if hAuthenticationKey \<noteq> CK_INVALID_HANDLE then (throw_p11 CKR_KEY_NOT_NEEDED, c)
     else SetOperationState st c) s)"

subsection \<open>Objects\<close>

definition C_CreateObject :: "('d, 'w) env \<Rightarrow> ulong \<Rightarrow> ck_attribute list option \<Rightarrow> ulong
    \<Rightarrow> ('d, 'w) p11_state \<Rightarrow> (ulong, 'd, 'w) api" where
  "C_CreateObject env h pTpl ulCount s = pkcs11_guard
     (bindS (liftS (bindE (template_arg pTpl ulCount) (\<lambda>tpl. bindE (WriteAttributes tpl) (\<lambda>_. Inr tpl))) s)
       (\<lambda>tpl. in_session h (CreateObject env tpl)))"

definition C_GenerateKey :: "ulong \<Rightarrow> ck_attribute list option \<Rightarrow> ulong \<Rightarrow> ('d, 'w) p11_state
    \<Rightarrow> (ulong, 'd, 'w) api" where
  "C_GenerateKey h pTpl ulCount s = pkcs11_guard
     (bindS (liftS (bindE (template_arg pTpl ulCount) (\<lambda>tpl. bindE (WriteAttributes tpl) (\<lambda>_. Inr tpl))) s)
       (\<lambda>tpl. in_session h GenerateKey))"

definition C_GenerateKeyPair :: "ulong \<Rightarrow> ck_attribute list option \<Rightarrow> ulong \<Rightarrow> ck_attribute list option
    \<Rightarrow> ulong \<Rightarrow> ('d, 'w) p11_state \<Rightarrow> (ulong \<times> ulong, 'd, 'w) api" where
  "C_GenerateKeyPair h pPub ulPub pPriv ulPriv s = pkcs11_guard
     (if (pPub = None \<and> ulPub > 0) \<or> (pPriv = None \<and> ulPriv > 0) then (throw_p11 CKR_ARGUMENTS_BAD, s)
      else in_session h GenerateKeyPair s)"

definition C_DestroyObject :: "('d, 'w) env \<Rightarrow> ulong \<Rightarrow> ulong \<Rightarrow> ('d, 'w) p11_state
    \<Rightarrow> (unit, 'd, 'w) api" where
  "C_DestroyObject env h hObject s = pkcs11_guard (in_session h (DestroyObject env hObject) s)"

definition C_GetObjectSize :: "('d, 'w) env \<Rightarrow> ulong \<Rightarrow> ulong \<Rightarrow> ('d, 'w) p11_state
    \<Rightarrow> (ulong, 'd, 'w) api" where
  "C_GetObjectSize env h hObject s = pkcs11_guard (in_session h (GetObjectSize env hObject) s)"

text \<open>
  \<open>C_GetAttributeValue\<close>: the return code of the member function is returned as it is; the
  template is logged before and after.
\<close>

definition C_GetAttributeValue :: "ulong \<Rightarrow> ulong \<Rightarrow> ck_attribute list option \<Rightarrow> ulong
    \<Rightarrow> ('d, 'w) p11_state \<Rightarrow> (ck_attribute list, 'd, 'w) api" where
  "C_GetAttributeValue h hObject pTpl ulCount s =
     (case pkcs11_guard (bindS (liftS (template_arg pTpl ulCount) s) (\<lambda>tpl.
        with_session h (\<lambda>se s.
          bindS (liftS (WriteAttributes tpl) s) (\<lambda>_ s.
            case GetAttributeValue hObject tpl
                   \<lparr>sess = se, slot = slots s (pSlot se), wrld = world s\<rparr> of
              (Inl e, out) \<Rightarrow> (Inl e, s)
            | (Inr rv, out) \<Rightarrow> (bindE (WriteAttributes out) (\<lambda>_. Inr (rv, out)), s))))) of
        (rc, Some (rv, out), s) \<Rightarrow> (Some rv, Some out, s)
      | (rc, None, s) \<Rightarrow> (rc, None, s))"

definition C_SetAttributeValue :: "('d, 'w) env \<Rightarrow> ulong \<Rightarrow> ulong \<Rightarrow> ck_attribute list option \<Rightarrow> ulong
    \<Rightarrow> ('d, 'w) p11_state \<Rightarrow> (unit, 'd, 'w) api" where
  "C_SetAttributeValue env h hObject pTpl ulCount s = pkcs11_guard
     (bindS (liftS (template_arg pTpl ulCount) s) (\<lambda>tpl. in_session h (SetAttributeValue env hObject tpl)))"

definition C_FindObjectsInit :: "ulong \<Rightarrow> ck_attribute list option \<Rightarrow> ulong \<Rightarrow> ('d, 'w) p11_state
    \<Rightarrow> (unit, 'd, 'w) api" where
  "C_FindObjectsInit h pTpl ulCount s = pkcs11_guard
     (bindS (liftS (bindE (template_arg pTpl ulCount) (\<lambda>tpl. bindE (WriteAttributes tpl) (\<lambda>_. Inr tpl))) s)
       (\<lambda>tpl. in_session h (FindObjectsInit tpl)))"

definition C_FindObjects :: "ulong \<Rightarrow> bool \<Rightarrow> ulong \<Rightarrow> ('d, 'w) p11_state \<Rightarrow> (ulong list, 'd, 'w) api" where
  "C_FindObjects h null ulMaxObjectCount s = pkcs11_guard (in_session h (\<lambda>c.
     if null \<and> ulMaxObjectCount > 0 then (throw_p11 CKR_ARGUMENTS_BAD, c)
     else FindObjects ulMaxObjectCount c) s)"

definition C_FindObjectsFinal :: "ulong \<Rightarrow> ('d, 'w) p11_state \<Rightarrow> (unit, 'd, 'w) api" where
  "C_FindObjectsFinal h s = pkcs11_guard (in_session h FindObjectsFinal s)"

end
