(* ===== verification/P11_Crypto_Functions.thy ===== *)
theory P11_Crypto_Functions
  imports P11_Functions
begin

section \<open>The exported cryptographic functions (pkcs11\_functions.cpp)\<close>

text \<open>
  Digest, signature, verification and random numbers, and the functions the module does not
  support.  Input buffers are their contents; an output buffer is a \<open>byte_view\<close> of
  \<open>*pulLen\<close> octets, and the output argument is the buffer after the call with the size
  written to \<open>*pulLen\<close>.
\<close>

subsection \<open>Digest\<close>

definition C_DigestInit :: "ulong \<Rightarrow> ck_mechanism option \<Rightarrow> ('d, 'w) p11_state \<Rightarrow> (unit, 'd, 'w) api" where
  "C_DigestInit h pMechanism s = pkcs11_guard (in_session h (with_mechanism pMechanism DigestInit) s)"

definition C_Digest :: "('d, 'w) env \<Rightarrow> ulong \<Rightarrow> bytes \<Rightarrow> byte_view \<Rightarrow> ('d, 'w) p11_state
    \<Rightarrow> (byte_view, 'd, 'w) api" where
  "C_Digest env h data out s = pkcs11_guard (in_session h (Digest env data out) s)"

definition C_DigestUpdate :: "ulong \<Rightarrow> bytes \<Rightarrow> ('d, 'w) p11_state \<Rightarrow> (unit, 'd, 'w) api" where
  "C_DigestUpdate h part s = pkcs11_guard (in_session h (DigestUpdate part) s)"

text \<open>
  \<open>C_DigestFinal\<close> works on a copy of the caller's buffer (\<open>ByteDynArray\<close>), which is never
  null: the caller's memory keeps its content, and only the length is written.
\<close>

definition dyn_copy :: "(nat \<Rightarrow> byte) \<Rightarrow> byte_view \<Rightarrow> byte_view" where
  "dyn_copy u v =
     \<lparr>vmem = Some (case vmem v of Some m \<Rightarrow> take (vsize v) m | None \<Rightarrow> alloc u (vsize v)),
      vsize = vsize v\<rparr>"

definition C_DigestFinal :: "('d, 'w) env \<Rightarrow> ulong \<Rightarrow> byte_view \<Rightarrow> ('d, 'w) p11_state
    \<Rightarrow> (byte_view, 'd, 'w) api" where
  "C_DigestFinal env h out s = pkcs11_guard
     (bindS (in_session h (DigestFinal env (dyn_copy (uninit env) out)) s) (\<lambda>v s.
        (Inr (out\<lparr>vsize := vsize v\<rparr>), s)))"

subsection \<open>Signature\<close>

definition C_SignInit :: "ulong \<Rightarrow> ck_mechanism option \<Rightarrow> ulong \<Rightarrow> ('d, 'w) p11_state
    \<Rightarrow> (unit, 'd, 'w) api" where
  "C_SignInit h pMechanism hKey s =
     pkcs11_guard (in_session h (with_mechanism pMechanism (\<lambda>m. SignInit m hKey)) s)"

definition C_Sign :: "('d, 'w) env \<Rightarrow> ulong \<Rightarrow> bytes \<Rightarrow> byte_view \<Rightarrow> ('d, 'w) p11_state
    \<Rightarrow> (byte_view, 'd, 'w) api" where
  "C_Sign env h data out s = pkcs11_guard (in_session h (Sign env data out) s)"

text \<open>The tests of the multi-part functions before they call the session.\<close>

definition multipart :: "('m \<Rightarrow> bool) \<Rightarrow> 'm option \<Rightarrow> (('d, 'w) sctx \<Rightarrow> (exn + 'a) \<times> ('d, 'w) sctx)
    \<Rightarrow> ('d, 'w) sctx \<Rightarrow> (exn + 'a) \<times> ('d, 'w) sctx" where
  "multipart ok mech f c =
     (case mech of
        None \<Rightarrow> (throw_p11 CKR_OPERATION_NOT_INITIALIZED, c)
      | Some m \<Rightarrow> if \<not> ok m then (throw_p11 CKR_KEY_FUNCTION_NOT_PERMITTED, c) else f c)"

definition C_SignUpdate :: "ulong \<Rightarrow> bytes \<Rightarrow> ('d, 'w) p11_state \<Rightarrow> (unit, 'd, 'w) api" where
  "C_SignUpdate h part s = pkcs11_guard (in_session h (\<lambda>c.
     multipart SignSupportMultipart (pSignMechanism (sess c)) (SignUpdate part) c) s)"

definition C_SignFinal :: "('d, 'w) env \<Rightarrow> ulong \<Rightarrow> byte_view \<Rightarrow> ('d, 'w) p11_state
    \<Rightarrow> (byte_view, 'd, 'w) api" where
  "C_SignFinal env h out s = pkcs11_guard (in_session h (\<lambda>c.
     multipart SignSupportMultipart (pSignMechanism (sess c)) (SignFinal env out) c) s)"

definition C_SignRecoverInit :: "ulong \<Rightarrow> ck_mechanism option \<Rightarrow> ulong \<Rightarrow> ('d, 'w) p11_state
    \<Rightarrow> (unit, 'd, 'w) api" where
  "C_SignRecoverInit h pMechanism hKey s =
     pkcs11_guard (in_session h (with_mechanism pMechanism (\<lambda>m. SignRecoverInit m hKey)) s)"

definition C_SignRecover :: "('d, 'w) env \<Rightarrow> ulong \<Rightarrow> bytes \<Rightarrow> byte_view \<Rightarrow> ('d, 'w) p11_state
    \<Rightarrow> (byte_view, 'd, 'w) api" where
  "C_SignRecover env h data out s = pkcs11_guard (in_session h (SignRecover env data out) s)"

subsection \<open>Verification\<close>

definition C_VerifyInit :: "ulong \<Rightarrow> ck_mechanism option \<Rightarrow> ulong \<Rightarrow> ('d, 'w) p11_state
    \<Rightarrow> (unit, 'd, 'w) api" where
  "C_VerifyInit h pMechanism hKey s =
     pkcs11_guard (in_session h (with_mechanism pMechanism (\<lambda>m. VerifyInit m hKey)) s)"

definition C_Verify :: "('d, 'w) env \<Rightarrow> ulong \<Rightarrow> bytes \<Rightarrow> bytes \<Rightarrow> ('d, 'w) p11_state
    \<Rightarrow> (unit, 'd, 'w) api" where
  "C_Verify env h data sig s = pkcs11_guard (in_session h (Verify env data sig) s)"

definition C_VerifyUpdate :: "ulong \<Rightarrow> bytes \<Rightarrow> ('d, 'w) p11_state \<Rightarrow> (unit, 'd, 'w) api" where
  "C_VerifyUpdate h data s = pkcs11_guard (in_session h (\<lambda>c.
     multipart VerifySupportMultipart (pVerifyMechanism (sess c)) (VerifyUpdate data) c) s)"

definition C_VerifyFinal :: "('d, 'w) env \<Rightarrow> ulong \<Rightarrow> bytes \<Rightarrow> ('d, 'w) p11_state
    \<Rightarrow> (unit, 'd, 'w) api" where
  "C_VerifyFinal env h sig s = pkcs11_guard (in_session h (\<lambda>c.
     multipart VerifySupportMultipart (pVerifyMechanism (sess c)) (VerifyFinal env sig) c) s)"

definition C_VerifyRecoverInit :: "ulong \<Rightarrow> ck_mechanism option \<Rightarrow> ulong \<Rightarrow> ('d, 'w) p11_state
    \<Rightarrow> (unit, 'd, 'w) api" where
  "C_VerifyRecoverInit h pMechanism hKey s =
     pkcs11_guard (in_session h (with_mechanism pMechanism (\<lambda>m. VerifyRecoverInit m hKey)) s)"

definition C_VerifyRecover :: "('d, 'w) env \<Rightarrow> ulong \<Rightarrow> bytes \<Rightarrow> byte_view \<Rightarrow> ('d, 'w) p11_state
    \<Rightarrow> (byte_view, 'd, 'w) api" where
  "C_VerifyRecover env h sig out s = pkcs11_guard (in_session h (VerifyRecover env sig out) s)"

subsection \<open>Random numbers\<close>

definition C_SeedRandom :: "('d, 'w) p11_state \<Rightarrow> (unit, 'd, 'w) api" where
  "C_SeedRandom s = pkcs11_guard (throw_p11 CKR_RANDOM_SEED_NOT_SUPPORTED, s)"

definition C_GenerateRandom :: "('d, 'w) env \<Rightarrow> ulong \<Rightarrow> byte_view \<Rightarrow> ('d, 'w) p11_state
    \<Rightarrow> (byte_view, 'd, 'w) api" where
  "C_GenerateRandom env h out s = pkcs11_guard (in_session h (GenerateRandom env out) s)"

subsection \<open>Functions that are not supported\<close>

text \<open>
  Encryption and decryption (which return the code) and the functions defined by the macro
  \<open>unsupported\<close> (which throw it).
\<close>

datatype unsupported_function =
    C_Encrypt | C_EncryptFinal | C_EncryptInit | C_EncryptUpdate
  | C_Decrypt | C_DecryptFinal | C_DecryptInit | C_DecryptUpdate
  | C_InitToken | C_CopyObject | C_DigestKey | C_DigestEncryptUpdate | C_DecryptDigestUpdate
  | C_SignEncryptUpdate | C_DecryptVerifyUpdate | C_WrapKey | C_UnwrapKey | C_DeriveKey
  | C_GetFunctionStatus | C_CancelFunction

definition returns_code :: "unsupported_function \<Rightarrow> bool" where
  "returns_code f \<longleftrightarrow>
     f \<in> {C_Encrypt, C_EncryptFinal, C_EncryptInit, C_EncryptUpdate, C_Decrypt, C_DecryptFinal,
          C_DecryptInit, C_DecryptUpdate}"

definition unsupported :: "unsupported_function \<Rightarrow> ('d, 'w) p11_state \<Rightarrow> (unit, 'd, 'w) api" where
  "unsupported f s =
     (if returns_code f then (Some CKR_FUNCTION_NOT_SUPPORTED, None, s)
      else pkcs11_guard (throw_p11 CKR_FUNCTION_NOT_SUPPORTED, s))"

end
