(* ===== verification/Template_Contract.thy ===== *)
theory Template_Contract
  imports P11_Crypto_Functions
begin

section \<open>The contract between the module and a card template\<close>

text \<open>
  The slot calls the card template through its function table.  The locale of this theory
  says what the module relies on: a template function changes its own data, the card handle
  and the cached ATR, may add objects, and leaves the fields that the slot and the sessions
  administer alone; logout and the closing functions do not fail on a card that was
  initialised.  The lemmas on the session operations are proved here once, for every
  template that keeps the contract.
\<close>

subsection \<open>Frames\<close>

text \<open>Every object of the slot exists, and its privacy can be determined.\<close>

definition slot_ok :: "'d cslot \<Rightarrow> bool" where
  "slot_ok sl \<longleftrightarrow>
     (\<forall>p \<in> set (P11Objects sl). p < objNext sl \<and> (\<exists>b. IsPrivate True (objs sl p) = Inr b))"

text \<open>
  \<open>slot_frame\<close>: what every operation of a session keeps of its slot.  \<open>template_frame\<close>: what a
  template function keeps, the handle tables too.
\<close>

definition slot_frame :: "'d cslot \<Rightarrow> 'd cslot \<Rightarrow> bool" where
  "slot_frame sl sl' \<longleftrightarrow>
     hSlot sl' = hSlot sl \<and> szName sl' = szName sl \<and> bUpdated sl' = bUpdated sl \<and> User sl' = User sl \<and>
     dwSessionCount sl' = dwSessionCount sl \<and> pTemplate sl' = pTemplate sl \<and> (slot_ok sl \<longrightarrow> slot_ok sl')"

definition template_frame :: "'d cslot \<Rightarrow> 'd cslot \<Rightarrow> bool" where
  "template_frame sl sl' \<longleftrightarrow>
     slot_frame sl sl' \<and> HandleP11Map sl' = HandleP11Map sl \<and> ObjP11Map sl' = ObjP11Map sl \<and>
     dwP11ObjCnt sl' = dwP11ObjCnt sl \<and> lastEvent sl' = lastEvent sl \<and>
     set (P11Objects sl) \<subseteq> set (P11Objects sl') \<and> (\<forall>p. p < objNext sl \<longrightarrow> objs sl' p = objs sl p)
     \<and> objNext sl \<le> objNext sl'"

definition data_kept :: "'d cslot \<Rightarrow> 'd cslot \<Rightarrow> bool" where
  "data_kept sl sl' \<longleftrightarrow> (pTemplateData sl \<noteq> None \<longrightarrow> pTemplateData sl' \<noteq> None)"

definition slot_keep :: "'d cslot \<Rightarrow> 'd cslot \<Rightarrow> bool" where
  "slot_keep sl sl' \<longleftrightarrow> slot_frame sl sl' \<and> data_kept sl sl'"

definition template_keep :: "'d cslot \<Rightarrow> 'd cslot \<Rightarrow> bool" where
  "template_keep sl sl' \<longleftrightarrow> template_frame sl sl' \<and> data_kept sl sl'"

definition keeps :: "('d, 'w, 'a) card_op \<Rightarrow> bool" where
  "keeps f \<longleftrightarrow> (\<forall>sl w. template_keep sl (fst (snd (f (sl, w)))))"

lemma template_keep_refl [simp, intro]: "template_keep sl sl"
  by (simp add: template_keep_def template_frame_def slot_frame_def data_kept_def)

lemma slot_keep_refl [simp, intro]: "slot_keep sl sl"
  by (simp add: slot_keep_def slot_frame_def data_kept_def)

lemma slot_keep_trans: "slot_keep a b \<Longrightarrow> slot_keep b c \<Longrightarrow> slot_keep a c"
  by (auto simp: slot_keep_def slot_frame_def data_kept_def)

lemma template_keep_trans: "template_keep a b \<Longrightarrow> template_keep b c \<Longrightarrow> template_keep a c"
  by (auto simp: template_keep_def template_frame_def slot_frame_def data_kept_def)

lemma template_slot_keep: "template_keep a b \<Longrightarrow> slot_keep a b"
  by (simp add: template_keep_def template_frame_def slot_keep_def)

lemma keepsD: "keeps f \<Longrightarrow> f (sl, w) = (r, sl', w') \<Longrightarrow> template_keep sl sl'"
  unfolding keeps_def by (metis fst_conv snd_conv)

lemma keepsI: "(\<And>sl w r sl' w'. f (sl, w) = (r, sl', w') \<Longrightarrow> template_keep sl sl') \<Longrightarrow> keeps f"
  unfolding keeps_def by (metis prod.collapse)

subsection \<open>Operations on the slot that keep the frame\<close>

named_theorems keeps_intros "operations that keep the frame of the slot"

lemma keeps_bind:
  assumes "keeps f" and "\<And>x. keeps (g x)"
  shows "keeps (\<lambda>st. bindS (f st) g)"
proof (rule keepsI)
  fix sl sl' :: "'a cslot" and w w' r
  assume b: "bindS (f (sl, w)) g = (r, sl', w')"
  obtain q sl1 w1 where f: "f (sl, w) = (q, sl1, w1)" by (cases "f (sl, w)") auto
  have 1: "template_keep sl sl1" using keepsD [OF assms(1) f] .
  show "template_keep sl sl'"
  proof (cases q)
    case (Inl e)
    with b f 1 show ?thesis by simp
  next
    case (Inr x)
    with b f have "g x (sl1, w1) = (r, sl', w')" by simp
    then show ?thesis using 1 keepsD [OF assms(2)] template_keep_trans by blast
  qed
qed

lemma template_keep_fields:
  "template_keep sl (sl\<lparr>hCard := h\<rparr>)" "template_keep sl (sl\<lparr>hContext := hc\<rparr>)" "template_keep sl (sl\<lparr>baATR := a\<rparr>)"
  "template_keep sl (sl\<lparr>pTemplateData := Some d\<rparr>)"
  by (simp_all add: template_keep_def template_frame_def slot_frame_def data_kept_def slot_ok_def)

lemma keeps_slot_context: "keeps (slot_context f)"
  by (rule keepsI) (auto simp: slot_context_def template_keep_fields split: prod.splits)

lemma keeps_connect_loop: "keeps (connect_loop tr retry)"
proof -
  have last: "keeps (connect_loop tr True)"
    by (auto intro!: keepsI simp: connect_loop.simps template_keep_fields split: prod.splits if_splits)
  note renew = keepsD [OF keeps_bind [OF keeps_slot_context last]]
  have "keeps (connect_loop tr False)"
    by (auto intro!: keepsI simp: connect_loop.simps [of tr False] template_keep_fields
        split: prod.splits if_splits dest: renew)
  with last show ?thesis by (cases retry) auto
qed

lemma keeps_Connect [keeps_intros]: "keeps (Connect tr)"
  unfolding Connect_def by (rule keeps_bind [OF keeps_slot_context keeps_connect_loop])

lemma keeps_GetATR [keeps_intros]: "keeps (GetATR tr)"
  by (rule keepsI) (auto simp: GetATR_def template_keep_fields split: prod.splits if_splits)

lemma keeps_token_loop: "keeps (token_loop tr retry)"
proof -
  have last: "keeps (token_loop tr True)"
    by (auto intro!: keepsI simp: token_loop.simps template_keep_fields Let_def split: prod.splits if_splits)
  note renew = keepsD [OF keeps_bind [OF keeps_slot_context last]]
  have "keeps (token_loop tr False)"
    by (auto intro!: keepsI simp: token_loop.simps [of tr False] template_keep_fields Let_def
        split: prod.splits if_splits dest: renew)
  with last show ?thesis by (cases retry) auto
qed

lemma keeps_IsTokenPresent [keeps_intros]: "keeps (IsTokenPresent tr)"
  unfolding IsTokenPresent_def by (rule keeps_bind [OF keeps_slot_context keeps_token_loop])

subsection \<open>The contract\<close>

locale card_module =
  fixes env :: "('d, 'w) env"
  assumes init_card_frame: "templateInitCard (tmpl env) (sl, w) = (r, sl', w') \<Longrightarrow> template_frame sl sl'"
    and init_card_data: "templateInitCard (tmpl env) (sl, w) = (Inr (), sl', w') \<Longrightarrow> pTemplateData sl' \<noteq> None"
    and final_card: "\<exists>sl' w'. templateFinalCard (tmpl env) (sl, w) = (Inr (), sl', w') \<and> template_frame sl sl'"
    and keeps_init_session: "keeps (templateInitSession (tmpl env))"
    and keeps_final_session: "keeps (templateFinalSession (tmpl env))"
    and keeps_match: "keeps (templateMatchCard (tmpl env))"
    and keeps_serial: "keeps (templateGetSerial (tmpl env))"
    and keeps_model: "keeps (templateGetModel (tmpl env))"
    and keeps_flags: "keeps (templateGetTokenFlags (tmpl env))"
    and keeps_login: "keeps (templateLogin (tmpl env) ut pin)"
    and keeps_logout: "keeps (templateLogout (tmpl env) ut)"
    and keeps_sign: "keeps (templateSign (tmpl env) p buf mt)"
    and keeps_sign_recover: "keeps (templateSignRecover (tmpl env) p buf mt)"
    and keeps_random: "keeps (templateGenerateRandom (tmpl env) n)"
    and keeps_init_pin: "keeps (templateInitPIN (tmpl env) pin)"
    and keeps_set_pin: "keeps (templateSetPIN (tmpl env) old new ut)"
    and keeps_size: "keeps (templateGetObjectSize (tmpl env) p)"
    and keeps_set_attribute: "keeps (templateSetAttribute (tmpl env) p tpl)"
    and keeps_create: "keeps (templateCreateObject (tmpl env) tpl)"
    and keeps_destroy: "keeps (templateDestroyObject (tmpl env) p)"
    and logout_total: "pTemplateData sl \<noteq> None \<Longrightarrow> fst (templateLogout (tmpl env) ut (sl, w)) = Inr ()"
    and final_session_total: "fst (templateFinalSession (tmpl env) (sl, w)) = Inr ()"
    and model_total: "\<exists>m. fst (templateGetModel (tmpl env) (sl, w)) = Inr m"

subsection \<open>Frames of the session operations\<close>

text \<open>What an operation of a session keeps: its identity, and \<open>slot_keep\<close> of its slot.\<close>

definition sess_keep :: "('d, 'w) sctx \<Rightarrow> ('d, 'w) sctx \<Rightarrow> bool" where
  "sess_keep c c' \<longleftrightarrow>
     hSessionHandle (sess c') = hSessionHandle (sess c) \<and> flags (sess c') = flags (sess c) \<and>
     pSlot (sess c') = pSlot (sess c) \<and> slot_keep (slot c) (slot c')"

definition op_keeps :: "(('d, 'w) sctx \<Rightarrow> (exn + 'a) \<times> ('d, 'w) sctx) \<Rightarrow> bool" where
  "op_keeps f \<longleftrightarrow> (\<forall>c. sess_keep c (snd (f c)))"

lemma sess_keep_refl [simp, intro]: "sess_keep c c"
  by (simp add: sess_keep_def)

lemma sess_keep_trans: "sess_keep a b \<Longrightarrow> sess_keep b c \<Longrightarrow> sess_keep a c"
  by (auto simp: sess_keep_def intro: slot_keep_trans)

lemma sess_keep_slot: "slot_keep (slot c) sl \<Longrightarrow> sess_keep c (c\<lparr>slot := sl\<rparr>)"
  by (simp add: sess_keep_def)

lemma sess_keep_bindS:
  assumes "sess_keep c (snd m)" and "\<And>x c'. m = (Inr x, c') \<Longrightarrow> sess_keep c' (snd (k x c'))"
  shows "sess_keep c (snd (bindS m k))"
  using assms by (cases m; cases "fst m") (auto intro: sess_keep_trans)

lemma upd_sess_keep:
  assumes "hSessionHandle (f (sess c)) = hSessionHandle (sess c)" "flags (f (sess c)) = flags (sess c)"
    "pSlot (f (sess c)) = pSlot (sess c)" "sess_keep c0 c"
  shows "sess_keep c0 (upd_sess f c)"
  using assms by (simp add: sess_keep_def upd_sess_def)

lemma call_template_keep:
  assumes "keeps f"
  shows "sess_keep c (snd (call_template f c))"
  using keepsD [OF assms, of "slot c" "wrld c"]
  by (auto simp: call_template_def sess_keep_def split: prod.splits intro: template_slot_keep)

lemma call_template_keep2:
  assumes "keeps f" and "sess_keep c0 c"
  shows "sess_keep c0 (snd (call_template f c))"
  using call_template_keep [OF assms(1)] assms(2) sess_keep_trans by blast

lemma slot_ok_same: "P11Objects sl' = P11Objects sl \<Longrightarrow> objNext sl' = objNext sl \<Longrightarrow> objs sl' = objs sl \<Longrightarrow> slot_ok sl' = slot_ok sl"
  by (simp add: slot_ok_def)

lemma assign_handle_keep: "slot_keep sl (snd (assign_handle sl p))"
  by (auto simp: assign_handle_def GetNewObjectID_def slot_keep_def slot_frame_def data_kept_def
      slot_ok_def split: option.split)

lemma GetIDFromObject_keep: "slot_keep sl (snd (GetIDFromObject sl p))"
  using GetIDFromObject_frame [of sl p] assign_handle_keep [of sl p] by auto

lemma DelObjectHandle_keep: "slot_keep sl (DelObjectHandle sl p)"
  by (auto simp: DelObjectHandle_def slot_keep_def slot_frame_def data_kept_def slot_ok_def split: option.split)

lemma DelP11Object_keep: "slot_keep sl (snd (DelP11Object sl p))"
  by (auto simp: DelP11Object_def slot_keep_def slot_frame_def data_kept_def slot_ok_def Let_def
      split: option.split dest: notin_set_remove1)

end
