(* ===== verification/Session_Frames.thy ===== *)
theory Session_Frames
  imports Template_Contract
begin

section \<open>Frames of the session operations\<close>

text \<open>
  Every operation of a session, except login and logout, keeps the identity of the session and
  what the module administers of the slot (\<open>sess_keep\<close>).  The operations without a card call
  keep it outright, the others for every template under the contract.
\<close>

lemma upd_sess_fields:
  "sess (upd_sess f c) = f (sess c)" "slot (upd_sess f c) = slot c" "wrld (upd_sess f c) = wrld c"
  by (simp_all add: upd_sess_def)

lemma bindS_trans:
  assumes "sess_keep c0 (snd m)" and "\<And>x c. m = (Inr x, c) \<Longrightarrow> sess_keep c0 c \<Longrightarrow> sess_keep c0 (snd (k x c))"
  shows "sess_keep c0 (snd (bindS m k))"
  using assms by (cases m; cases "fst m") auto

lemma set_mech_keep:
  "sess_keep c0 c \<Longrightarrow> sess_keep c0 (set_verify_recover m c)"
  "sess_keep c0 c \<Longrightarrow> sess_keep c0 (set_sign_recover m c)"
  "sess_keep c0 c \<Longrightarrow> sess_keep c0 (set_sign ms c)"
  "sess_keep c0 c \<Longrightarrow> sess_keep c0 (set_verify mv c)"
  "sess_keep c0 c \<Longrightarrow> sess_keep c0 (set_digest md c)"
  by (simp_all add: sess_keep_def upd_sess_fields)

lemma DigestInit_keep: "sess_keep c (snd (DigestInit m c))"
  by (simp add: DigestInit_def sess_keep_def upd_sess_fields)

lemma DigestUpdate_keep: "sess_keep c (snd (DigestUpdate d c))"
  by (simp add: DigestUpdate_def sess_keep_def upd_sess_fields split: option.split)

lemma DigestFinal_keep: "sess_keep c (snd (DigestFinal env out c))"
  by (simp add: DigestFinal_def sess_keep_def upd_sess_fields Let_def split: option.split sum.split)

lemma Digest_keep: "sess_keep c (snd (Digest env d out c))"
proof (cases "pDigestMechanism (sess c)")
  case None
  then show ?thesis by (simp add: Digest_def)
next
  case (Some mech)
  have "sess_keep c (snd (bindS (DigestUpdate d c) (\<lambda>_ c. DigestFinal env v c)))" for v
    by (rule sess_keep_bindS) (auto intro: DigestUpdate_keep DigestFinal_keep)
  with Some show ?thesis by (auto simp: Digest_def Let_def split: sum.splits)
qed

lemma VerifyInit_keep: "sess_keep c (snd (VerifyInit m h c))"
  by (auto simp: VerifyInit_def intro!: bindS_trans set_mech_keep split: option.splits)

lemma VerifyUpdate_keep: "sess_keep c (snd (VerifyUpdate d c))"
  by (simp add: VerifyUpdate_def sess_keep_def upd_sess_fields split: option.split)

lemma VerifyFinal_keep: "sess_keep c (snd (VerifyFinal env sig c))"
  by (simp add: VerifyFinal_def sess_keep_def upd_sess_fields split: option.split)

lemma Verify_keep: "sess_keep c (snd (Verify env d sig c))"
proof -
  have "sess_keep c (snd (bindS (VerifyUpdate d c) (\<lambda>_ c. VerifyFinal env sig c)))"
    by (rule sess_keep_bindS) (auto intro: VerifyUpdate_keep VerifyFinal_keep)
  then show ?thesis by (simp add: Verify_def)
qed

lemma VerifyRecoverInit_keep: "sess_keep c (snd (VerifyRecoverInit m h c))"
  by (auto simp: VerifyRecoverInit_def intro!: bindS_trans set_mech_keep)

lemma VerifyRecover_keep: "sess_keep c (snd (VerifyRecover env sig out c))"
  by (auto simp: VerifyRecover_def Let_def intro!: bindS_trans set_mech_keep split: option.splits sum.splits)

lemma SignInit_keep: "sess_keep c (snd (SignInit m h c))"
  by (auto simp: SignInit_def intro!: bindS_trans set_mech_keep split: option.splits)

lemma SignUpdate_keep: "sess_keep c (snd (SignUpdate d c))"
  by (simp add: SignUpdate_def sess_keep_def upd_sess_fields split: option.split)

lemma SignRecoverInit_keep: "sess_keep c (snd (SignRecoverInit m h c))"
  by (auto simp: SignRecoverInit_def intro!: bindS_trans set_mech_keep)

lemma find_loop_keep: "sess_keep c (snd (find_loop tpl ps c))"
proof (induction ps arbitrary: c)
  case Nil
  then show ?case by simp
next
  case (Cons p ps)
  have step: "sess_keep c (snd (find_loop tpl ps c'))" if "sess_keep c c'" for c'
    using that Cons.IH sess_keep_trans by blast
  obtain r sl where g: "GetIDFromObject (slot c) p = (r, sl)" by (cases "GetIDFromObject (slot c) p")
  then have sl: "sess_keep c (c\<lparr>slot := sl\<rparr>)"
    using GetIDFromObject_keep [of "slot c" p] by (simp add: sess_keep_slot)
  have upd: "sess_keep c (upd_sess (\<lambda>se. se\<lparr>findResult := findResult se @ [h]\<rparr>) (c\<lparr>slot := sl\<rparr>))" for h
    using sl by (simp add: sess_keep_def upd_sess_fields)
  show ?case
    using sl g step [OF sl] step [OF upd] step [OF sess_keep_refl]
    by (cases "if tpl = [] then Inr True else match_attrs (slot c) p tpl"; cases r)
      (simp_all split: bool.split)
qed

lemma FindObjectsInit_keep: "sess_keep c (snd (FindObjectsInit tpl c))"
proof -
  let ?c = "upd_sess (\<lambda>se. se\<lparr>findResult := []\<rparr>) c"
  have "sess_keep c ?c" by (simp add: sess_keep_def upd_sess_fields)
  then have "sess_keep c (snd (find_loop tpl (P11Objects (slot c)) ?c))"
    using find_loop_keep sess_keep_trans by blast
  then have "sess_keep c (snd (bindS (find_loop tpl (P11Objects (slot c)) ?c)
      (\<lambda>_ c. (Inr (), upd_sess (\<lambda>se. se\<lparr>bFindInit := True\<rparr>) c))))"
    by (rule bindS_trans) (simp add: sess_keep_def upd_sess_fields)
  then show ?thesis by (simp add: FindObjectsInit_def)
qed

lemma FindObjects_keep: "sess_keep c (snd (FindObjects n c))"
  by (simp add: FindObjects_def sess_keep_def upd_sess_fields split: prod.split)

lemma FindObjectsFinal_keep: "sess_keep c (snd (FindObjectsFinal c))"
  by (simp add: FindObjectsFinal_def sess_keep_def upd_sess_fields)

subsection \<open>Restoring a saved state\<close>

lemma saved_key_keep: "sess_keep c (snd (saved_key cls key c))"
  using GetIDFromObject_keep [of "slot c"]
  by (auto simp: saved_key_def split: sum.splits option.splits prod.splits intro!: sess_keep_slot)
    (metis snd_conv)

lemma restore_sign_keep: "sess_keep c (snd (restore_sign st c))"
  unfolding restore_sign_def
  by (auto intro!: bindS_trans set_mech_keep
      intro: sess_keep_trans [OF _ saved_key_keep] sess_keep_trans [OF _ SignInit_keep] split: option.splits)

lemma restore_verify_keep: "sess_keep c (snd (restore_verify st c))"
  unfolding restore_verify_def
  by (auto intro!: bindS_trans set_mech_keep
      intro: sess_keep_trans [OF _ saved_key_keep] sess_keep_trans [OF _ VerifyInit_keep] split: option.splits)

lemma restore_digest_keep: "sess_keep c (snd (restore_digest st c))"
  unfolding restore_digest_def
  by (auto intro!: bindS_trans set_mech_keep intro: sess_keep_trans [OF _ DigestInit_keep] split: option.splits)

lemma restore_part_keep:
  "(\<And>st c. sess_keep c (snd (f st c))) \<Longrightarrow> sess_keep c0 c \<Longrightarrow> sess_keep c0 (snd (restore_part m tag f c))"
  unfolding restore_part_def by (auto intro!: bindS_trans intro: sess_keep_trans split: option.splits)

lemma SetOperationState_keep: "sess_keep c (snd (SetOperationState st c))"
  unfolding SetOperationState_def
  by (auto intro!: bindS_trans restore_part_keep restore_sign_keep restore_verify_keep restore_digest_keep)

lemma GetOperationState_keep: "sess_keep c (snd (GetOperationState env out c))"
  unfolding GetOperationState_def by (auto intro!: bindS_trans)

subsection \<open>Operations that use the card\<close>

context card_module
begin

lemmas card_calls = keeps_init_session keeps_final_session keeps_match keeps_serial keeps_model keeps_flags
  keeps_login keeps_logout keeps_sign keeps_sign_recover keeps_random keeps_init_pin keeps_set_pin keeps_size
  keeps_set_attribute keeps_create keeps_destroy

lemma SignFinal_keep: "sess_keep c (snd (SignFinal env out c))"
  by (auto simp: SignFinal_def intro!: bindS_trans set_mech_keep call_template_keep2 card_calls
      split: option.splits sum.splits)

lemma Sign_keep: "sess_keep c (snd (Sign env d out c))"
  by (auto simp: Sign_def intro!: bindS_trans intro: sess_keep_trans [OF set_mech_keep(3) SignUpdate_keep]
      sess_keep_trans [OF _ SignFinal_keep] split: option.splits)

lemma SignRecover_keep: "sess_keep c (snd (SignRecover env d out c))"
  by (auto simp: SignRecover_def intro!: bindS_trans set_mech_keep call_template_keep2 card_calls
      split: option.splits sum.splits)

lemma GenerateRandom_keep: "sess_keep c (snd (GenerateRandom env out c))"
  by (auto simp: GenerateRandom_def intro!: bindS_trans call_template_keep card_calls)

lemma InitPIN_keep: "sess_keep c (snd (InitPIN env pin c))"
  by (auto simp: InitPIN_def intro!: call_template_keep card_calls)

lemma SetPIN_keep: "sess_keep c (snd (SetPIN env old new c))"
  by (auto simp: SetPIN_def intro!: call_template_keep card_calls)

lemma CreateObject_keep: "sess_keep c (snd (CreateObject env tpl c))"
proof -
  have "sess_keep c0 (c\<lparr>slot := snd (GetIDFromObject (slot c) p)\<rparr>)" if "sess_keep c0 c" for p and c0 c :: "('a, 'b) sctx"
    using that sess_keep_trans sess_keep_slot [OF GetIDFromObject_keep] by blast
  then show ?thesis
    by (auto simp: CreateObject_def split_beta intro!: bindS_trans call_template_keep card_calls split: option.split)
qed

lemma DestroyObject_keep: "sess_keep c (snd (DestroyObject env h c))"
proof -
  have "sess_keep c0 (c\<lparr>slot := snd (DelP11Object (slot c) p)\<rparr>)" if "sess_keep c0 c" for p and c0 c :: "('a, 'b) sctx"
    using that sess_keep_trans sess_keep_slot [OF DelP11Object_keep] by blast
  then show ?thesis
    by (auto simp: DestroyObject_def split_beta intro!: bindS_trans call_template_keep card_calls split: option.split)
qed

lemma GetObjectSize_keep: "sess_keep c (snd (GetObjectSize env h c))"
  by (auto simp: GetObjectSize_def intro!: bindS_trans call_template_keep2 card_calls split: option.split)

lemma SetAttributeValue_keep: "sess_keep c (snd (SetAttributeValue env h tpl c))"
  by (auto simp: SetAttributeValue_def intro!: call_template_keep card_calls split: option.split)

end

end
