(* ===== verification/Module_Invariant.thy ===== *)
theory Module_Invariant
  imports Session_Frames
begin

section \<open>The invariant of the module's state\<close>

text \<open>
  \<open>module_ok\<close> relates the tables of the module: every session hangs on a listed slot, the
  session counter of a slot counts its sessions, a slot with sessions is initialised, nobody
  is logged in where there is no session, and where the security officer is logged in every
  session is read/write.  It is kept by every operation of every template under the
  contract.
\<close>

definition slot_inv :: "(ulong, csession) std_map \<Rightarrow> nat \<Rightarrow> 'd cslot \<Rightarrow> bool" where
  "slot_inv ss p sl \<longleftrightarrow>
     slot_ok sl \<and>
     dwSessionCount sl = of_nat (length (sessions_on p ss)) \<and>
     (sessions_on p ss \<noteq> [] \<longrightarrow> bUpdated sl) \<and>
     (bUpdated sl \<longrightarrow> pTemplate sl \<noteq> None \<and> pTemplateData sl \<noteq> None) \<and>
     User sl \<in> {CKU_NOBODY, CKU_USER, CKU_SO} \<and>
     (sessions_on p ss = [] \<longrightarrow> User sl = CKU_NOBODY) \<and>
     (User sl = CKU_SO \<longrightarrow> (\<forall>e \<in> set (sessions_on p ss). is_RW (snd e)))"

definition session_inv :: "('d, 'w) p11_state \<Rightarrow> ulong \<Rightarrow> csession \<Rightarrow> bool" where
  "session_inv s h se \<longleftrightarrow>
     hSessionHandle se = h \<and> 0 < h \<and> h \<le> dwSessionCnt s \<and> pSlot se \<in> snd ` set (g_mSlots s)"

definition module_ok :: "('d, 'w) p11_state \<Rightarrow> bool" where
  "module_ok s \<longleftrightarrow>
     map_ok (g_mSessions s) \<and> map_ok (g_mSlots s) \<and> distinct (map snd (g_mSlots s)) \<and>
     (\<forall>(i, p) \<in> set (g_mSlots s). p < slotNext s \<and> hSlot (slots s p) = i \<and> slot_inv (g_mSessions s) p (slots s p)) \<and>
     (\<forall>(h, se) \<in> set (g_mSessions s). session_inv s h se)"

lemma module_ok_initial: "module_ok (initial_state w)"
  by (simp add: module_ok_def initial_state_def)

lemma module_okD:
  assumes "module_ok s"
  shows "map_ok (g_mSessions s)" "map_ok (g_mSlots s)" "distinct (map snd (g_mSlots s))"
    and "(i, p) \<in> set (g_mSlots s) \<Longrightarrow> p < slotNext s"
    and "(i, p) \<in> set (g_mSlots s) \<Longrightarrow> hSlot (slots s p) = i"
    and "(i, p) \<in> set (g_mSlots s) \<Longrightarrow> slot_inv (g_mSessions s) p (slots s p)"
    and "(h, se) \<in> set (g_mSessions s) \<Longrightarrow> session_inv s h se"
  using assms unfolding module_ok_def by blast+

lemma module_okI:
  assumes "map_ok (g_mSessions s)" "map_ok (g_mSlots s)" "distinct (map snd (g_mSlots s))"
    and "\<And>i p. (i, p) \<in> set (g_mSlots s) \<Longrightarrow>
           p < slotNext s \<and> hSlot (slots s p) = i \<and> slot_inv (g_mSessions s) p (slots s p)"
    and "\<And>h se. (h, se) \<in> set (g_mSessions s) \<Longrightarrow> session_inv s h se"
  shows "module_ok s"
  using assms unfolding module_ok_def by blast

lemma module_ok_listed:
  assumes "module_ok s" and "p \<in> snd ` set (g_mSlots s)"
  shows "slot_inv (g_mSessions s) p (slots s p)" "(hSlot (slots s p), p) \<in> set (g_mSlots s)"
proof -
  obtain i where i: "(i, p) \<in> set (g_mSlots s)" using assms(2) by auto
  show "slot_inv (g_mSessions s) p (slots s p)" using module_okD(6) [OF assms(1) i] .
  show "(hSlot (slots s p), p) \<in> set (g_mSlots s)" using module_okD(5) [OF assms(1) i] i by simp
qed

lemma module_ok_session:
  assumes "module_ok s" and "map_of (g_mSessions s) h = Some se"
  shows "session_inv s h se" "slot_inv (g_mSessions s) (pSlot se) (slots s (pSlot se))"
    and "sessions_on (pSlot se) (g_mSessions s) \<noteq> []" "(h, se) \<in> set (sessions_on (pSlot se) (g_mSessions s))"
    and "bUpdated (slots s (pSlot se))"
proof -
  have m: "(h, se) \<in> set (g_mSessions s)" using assms(2) by (rule map_of_SomeD)
  show inv: "session_inv s h se" using module_okD(7) [OF assms(1) m] .
  then obtain i where "(i, pSlot se) \<in> set (g_mSlots s)" by (auto simp: session_inv_def)
  then show sl: "slot_inv (g_mSessions s) (pSlot se) (slots s (pSlot se))" using module_okD(6) [OF assms(1)] by blast
  show on: "(h, se) \<in> set (sessions_on (pSlot se) (g_mSessions s))" using m by (simp add: sessions_on_def)
  then show ne: "sessions_on (pSlot se) (g_mSessions s) \<noteq> []" by auto
  show "bUpdated (slots s (pSlot se))" using sl ne by (simp add: slot_inv_def)
qed

subsection \<open>Updates of one slot\<close>

lemma slot_inv_keep:
  assumes "slot_inv ss p sl" and "slot_keep sl sl'"
  shows "slot_inv ss p sl'"
  using assms by (auto simp: slot_inv_def slot_keep_def slot_frame_def data_kept_def)

lemma module_ok_slot:
  assumes "module_ok s" and "hSlot sl = hSlot (slots s p)"
    and "p \<in> snd ` set (g_mSlots s) \<Longrightarrow> slot_inv (g_mSessions s) p sl"
    and "g_mSessions s' = g_mSessions s" "g_mSlots s' = g_mSlots s" "slotNext s' = slotNext s"
    and "slots s' = (slots s)(p := sl)" "dwSessionCnt s \<le> dwSessionCnt s'"
  shows "module_ok s'"
proof -
  have "session_inv s' h se" if "(h, se) \<in> set (g_mSessions s)" for h se
    using module_okD(7) [OF assms(1) that] assms(5,8) by (auto simp: session_inv_def intro: order_trans)
  moreover have "hSlot (slots s' q) = i \<and> slot_inv (g_mSessions s) q (slots s' q)"
    if "(i, q) \<in> set (g_mSlots s)" for i q
  proof (cases "q = p")
    case True
    then have "p \<in> snd ` set (g_mSlots s)" using that by (auto intro: rev_image_eqI)
    then show ?thesis using assms(2,3,7) True module_okD(5) [OF assms(1) that] by simp
  next
    case False
    then show ?thesis using assms(7) module_okD(5,6) [OF assms(1) that] by simp
  qed
  ultimately show ?thesis
    using module_okD(1-4) [OF assms(1)] assms(4-6) by (auto intro!: module_okI)
qed

lemma module_ok_same:
  assumes "module_ok s" "g_mSessions s' = g_mSessions s" "g_mSlots s' = g_mSlots s" "slotNext s' = slotNext s"
    "slots s' = slots s" "dwSessionCnt s' = dwSessionCnt s"
  shows "module_ok s'"
  using assms by (auto simp: module_ok_def session_inv_def)

lemma module_ok_on_slot:
  assumes "module_ok s" and "\<And>r sl w. f (slots s p, world s) = (r, sl, w) \<Longrightarrow> slot_keep (slots s p) sl"
  shows "module_ok (snd (on_slot p f s))"
proof -
  obtain r sl w where f: "f (slots s p, world s) = (r, sl, w)" by (cases "f (slots s p, world s)")
  have k: "slot_keep (slots s p) sl" by (rule assms(2) [OF f])
  show ?thesis
  proof (rule module_ok_slot [OF assms(1), of sl p])
    show "hSlot sl = hSlot (slots s p)" using k by (simp add: slot_keep_def slot_frame_def)
    show "slot_inv (g_mSessions s) p sl" if "p \<in> snd ` set (g_mSlots s)"
      using slot_inv_keep [OF module_ok_listed(1) [OF assms(1) that] k] .
  qed (simp_all add: on_slot_def f)
qed

lemma module_ok_keeps: "module_ok s \<Longrightarrow> keeps f \<Longrightarrow> module_ok (snd (on_slot p f s))"
  by (rule module_ok_on_slot) (auto dest: keepsD intro: template_slot_keep)

subsection \<open>Updates of one session\<close>

lemma map_put_present:
  assumes "map_ok m" and "map_of m k = Some v"
  shows "map_put m k v' = map (\<lambda>e. if fst e = k then (k, v') else e) m"
  using assms
proof (induction m)
  case (Cons e m)
  have *: "map (\<lambda>e. if fst e = k then (k, v') else e) m = m" if "fst e = k"
    using Cons.prems(1) that by (intro map_idI) auto
  have "k \<in> fst ` set m" if "fst e \<noteq> k" using Cons.prems(2) that by (cases e) (auto dest: map_of_SomeD intro: rev_image_eqI)
  then have "fst e < k" if "fst e \<noteq> k" using Cons.prems(1) that by auto
  then show ?case using Cons * by (cases e) auto
qed simp

lemma sessions_on_put:
  assumes "map_ok m" and "map_of m h = Some se" and "pSlot se' = pSlot se" and "flags se' = flags se"
  shows "length (sessions_on q (map_put m h se')) = length (sessions_on q m)"
    and "(\<forall>e \<in> set (sessions_on q (map_put m h se')). is_RW (snd e)) = (\<forall>e \<in> set (sessions_on q m). is_RW (snd e))"
proof -
  let ?f = "\<lambda>e. if fst e = h then (h, se') else e"
  have same: "pSlot (snd (?f e)) = pSlot (snd e) \<and> is_RW (snd (?f e)) = is_RW (snd e)" if "e \<in> set m" for e
  proof -
    have "snd e = se" if "fst e = h"
      using that \<open>e \<in> set m\<close> assms(1,2) map_ok_lookup [of m h "snd e"] by (cases e) auto
    then show ?thesis using assms(3,4) by (simp add: is_RW_def)
  qed
  have eq: "sessions_on q (map_put m h se') = map ?f (sessions_on q m)"
    unfolding sessions_on_def map_put_present [OF assms(1,2)] filter_map
    using same by (intro arg_cong [where f = "map ?f"] filter_cong) (auto simp: split_beta)
  show "length (sessions_on q (map_put m h se')) = length (sessions_on q m)" by (simp add: eq)
  show "(\<forall>e \<in> set (sessions_on q (map_put m h se')). is_RW (snd e)) = (\<forall>e \<in> set (sessions_on q m). is_RW (snd e))"
  proof -
    have "is_RW (snd (?f e)) = is_RW (snd e)" if "e \<in> set (sessions_on q m)" for e
      using same [of e] that by (simp add: sessions_on_def)
    then show ?thesis unfolding eq set_map by blast
  qed
qed

lemma slot_inv_put:
  assumes "map_ok m" and "map_of m h = Some se" and "pSlot se' = pSlot se" and "flags se' = flags se"
  shows "slot_inv (map_put m h se') q sl = slot_inv m q sl"
proof -
  have "sessions_on q (map_put m h se') = [] \<longleftrightarrow> sessions_on q m = []"
    using sessions_on_put(1) [OF assms] by (metis length_0_conv)
  then show ?thesis using sessions_on_put [OF assms] by (simp add: slot_inv_def)
qed

lemma module_ok_put:
  assumes "module_ok s" and "map_of (g_mSessions s) h = Some se"
    and "pSlot se' = pSlot se" "flags se' = flags se" "hSessionHandle se' = hSessionHandle se"
  shows "module_ok (s\<lparr>g_mSessions := map_put (g_mSessions s) h se'\<rparr>)"
proof -
  note ok = module_okD(1) [OF assms(1)]
  have "session_inv s h' x" if "map_of (map_put (g_mSessions s) h se') h' = Some x" for h' x
    using that module_ok_session(1) [OF assms(1)] assms(2-5)
    by (cases "h' = h") (auto simp: session_inv_def)
  then have "session_inv s h' x" if "(h', x) \<in> set (map_put (g_mSessions s) h se')" for h' x
    using that ok by (simp add: map_ok_lookup)
  then show ?thesis
    using module_okD [OF assms(1)]
    by (intro module_okI) (auto simp: session_inv_def slot_inv_put [OF ok assms(2-4)])
qed

lemma module_ok_session_slot:
  assumes "module_ok s" and "map_of (g_mSessions s) h = Some se"
    and "pSlot se' = pSlot se" "flags se' = flags se" "hSessionHandle se' = hSessionHandle se"
    and "hSlot sl = hSlot (slots s (pSlot se))" and "slot_inv (g_mSessions s) (pSlot se) sl"
  shows "module_ok (s\<lparr>g_mSessions := map_put (g_mSessions s) h se', slots := (slots s)(pSlot se := sl), world := w\<rparr>)"
  by (rule module_ok_slot [OF module_ok_put [OF assms(1-5)], of sl "pSlot se"])
    (use assms slot_inv_put [OF module_okD(1) [OF assms(1)] assms(2-4), of "pSlot se" sl] in simp_all)

text \<open>An operation of a session under \<open>sess_keep\<close> keeps the module in order.\<close>

lemma module_ok_on_session:
  assumes "module_ok s" and "map_of (g_mSessions s) h = Some se" and "\<And>c. sess_keep c (snd (f c))"
  shows "module_ok (snd (on_session h se f s))"
proof -
  let ?c = "\<lparr>sess = se, slot = slots s (pSlot se), wrld = world s\<rparr>"
  obtain r c where f: "f ?c = (r, c)" by (cases "f ?c")
  have k: "sess_keep ?c c" using assms(3) [of ?c] f by simp
  then have "slot_inv (g_mSessions s) (pSlot se) (slot c)"
    using slot_inv_keep [OF module_ok_session(2) [OF assms(1,2)], of "slot c"] by (simp add: sess_keep_def)
  then show ?thesis
    using module_ok_session_slot [OF assms(1,2), of "sess c" "slot c"] k
    by (simp add: on_session_def f sess_keep_def slot_keep_def slot_frame_def)
qed

subsection \<open>Counting the sessions of a slot\<close>

lemma sessions_on_bound:
  assumes "module_ok s"
  shows "length (sessions_on p (g_mSessions s)) < 2 ^ 64"
proof -
  have "set (map fst (g_mSessions s)) \<subseteq> UNIV - {0}"
    using module_okD(7) [OF assms] by (fastforce simp: session_inv_def)
  then have "card (set (map fst (g_mSessions s))) \<le> card (UNIV - {0 :: ulong})"
    by (intro card_mono) simp_all
  also have "\<dots> = 2 ^ 64 - 1" by (simp add: card_Diff_subset card_word)
  finally have "length (g_mSessions s) \<le> 2 ^ 64 - 1"
    using distinct_card [OF map_ok_distinct [OF module_okD(1) [OF assms]]] by (simp del: set_map)
  moreover have "length (sessions_on p (g_mSessions s)) \<le> length (g_mSessions s)"
    by (simp add: sessions_on_def)
  ultimately show ?thesis by simp
qed

lemma sessions_on_erase: "sessions_on p (map_erase m h) = map_erase (sessions_on p m) h"
  by (simp add: sessions_on_def map_erase_def conj_commute)

lemma length_map_erase: "map_ok m \<Longrightarrow> (h, v) \<in> set m \<Longrightarrow> length (map_erase m h) = length m - 1"
proof (induction m)
  case (Cons e m)
  have "map_erase m (fst e) = m"
    using Cons.prems(1) by (auto simp: map_erase_def intro!: filter_True)
  moreover have "m \<noteq> []" if "fst e \<noteq> h" using Cons.prems(2) that by auto
  ultimately show ?case using Cons by (auto simp: map_erase_def Suc_diff_Suc)
qed simp

lemma map_ok_filter: "map_ok m \<Longrightarrow> map_ok (filter P m)"
  by (induction m) auto

end
