(* ===== verification/Module_Steps.thy ===== *)
theory Module_Steps
  imports Module_Invariant
begin

section \<open>The operations that open, close, log in and log out\<close>

text \<open>
  The operations that change what \<open>slot_keep\<close> keeps: login and logout, opening and closing of
  sessions, initialisation and finalisation of a slot, and the slot list.  Under the
  invariant the closing operations always succeed.
\<close>

subsection \<open>Logout\<close>

lemma revoke_private_keep: "slot_keep sl (snd (revoke_private ps sl))"
proof (induction ps arbitrary: sl)
  case (Cons p ps)
  show ?case
    using Cons.IH [of sl] slot_keep_trans [OF DelObjectHandle_keep Cons.IH]
    by (simp split: sum.split)
qed simp

lemma slot_private_same:
  "pTemplate sl' = pTemplate sl \<Longrightarrow> objs sl' = objs sl \<Longrightarrow> slot_private sl' p = slot_private sl p"
  by (simp add: slot_private_def)

lemma DelObjectHandle_same:
  "objs (DelObjectHandle sl p) = objs sl" "pTemplate (DelObjectHandle sl p) = pTemplate sl"
  "P11Objects (DelObjectHandle sl p) = P11Objects sl" "dwP11ObjCnt (DelObjectHandle sl p) = dwP11ObjCnt sl"
  by (simp_all add: DelObjectHandle_def split: option.split)

lemma revoke_private_total:
  assumes "\<And>p. p \<in> set ps \<Longrightarrow> \<exists>b. slot_private sl p = Inr b"
  shows "fst (revoke_private ps sl) = Inr ()"
  using assms
proof (induction ps arbitrary: sl)
  case (Cons p ps)
  obtain b where "slot_private sl p = Inr b" using Cons.prems by auto
  moreover have "\<exists>b'. slot_private (if b then DelObjectHandle sl p else sl) q = Inr b'" if "q \<in> set ps" for q
    using Cons.prems that slot_private_same [of "DelObjectHandle sl p" sl] by (simp add: DelObjectHandle_same)
  ultimately show ?case using Cons.IH [of "if b then DelObjectHandle sl p else sl"] by simp
qed simp

lemma slot_keep_set:
  "slot_keep sl sl' \<Longrightarrow> slot_keep (sl\<lparr>User := u\<rparr>) (sl'\<lparr>User := u\<rparr>)"
  "slot_keep sl sl' \<Longrightarrow> slot_keep (sl\<lparr>dwSessionCount := n\<rparr>) (sl'\<lparr>dwSessionCount := n\<rparr>)"
  by (simp_all add: slot_keep_def slot_frame_def data_kept_def slot_ok_def)

subsection \<open>Closing a session\<close>

definition put_slot :: "nat \<Rightarrow> 'd cslot \<Rightarrow> (ulong, csession) std_map \<Rightarrow> 'w \<Rightarrow> ('d, 'w) p11_state \<Rightarrow> ('d, 'w) p11_state" where
  "put_slot p sl ss w s = s\<lparr>slots := (slots s)(p := sl), g_mSessions := ss, world := w\<rparr>"

lemma put_slot_fields [simp]:
  "slots (put_slot p sl ss w s) = (slots s)(p := sl)" "g_mSessions (put_slot p sl ss w s) = ss"
  "g_mSlots (put_slot p sl ss w s) = g_mSlots s" "slotNext (put_slot p sl ss w s) = slotNext s"
  "dwSessionCnt (put_slot p sl ss w s) = dwSessionCnt s" "world (put_slot p sl ss w s) = w"
  "bP11Initialized (put_slot p sl ss w s) = bP11Initialized s" "g_mCardTemplates (put_slot p sl ss w s) = g_mCardTemplates s"
  by (simp_all add: put_slot_def)

lemma put_slot_twice [simp]: "put_slot p sl' ss' w' (put_slot p sl ss w s) = put_slot p sl' ss' w' s"
  by (simp add: put_slot_def)

lemma put_slot_self: "put_slot p (slots s p) (g_mSessions s) (world s) s = s"
  by (simp add: put_slot_def)

text \<open>
  The state after a session of slot \<open>p\<close> is closed: one session less, and nobody logged in if
  it was the last.
\<close>

lemma slot_inv_erase:
  assumes "slot_inv m p sl" and "map_ok m" and "map_of m h = Some se" and "pSlot se = p"
    and "length (sessions_on p m) < 2 ^ 64"
    and "slot_keep (sl\<lparr>dwSessionCount := dwSessionCount sl - 1,
                        User := (if dwSessionCount sl = 1 then CKU_NOBODY else User sl)\<rparr>) sl'"
  shows "slot_inv (map_erase m h) p sl'"
proof -
  let ?n = "length (sessions_on p m)"
  have mem: "(h, se) \<in> set (sessions_on p m)" using assms(3,4) by (auto simp: sessions_on_def dest: map_of_SomeD)
  then have n: "length (sessions_on p (map_erase m h)) = ?n - 1" "0 < ?n"
    using length_map_erase [OF map_ok_filter [OF assms(2)]] by (auto simp: sessions_on_erase) (auto simp: sessions_on_def)
  have cnt: "dwSessionCount sl = of_nat ?n" using assms(1) by (simp add: slot_inv_def)
  have last: "dwSessionCount sl = 1 \<longleftrightarrow> ?n = 1"
    using assms(5) by (simp add: cnt word_unat_eq_iff unat_of_nat take_bit_eq_mod)
  have cnt': "dwSessionCount sl - 1 = of_nat (?n - 1)" using n(2) by (cases ?n) (simp_all add: cnt)
  have sub: "set (sessions_on p (map_erase m h)) \<subseteq> set (sessions_on p m)" by (auto simp: sessions_on_erase)
  have none: "sessions_on p (map_erase m h) = [] \<longleftrightarrow> ?n = 1" 
    using n by (metis One_nat_def Suc_pred diff_self_eq_0 length_0_conv)
  show ?thesis
    using assms(1,6) n cnt' last none sub
    by (auto simp: slot_inv_def slot_keep_def slot_frame_def data_kept_def slot_ok_def split: if_splits)
qed

lemma map_erase_put: "map_erase (map_put m k v) k = map_erase m k"
  by (induction m k v rule: map_put.induct) (simp_all add: map_erase_def)

lemma module_ok_erase:
  assumes "module_ok s" and "map_of (g_mSessions s) h = Some se" and "p = pSlot se"
    and "slot_keep ((slots s p)\<lparr>dwSessionCount := dwSessionCount (slots s p) - 1,
           User := (if dwSessionCount (slots s p) = 1 then CKU_NOBODY else User (slots s p))\<rparr>) sl"
  shows "module_ok (put_slot p sl (map_erase (g_mSessions s) h) w s)"
proof -
  note ok = module_okD [OF assms(1)]
  have other: "sessions_on q (map_erase (g_mSessions s) h) = sessions_on q (g_mSessions s)" if "q \<noteq> p" for q
  proof -
    have "fst e \<noteq> h" if "e \<in> set (sessions_on q (g_mSessions s))" for e
    proof -
      have "(fst e, snd e) \<in> set (g_mSessions s)" "pSlot (snd e) = q" using that by (auto simp: sessions_on_def)
      then have "map_of (g_mSessions s) (fst e) = Some (snd e)" using map_ok_lookup [OF ok(1), of "fst e" "snd e"] by simp
      then show ?thesis using assms(2,3) \<open>pSlot (snd e) = q\<close> \<open>q \<noteq> p\<close> by auto
    qed
    then show ?thesis unfolding sessions_on_erase by (auto simp: map_erase_def intro!: filter_True)
  qed
  have "slot_inv (map_erase (g_mSessions s) h) p sl"
    using slot_inv_erase [OF _ ok(1) assms(2) _ sessions_on_bound [OF assms(1)] assms(4)]
      module_ok_session(2) [OF assms(1,2)] assms(3) by simp
  moreover have "hSlot sl = hSlot (slots s p)" using assms(4) by (simp add: slot_keep_def slot_frame_def)
  moreover have "slot_inv (map_erase (g_mSessions s) h) q (slots s q)" if "(i, q) \<in> set (g_mSlots s)" "q \<noteq> p" for i q
    using ok(6) [OF that(1)] other [OF that(2)] by (simp add: slot_inv_def)
  ultimately show ?thesis
    using ok by (intro module_okI) (auto simp: session_inv_def)
qed

text \<open>The identity of a slot, which closing leaves alone.\<close>

definition same_slot :: "'d cslot \<Rightarrow> 'd cslot \<Rightarrow> bool" where
  "same_slot sl sl' \<longleftrightarrow> hSlot sl' = hSlot sl \<and> szName sl' = szName sl \<and> bUpdated sl' = bUpdated sl \<and> pTemplate sl' = pTemplate sl"

lemma same_slot_refl [simp]: "same_slot sl sl"
  by (simp add: same_slot_def)

lemma same_slot_trans: "same_slot a b \<Longrightarrow> same_slot b c \<Longrightarrow> same_slot a c"
  by (simp add: same_slot_def)

lemma slot_keep_same: "slot_keep sl sl' \<Longrightarrow> same_slot sl sl'"
  by (simp add: slot_keep_def slot_frame_def same_slot_def)

lemma filter_map_erase: "filter P (map_erase m h) = filter (\<lambda>e. P e \<and> fst e \<noteq> h) m"
  by (simp add: map_erase_def conj_commute)

lemma sessions_handles:
  assumes "module_ok s"
  shows "map (\<lambda>(h, se). hSessionHandle se) (sessions_on p (g_mSessions s)) = map fst (sessions_on p (g_mSessions s))"
    and "distinct (map fst (sessions_on p (g_mSessions s)))"
    and "e \<in> set (g_mSessions s) \<Longrightarrow> fst e \<in> fst ` set (sessions_on p (g_mSessions s)) \<longleftrightarrow> pSlot (snd e) = p"
proof -
  show "map (\<lambda>(h, se). hSessionHandle se) (sessions_on p (g_mSessions s)) = map fst (sessions_on p (g_mSessions s))"
    using module_okD(7) [OF assms] by (auto simp: sessions_on_def session_inv_def)
  show "distinct (map fst (sessions_on p (g_mSessions s)))"
    unfolding sessions_on_def by (intro map_ok_distinct map_ok_filter module_okD(1) [OF assms])
  have uniq: "se = snd e" if "(fst e, se) \<in> set (g_mSessions s)" "e \<in> set (g_mSessions s)" for se
    using that map_ok_lookup [OF module_okD(1) [OF assms], of "fst e"] by (metis option.inject prod.collapse)
  show "fst e \<in> fst ` set (sessions_on p (g_mSessions s)) \<longleftrightarrow> pSlot (snd e) = p" if "e \<in> set (g_mSessions s)"
  proof
    assume "fst e \<in> fst ` set (sessions_on p (g_mSessions s))"
    then obtain se where "(fst e, se) \<in> set (g_mSessions s)" "pSlot se = p" by (auto simp: sessions_on_def)
    then show "pSlot (snd e) = p" using uniq that by blast
  next
    assume "pSlot (snd e) = p"
    then have "e \<in> set (sessions_on p (g_mSessions s))" using that by (auto simp: sessions_on_def)
    then show "fst e \<in> fst ` set (sessions_on p (g_mSessions s))" by (rule imageI)
  qed
qed

context card_module
begin

lemma Login_slot:
  assumes "Login env ss ut pin c = (r, c')"
  shows "sess c' = sess c \<and>
    (case r of
       Inl _ \<Rightarrow> slot_keep (slot c) (slot c')
     | Inr _ \<Rightarrow> User (slot c) = CKU_NOBODY \<and> (ut = CKU_SO \<longrightarrow> \<not> ExistsRO ss (pSlot (sess c))) \<and>
         slot_keep ((slot c)\<lparr>User := ut\<rparr>) (slot c'))"
proof -
  obtain q c1 where t: "call_template (templateLogin (tmpl env) ut pin) c = (q, c1)"
    by (cases "call_template (templateLogin (tmpl env) ut pin) c")
  have "sess c1 = sess c" using t by (auto simp: call_template_def split: if_splits prod.splits)
  moreover have k: "slot_keep (slot c) (slot c1)"
    using call_template_keep [OF keeps_login [of ut pin], of c] t by (simp add: sess_keep_def)
  ultimately show ?thesis
    using assms t slot_keep_set(1) [OF k, of ut]
    by (cases q) (auto simp: Login_def set_user_def split: if_splits)
qed

lemma Logout_slot:
  assumes "slot_ok (slot c)" and "pTemplate (slot c) \<noteq> None" and "pTemplateData (slot c) \<noteq> None"
  shows "\<exists>sl w. Logout env c = (Inr (), c\<lparr>slot := sl, wrld := w\<rparr>) \<and> slot_keep ((slot c)\<lparr>User := CKU_NOBODY\<rparr>) sl"
proof -
  obtain r sl w where t: "templateLogout (tmpl env) (User (slot c)) (slot c, wrld c) = (r, sl, w)"
    by (cases "templateLogout (tmpl env) (User (slot c)) (slot c, wrld c)") auto
  have r: "r = Inr ()" using logout_total [OF assms(3), of "User (slot c)" "wrld c"] t by simp
  have k: "slot_keep (slot c) sl" using keepsD [OF keeps_logout t] by (rule template_slot_keep)
  have "\<exists>b. slot_private sl p = Inr b" if "p \<in> set (P11Objects sl)" for p
    using that k assms(1,2) by (auto simp: slot_keep_def slot_frame_def slot_ok_def slot_private_def)
  then have "fst (revoke_private (P11Objects sl) sl) = Inr ()" by (rule revoke_private_total)
  then obtain sl2 where rv: "revoke_private (P11Objects sl) sl = (Inr (), sl2)"
    by (cases "revoke_private (P11Objects sl) sl") auto
  have "slot_keep (slot c) sl2" using revoke_private_keep [of sl "P11Objects sl"] rv slot_keep_trans [OF k] by simp
  then have "slot_keep ((slot c)\<lparr>User := CKU_NOBODY\<rparr>) (sl2\<lparr>User := CKU_NOBODY\<rparr>)" by (rule slot_keep_set)
  moreover have "Logout env c = (Inr (), c\<lparr>slot := sl2\<lparr>User := CKU_NOBODY\<rparr>, wrld := w\<rparr>)"
    using assms(2) t r rv by (simp add: Logout_def call_template_def set_user_def)
  ultimately show ?thesis by blast
qed

lemma DeleteSession_total:
  assumes "module_ok s" and "map_of (g_mSessions s) h = Some se"
  defines "p \<equiv> pSlot se"
  shows "\<exists>sl w. DeleteSession env h s =
      (Inr (), put_slot p sl (map_erase (g_mSessions s) h) w s) \<and>
    slot_keep ((slots s p)\<lparr>dwSessionCount := dwSessionCount (slots s p) - 1,
                 User := (if dwSessionCount (slots s p) = 1 then CKU_NOBODY else User (slots s p))\<rparr>) sl"
proof -
  let ?sl = "(slots s p)\<lparr>dwSessionCount := dwSessionCount (slots s p) - 1\<rparr>"
  let ?u = "if dwSessionCount (slots s p) = 1 then CKU_NOBODY else User (slots s p)"
  let ?s = "s\<lparr>slots := (slots s)(p := ?sl)\<rparr>"
  have inv: "slot_inv (g_mSessions s) p (slots s p)" and up: "bUpdated (slots s p)"
    using module_ok_session(2,5) [OF assms(1,2)] by (simp_all add: p_def)
  have t: "pTemplate (slots s p) \<noteq> None" "pTemplateData (slots s p) \<noteq> None" "slot_ok (slots s p)"
    using inv up by (simp_all add: slot_inv_def)
  have "\<exists>sl w ss. (if dwSessionCount ?sl = 0 \<and> User ?sl \<noteq> CKU_NOBODY then on_session h se (Logout env) ?s else (Inr (), ?s))
        = (Inr (), ?s\<lparr>slots := (slots ?s)(p := sl), g_mSessions := ss, world := w\<rparr>) \<and>
      slot_keep (?sl\<lparr>User := ?u\<rparr>) sl \<and> map_erase ss h = map_erase (g_mSessions s) h"
  proof (cases "dwSessionCount ?sl = 0 \<and> User ?sl \<noteq> CKU_NOBODY")
    case True
    let ?c = "\<lparr>sess = se, slot = ?sl, wrld = world s\<rparr>"
    obtain sl w where lo: "Logout env ?c = (Inr (), ?c\<lparr>slot := sl, wrld := w\<rparr>)" "slot_keep (?sl\<lparr>User := CKU_NOBODY\<rparr>) sl"
      using Logout_slot [of ?c] t by (auto simp: slot_ok_def)
    have "on_session h se (Logout env) ?s =
        (Inr (), ?s\<lparr>slots := (slots ?s)(p := sl), g_mSessions := map_put (g_mSessions s) h se, world := w\<rparr>)"
      using lo(1) by (simp add: on_session_def p_def)
    moreover have "?u = CKU_NOBODY" using True by simp
    ultimately show ?thesis using True lo(2) map_erase_put [of "g_mSessions s" h se] by auto
  next
    case False
    then have "?u = User (slots s p)" by auto
    then have "slot_keep (?sl\<lparr>User := ?u\<rparr>) ?sl" by simp
    moreover have "?s = ?s\<lparr>slots := (slots ?s)(p := ?sl), g_mSessions := g_mSessions s, world := world s\<rparr>" by simp
    ultimately show ?thesis using False by metis
  qed
  then obtain sl w ss where
    lo: "(if dwSessionCount ?sl = 0 \<and> User ?sl \<noteq> CKU_NOBODY then on_session h se (Logout env) ?s else (Inr (), ?s))
        = (Inr (), ?s\<lparr>slots := (slots ?s)(p := sl), g_mSessions := ss, world := w\<rparr>)"
    and k: "slot_keep (?sl\<lparr>User := ?u\<rparr>) sl" and ss: "map_erase ss h = map_erase (g_mSessions s) h"
    by blast
  obtain sl2 w2 where f: "templateFinalSession (tmpl env) (sl, w) = (Inr (), sl2, w2)"
    using final_session_total [of sl w] by (cases "templateFinalSession (tmpl env) (sl, w)") auto
  have "slot_keep (?sl\<lparr>User := ?u\<rparr>) sl2"
    using slot_keep_trans [OF k template_slot_keep [OF keepsD [OF keeps_final_session f]]] .
  moreover have "DeleteSession env h s =
      (Inr (), put_slot p sl2 (map_erase (g_mSessions s) h) w2 s)"
    using lo f ss t k assms(2)
    by (simp add: put_slot_def DeleteSession_def GetSessionFromID_def Let_def p_def [symmetric] on_slot_def slot_keep_def slot_frame_def)
  ultimately show ?thesis by blast
qed

lemma close_sessions_total:
  assumes "module_ok s" and "distinct hs"
    and "\<And>h. h \<in> set hs \<Longrightarrow> \<exists>se. map_of (g_mSessions s) h = Some se \<and> pSlot se = p"
  shows "\<exists>sl w. close_sessions env hs s = (Inr (), put_slot p sl (filter (\<lambda>e. fst e \<notin> set hs) (g_mSessions s)) w s) \<and>
    module_ok (put_slot p sl (filter (\<lambda>e. fst e \<notin> set hs) (g_mSessions s)) w s) \<and> same_slot (slots s p) sl"
  using assms
proof (induction hs arbitrary: s)
  case Nil
  then show ?case using put_slot_self [of p s] by (intro exI [of _ "slots s p"] exI [of _ "world s"]) simp
next
  case (Cons h hs)
  obtain se where se: "map_of (g_mSessions s) h = Some se" "pSlot se = p" using Cons.prems(3) by auto
  obtain sl w where d: "DeleteSession env h s = (Inr (), put_slot p sl (map_erase (g_mSessions s) h) w s)"
    and k: "slot_keep ((slots s p)\<lparr>dwSessionCount := dwSessionCount (slots s p) - 1,
                 User := (if dwSessionCount (slots s p) = 1 then CKU_NOBODY else User (slots s p))\<rparr>) sl"
    using DeleteSession_total [OF Cons.prems(1) se(1)] se(2) by auto
  let ?s = "put_slot p sl (map_erase (g_mSessions s) h) w s"
  have ok: "module_ok ?s" using module_ok_erase [OF Cons.prems(1) se(1) se(2) [symmetric] k] .
  have same: "same_slot (slots s p) sl" using slot_keep_same [OF k] by (simp add: same_slot_def)
  have ex: "\<exists>se. map_of (g_mSessions ?s) h' = Some se \<and> pSlot se = p" if "h' \<in> set hs" for h'
    using Cons.prems(2,3) that by auto
  have eq: "filter (\<lambda>e. fst e \<notin> set hs) (g_mSessions ?s) = filter (\<lambda>e. fst e \<notin> set (h # hs)) (g_mSessions s)"
    by (auto simp: filter_map_erase intro: filter_cong)
  have "distinct hs" using Cons.prems(2) by simp
  from Cons.IH [OF ok this ex] obtain sl' w' where ih:
    "close_sessions env hs ?s = (Inr (), put_slot p sl' (filter (\<lambda>e. fst e \<notin> set (h # hs)) (g_mSessions s)) w' s)"
    "module_ok (put_slot p sl' (filter (\<lambda>e. fst e \<notin> set (h # hs)) (g_mSessions s)) w' s)" "same_slot sl sl'"
    unfolding eq by auto
  show ?case
    using d ih same_slot_trans [OF same ih(3)] by (intro exI [of _ sl'] exI [of _ w']) simp
qed

lemma CloseAllSessions_total:
  assumes "module_ok s"
  shows "\<exists>sl w. CloseAllSessions env p s = (Inr (), put_slot p sl (filter (\<lambda>(h, se). pSlot se \<noteq> p) (g_mSessions s)) w s) \<and>
    module_ok (put_slot p sl (filter (\<lambda>(h, se). pSlot se \<noteq> p) (g_mSessions s)) w s) \<and> same_slot (slots s p) sl"
proof -
  let ?hs = "map fst (sessions_on p (g_mSessions s))"
  have ex: "\<exists>se. map_of (g_mSessions s) h = Some se \<and> pSlot se = p" if "h \<in> set ?hs" for h
    using that map_ok_lookup [OF module_okD(1) [OF assms]] by (auto simp: sessions_on_def)
  have "filter (\<lambda>e. fst e \<notin> set ?hs) (g_mSessions s) = filter (\<lambda>(h, se). pSlot se \<noteq> p) (g_mSessions s)"
    using sessions_handles(3) [OF assms, of _ p] by (intro filter_cong) (auto simp: split_beta)
  then show ?thesis
    using close_sessions_total [OF assms sessions_handles(2) [OF assms, of p] ex]
    unfolding CloseAllSessions_def sessions_handles(1) [OF assms] by simp
qed

subsection \<open>Finalisation of a slot\<close>

lemma Final_total:
  assumes "module_ok s" and "p \<in> snd ` set (g_mSlots s)"
  shows "\<exists>sl w. Final env p s = (Inr (), put_slot p sl (filter (\<lambda>(h, se). pSlot se \<noteq> p) (g_mSessions s)) w s) \<and>
    module_ok (put_slot p sl (filter (\<lambda>(h, se). pSlot se \<noteq> p) (g_mSessions s)) w s) \<and>
    hSlot sl = hSlot (slots s p) \<and> szName sl = szName (slots s p) \<and> \<not> bUpdated sl"
proof -
  let ?ss = "filter (\<lambda>(h, se). pSlot se \<noteq> p) (g_mSessions s)"
  have inv: "slot_inv (g_mSessions s) p (slots s p)" using module_ok_listed(1) [OF assms] .
  show ?thesis
  proof (cases "bUpdated (slots s p)")
    case False
    then have "sessions_on p (g_mSessions s) = []" using inv by (auto simp: slot_inv_def)
    then have "?ss = g_mSessions s" by (auto simp: sessions_on_def filter_empty_conv intro: filter_True)
    then show ?thesis
      using False assms(1) put_slot_self [of p s] by (intro exI [of _ "slots s p"] exI [of _ "world s"]) (simp add: Final_def)
  next
    case True
    obtain sl w where f: "templateFinalCard (tmpl env) (slots s p, world s) = (Inr (), sl, w)" "template_frame (slots s p) sl"
      using final_card [of "slots s p" "world s"] by blast
    let ?sl = "sl\<lparr>pTemplate := None, baATR := [], baSerial := [], P11Objects := [], User := CKU_NOBODY,
                  dwSessionCount := 0, bUpdated := False\<rparr>"
    have fin: "Final env p s = (Inr (), put_slot p ?sl ?ss w s)"
      using True inv f(1) by (simp add: Final_def slot_inv_def on_slot_def put_slot_def)
    have on: "sessions_on q ?ss = (if q = p then [] else sessions_on q (g_mSessions s))" for q
      by (auto simp: sessions_on_def filter_empty_conv intro: filter_cong)
    have id: "hSlot ?sl = hSlot (slots s p)" "szName ?sl = szName (slots s p)"
      using f(2) by (simp_all add: template_frame_def slot_frame_def)
    have "slot_inv ?ss p ?sl" by (simp add: slot_inv_def on slot_ok_def)
    moreover have "slot_inv ?ss q (slots s q)" if "(i, q) \<in> set (g_mSlots s)" "q \<noteq> p" for i q
      using module_okD(6) [OF assms(1) that(1)] that(2) by (simp add: slot_inv_def on)
    ultimately have "module_ok (put_slot p ?sl ?ss w s)"
      using module_okD [OF assms(1)] id by (intro module_okI) (auto simp: session_inv_def intro: map_ok_filter)
    with fin id show ?thesis by (intro exI [of _ ?sl] exI [of _ w]) simp
  qed
qed

lemma DeleteSlot_total:
  assumes "module_ok s" and "p \<in> snd ` set (g_mSlots s)"
  shows "\<exists>sl w. DeleteSlot env (hSlot (slots s p)) s = (Inr (), put_slot p sl (filter (\<lambda>(h, se). pSlot se \<noteq> p) (g_mSessions s)) w s) \<and>
    module_ok (put_slot p sl (filter (\<lambda>(h, se). pSlot se \<noteq> p) (g_mSessions s)) w s) \<and>
    hSlot sl = hSlot (slots s p) \<and> szName sl = szName (slots s p)"
proof -
  let ?ss = "filter (\<lambda>(h, se). pSlot se \<noteq> p) (g_mSessions s)"
  have id: "GetSlotFromID s (hSlot (slots s p)) = Some p"
    using module_ok_listed(2) [OF assms] map_ok_lookup [OF module_okD(2) [OF assms(1)]] by (simp add: GetSlotFromID_def)
  obtain sl w where c: "CloseAllSessions env p s = (Inr (), put_slot p sl ?ss w s)" "module_ok (put_slot p sl ?ss w s)"
      "same_slot (slots s p) sl"
    using CloseAllSessions_total [OF assms(1)] by blast
  have l: "p \<in> snd ` set (g_mSlots (put_slot p sl ?ss w s))" using assms(2) by simp
  obtain sl' w' where f: "Final env p (put_slot p sl ?ss w s) = (Inr (), put_slot p sl' ?ss w' s)" "module_ok (put_slot p sl' ?ss w' s)"
      "hSlot sl' = hSlot sl" "szName sl' = szName sl"
    using Final_total [OF c(2) l] by auto
  show ?thesis
    using id c f by (intro exI [of _ sl'] exI [of _ w']) (simp add: DeleteSlot_def same_slot_def)
qed

subsection \<open>The slot list\<close>

lemma sweep_slots_ok:
  "module_ok s \<Longrightarrow> module_ok (snd (sweep_slots n env names i changed s))"
proof (induction n arbitrary: i changed s)
  case (Suc n)
  obtain sid p where e: "g_mSlots s ! i = (sid, p)" by (cases "g_mSlots s ! i")
  show ?case
  proof (cases "i < length (g_mSlots s)")
    case True
    then have l: "p \<in> snd ` set (g_mSlots s)" using e by (metis nth_mem image_eqI snd_conv)
    show ?thesis using Suc DeleteSlot_total [OF Suc.prems l] True e by auto
  qed (simp add: Suc.prems)
qed simp

end

lemma make_slot_ok:
  assumes "module_ok s" and "make_slot env name s = (r, s')"
  shows "module_ok s' \<and> g_mSessions s' = g_mSessions s \<and>
    (\<forall>p. r = Inr p \<longrightarrow> p \<notin> snd ` set (g_mSlots s') \<and> p < slotNext s' \<and> slot_inv (g_mSessions s') p (slots s' p))"
proof -
  note ok = module_okD [OF assms(1)]
  have fresh: "slotNext s \<notin> snd ` set (g_mSlots s)" using ok(4) by force
  have none: "sessions_on (slotNext s) (g_mSessions s) = []"
  proof -
    have "pSlot (snd e) \<noteq> slotNext s" if "e \<in> set (g_mSessions s)" for e
      using ok(7) [of "fst e" "snd e"] that fresh by (metis prod.collapse session_inv_def)
    then show ?thesis by (auto simp: sessions_on_def filter_empty_conv)
  qed
  have "slot_inv (g_mSessions s) (slotNext s) (new_CSlot hc name :: 'a cslot)" for hc
    by (simp add: slot_inv_def none new_CSlot_def slot_ok_def)
  moreover have "module_ok (s\<lparr>world := w, slots := (slots s)(slotNext s := sl), slotNext := slotNext s + 1\<rparr>)" for w sl
    using ok fresh by (intro module_okI) (fastforce simp: session_inv_def)+
  moreover have "module_ok (s\<lparr>world := w\<rparr>)" for w by (rule module_ok_same [OF assms(1)]) simp_all
  ultimately show ?thesis
    using assms(2) fresh by (auto simp: make_slot_def split: prod.splits sum.splits)
qed

lemma snd_set_map_put_fresh: "map_of m k = None \<Longrightarrow> snd ` set (map_put m k v) = insert v (snd ` set m)"
  by (simp add: set_map_put_fresh)

lemma distinct_snd_map_put:
  "map_of m k = None \<Longrightarrow> distinct (map snd m) \<Longrightarrow> v \<notin> snd ` set m \<Longrightarrow> distinct (map snd (map_put m k v))"
  by (induction m k v rule: map_put.induct) (auto simp: set_map_put_fresh split: if_splits)

lemma AddSlot_ok:
  assumes "module_ok s" and "p \<notin> snd ` set (g_mSlots s)" and "p < slotNext s" and "slot_inv (g_mSessions s) p (slots s p)"
  shows "module_ok (AddSlot p s)" "g_mSessions (AddSlot p s) = g_mSessions s"
proof -
  note ok = module_okD [OF assms(1)]
  let ?i = "dwSlotCnt s + 1"
  have sl: "slot_inv (g_mSessions s) p ((slots s p)\<lparr>hSlot := ?i\<rparr>)"
    using assms(4) by (simp add: slot_inv_def slot_ok_def)
  have ins: "set (map_insert (g_mSlots s) ?i p) \<subseteq> insert (?i, p) (set (g_mSlots s))"
    "set (g_mSlots s) \<subseteq> set (map_insert (g_mSlots s) ?i p)"
    by (auto simp: map_insert_def set_map_put_fresh)
  have "distinct (map snd (map_insert (g_mSlots s) ?i p))"
    using distinct_snd_map_put [of "g_mSlots s" ?i p] ok(3) assms(2) by (simp add: map_insert_def)
  moreover have "j < slotNext s \<and> hSlot (if j = p then (slots s p)\<lparr>hSlot := ?i\<rparr> else slots s j) = i \<and>
      slot_inv (g_mSessions s) j (if j = p then (slots s p)\<lparr>hSlot := ?i\<rparr> else slots s j)"
    if m: "(i, j) \<in> set (map_insert (g_mSlots s) ?i p)" for i j
  proof (cases "(i, j) \<in> set (g_mSlots s)")
    case True
    then have "j \<noteq> p" using assms(2) by force
    then show ?thesis using ok(4-6) [OF True] by simp
  next
    case False
    then have "j = p" "i = ?i" using m ins(1) by auto
    then show ?thesis using assms(3) sl by simp
  qed
  moreover have "pSlot se \<in> snd ` set (map_insert (g_mSlots s) ?i p)" if "(h, se) \<in> set (g_mSessions s)" for h se
    using ok(7) [OF that] ins(2) by (auto simp: session_inv_def)
  ultimately show "module_ok (AddSlot p s)"
    using ok by (intro module_okI) (auto simp: AddSlot_def Let_def session_inv_def)
  show "g_mSessions (AddSlot p s) = g_mSessions s" by (simp add: AddSlot_def Let_def)
qed

lemma add_readers_ok: "module_ok s \<Longrightarrow> module_ok (snd (add_readers env names changed s))"
proof (induction names arbitrary: changed s)
  case (Cons name names)
  obtain r s1 where m: "make_slot env name s = (r, s1)" by (cases "make_slot env name s")
  note make = make_slot_ok [OF Cons.prems m]
  show ?case
  proof (cases r)
    case (Inr p)
    then have "module_ok (AddSlot p s1)" using make AddSlot_ok(1) by blast
    then show ?thesis using Cons m Inr by (simp split: option.split)
  qed (use Cons m make in \<open>simp split: option.split\<close>)
qed simp

context card_module
begin

lemma init_slots_ok: "module_ok s \<Longrightarrow> module_ok (snd (init_slots env hc s))"
proof -
  assume ok: "module_ok s"
  have w: "module_ok (s\<lparr>world := w\<rparr>)" for w by (rule module_ok_same [OF ok]) simp_all
  have body: "module_ok (snd (bindS (add_readers env readers False s1) (\<lambda>changed s.
      bindS (sweep_slots (Suc (length (g_mSlots s))) env readers 0 changed s) (\<lambda>changed s.
        (Inr (), s\<lparr>bMonitorUpdate := changed, Thread := True\<rparr>)))))" if s1: "module_ok s1" for readers s1
  proof (rule bindS_state [where P = module_ok])
    show "module_ok (snd (add_readers env readers False s1))" using add_readers_ok [OF s1] .
    fix x s2 assume "add_readers env readers False s1 = (Inr x, s2)"
    then have s2: "module_ok s2" using add_readers_ok [OF s1, of env readers False] by simp
    show "module_ok (snd (bindS (sweep_slots (Suc (length (g_mSlots s2))) env readers 0 x s2) (\<lambda>changed s.
        (Inr (), s\<lparr>bMonitorUpdate := changed, Thread := True\<rparr>))))"
    proof (rule bindS_state [where P = module_ok])
      show "module_ok (snd (sweep_slots (Suc (length (g_mSlots s2))) env readers 0 x s2))" using sweep_slots_ok [OF s2] .
      fix y s3 assume "sweep_slots (Suc (length (g_mSlots s2))) env readers 0 x s2 = (Inr y, s3)"
      then have "module_ok s3" using sweep_slots_ok [OF s2, of "Suc (length (g_mSlots s2))" readers 0 x] by simp
      then have "module_ok (s3\<lparr>bMonitorUpdate := y, Thread := True\<rparr>)" by (rule module_ok_same) simp_all
      then show "module_ok (snd (Inr (), s3\<lparr>bMonitorUpdate := y, Thread := True\<rparr>))" by simp
    qed
  qed
  show ?thesis
    using ok w body [OF w] by (auto simp: init_slots_def Let_def split: prod.split)
qed

lemma InitSlotList_ok:
  assumes "module_ok s"
  shows "module_ok (snd (InitSlotList env s))"
proof -
  have w: "module_ok (t\<lparr>world := w\<rparr>)" if "module_ok t" for t :: "('d, 'w) p11_state" and w
    by (rule module_ok_same [OF that]) simp_all
  have "module_ok s'" if "init_slots env hc (s\<lparr>world := w\<rparr>) = (r, s')" for hc w r s'
    using init_slots_ok [OF w [OF assms], of hc w] that by simp
  then have "module_ok (s'\<lparr>world := w'\<rparr>)" if "init_slots env hc (s\<lparr>world := w\<rparr>) = (r, s')" for hc w r s' w'
    using w that by blast
  then show ?thesis
    using w [OF assms] by (auto simp: InitSlotList_def split: prod.split sum.split)
qed

end

end
