(* ===== verification/Module_Calls.thy ===== *)
theory Module_Calls
  imports Module_Steps
begin

section \<open>Opening a session, and the calls that keep the invariant\<close>

text \<open>
  Initialisation of a slot and the registration of a session, the remaining operations on
  slots, and the call of an operation through a session handle.
\<close>

subsection \<open>Initialisation of a slot\<close>

lemma slot_inv_template:
  assumes "slot_inv ss p sl" and "bUpdated sl \<Longrightarrow> t = pTemplate sl"
  shows "slot_inv ss p (sl\<lparr>pTemplate := t\<rparr>)"
  using assms by (simp add: slot_inv_def slot_ok_def)

lemma module_ok_put_slot:
  assumes "module_ok s" and "hSlot sl = hSlot (slots s p)"
    and "p \<in> snd ` set (g_mSlots s) \<Longrightarrow> slot_inv (g_mSessions s) p sl"
  shows "module_ok (put_slot p sl (g_mSessions s) w s)"
  by (rule module_ok_slot [OF assms(1,2)]) (use assms(3) in \<open>auto simp: put_slot_def\<close>)

context card_module
begin

lemma keeps_GetTemplate: "keeps (GetTemplate env ts)"
proof (induction ts)
  case Nil
  show ?case by (simp add: keeps_def)
next
  case (Cons t ts)
  show ?case
  proof (rule keepsI)
    fix sl sl' :: "'d cslot" and w w' :: 'w and r
    assume g: "GetTemplate env (t # ts) (sl, w) = (r, sl', w')"
    obtain q sl1 w1 where m: "templateMatchCard (tmpl env) (sl, w) = (q, sl1, w1)"
      by (cases "templateMatchCard (tmpl env) (sl, w)") auto
    have k: "template_keep sl sl1" using keepsD [OF keeps_match m] .
    have rest: "template_keep sl sl2" if "GetTemplate env ts (sl1, w1) = (r, sl2, w2)" for sl2 w2
      using template_keep_trans [OF k keepsD [OF Cons.IH that]] .
    show "template_keep sl sl'"
      using g m k rest by (auto split: sum.splits bool.splits if_splits)
  qed
qed

lemma need_template_slot:
  assumes "need_template env ts (sl, w) = (r, sl', w')"
  shows "\<exists>sl1 t. slot_keep sl sl1 \<and> sl' = sl1\<lparr>pTemplate := t\<rparr> \<and>
    (pTemplate sl \<noteq> None \<longrightarrow> t = pTemplate sl) \<and> (r = Inr () \<longrightarrow> t \<noteq> None)"
proof (cases "pTemplate sl = None")
  case True
  obtain q sl1 w1 where g: "GetTemplate env ts (sl, w) = (q, sl1, w1)" by (cases "GetTemplate env ts (sl, w)") auto
  have k: "slot_keep sl sl1" using template_slot_keep [OF keepsD [OF keeps_GetTemplate g]] .
  show ?thesis
  proof (cases q)
    case (Inl e)
    then have "sl' = sl1\<lparr>pTemplate := None\<rparr>" "r \<noteq> Inr ()"
      using assms True g k by (auto simp: need_template_def slot_keep_def slot_frame_def)
    then show ?thesis using k True by blast
  next
    case (Inr t)
    then have "sl' = sl1\<lparr>pTemplate := t\<rparr>" "r = Inr () \<longrightarrow> t \<noteq> None"
      using assms True g by (auto simp: need_template_def split: if_splits)
    then show ?thesis using k True by blast
  qed
next
  case False
  then have "sl' = sl" using assms by (auto simp: need_template_def)
  then show ?thesis using False slot_keep_refl [of sl] by (metis cslot.surjective cslot.update_convs(15))
qed

lemma slot_inv_need_template:
  assumes "slot_inv ss p sl" and "slot_keep sl sl1" and "pTemplate sl \<noteq> None \<longrightarrow> t = pTemplate sl"
  shows "slot_inv ss p (sl1\<lparr>pTemplate := t\<rparr>)"
proof (rule slot_inv_template [OF slot_inv_keep [OF assms(1,2)]])
  show "t = pTemplate sl1" if "bUpdated sl1"
    using that assms by (auto simp: slot_inv_def slot_keep_def slot_frame_def)
qed

text \<open>\<open>Init\<close> changes the slot only, and after it the slot is initialised.\<close>

lemma Init_step:
  assumes "module_ok s" and "p \<in> snd ` set (g_mSlots s)" and "Init env p s = (r, s')"
  shows "\<exists>sl w. s' = put_slot p sl (g_mSessions s) w s \<and> module_ok s' \<and> hSlot sl = hSlot (slots s p) \<and>
    User sl = User (slots s p) \<and> (r = Inr () \<longrightarrow> bUpdated sl)"
proof (cases "bUpdated (slots s p)")
  case True
  then have "s' = put_slot p (slots s p) (g_mSessions s) (world s) s" "module_ok s'"
    using assms put_slot_self [of p s] by (simp_all add: Init_def)
  then show ?thesis using True by blast
next
  case False
  have inv: "slot_inv (g_mSessions s) p (slots s p)" using module_ok_listed(1) [OF assms(1,2)] .
  obtain r1 sl1 w1 where n: "need_template env (g_mCardTemplates s) (slots s p, world s) = (r1, sl1, w1)"
    by (cases "need_template env (g_mCardTemplates s) (slots s p, world s)") auto
  obtain sl0 t where t: "slot_keep (slots s p) sl0" "sl1 = sl0\<lparr>pTemplate := t\<rparr>"
      "pTemplate (slots s p) \<noteq> None \<longrightarrow> t = pTemplate (slots s p)" "r1 = Inr () \<longrightarrow> t \<noteq> None"
    using need_template_slot [OF n] by blast
  have inv1: "slot_inv (g_mSessions s) p sl1" using slot_inv_need_template [OF inv t(1,3)] t(2) by simp
  have f1: "hSlot sl1 = hSlot (slots s p)" "User sl1 = User (slots s p)" "\<not> bUpdated sl1"
    using t(1,2) False by (simp_all add: slot_keep_def slot_frame_def)
  show ?thesis
  proof (cases r1)
    case (Inl e)
    then have "s' = put_slot p sl1 (g_mSessions s) w1 s" "r \<noteq> Inr ()"
      using assms(3) False n by (auto simp: Init_def on_slot_def put_slot_def)
    then show ?thesis using module_ok_put_slot [OF assms(1) f1(1) inv1] f1 by blast
  next
    case (Inr x)
    obtain r2 sl2 w2 where c: "templateInitCard (tmpl env) (sl1, w1) = (r2, sl2, w2)"
      by (cases "templateInitCard (tmpl env) (sl1, w1)") auto
    have fr: "slot_frame sl1 sl2" using init_card_frame [OF c] by (simp add: template_frame_def)
    have f2: "hSlot sl2 = hSlot (slots s p)" "User sl2 = User (slots s p)" "\<not> bUpdated sl2"
      using fr f1 by (simp_all add: slot_frame_def)
    have inv2: "slot_inv (g_mSessions s) p sl2" using inv1 fr f1(3) by (simp add: slot_inv_def slot_frame_def)
    show ?thesis
    proof (cases r2)
      case (Inl e)
      then have "s' = put_slot p sl2 (g_mSessions s) w2 s" "r \<noteq> Inr ()"
        using assms(3) False n Inr c by (auto simp: Init_def on_slot_def put_slot_def)
      then show ?thesis using module_ok_put_slot [OF assms(1) f2(1) inv2] f2 by blast
    next
      case (Inr y)
      let ?sl = "sl2\<lparr>bUpdated := True\<rparr>"
      have "pTemplate sl2 \<noteq> None" using fr t(2,4) \<open>r1 = Inr x\<close> by (simp add: slot_frame_def)
      moreover have "pTemplateData sl2 \<noteq> None" using init_card_data c Inr by simp
      ultimately have inv3: "slot_inv (g_mSessions s) p ?sl" using inv2 by (auto simp: slot_inv_def slot_ok_def)
      have "s' = put_slot p ?sl (g_mSessions s) w2 s"
        using assms(3) False n \<open>r1 = Inr x\<close> c Inr by (auto simp: Init_def on_slot_def put_slot_def)
      then show ?thesis using module_ok_put_slot [OF assms(1) _ inv3, of w2] f2 by (intro exI [of _ ?sl] exI [of _ w2]) simp
    qed
  qed
qed

end

subsection \<open>Registering a session\<close>

lemma slot_inv_insert:
  assumes "slot_inv m p sl" and "map_of m h = None" and "pSlot se = p" and "bUpdated sl" and "User sl = CKU_SO \<Longrightarrow> is_RW se"
  shows "slot_inv (map_put m h se) p (sl\<lparr>dwSessionCount := dwSessionCount sl + 1\<rparr>)"
proof -
  have on: "set (sessions_on p (map_put m h se)) = insert (h, se) (set (sessions_on p m))"
    using assms(3) by (auto simp: sessions_on_def set_map_put_fresh [OF assms(2)])
  have "length (sessions_on p (map_put m h se)) = Suc (length (sessions_on p m))"
    using assms(2,3) unfolding sessions_on_def
    by (induction m h se rule: map_put.induct) (auto split: if_splits)
  then show ?thesis using assms(1,4,5) on by (auto simp: slot_inv_def slot_ok_def)
qed

lemma sessions_on_other:
  assumes "map_of m h = None" and "pSlot se \<noteq> q"
  shows "sessions_on q (map_put m h se) = sessions_on q m"
  using assms unfolding sessions_on_def
  by (induction m h se rule: map_put.induct) (auto split: if_splits)

lemma module_ok_insert:
  assumes "module_ok s" and "dwSessionCnt s < h" and "pSlot se \<in> snd ` set (g_mSlots s)" and "hSessionHandle se = h"
    and "bUpdated (slots s (pSlot se))" and "User (slots s (pSlot se)) = CKU_SO \<Longrightarrow> is_RW se"
  shows "map_of (g_mSessions s) h = None"
    and "module_ok (s\<lparr>dwSessionCnt := h,
           slots := (slots s)(pSlot se := (slots s (pSlot se))\<lparr>dwSessionCount := dwSessionCount (slots s (pSlot se)) + 1\<rparr>),
           g_mSessions := map_put (g_mSessions s) h se\<rparr>)"
proof -
  note ok = module_okD [OF assms(1)]
  show none: "map_of (g_mSessions s) h = None"
  proof (rule ccontr)
    assume "map_of (g_mSessions s) h \<noteq> None"
    then obtain x where "(h, x) \<in> set (g_mSessions s)" by (auto dest: map_of_SomeD)
    then show False using ok(7) assms(2) by (fastforce simp: session_inv_def)
  qed
  have p: "slot_inv (map_put (g_mSessions s) h se) (pSlot se)
      ((slots s (pSlot se))\<lparr>dwSessionCount := dwSessionCount (slots s (pSlot se)) + 1\<rparr>)"
    using slot_inv_insert [OF module_ok_listed(1) [OF assms(1,3)] none _ assms(5,6)] by simp
  have q: "slot_inv (map_put (g_mSessions s) h se) q (slots s q)" if "(i, q) \<in> set (g_mSlots s)" "q \<noteq> pSlot se" for i q
    using ok(6) [OF that(1)] sessions_on_other [OF none, of se q] that(2) by (auto simp: slot_inv_def)
  have le: "h' \<le> h" if "(h', x) \<in> set (g_mSessions s)" for h' x
    using ok(7) [OF that] assms(2) by (auto simp: session_inv_def)
  have "0 < h" using assms(2) by (metis word_gt_0 word_not_simps(1))
  then show "module_ok (s\<lparr>dwSessionCnt := h,
           slots := (slots s)(pSlot se := (slots s (pSlot se))\<lparr>dwSessionCount := dwSessionCount (slots s (pSlot se)) + 1\<rparr>),
           g_mSessions := map_put (g_mSessions s) h se\<rparr>)"
    using ok p q le assms(2-4) by (intro module_okI) (auto simp: session_inv_def set_map_put_fresh [OF none])
qed

context card_module
begin

lemma AddSession_step:
  assumes "module_ok s" and "dwSessionCnt s \<noteq> -1" and "pSlot se \<in> snd ` set (g_mSlots s)"
    and "bUpdated (slots s (pSlot se))" and "User (slots s (pSlot se)) = CKU_SO \<Longrightarrow> is_RW se"
    and "AddSession env se s = (r, s')"
  shows "\<exists>sl w. hSlot sl = hSlot (slots s (pSlot se)) \<and> User sl = User (slots s (pSlot se)) \<and> module_ok s' \<and>
    (case r of
       Inl _ \<Rightarrow> s' = (put_slot (pSlot se) sl (g_mSessions s) w s)\<lparr>dwSessionCnt := dwSessionCnt s + 1\<rparr>
     | Inr h \<Rightarrow> h = dwSessionCnt s + 1 \<and> map_of (g_mSessions s) h = None \<and>
         s' = (put_slot (pSlot se) sl (map_put (g_mSessions s) h (se\<lparr>hSessionHandle := h\<rparr>)) w s)\<lparr>dwSessionCnt := h\<rparr>)"
proof -
  let ?p = "pSlot se" and ?h = "dwSessionCnt s + 1"
  note lt = succ_fresh [OF assms(2)]
  have inv: "slot_inv (g_mSessions s) ?p (slots s ?p)" using module_ok_listed(1) [OF assms(1,3)] .
  then have t: "pTemplate (slots s ?p) \<noteq> None" using assms(4) by (simp add: slot_inv_def)
  obtain q sl w where i: "templateInitSession (tmpl env) (slots s ?p, world s) = (q, sl, w)"
    by (cases "templateInitSession (tmpl env) (slots s ?p, world s)") auto
  have k: "slot_keep (slots s ?p) sl" using template_slot_keep [OF keepsD [OF keeps_init_session i]] .
  have f: "hSlot sl = hSlot (slots s ?p)" "User sl = User (slots s ?p)" "bUpdated sl = bUpdated (slots s ?p)"
    using k by (simp_all add: slot_keep_def slot_frame_def)
  let ?s = "put_slot ?p sl (g_mSessions s) w s"
  have ok: "module_ok ?s" using module_ok_put_slot [OF assms(1) f(1) slot_inv_keep [OF inv k]] .
  show ?thesis
  proof (cases q)
    case (Inl e)
    have "module_ok (?s\<lparr>dwSessionCnt := ?h\<rparr>)"
      by (rule module_ok_slot [OF ok, of "slots ?s ?p" ?p]) (use lt slot_inv_keep [OF inv k] in simp_all)
    moreover have "r = Inl e" "s' = ?s\<lparr>dwSessionCnt := ?h\<rparr>"
      using assms(6) t i Inl by (auto simp: AddSession_def GetNewSessionID_def on_slot_def put_slot_def)
    ultimately show ?thesis using f(1,2) by (intro exI [of _ sl] exI [of _ w]) simp
  next
    case (Inr x)
    let ?se = "se\<lparr>hSessionHandle := ?h\<rparr>" and ?sl = "sl\<lparr>dwSessionCount := dwSessionCount sl + 1\<rparr>"
    have "is_RW ?se \<longleftrightarrow> is_RW se" by (simp add: is_RW_def)
    then have ins: "map_of (g_mSessions s) ?h = None"
      "module_ok (?s\<lparr>dwSessionCnt := ?h, slots := (slots ?s)(?p := ?sl), g_mSessions := map_put (g_mSessions s) ?h ?se\<rparr>)"
      using module_ok_insert [OF ok, of ?h ?se] lt assms(3-5) f by simp_all
    then have "r = Inr ?h" "s' = (put_slot ?p ?sl (map_put (g_mSessions s) ?h ?se) w s)\<lparr>dwSessionCnt := ?h\<rparr>"
      using assms(6) t i Inr by (auto simp: AddSession_def GetNewSessionID_def on_slot_def put_slot_def map_insert_def)
    moreover have "(put_slot ?p ?sl (map_put (g_mSessions s) ?h ?se) w s)\<lparr>dwSessionCnt := ?h\<rparr> =
        ?s\<lparr>dwSessionCnt := ?h, slots := (slots ?s)(?p := ?sl), g_mSessions := map_put (g_mSessions s) ?h ?se\<rparr>"
      by (simp add: put_slot_def)
    then have "module_ok ((put_slot ?p ?sl (map_put (g_mSessions s) ?h ?se) w s)\<lparr>dwSessionCnt := ?h\<rparr>)"
      using ins(2) by metis
    ultimately show ?thesis using ins(1) f by (intro exI [of _ ?sl] exI [of _ w]) simp
  qed
qed

end

end
