(* ===== verification/Session_Spec.thy ===== *)
theory Session_Spec
  imports Module_Calls
begin

section \<open>Sessions and logins as PKCS\#11 specifies them\<close>

text \<open>
  The abstract state of the session management of PKCS\#11: the open sessions, each with its
  slot and whether it is read/write, and who is logged in at each slot.  \<open>spec_step\<close> is the
  transition of each event, \<open>None\<close> where the specification forbids it: a read-only session
  while the security officer is logged in, a second login, a login of the security officer
  while a read-only session is open.  Closing the last session of a slot logs out.
\<close>

record login_state =
  open_sessions :: "ulong \<rightharpoonup> ulong \<times> bool"
  logged_in :: "ulong \<rightharpoonup> ulong"

datatype login_event =
    Open ulong ulong bool
  | Close ulong
  | Close_All ulong
  | Log_In ulong ulong
  | Log_Out ulong
  | Card_Out ulong

definition without_slot :: "ulong \<Rightarrow> login_state \<Rightarrow> login_state" where
  "without_slot i a =
     a\<lparr>open_sessions := (\<lambda>h. case open_sessions a h of Some (j, rw) \<Rightarrow> if j = i then None else Some (j, rw) | None \<Rightarrow> None),
       logged_in := (logged_in a)(i \<mapsto> CKU_NOBODY)\<rparr>"

fun spec_step :: "login_event \<Rightarrow> login_state \<Rightarrow> login_state option" where
  "spec_step (Open i h rw) a =
     (if logged_in a i \<noteq> None \<and> open_sessions a h = None \<and> (rw \<or> logged_in a i \<noteq> Some CKU_SO)
      then Some (a\<lparr>open_sessions := (open_sessions a)(h \<mapsto> (i, rw))\<rparr>) else None)"
| "spec_step (Close h) a =
     (case open_sessions a h of
        None \<Rightarrow> None
      | Some (i, rw) \<Rightarrow>
          let ss = (open_sessions a)(h := None) in
          Some (a\<lparr>open_sessions := ss,
                  logged_in := (if \<exists>h' rw'. ss h' = Some (i, rw') then logged_in a
                                else (logged_in a)(i \<mapsto> CKU_NOBODY))\<rparr>))"
| "spec_step (Close_All i) a = (if logged_in a i = None then None else Some (without_slot i a))"
| "spec_step (Log_In h u) a =
     (case open_sessions a h of
        None \<Rightarrow> None
      | Some (i, rw) \<Rightarrow>
          if logged_in a i = Some CKU_NOBODY \<and> u \<in> {CKU_USER, CKU_SO} \<and>
             (u = CKU_SO \<longrightarrow> (\<forall>h' rw'. open_sessions a h' = Some (i, rw') \<longrightarrow> rw'))
          then Some (a\<lparr>logged_in := (logged_in a)(i \<mapsto> u)\<rparr>) else None)"
| "spec_step (Log_Out h) a =
     (case open_sessions a h of
        None \<Rightarrow> None
      | Some (i, rw) \<Rightarrow>
          if logged_in a i \<noteq> None \<and> logged_in a i \<noteq> Some CKU_NOBODY
          then Some (a\<lparr>logged_in := (logged_in a)(i \<mapsto> CKU_NOBODY)\<rparr>) else None)"
| "spec_step (Card_Out i) a = (if logged_in a i = None then None else Some (without_slot i a))"

text \<open>The abstract state of a state of the module.\<close>

definition session_of :: "('d, 'w) p11_state \<Rightarrow> csession \<Rightarrow> ulong \<times> bool" where
  "session_of s se = (hSlot (slots s (pSlot se)), is_RW se)"

definition view :: "('d, 'w) p11_state \<Rightarrow> login_state" where
  "view s =
     \<lparr>open_sessions = (\<lambda>h. map_option (session_of s) (map_of (g_mSessions s) h)),
      logged_in = (\<lambda>i. map_option (\<lambda>p. User (slots s p)) (map_of (g_mSlots s) i))\<rparr>"

subsection \<open>Steps that the specification does not see\<close>

text \<open>\<open>calm s s'\<close>: the invariant is kept and the abstract state does not change.\<close>

definition calm :: "('d, 'w) p11_state \<Rightarrow> ('d, 'w) p11_state \<Rightarrow> bool" where
  "calm s s' \<longleftrightarrow> (module_ok s \<longrightarrow> module_ok s') \<and> view s' = view s \<and> dwSessionCnt s' = dwSessionCnt s \<and> g_mSlots s' = g_mSlots s"

lemma calm_refl [simp, intro]: "calm s s"
  by (simp add: calm_def)

lemma calm_trans: "calm a b \<Longrightarrow> calm b c \<Longrightarrow> calm a c"
  by (simp add: calm_def)

lemma view_slot:
  assumes "hSlot sl = hSlot (slots s p)" and "User sl = User (slots s p)"
    and "g_mSessions s' = g_mSessions s" "g_mSlots s' = g_mSlots s" "slots s' = (slots s)(p := sl)"
  shows "view s' = view s"
proof -
  have "session_of s' = session_of s" using assms(1,5) by (auto simp: fun_eq_iff session_of_def)
  moreover have "(\<lambda>q. User (slots s' q)) = (\<lambda>q. User (slots s q))" using assms(2,5) by (auto simp: fun_eq_iff)
  ultimately show ?thesis using assms(3,4) by (simp add: view_def)
qed

lemma view_session_put:
  assumes "map_of (g_mSessions s) h = Some se" and "pSlot se' = pSlot se" and "flags se' = flags se"
  shows "view (s\<lparr>g_mSessions := map_put (g_mSessions s) h se'\<rparr>) = view s"
proof -
  have "session_of (s\<lparr>g_mSessions := m\<rparr>) = session_of s" for m by (simp add: fun_eq_iff session_of_def)
  moreover have "session_of s se' = session_of s se" using assms(2,3) by (simp add: session_of_def is_RW_def)
  ultimately show ?thesis using assms(1) by (auto simp: view_def intro!: ext)
qed

lemma calm_on_slot:
  assumes "keeps f"
  shows "calm s (snd (on_slot p f s))"
proof -
  obtain r sl w where f: "f (slots s p, world s) = (r, sl, w)" by (cases "f (slots s p, world s)")
  have k: "slot_keep (slots s p) sl" using template_slot_keep [OF keepsD [OF assms f]] .
  have "view (snd (on_slot p f s)) = view s"
    by (rule view_slot [of sl s p]) (use k in \<open>simp_all add: on_slot_def f slot_keep_def slot_frame_def\<close>)
  then show ?thesis
    using module_ok_keeps [OF _ assms, of s p] by (auto simp: calm_def on_slot_def f)
qed

lemma calm_on_session:
  assumes "map_of (g_mSessions s) h = Some se" and "\<And>c. sess_keep c (snd (f c))"
  shows "calm s (snd (on_session h se f s))"
proof -
  let ?c = "\<lparr>sess = se, slot = slots s (pSlot se), wrld = world s\<rparr>"
  obtain r c where f: "f ?c = (r, c)" by (cases "f ?c")
  have k: "sess_keep ?c c" using assms(2) [of ?c] f by simp
  let ?s = "s\<lparr>g_mSessions := map_put (g_mSessions s) h (sess c)\<rparr>"
  have "view (snd (on_session h se f s)) = view ?s"
    by (rule view_slot [of "slot c" ?s "pSlot se"])
      (use k in \<open>simp_all add: on_session_def f sess_keep_def slot_keep_def slot_frame_def\<close>)
  also have "\<dots> = view s" using view_session_put [OF assms(1)] k by (simp add: sess_keep_def)
  finally show ?thesis
    using module_ok_on_session [OF _ assms] by (auto simp: calm_def on_session_def f)
qed

lemma calm_bindS:
  assumes "calm s (snd m)" and "\<And>x s'. m = (Inr x, s') \<Longrightarrow> calm s' (snd (k x s'))"
  shows "calm s (snd (bindS m k))"
  using assms by (cases m; cases "fst m") (auto intro: calm_trans)

lemma calm_in_session:
  assumes "\<And>c. sess_keep c (snd (f c))"
  shows "calm s (snd (in_session h f s))"
  using calm_on_session [OF _ assms]
  by (auto simp: in_session_def with_session_def when_initialized_def GetSessionFromID_def split: option.split)

lemma calm_with_slot:
  assumes "\<And>p s. calm s (snd (f p s))"
  shows "calm s (snd (with_slot i f s))"
  using assms by (auto simp: with_slot_def when_initialized_def split: option.split)

lemma calm_liftS: "(\<And>x. calm s (snd (k x s))) \<Longrightarrow> calm s (snd (bindS (liftS r s) k))"
  by (cases r) auto

lemmas calm_intros = calm_refl calm_on_slot calm_bindS calm_in_session calm_with_slot keeps_intros

subsection \<open>Token information and slot events\<close>

lemma calm_same:
  assumes "g_mSessions s' = g_mSessions s" "g_mSlots s' = g_mSlots s" "slotNext s' = slotNext s"
    "slots s' = slots s" "dwSessionCnt s' = dwSessionCnt s"
  shows "calm s s'"
  using assms module_ok_same [of s s'] view_slot [of "slots s p" s p s'] by (simp add: calm_def)

lemma calm_upd_slot:
  assumes "\<And>sl. slot_keep sl (f sl)"
  shows "calm s (upd_slot p f s)"
proof -
  have "view (upd_slot p f s) = view s"
    by (rule view_slot [of "f (slots s p)" s p])
      (use assms [of "slots s p"] in \<open>simp_all add: upd_slot_def slot_keep_def slot_frame_def\<close>)
  moreover have "module_ok (upd_slot p f s)" if "module_ok s"
    by (rule module_ok_slot [OF that, of "f (slots s p)" p])
      (use assms [of "slots s p"] slot_inv_keep [OF module_ok_listed(1) [OF that]]
        in \<open>simp_all add: upd_slot_def slot_keep_def slot_frame_def\<close>)
  ultimately show ?thesis by (simp add: calm_def upd_slot_def)
qed

lemma slot_keep_fields:
  "slot_keep sl (sl\<lparr>lastEvent := e\<rparr>)" "slot_keep sl (sl\<lparr>baATR := a\<rparr>)" "slot_keep sl (sl\<lparr>baSerial := a\<rparr>)"
  by (simp_all add: slot_keep_def slot_frame_def data_kept_def slot_ok_def)

lemma calm_slot_event_scan: "calm s (snd (slot_event_scan s))"
  by (auto simp: slot_event_scan_def split: option.split intro!: calm_upd_slot slot_keep_fields)

lemma calm_list_present: "calm s (snd (list_present env want n m out cnt over s))"
proof (induction m arbitrary: out cnt over s)
  case (Cons e m)
  obtain i p where e: "e = (i, p)" by (cases e)
  show ?case unfolding e list_present.simps
    by (intro calm_bindS calm_on_slot keeps_intros) (simp add: Cons.IH)
qed simp

context card_module
begin

lemma calm_read_serial: "calm s (snd (on_slot p (read_serial env) s))"
proof (rule calm_on_slot, rule keepsI)
  fix sl sl' :: "'d cslot" and w w' :: 'w and r
  assume a: "read_serial env (sl, w) = (r, sl', w')"
  have f: "template_keep x (x\<lparr>pSerialTemplate := t\<rparr>)" "template_keep x (x\<lparr>baSerial := b\<rparr>)" for x :: "'d cslot" and t b
    by (simp_all add: template_keep_def template_frame_def slot_frame_def data_kept_def slot_ok_def)
  obtain q sl1 w1 where t: "templateGetSerial (tmpl env) (sl\<lparr>pSerialTemplate := pTemplate sl\<rparr>, w) = (q, sl1, w1)"
    by (cases "templateGetSerial (tmpl env) (sl\<lparr>pSerialTemplate := pTemplate sl\<rparr>, w)") auto
  have "template_keep sl sl1" using template_keep_trans [OF f(1) keepsD [OF keeps_serial t]] .
  then show "template_keep sl sl'"
    using a t template_keep_trans [OF _ f(2)] by (cases q) (auto simp: read_serial_def split: if_splits)
qed

lemma calm_need_template:
  assumes "module_ok s"
  shows "calm s (snd (on_slot p (need_template env ts) s))"
proof -
  obtain r sl w where n: "need_template env ts (slots s p, world s) = (r, sl, w)"
    by (cases "need_template env ts (slots s p, world s)")
  obtain sl1 t where t: "slot_keep (slots s p) sl1" "sl = sl1\<lparr>pTemplate := t\<rparr>"
      "pTemplate (slots s p) \<noteq> None \<longrightarrow> t = pTemplate (slots s p)"
    using need_template_slot [OF n] by blast
  let ?s = "put_slot p sl (g_mSessions s) w s"
  have f: "hSlot sl = hSlot (slots s p)" "User sl = User (slots s p)" using t(1,2) by (simp_all add: slot_keep_def slot_frame_def)
  have "module_ok ?s"
    using module_ok_put_slot [OF assms f(1)] slot_inv_need_template [OF module_ok_listed(1) [OF assms] t(1,3)] t(2) by simp
  moreover have "view ?s = view s" by (rule view_slot [OF f]) simp_all
  moreover have "snd (on_slot p (need_template env ts) s) = ?s" by (simp add: on_slot_def n put_slot_def)
  ultimately show ?thesis by (simp add: calm_def)
qed

lemma calm_GetTokenInfo:
  assumes "module_ok s"
  shows "calm s (snd (GetTokenInfo env p s))"
  unfolding GetTokenInfo_def Let_def
  by (rule calm_bindS [OF calm_need_template [OF assms]])
    (auto intro!: calm_bindS calm_read_serial calm_on_slot card_calls)

end

end
