(* ===== verification/Module_Runs.thy ===== *)
theory Module_Runs
  imports Session_Spec
begin

section \<open>Runs of the module\<close>

text \<open>
  A call of each exported function with its arguments, and what it does to the module: the
  return code (\<open>None\<close>: the call does not return one, or its behaviour is undefined), whether
  its body completed without an exception, and the new state.  The output arguments are left out; they are in the results of the \<open>C_\<close>
  functions.  A run of the module is a sequence of calls, of reader events handled by the
  monitor thread, and of changes of the world outside.
\<close>

datatype api_call =
    Do_Initialize "initialize_args option"
  | Do_Finalize bool
  | Do_UpdateSlotList
  | Do_GetInfo bool
  | Do_GetSlotList bool bool nat
  | Do_GetSlotInfo ulong bool
  | Do_GetTokenInfo ulong bool
  | Do_GetMechanismList ulong bool nat
  | Do_GetMechanismInfo ulong ulong
  | Do_WaitForSlotEvent ulong bool
  | Do_OpenSession ulong ulong bool
  | Do_CloseSession ulong
  | Do_CloseAllSessions ulong
  | Do_GetSessionInfo ulong
  | Do_Login ulong ulong bytes
  | Do_Logout ulong
  | Do_InitPIN ulong bytes
  | Do_SetPIN ulong bytes bytes
  | Do_GetOperationState ulong byte_view
  | Do_SetOperationState ulong bytes ulong ulong
  | Do_CreateObject ulong "ck_attribute list option" ulong
  | Do_DestroyObject ulong ulong
  | Do_GetObjectSize ulong ulong
  | Do_GetAttributeValue ulong ulong "ck_attribute list option" ulong
  | Do_SetAttributeValue ulong ulong "ck_attribute list option" ulong
  | Do_FindObjectsInit ulong "ck_attribute list option" ulong
  | Do_FindObjects ulong bool ulong
  | Do_FindObjectsFinal ulong
  | Do_GenerateKey ulong "ck_attribute list option" ulong
  | Do_GenerateKeyPair ulong "ck_attribute list option" ulong "ck_attribute list option" ulong
  | Do_DigestInit ulong "ck_mechanism option"
  | Do_Digest ulong bytes byte_view
  | Do_DigestUpdate ulong bytes
  | Do_DigestFinal ulong byte_view
  | Do_SignInit ulong "ck_mechanism option" ulong
  | Do_Sign ulong bytes byte_view
  | Do_SignUpdate ulong bytes
  | Do_SignFinal ulong byte_view
  | Do_SignRecoverInit ulong "ck_mechanism option" ulong
  | Do_SignRecover ulong bytes byte_view
  | Do_VerifyInit ulong "ck_mechanism option" ulong
  | Do_Verify ulong bytes bytes
  | Do_VerifyUpdate ulong bytes
  | Do_VerifyFinal ulong bytes
  | Do_VerifyRecoverInit ulong "ck_mechanism option" ulong
  | Do_VerifyRecover ulong bytes byte_view
  | Do_SeedRandom
  | Do_GenerateRandom ulong byte_view
  | Do_Unsupported unsupported_function

definition ret :: "('a, 'd, 'w) api \<Rightarrow> ck_rv option \<times> bool \<times> ('d, 'w) p11_state" where
  "ret r = (fst r, fst (snd r) \<noteq> None, snd (snd r))"

fun run_call :: "('d, 'w) env \<Rightarrow> api_call \<Rightarrow> ('d, 'w) p11_state \<Rightarrow> ck_rv option \<times> bool \<times> ('d, 'w) p11_state" where
  "run_call env (Do_Initialize args) s = ret (C_Initialize env args s)"
| "run_call env (Do_Finalize reserved) s = ret (C_Finalize env reserved s)"
| "run_call env Do_UpdateSlotList s = ret (C_UpdateSlotList env s)"
| "run_call env (Do_GetInfo null) s = ret (C_GetInfo null s)"
| "run_call env (Do_GetSlotList present want n) s = ret (C_GetSlotList env present want n s)"
| "run_call env (Do_GetSlotInfo i null) s = ret (C_GetSlotInfo env i null s)"
| "run_call env (Do_GetTokenInfo i null) s = ret (C_GetTokenInfo env i null s)"
| "run_call env (Do_GetMechanismList i want n) s = ret (C_GetMechanismList i want n s)"
| "run_call env (Do_GetMechanismInfo i ty) s = ret (C_GetMechanismInfo i ty s)"
| "run_call env (Do_WaitForSlotEvent fl reserved) s = ret (C_WaitForSlotEvent_nonblocking fl reserved s)"
| "run_call env (Do_OpenSession i fl null) s = ret (C_OpenSession env i fl null s)"
| "run_call env (Do_CloseSession h) s = ret (C_CloseSession env h s)"
| "run_call env (Do_CloseAllSessions i) s = ret (C_CloseAllSessions env i s)"
| "run_call env (Do_GetSessionInfo h) s = ret (C_GetSessionInfo h s)"
| "run_call env (Do_Login h u pin) s = ret (C_Login env h u pin s)"
| "run_call env (Do_Logout h) s = ret (C_Logout env h s)"
| "run_call env (Do_InitPIN h pin) s = ret (C_InitPIN env h pin s)"
| "run_call env (Do_SetPIN h old new) s = ret (C_SetPIN env h old new s)"
| "run_call env (Do_GetOperationState h out) s = ret (C_GetOperationState env h out s)"
| "run_call env (Do_SetOperationState h st ek ak) s = ret (C_SetOperationState h st ek ak s)"
| "run_call env (Do_CreateObject h tpl n) s = ret (C_CreateObject env h tpl n s)"
| "run_call env (Do_DestroyObject h obj) s = ret (C_DestroyObject env h obj s)"
| "run_call env (Do_GetObjectSize h obj) s = ret (C_GetObjectSize env h obj s)"
| "run_call env (Do_GetAttributeValue h obj tpl n) s = ret (C_GetAttributeValue h obj tpl n s)"
| "run_call env (Do_SetAttributeValue h obj tpl n) s = ret (C_SetAttributeValue env h obj tpl n s)"
| "run_call env (Do_FindObjectsInit h tpl n) s = ret (C_FindObjectsInit h tpl n s)"
| "run_call env (Do_FindObjects h null n) s = ret (C_FindObjects h null n s)"
| "run_call env (Do_FindObjectsFinal h) s = ret (C_FindObjectsFinal h s)"
| "run_call env (Do_GenerateKey h tpl n) s = ret (C_GenerateKey h tpl n s)"
| "run_call env (Do_GenerateKeyPair h pub n priv m) s = ret (C_GenerateKeyPair h pub n priv m s)"
| "run_call env (Do_DigestInit h mech) s = ret (C_DigestInit h mech s)"
| "run_call env (Do_Digest h data out) s = ret (C_Digest env h data out s)"
| "run_call env (Do_DigestUpdate h part) s = ret (C_DigestUpdate h part s)"
| "run_call env (Do_DigestFinal h out) s = ret (C_DigestFinal env h out s)"
| "run_call env (Do_SignInit h mech key) s = ret (C_SignInit h mech key s)"
| "run_call env (Do_Sign h data out) s = ret (C_Sign env h data out s)"
| "run_call env (Do_SignUpdate h part) s = ret (C_SignUpdate h part s)"
| "run_call env (Do_SignFinal h out) s = ret (C_SignFinal env h out s)"
| "run_call env (Do_SignRecoverInit h mech key) s = ret (C_SignRecoverInit h mech key s)"
| "run_call env (Do_SignRecover h data out) s = ret (C_SignRecover env h data out s)"
| "run_call env (Do_VerifyInit h mech key) s = ret (C_VerifyInit h mech key s)"
| "run_call env (Do_Verify h data sig) s = ret (C_Verify env h data sig s)"
| "run_call env (Do_VerifyUpdate h data) s = ret (C_VerifyUpdate h data s)"
| "run_call env (Do_VerifyFinal h sig) s = ret (C_VerifyFinal env h sig s)"
| "run_call env (Do_VerifyRecoverInit h mech key) s = ret (C_VerifyRecoverInit h mech key s)"
| "run_call env (Do_VerifyRecover h sig out) s = ret (C_VerifyRecover env h sig out s)"
| "run_call env Do_SeedRandom s = ret (C_SeedRandom s)"
| "run_call env (Do_GenerateRandom h out) s = ret (C_GenerateRandom env h out s)"
| "run_call env (Do_Unsupported f) s = ret (unsupported f s)"

text \<open>The return code of a body of the guard.\<close>

definition code :: "exn + 'a \<Rightarrow> ck_rv option" where
  "code r =
     (case r of
        Inr _ \<Rightarrow> Some CKR_OK
      | Inl (P11_Error rv) \<Rightarrow> Some rv
      | Inl UB \<Rightarrow> None
      | Inl Hang \<Rightarrow> None
      | Inl _ \<Rightarrow> Some CKR_GENERAL_ERROR)"

lemma code_simps [simp]: "code (Inr x) = Some CKR_OK" "code (throw_p11 rv) = Some rv" "code (Inl UB) = None" "code (Inl Hang) = None"
  by (simp_all add: code_def)

lemma ret_guard: "ret (pkcs11_guard b) = (code (fst b), \<not> isl (fst b), snd b)"
  by (cases b) (auto simp: ret_def pkcs11_guard_def code_def split: sum.splits exn.splits)

lemma snd_guard [simp]: "snd (snd (pkcs11_guard b)) = snd b"
  using ret_guard [of b] by (simp add: ret_def)

text \<open>The calls that only look up the session and run one of its operations.\<close>

lemmas api_call_defs = C_InitPIN_def C_SetPIN_def C_GetOperationState_def C_SetOperationState_def C_CreateObject_def
  C_DestroyObject_def C_GetObjectSize_def C_SetAttributeValue_def C_FindObjectsInit_def C_FindObjects_def
  C_FindObjectsFinal_def C_GenerateKey_def C_GenerateKeyPair_def GenerateKey_def GenerateKeyPair_def
  C_DigestInit_def C_Digest_def C_DigestUpdate_def C_DigestFinal_def C_SignInit_def C_Sign_def C_SignUpdate_def
  C_SignFinal_def C_SignRecoverInit_def C_SignRecover_def C_VerifyInit_def C_Verify_def C_VerifyUpdate_def
  C_VerifyFinal_def C_VerifyRecoverInit_def C_VerifyRecover_def C_GenerateRandom_def

subsection \<open>Calls that leave sessions and logins as they are\<close>

text \<open>The calls that administer slots, sessions and logins; every other call is calm.\<close>

fun administers :: "api_call \<Rightarrow> bool" where
  "administers (Do_Initialize _) = True"
| "administers (Do_Finalize _) = True"
| "administers Do_UpdateSlotList = True"
| "administers (Do_OpenSession _ _ _) = True"
| "administers (Do_CloseSession _) = True"
| "administers (Do_CloseAllSessions _) = True"
| "administers (Do_Login _ _ _) = True"
| "administers (Do_Logout _) = True"
| "administers _ = False"

lemma with_mechanism_keep: "(\<And>m. sess_keep c (snd (f m c))) \<Longrightarrow> sess_keep c (snd (with_mechanism pm f c))"
  by (auto simp: with_mechanism_def split: option.split)

lemma multipart_keep: "sess_keep c (snd (f c)) \<Longrightarrow> sess_keep c (snd (multipart ok m f c))"
  by (auto simp: multipart_def split: option.split)

lemma calm_bindS_pure:
  "calm s (snd m) \<Longrightarrow> (\<And>x s'. snd (k x s') = s') \<Longrightarrow> calm s (snd (bindS m k))"
  by (cases m; cases "fst m") auto

lemma snd_case_api:
  "snd (snd (case r of (rc, Some (rv, out), s) \<Rightarrow> (Some rv, Some out, s) | (rc, None, s) \<Rightarrow> (rc, None, s))) = snd (snd r)"
  "snd (snd (case r' of (rv, Some (out, cnt, over), s) \<Rightarrow> (if over then Some x else rv, Some (out, cnt), s)
       | (rv, None, s) \<Rightarrow> (rv, None, s))) = snd (snd r')"
  by (auto split: prod.split option.split)

lemma GetAttributeValue_state: "snd (snd (C_GetAttributeValue h obj tpl n s)) = s"
proof -
  have "snd (bindS (liftS (template_arg tpl n) s) (\<lambda>tpl. with_session h (\<lambda>se s.
          bindS (liftS (WriteAttributes tpl) s) (\<lambda>_ s.
            case GetAttributeValue obj tpl \<lparr>sess = se, slot = slots s (pSlot se), wrld = world s\<rparr> of
              (Inl e, out) \<Rightarrow> (Inl e, s)
            | (Inr rv, out) \<Rightarrow> (bindE (WriteAttributes out) (\<lambda>_. Inr (rv, out)), s))))) = s"
    by (cases "template_arg tpl n")
      (auto simp: with_session_def when_initialized_def bindS_def split: option.split sum.split prod.split)
  then show ?thesis
    unfolding C_GetAttributeValue_def snd_case_api snd_guard .
qed

lemma calm_GetSlotList: "calm s (snd (snd (C_GetSlotList env present want n s)))"
proof -
  have "calm s (snd (when_initialized (\<lambda>s.
        if present then
          if g_mSlots s = [] then (Inr ([], 0, False), s)
          else list_present env want n (rev (g_mSlots s)) [] 0 False s
        else if \<not> want then (Inr ([], length (g_mSlots s), False), s)
        else (Inr (list_all_slots n (rev (g_mSlots s)) [] 0 False), s)) s))"
    using calm_list_present by (auto simp: when_initialized_def)
  then show ?thesis
    unfolding C_GetSlotList_def snd_case_api snd_guard .
qed

context card_module
begin

lemmas session_keeps =
  DigestInit_keep DigestUpdate_keep DigestFinal_keep Digest_keep VerifyInit_keep VerifyUpdate_keep VerifyFinal_keep Verify_keep
  VerifyRecoverInit_keep VerifyRecover_keep SignInit_keep SignUpdate_keep SignRecoverInit_keep FindObjectsInit_keep
  FindObjects_keep FindObjectsFinal_keep SetOperationState_keep GetOperationState_keep SignFinal_keep Sign_keep
  SignRecover_keep GenerateRandom_keep InitPIN_keep SetPIN_keep CreateObject_keep DestroyObject_keep GetObjectSize_keep
  SetAttributeValue_keep with_mechanism_keep multipart_keep

lemma keeps_GetInfo: "keeps (GetInfo tr)"
  unfolding GetInfo_def by (rule keeps_bind [OF keeps_IsTokenPresent]) (auto simp: keeps_def)

lemma calm_template_op:
  assumes "\<And>tpl c. sess_keep c (snd (f tpl c))"
  shows "calm s (snd (bindS (liftS (g :: exn + 'x) s) (\<lambda>tpl. in_session h (f tpl))))"
  by (rule calm_liftS) (auto intro: calm_in_session assms)

lemma calm_when_initialized: "calm s (snd (f s)) \<Longrightarrow> calm s (snd (when_initialized f s))"
  by (simp add: when_initialized_def)

lemma calm_with_session: "(\<And>se. snd (f se s) = s) \<Longrightarrow> calm s (snd (with_session h f s))"
  by (simp add: with_session_def when_initialized_def split: option.split)

lemma run_call_calm_slots:
  assumes "module_ok s"
  shows "calm s (snd (snd (run_call env (Do_GetInfo null) s)))" "calm s (snd (snd (run_call env (Do_GetSlotList present want n) s)))"
    "calm s (snd (snd (run_call env (Do_GetSlotInfo i null) s)))" "calm s (snd (snd (run_call env (Do_GetTokenInfo i null) s)))"
    "calm s (snd (snd (run_call env (Do_GetMechanismList i want n) s)))" "calm s (snd (snd (run_call env (Do_GetMechanismInfo i ty) s)))"
    "calm s (snd (snd (run_call env (Do_WaitForSlotEvent fl reserved) s)))" "calm s (snd (snd (run_call env (Do_GetSessionInfo h) s)))"
    "calm s (snd (snd (run_call env Do_SeedRandom s)))" "calm s (snd (snd (run_call env (Do_Unsupported f) s)))"
    "calm s (snd (snd (run_call env (Do_GetAttributeValue h obj tpl k) s)))"
proof -
  show "calm s (snd (snd (run_call env (Do_GetInfo null) s)))"
    by (auto simp: C_GetInfo_def ret_guard intro!: calm_when_initialized)
  show "calm s (snd (snd (run_call env (Do_GetSlotList present want n) s)))"
    using calm_GetSlotList by (simp add: ret_def)
  show "calm s (snd (snd (run_call env (Do_GetSlotInfo i null) s)))"
    by (auto simp: C_GetSlotInfo_def ret_guard intro!: calm_with_slot calm_on_slot keeps_GetInfo)
  show "calm s (snd (snd (run_call env (Do_GetMechanismList i want n) s)))"
    by (auto simp: C_GetMechanismList_def ret_guard Let_def intro!: calm_with_slot)
  show "calm s (snd (snd (run_call env (Do_GetMechanismInfo i ty) s)))"
    by (auto simp: C_GetMechanismInfo_def ret_guard intro!: calm_with_slot)
  show "calm s (snd (snd (run_call env (Do_WaitForSlotEvent fl reserved) s)))"
    by (auto simp: C_WaitForSlotEvent_nonblocking_def ret_guard intro!: calm_when_initialized calm_slot_event_scan)
  show "calm s (snd (snd (run_call env (Do_GetSessionInfo h) s)))"
    by (simp add: C_GetSessionInfo_def ret_guard calm_with_session)
  show "calm s (snd (snd (run_call env Do_SeedRandom s)))"
    by (simp add: C_SeedRandom_def ret_guard)
  show "calm s (snd (snd (run_call env (Do_Unsupported f) s)))"
    by (simp add: unsupported_def ret_def)
  show "calm s (snd (snd (run_call env (Do_GetAttributeValue h obj tpl k) s)))"
    by (simp add: ret_def GetAttributeValue_state)
  have "calm s (snd (bindS (on_slot p (IsTokenPresent (transport env)) s) (\<lambda>present s.
         if \<not> present then (throw_p11 CKR_TOKEN_NOT_PRESENT, s) else GetTokenInfo env p s)))" for p
  proof (rule calm_bindS)
    show c: "calm s (snd (on_slot p (IsTokenPresent (transport env)) s))" by (intro calm_on_slot keeps_intros)
    fix x s1 assume "on_slot p (IsTokenPresent (transport env)) s = (Inr x, s1)"
    then have "module_ok s1" using c assms by (simp add: calm_def)
    then show "calm s1 (snd (if \<not> x then (throw_p11 CKR_TOKEN_NOT_PRESENT, s1) else GetTokenInfo env p s1))"
      using calm_GetTokenInfo by auto
  qed
  then show "calm s (snd (snd (run_call env (Do_GetTokenInfo i null) s)))"
    by (auto simp: C_GetTokenInfo_def ret_guard with_slot_def when_initialized_def split: option.split)
qed

text \<open>Every call that does not administer sessions or logins is calm.\<close>

lemma run_call_calm:
  assumes "module_ok s" and "\<not> administers c"
  shows "calm s (snd (snd (run_call env c s)))"
proof -
  show ?thesis
    by (cases c)
      (use assms run_call_calm_slots [OF assms(1)] in
        \<open>auto simp: ret_guard api_call_defs simp del: liftS_simps intro!: calm_in_session calm_template_op calm_bindS_pure session_keeps\<close>)
qed

end

end
