(* ===== verification/Session_Refinement.thy ===== *)
theory Session_Refinement
  imports Module_Runs
begin

section \<open>The module implements the session specification\<close>

text \<open>
  Each call that administers sessions or logins makes the transition of \<open>spec_step\<close> on the
  abstract state when it returns \<open>CKR_OK\<close>, and none otherwise.
\<close>

lemma listed_unique:
  assumes "module_ok s" and "p \<in> snd ` set (g_mSlots s)"
  shows "map_of (g_mSlots s) i = Some p \<longleftrightarrow> i = hSlot (slots s p)"
proof -
  have m: "map_of (g_mSlots s) (hSlot (slots s p)) = Some p"
    using module_ok_listed(2) [OF assms] map_ok_lookup [OF module_okD(2) [OF assms(1)]] by simp
  have "i = hSlot (slots s p)" if "map_of (g_mSlots s) i = Some p"
    using module_okD(5) [OF assms(1) map_of_SomeD [OF that]] by simp
  with m show ?thesis by auto
qed

lemma same_slot_id:
  assumes "module_ok s" and "map_of (g_mSessions s) h = Some se" and "p \<in> snd ` set (g_mSlots s)"
  shows "hSlot (slots s (pSlot se)) = hSlot (slots s p) \<longleftrightarrow> pSlot se = p"
proof -
  have "pSlot se \<in> snd ` set (g_mSlots s)" using module_ok_session(1) [OF assms(1,2)] by (simp add: session_inv_def)
  then show ?thesis using listed_unique [OF assms(1)] assms(3) by (metis option.inject)
qed

lemma view_put_slot:
  assumes "module_ok s" and "p \<in> snd ` set (g_mSlots s)" and "hSlot sl = hSlot (slots s p)"
  shows "view (put_slot p sl ss w s) =
    \<lparr>open_sessions = (\<lambda>h. map_option (session_of s) (map_of ss h)),
     logged_in = (logged_in (view s))(hSlot (slots s p) \<mapsto> User sl)\<rparr>"
proof -
  have "session_of (put_slot p sl ss w s) = session_of s" using assms(3) by (auto simp: fun_eq_iff session_of_def)
  moreover have "map_option (\<lambda>q. User (slots (put_slot p sl ss w s) q)) (map_of (g_mSlots s) i) =
      ((logged_in (view s))(hSlot (slots s p) \<mapsto> User sl)) i" for i
    using listed_unique [OF assms(1,2), of i] by (cases "map_of (g_mSlots s) i") (auto simp: view_def)
  ultimately show ?thesis by (auto simp: view_def intro!: ext)
qed

lemma without_slot_view:
  assumes "module_ok s" and "p \<in> snd ` set (g_mSlots s)" and "hSlot sl = hSlot (slots s p)" and "User sl = CKU_NOBODY"
  shows "view (put_slot p sl (filter (\<lambda>(h, se). pSlot se \<noteq> p) (g_mSessions s)) w s) = without_slot (hSlot (slots s p)) (view s)"
proof -
  let ?ss = "filter (\<lambda>(h, se). pSlot se \<noteq> p) (g_mSessions s)"
  have ok: "map_ok ?ss" by (rule map_ok_filter) (rule module_okD(1) [OF assms(1)])
  have "map_option (session_of s) (map_of ?ss h) =
      (case open_sessions (view s) h of Some (j, rw) \<Rightarrow> if j = hSlot (slots s p) then None else Some (j, rw) | None \<Rightarrow> None)" for h
  proof (cases "map_of (g_mSessions s) h")
    case None
    then have "map_of ?ss h = None" by (auto simp: map_of_eq_None_iff)
    then show ?thesis using None by (simp add: view_def)
  next
    case (Some se)
    have "map_of ?ss h = (if pSlot se = p then None else Some se)"
    proof (cases "pSlot se = p")
      case True
      have "(h, x) \<notin> set ?ss" for x
        using True Some map_ok_lookup [OF module_okD(1) [OF assms(1)], of h x] by auto
      then show ?thesis using True map_ok_lookup [OF ok, of h] by (cases "map_of ?ss h") auto
    next
      case False
      then have "(h, se) \<in> set ?ss" using map_of_SomeD [OF Some] by simp
      then show ?thesis using False map_ok_lookup [OF ok, of h se] by simp
    qed
    then show ?thesis using Some same_slot_id [OF assms(1) Some assms(2)] by (simp add: view_def session_of_def)
  qed
  then show ?thesis
    using view_put_slot [OF assms(1-3)] assms(4) by (simp add: without_slot_def view_def)
qed

lemma last_session:
  assumes "module_ok s" and "map_of (g_mSessions s) h = Some se"
  defines "p \<equiv> pSlot se"
  shows "dwSessionCount (slots s p) = 1 \<longleftrightarrow> sessions_on p (map_erase (g_mSessions s) h) = []"
proof -
  let ?n = "length (sessions_on p (g_mSessions s))"
  have mem: "(h, se) \<in> set (sessions_on p (g_mSessions s))" using module_ok_session(4) [OF assms(1,2)] by (simp add: p_def)
  have n: "length (sessions_on p (map_erase (g_mSessions s) h)) = ?n - 1" "0 < ?n"
    using length_map_erase [OF map_ok_filter [OF module_okD(1) [OF assms(1)]]] mem
    by (auto simp: sessions_on_erase) (auto simp: sessions_on_def)
  have "dwSessionCount (slots s p) = of_nat ?n"
    using module_ok_session(2) [OF assms(1,2)] by (simp add: p_def slot_inv_def)
  then have "dwSessionCount (slots s p) = 1 \<longleftrightarrow> ?n = 1"
    using sessions_on_bound [OF assms(1), of p] by (simp add: word_unat_eq_iff unat_of_nat take_bit_eq_mod)
  then show ?thesis using n by (metis One_nat_def Suc_pred diff_self_eq_0 length_0_conv)
qed

lemma session_listed: "module_ok s \<Longrightarrow> map_of (g_mSessions s) h = Some se \<Longrightarrow> pSlot se \<in> snd ` set (g_mSlots s)"
  by (drule (1) module_ok_session(1)) (simp add: session_inv_def)

lemma close_view:
  assumes "module_ok s" and "map_of (g_mSessions s) h = Some se" and "hSlot sl = hSlot (slots s (pSlot se))"
    and "User sl = (if dwSessionCount (slots s (pSlot se)) = 1 then CKU_NOBODY else User (slots s (pSlot se)))"
  shows "spec_step (Close h) (view s) = Some (view (put_slot (pSlot se) sl (map_erase (g_mSessions s) h) w s))"
proof -
  let ?p = "pSlot se" and ?i = "hSlot (slots s (pSlot se))"
  have l: "?p \<in> snd ` set (g_mSlots s)" using session_listed [OF assms(1,2)] .
  let ?ss = "(open_sessions (view s))(h := None)"
  have ss: "(\<lambda>x. map_option (session_of s) (map_of (map_erase (g_mSessions s) h) x)) = ?ss"
    by (auto simp: view_def)
  have "(\<exists>h' rw'. ?ss h' = Some (?i, rw')) \<longleftrightarrow> sessions_on ?p (map_erase (g_mSessions s) h) \<noteq> []"
  proof
    assume "\<exists>h' rw'. ?ss h' = Some (?i, rw')"
    then obtain h' x where x: "h' \<noteq> h" "map_of (g_mSessions s) h' = Some x" "hSlot (slots s (pSlot x)) = ?i"
      by (auto simp: view_def session_of_def split: if_splits)
    then have "pSlot x = ?p" using same_slot_id [OF assms(1) x(2) l] by simp
    then have "(h', x) \<in> set (sessions_on ?p (map_erase (g_mSessions s) h))"
      using x map_of_SomeD [OF x(2)] by (simp add: sessions_on_def)
    then show "sessions_on ?p (map_erase (g_mSessions s) h) \<noteq> []" by auto
  next
    assume "sessions_on ?p (map_erase (g_mSessions s) h) \<noteq> []"
    then obtain h' x where x: "(h', x) \<in> set (g_mSessions s)" "h' \<noteq> h" "pSlot x = ?p"
      by (auto simp: sessions_on_def filter_empty_conv)
    then have "map_of (g_mSessions s) h' = Some x" using map_ok_lookup [OF module_okD(1) [OF assms(1)]] by simp
    then have "?ss h' = Some (?i, is_RW x)" using x by (simp add: view_def session_of_def)
    then show "\<exists>h' rw'. ?ss h' = Some (?i, rw')" by blast
  qed
  then have ex: "(\<exists>h' rw'. ?ss h' = Some (?i, rw')) \<longleftrightarrow> dwSessionCount (slots s ?p) \<noteq> 1"
    using last_session [OF assms(1,2)] by blast
  have "logged_in (view s) ?i = Some (User (slots s ?p))"
    using listed_unique [OF assms(1) l, of ?i] by (simp add: view_def)
  then have same: "(logged_in (view s))(?i \<mapsto> User (slots s ?p)) = logged_in (view s)" by auto
  have "open_sessions (view s) h = Some (?i, is_RW se)" using assms(2) by (simp add: view_def session_of_def)
  then have "spec_step (Close h) (view s) = Some ((view s)\<lparr>open_sessions := ?ss,
      logged_in := (if dwSessionCount (slots s ?p) \<noteq> 1 then logged_in (view s) else (logged_in (view s))(?i \<mapsto> CKU_NOBODY))\<rparr>)"
    unfolding spec_step.simps Let_def using ex by (simp del: fun_upd_apply)
  also have "\<dots> = Some (view (put_slot ?p sl (map_erase (g_mSessions s) h) w s))"
    unfolding view_put_slot [OF assms(1) l assms(3)] ss using assms(4) same by (simp add: view_def)
  finally show ?thesis .
qed

subsection \<open>The calls\<close>

text \<open>
  \<open>follows ev done s s'\<close>: the event happened when the body of the call completed, and nothing
  happened when it threw.
\<close>

definition follows :: "login_event \<Rightarrow> bool \<Rightarrow> ('d, 'w) p11_state \<Rightarrow> ('d, 'w) p11_state \<Rightarrow> bool" where
  "follows ev completed s s' \<longleftrightarrow> (if completed then spec_step ev (view s) = Some (view s') else view s' = view s)"

lemma logged_in_listed: "module_ok s \<Longrightarrow> p \<in> snd ` set (g_mSlots s) \<Longrightarrow> logged_in (view s) (hSlot (slots s p)) = Some (User (slots s p))"
  using listed_unique [of s p "hSlot (slots s p)"] by (simp add: view_def)

lemma session_view: "map_of (g_mSessions s) h = Some se \<Longrightarrow> open_sessions (view s) h = Some (hSlot (slots s (pSlot se)), is_RW se)"
  by (simp add: view_def session_of_def)

lemma GetSlotFromID_listed:
  assumes "module_ok s" and "GetSlotFromID s i = Some p"
  shows "p \<in> snd ` set (g_mSlots s)" "hSlot (slots s p) = i"
proof -
  have m: "(i, p) \<in> set (g_mSlots s)" using assms(2) by (auto simp: GetSlotFromID_def dest: map_of_SomeD)
  then show "p \<in> snd ` set (g_mSlots s)" by force
  show "hSlot (slots s p) = i" using module_okD(5) [OF assms(1) m] .
qed

text \<open>The sessions of a slot in the abstract state.\<close>

lemma ExistsRO_view:
  assumes "module_ok s" and "p \<in> snd ` set (g_mSlots s)"
  shows "ExistsRO (g_mSessions s) p \<longleftrightarrow> (\<exists>h. open_sessions (view s) h = Some (hSlot (slots s p), False))"
proof
  assume "ExistsRO (g_mSessions s) p"
  then obtain h se where "(h, se) \<in> set (g_mSessions s)" "pSlot se = p" "\<not> is_RW se"
    by (auto simp: ExistsRO_def list_ex_iff)
  then show "\<exists>h. open_sessions (view s) h = Some (hSlot (slots s p), False)"
    using session_view [of s h se] map_ok_lookup [OF module_okD(1) [OF assms(1)], of h se] by (intro exI [of _ h]) auto
next
  assume "\<exists>h. open_sessions (view s) h = Some (hSlot (slots s p), False)"
  then obtain h se where x: "map_of (g_mSessions s) h = Some se" "hSlot (slots s (pSlot se)) = hSlot (slots s p)" "\<not> is_RW se"
    by (auto simp: view_def session_of_def)
  then have "pSlot se = p" using same_slot_id [OF assms(1) x(1) assms(2)] by simp
  then show "ExistsRO (g_mSessions s) p" using x(3) map_of_SomeD [OF x(1)] by (auto simp: ExistsRO_def list_ex_iff)
qed

text \<open>Under the invariant, the security officer's login implies a read/write session.\<close>

lemma ExistsSO_RW_iff:
  assumes "module_ok s" and "p \<in> snd ` set (g_mSlots s)"
  shows "ExistsSO_RW (g_mSessions s) p (slots s p) \<longleftrightarrow> User (slots s p) = CKU_SO"
proof -
  have "\<exists>h se. (h, se) \<in> set (g_mSessions s) \<and> pSlot se = p \<and> is_RW se" if u: "User (slots s p) = CKU_SO"
  proof -
    have inv: "slot_inv (g_mSessions s) p (slots s p)" using module_ok_listed(1) [OF assms] .
    then have "sessions_on p (g_mSessions s) \<noteq> []" using u by (auto simp: slot_inv_def)
    then obtain h se where e: "(h, se) \<in> set (sessions_on p (g_mSessions s))" by (cases "sessions_on p (g_mSessions s)") auto
    then have "is_RW se" using inv u by (fastforce simp: slot_inv_def)
    then show ?thesis using e by (auto simp: sessions_on_def)
  qed
  then show ?thesis by (fastforce simp: ExistsSO_RW_def list_ex_iff)
qed

context card_module
begin

lemma close_follows:
  assumes "module_ok s" and "run_call env (Do_CloseSession h) s = (rv, ok, s')"
  shows "module_ok s' \<and> follows (Close h) ok s s'"
proof (cases "bP11Initialized s \<and> map_of (g_mSessions s) h \<noteq> None")
  case False
  then have "s' = s" "\<not> ok"
    using assms(2) by (auto simp: C_CloseSession_def ret_guard with_session_def when_initialized_def GetSessionFromID_def split: if_splits)
  then show ?thesis using assms(1) by (simp add: follows_def)
next
  case True
  then obtain se where se: "map_of (g_mSessions s) h = Some se" by auto
  obtain sl w where d: "DeleteSession env h s = (Inr (), put_slot (pSlot se) sl (map_erase (g_mSessions s) h) w s)"
    and k: "slot_keep ((slots s (pSlot se))\<lparr>dwSessionCount := dwSessionCount (slots s (pSlot se)) - 1,
       User := (if dwSessionCount (slots s (pSlot se)) = 1 then CKU_NOBODY else User (slots s (pSlot se)))\<rparr>) sl"
    using DeleteSession_total [OF assms(1) se] by blast
  have "s' = put_slot (pSlot se) sl (map_erase (g_mSessions s) h) w s" "ok"
    using assms(2) True d se by (auto simp: C_CloseSession_def ret_guard with_session_def when_initialized_def GetSessionFromID_def)
  moreover have "hSlot sl = hSlot (slots s (pSlot se))"
    "User sl = (if dwSessionCount (slots s (pSlot se)) = 1 then CKU_NOBODY else User (slots s (pSlot se)))"
    using k by (simp_all add: slot_keep_def slot_frame_def)
  ultimately show ?thesis
    using module_ok_erase [OF assms(1) se refl k] close_view [OF assms(1) se] by (simp add: follows_def)
qed

lemma slot_inv_no_sessions: "slot_inv ss p sl \<Longrightarrow> sessions_on p ss = [] \<Longrightarrow> User sl = CKU_NOBODY"
  by (simp add: slot_inv_def)

lemma sessions_on_without: "sessions_on p (filter (\<lambda>(h, se). pSlot se \<noteq> p) m) = []"
  by (auto simp: sessions_on_def filter_empty_conv)

text \<open>A slot whose sessions were all closed.\<close>

lemma emptied_view:
  assumes "module_ok s" and "p \<in> snd ` set (g_mSlots s)" and "hSlot sl = hSlot (slots s p)"
    and "module_ok (put_slot p sl (filter (\<lambda>(h, se). pSlot se \<noteq> p) (g_mSessions s)) w s)"
  shows "view (put_slot p sl (filter (\<lambda>(h, se). pSlot se \<noteq> p) (g_mSessions s)) w s) = without_slot (hSlot (slots s p)) (view s)"
proof -
  have "User sl = CKU_NOBODY"
    using slot_inv_no_sessions [OF module_ok_listed(1) [OF assms(4), of p]] assms(2) sessions_on_without by simp
  then show ?thesis using without_slot_view [OF assms(1-3)] by simp
qed

lemma close_all_follows:
  assumes "module_ok s" and "run_call env (Do_CloseAllSessions i) s = (rv, ok, s')"
  shows "module_ok s' \<and> follows (Close_All i) ok s s'"
proof (cases "bP11Initialized s \<and> GetSlotFromID s i \<noteq> None")
  case False
  then have "s' = s" "\<not> ok"
    using assms(2) by (auto simp: C_CloseAllSessions_def ret_guard with_slot_def when_initialized_def split: if_splits)
  then show ?thesis using assms(1) by (simp add: follows_def)
next
  case True
  then obtain p where p: "GetSlotFromID s i = Some p" by auto
  note l = GetSlotFromID_listed [OF assms(1) p]
  let ?ss = "filter (\<lambda>(h, se). pSlot se \<noteq> p) (g_mSessions s)"
  obtain sl w where c: "CloseAllSessions env p s = (Inr (), put_slot p sl ?ss w s)" "module_ok (put_slot p sl ?ss w s)"
      "same_slot (slots s p) sl"
    using CloseAllSessions_total [OF assms(1)] by blast
  have "s' = put_slot p sl ?ss w s" "ok"
    using assms(2) True c(1) p by (auto simp: C_CloseAllSessions_def ret_guard with_slot_def when_initialized_def)
  moreover have "view (put_slot p sl ?ss w s) = without_slot i (view s)"
    using emptied_view [OF assms(1) l(1) _ c(2)] c(3) l(2) by (simp add: same_slot_def)
  ultimately show ?thesis using c(2) logged_in_listed [OF assms(1) l(1)] l(2) by (simp add: follows_def)
qed

end

text \<open>An operation of a session that changes the login of the slot and nothing else.\<close>

lemma slot_inv_User:
  assumes "slot_inv ss p sl" and "sessions_on p ss \<noteq> []" and "u \<in> {CKU_NOBODY, CKU_USER, CKU_SO}"
    and "u = CKU_SO \<Longrightarrow> \<not> ExistsRO ss p"
  shows "slot_inv ss p (sl\<lparr>User := u\<rparr>)"
proof -
  have "is_RW (snd e)" if "u = CKU_SO" "e \<in> set (sessions_on p ss)" for e
    using assms(4) that by (cases e) (auto simp: ExistsRO_def sessions_on_def list_ex_iff)
  then show ?thesis using assms(1-3) by (simp add: slot_inv_def slot_ok_def)
qed

lemma user_step:
  assumes "module_ok s" and se: "map_of (g_mSessions s) h = Some se"
    and "f \<lparr>sess = se, slot = slots s (pSlot se), wrld = world s\<rparr> = (r, c)" and "sess c = se"
    and keep: "slot_keep ((slots s (pSlot se))\<lparr>User := u\<rparr>) (slot c)"
    and u: "u \<in> {CKU_NOBODY, CKU_USER, CKU_SO}" "u = CKU_SO \<Longrightarrow> \<not> ExistsRO (g_mSessions s) (pSlot se)"
  shows "fst (on_session h se f s) = r" and "module_ok (snd (on_session h se f s))"
    and "view (snd (on_session h se f s)) = (view s)\<lparr>logged_in := (logged_in (view s))(hSlot (slots s (pSlot se)) \<mapsto> u)\<rparr>"
proof -
  let ?p = "pSlot se"
  have s': "on_session h se f s = (r, put_slot ?p (slot c) (g_mSessions s) (wrld c) s)"
    using assms(3,4) map_put_same [OF module_okD(1) [OF assms(1)] se] by (simp add: on_session_def put_slot_def)
  then show "fst (on_session h se f s) = r" by simp
  note so = module_ok_session [OF assms(1) se]
  have id: "hSlot (slot c) = hSlot (slots s ?p)" "User (slot c) = u" using keep by (simp_all add: slot_keep_def slot_frame_def)
  have "slot_inv (g_mSessions s) ?p (slot c)" using slot_inv_keep [OF slot_inv_User [OF so(2,3) u] keep] .
  then show "module_ok (snd (on_session h se f s))" using module_ok_put_slot [OF assms(1) id(1)] s' by simp
  show "view (snd (on_session h se f s)) = (view s)\<lparr>logged_in := (logged_in (view s))(hSlot (slots s ?p) \<mapsto> u)\<rparr>"
    using view_put_slot [OF assms(1) session_listed [OF assms(1) se] id(1)] s' id(2) by (simp add: view_def)
qed

lemma view_same_user:
  assumes "module_ok s" and "map_of (g_mSessions s) h = Some se"
  shows "(view s)\<lparr>logged_in := (logged_in (view s))(hSlot (slots s (pSlot se)) \<mapsto> User (slots s (pSlot se)))\<rparr> = view s"
proof -
  have "(logged_in (view s))(hSlot (slots s (pSlot se)) \<mapsto> User (slots s (pSlot se))) = logged_in (view s)"
    using logged_in_listed [OF assms(1) session_listed [OF assms]] by auto
  then show ?thesis by simp
qed

context card_module
begin

lemma login_follows:
  assumes "module_ok s" and "run_call env (Do_Login h u pin) s = (rv, ok, s')"
  shows "module_ok s' \<and> follows (Log_In h u) ok s s'"
proof (cases "bP11Initialized s \<and> map_of (g_mSessions s) h \<noteq> None \<and> u \<in> {CKU_SO, CKU_USER}")
  case False
  then have "s' = s" "\<not> ok"
    using assms(2) by (auto simp: C_Login_def ret_guard with_session_def when_initialized_def GetSessionFromID_def split: if_splits option.splits)
  then show ?thesis using assms(1) by (simp add: follows_def)
next
  case True
  then obtain se where se: "map_of (g_mSessions s) h = Some se" by auto
  let ?p = "pSlot se" and ?f = "Login env (g_mSessions s) u pin"
  let ?c = "\<lparr>sess = se, slot = slots s (pSlot se), wrld = world s\<rparr>"
  obtain r c where f: "?f ?c = (r, c)" by (cases "?f ?c")
  have s': "s' = snd (on_session h se ?f s)" "ok \<longleftrightarrow> \<not> isl (fst (on_session h se ?f s))"
    using assms(2) True se by (auto simp: C_Login_def ret_guard with_session_def when_initialized_def GetSessionFromID_def)
  note L = Login_slot [OF f]
  have sess: "sess c = se" using L by simp
  note l = session_listed [OF assms(1) se]
  show ?thesis
  proof (cases r)
    case (Inl e)
    have inv: "slot_inv (g_mSessions s) ?p (slots s ?p)" using module_ok_session(2) [OF assms(1) se] .
    have ro: "\<not> ExistsRO (g_mSessions s) ?p" if "User (slots s ?p) = CKU_SO"
      using inv that by (fastforce simp: slot_inv_def ExistsRO_def list_ex_iff sessions_on_def)
    have "slot_keep ((slots s ?p)\<lparr>User := User (slots s ?p)\<rparr>) (slot c)" using L Inl by simp
    moreover have "User (slots s ?p) \<in> {CKU_NOBODY, CKU_USER, CKU_SO}" using inv by (simp add: slot_inv_def)
    ultimately show ?thesis
      using user_step [where f = ?f and u = "User (slots s ?p)", OF assms(1) se f sess _ _ ro] s' Inl view_same_user [OF assms(1) se] by (simp add: follows_def)
  next
    case (Inr x)
    have k: "slot_keep ((slots s ?p)\<lparr>User := u\<rparr>) (slot c)" and nobody: "User (slots s ?p) = CKU_NOBODY"
      and ro: "u = CKU_SO \<Longrightarrow> \<not> ExistsRO (g_mSessions s) ?p"
      using L Inr by simp_all
    have u: "u \<in> {CKU_NOBODY, CKU_USER, CKU_SO}" using True by auto
    have rw: "rw'" if "u = CKU_SO" "open_sessions (view s) h' = Some (hSlot (slots s ?p), rw')" for h' rw'
      using ro that ExistsRO_view [OF assms(1) l] by (cases rw') auto
    show ?thesis
      using user_step [where f = ?f, OF assms(1) se f sess k u ro] s' Inr True nobody rw session_view [OF se] logged_in_listed [OF assms(1) l]
      by (auto simp: follows_def)
  qed
qed

lemma logout_follows:
  assumes "module_ok s" and "run_call env (Do_Logout h) s = (rv, ok, s')"
  shows "module_ok s' \<and> follows (Log_Out h) ok s s'"
proof (cases "bP11Initialized s \<and> (\<exists>se. map_of (g_mSessions s) h = Some se \<and> User (slots s (pSlot se)) \<noteq> CKU_NOBODY)")
  case False
  then have "s' = s" "\<not> ok"
    using assms(2) by (auto simp: C_Logout_def ret_guard with_session_def when_initialized_def GetSessionFromID_def split: if_splits option.splits)
  then show ?thesis using assms(1) by (simp add: follows_def)
next
  case True
  then obtain se where se: "map_of (g_mSessions s) h = Some se" and user: "User (slots s (pSlot se)) \<noteq> CKU_NOBODY" by auto
  let ?p = "pSlot se" and ?c = "\<lparr>sess = se, slot = slots s (pSlot se), wrld = world s\<rparr>"
  have inv: "slot_inv (g_mSessions s) ?p (slots s ?p)" "bUpdated (slots s ?p)" using module_ok_session(2,5) [OF assms(1) se] .
  then obtain sl w where f: "Logout env ?c = (Inr (), ?c\<lparr>slot := sl, wrld := w\<rparr>)" "slot_keep ((slots s ?p)\<lparr>User := CKU_NOBODY\<rparr>) sl"
    using Logout_slot [of ?c] by (auto simp: slot_inv_def)
  have s': "s' = snd (on_session h se (Logout env) s)" "ok \<longleftrightarrow> \<not> isl (fst (on_session h se (Logout env) s))"
    using assms(2) True se by (auto simp: C_Logout_def ret_guard with_session_def when_initialized_def GetSessionFromID_def)
  have k: "slot_keep ((slots s ?p)\<lparr>User := CKU_NOBODY\<rparr>) (slot (?c\<lparr>slot := sl, wrld := w\<rparr>))" using f(2) by simp
  have "sess (?c\<lparr>slot := sl, wrld := w\<rparr>) = se" "CKU_NOBODY \<in> {CKU_NOBODY, CKU_USER, CKU_SO}"
    "CKU_NOBODY = CKU_SO \<Longrightarrow> \<not> ExistsRO (g_mSessions s) ?p" by simp_all
  note step = user_step [where f = "Logout env", OF assms(1) se f(1) this(1) k this(2,3)]
  show ?thesis
    using step s' user session_view [OF se] logged_in_listed [OF assms(1) session_listed [OF assms(1) se]]
    by (simp add: follows_def)
qed

end

subsection \<open>Opening a session\<close>

lemma view_counter [simp]: "view (s\<lparr>dwSessionCnt := n\<rparr>) = view s"
  by (simp add: view_def session_of_def [abs_def])

lemma new_session [simp]:
  "pSlot (new_CSession p fl) = p" "flags (new_CSession p fl) = fl"
  by (simp_all add: new_CSession_def)

lemma open_view:
  assumes "module_ok s" and "p \<in> snd ` set (g_mSlots s)" and "hSlot sl = hSlot (slots s p)" and "User sl = User (slots s p)"
    and "pSlot se = p" and "map_of (g_mSessions s) h = None" and "is_RW se \<or> User (slots s p) \<noteq> CKU_SO"
  shows "spec_step (Open (hSlot (slots s p)) h (is_RW se)) (view s) = Some (view (put_slot p sl (map_put (g_mSessions s) h se) w s))"
proof -
  have "(\<lambda>x. map_option (session_of s) (map_of (map_put (g_mSessions s) h se) x)) =
      (open_sessions (view s))(h \<mapsto> (hSlot (slots s p), is_RW se))"
    using assms(5) by (auto simp: view_def session_of_def)
  moreover have "(logged_in (view s))(hSlot (slots s p) \<mapsto> User sl) = logged_in (view s)"
    using logged_in_listed [OF assms(1,2)] assms(4) by auto
  ultimately have "view (put_slot p sl (map_put (g_mSessions s) h se) w s) =
      (view s)\<lparr>open_sessions := (open_sessions (view s))(h \<mapsto> (hSlot (slots s p), is_RW se))\<rparr>"
    unfolding view_put_slot [OF assms(1-3)] by (simp add: view_def)
  moreover have "open_sessions (view s) h = None" using assms(6) by (simp add: view_def)
  ultimately show ?thesis using assms(7) logged_in_listed [OF assms(1,2)] by simp
qed

context card_module
begin

lemma calm_model: "calm s (snd (on_slot p (templateGetModel (tmpl env)) s))"
  by (rule calm_on_slot) (rule keeps_model)

lemma model_result: "\<exists>m. fst (on_slot p (templateGetModel (tmpl env)) s) = Inr m"
  using model_total [of "slots s p" "world s"] by (auto simp: on_slot_def split: prod.splits)

lemma open_follows:
  assumes "module_ok s" and "dwSessionCnt s \<noteq> -1" and "run_call env (Do_OpenSession i fl null) s = (rv, ok, s')"
  shows "module_ok s' \<and> follows (Open i (dwSessionCnt s + 1) (fl AND CKF_RW_SESSION \<noteq> 0)) ok s s'"
proof (cases "bP11Initialized s \<and> fl AND CKF_SERIAL_SESSION \<noteq> 0 \<and> \<not> null \<and>
    (\<exists>p. GetSlotFromID s i = Some p \<and> \<not> (fl AND CKF_RW_SESSION = 0 \<and> ExistsSO_RW (g_mSessions s) p (slots s p)))")
  case False
  then have "s' = s" "\<not> ok"
    using assms(3) by (auto simp: C_OpenSession_def ret_guard when_initialized_def Let_def split: if_splits option.splits)
  then show ?thesis using assms(1) by (simp add: follows_def)
next
  case True
  then obtain p where p: "GetSlotFromID s i = Some p"
    and so: "\<not> (fl AND CKF_RW_SESSION = 0 \<and> ExistsSO_RW (g_mSessions s) p (slots s p))" by blast
  note l = GetSlotFromID_listed [OF assms(1) p]
  let ?se = "(new_CSession p fl)\<lparr>slotID := i\<rparr>"
  let ?body = "bindS (Init env p s) (\<lambda>_ s. bindS (AddSession env ?se s) (\<lambda>h s.
                bindS (on_slot p (templateGetModel (tmpl env)) s) (\<lambda>_ s. (Inr h, s))))"
  have s': "s' = snd ?body" "ok \<longleftrightarrow> \<not> isl (fst ?body)"
    using assms(3) True p so by (auto simp: C_OpenSession_def ret_guard when_initialized_def Let_def)
  have rw: "is_RW ?se \<longleftrightarrow> fl AND CKF_RW_SESSION \<noteq> 0" by (simp add: is_RW_def)
  have user: "is_RW ?se \<or> User (slots s p) \<noteq> CKU_SO" using so rw ExistsSO_RW_iff [OF assms(1) l(1)] by auto
  obtain r1 s1 where i: "Init env p s = (r1, s1)" by (cases "Init env p s")
  obtain sl1 w1 where s1: "s1 = put_slot p sl1 (g_mSessions s) w1 s" "module_ok s1" "hSlot sl1 = hSlot (slots s p)"
      "User sl1 = User (slots s p)" "r1 = Inr () \<longrightarrow> bUpdated sl1"
    using Init_step [OF assms(1) l(1) i] by blast
  have v1: "view s1 = view s" unfolding s1(1) by (rule view_slot [OF s1(3,4)]) simp_all
  show ?thesis
  proof (cases r1)
    case (Inl e)
    then show ?thesis using s' i s1(2) v1 by (simp add: follows_def)
  next
    case (Inr x)
    obtain r2 s2 where a: "AddSession env ?se s1 = (r2, s2)" by (cases "AddSession env ?se s1")
    have p1: "pSlot ?se = p" "p \<in> snd ` set (g_mSlots s1)" "slots s1 p = sl1" "dwSessionCnt s1 = dwSessionCnt s"
        "g_mSessions s1 = g_mSessions s"
      using l(1) s1(1) by simp_all
    obtain sl w where sl: "hSlot sl = hSlot sl1" "User sl = User sl1" "module_ok s2"
      and res: "case r2 of
         Inl _ \<Rightarrow> s2 = (put_slot p sl (g_mSessions s) w s1)\<lparr>dwSessionCnt := dwSessionCnt s + 1\<rparr>
       | Inr h \<Rightarrow> h = dwSessionCnt s + 1 \<and> map_of (g_mSessions s) h = None \<and>
           s2 = (put_slot p sl (map_put (g_mSessions s) h (?se\<lparr>hSessionHandle := h\<rparr>)) w s1)\<lparr>dwSessionCnt := h\<rparr>"
    proof -
      have n: "dwSessionCnt s1 \<noteq> -1" "pSlot ?se \<in> snd ` set (g_mSlots s1)" "bUpdated (slots s1 (pSlot ?se))"
        "User (slots s1 (pSlot ?se)) = CKU_SO \<Longrightarrow> is_RW ?se"
        using assms(2) p1 s1(4,5) Inr user by auto
      show ?thesis using AddSession_step [OF s1(2) n a] that unfolding p1 by blast
    qed
    show ?thesis
    proof (cases r2)
      case (Inl e)
      have "view (put_slot p sl (g_mSessions s) w s1) = view s1"
        by (rule view_slot [of sl s1 p]) (use sl p1 in simp_all)
      then show ?thesis using s' i Inr a Inl sl(3) v1 res by (simp add: follows_def)
    next
      case h: (Inr h)
      let ?se' = "?se\<lparr>hSessionHandle := h\<rparr>"
      have h2: "h = dwSessionCnt s + 1" "map_of (g_mSessions s1) h = None"
          "s2 = (put_slot p sl (map_put (g_mSessions s1) h ?se') w s1)\<lparr>dwSessionCnt := h\<rparr>"
        using res h p1(5) by auto
      have se': "is_RW ?se' \<longleftrightarrow> is_RW ?se" "pSlot ?se' = p" by (simp_all add: is_RW_def)
      have "spec_step (Open i h (is_RW ?se)) (view s1) = Some (view s2)"
        using open_view [OF s1(2) p1(2), of sl ?se' h w] sl se' h2(2,3) p1(3) s1(3,4) l(2) user
        by (simp del: spec_step.simps)
      moreover have "calm s2 (snd (on_slot p (templateGetModel (tmpl env)) s2))" by (rule calm_model)
      moreover have "s' = snd (on_slot p (templateGetModel (tmpl env)) s2)" "ok"
        using s' i Inr a h model_result [of p s2]
        by (cases "on_slot p (templateGetModel (tmpl env)) s2"; auto)+
      ultimately show ?thesis using h2(1) v1 sl(3) rw by (simp add: follows_def calm_def del: spec_step.simps)
    qed
  qed
qed

end

end
