(* ===== verification/Hex_Data.thy ===== *)
theory Hex_Data
  imports Byte_Array
begin

section \<open>Hexadecimal text (shared/src/util/util.cpp)\<close>

text \<open>
  \<open>readHexData\<close>, \<open>setHexData\<close>, \<open>countHexData\<close> and \<open>dumpHexData\<close>.  A \<open>std::string\<close> may be indexed
  up to its size, where it holds the null character; an index beyond is undefined.  The
  comparisons \<open>i < slen - k\<close> are on \<open>size_t\<close>: for a string shorter than \<open>k\<close> the
  difference wraps around.
\<close>

definition str_at :: "string \<Rightarrow> nat \<Rightarrow> exn + char" where
  "str_at s i = (if i < length s then Inr (s ! i) else if i = length s then Inr (CHR 0x00) else Inl UB)"

definition size_minus :: "nat \<Rightarrow> nat \<Rightarrow> nat" where
  "size_minus slen k = (if k \<le> slen then slen - k else 2 ^ 64 + slen - k)"

definition isspace :: "char \<Rightarrow> bool" where
  "isspace c \<longleftrightarrow> c = CHR '' '' \<or> (9 \<le> (of_char c :: nat) \<and> (of_char c :: nat) \<le> 13)"

definition isxdigit :: "char \<Rightarrow> bool" where
  "isxdigit c \<longleftrightarrow>
     (48 \<le> (of_char c :: nat) \<and> (of_char c :: nat) \<le> 57) \<or>
     (65 \<le> (of_char c :: nat) \<and> (of_char c :: nat) \<le> 70) \<or>
     (97 \<le> (of_char c :: nat) \<and> (of_char c :: nat) \<le> 102)"

definition hex2byte :: "char \<Rightarrow> nat" where
  "hex2byte c =
     (let h = (of_char c :: nat) in
      if 48 \<le> h \<and> h \<le> 57 then h - 48
      else if 65 \<le> h \<and> h \<le> 70 then h + 10 - 65
      else if 97 \<le> h \<and> h \<le> 102 then h + 10 - 97
      else 0)"

text \<open>The test \<open>(i < slen - k) && data[i] == '0' && data[i + j] == x\<close>.\<close>

definition marker :: "string \<Rightarrow> nat \<Rightarrow> nat \<Rightarrow> nat \<Rightarrow> char \<Rightarrow> exn + bool" where
  "marker s i k j x =
     (if i < size_minus (length s) k \<and> s ! i = CHR ''0'' then
        bindE (str_at s (i + j)) (\<lambda>c. Inr (c = x))
      else Inr False)"

text \<open>The test \<open>i < (slen - 1) && data[i + 1] == 'h'\<close>.\<close>

definition h_suffix :: "string \<Rightarrow> nat \<Rightarrow> exn + bool" where
  "h_suffix s i =
     (if i < size_minus (length s) 1 then bindE (str_at s (i + 1)) (\<lambda>c. Inr (c = CHR ''h''))
      else Inr False)"

function hex_loop :: "string \<Rightarrow> nat \<Rightarrow> bytes \<Rightarrow> exn + bytes" where
  "hex_loop s i dt =
     (if i \<ge> length s then Inr dt
      else if isspace (s ! i) \<or> s ! i = CHR '','' then hex_loop s (i + 1) dt
      else if \<not> isxdigit (s ! i) then Inl (Logged_Error ''Invalid character'')
      else
        bindE (marker s i 3 3 (CHR ''h'')) (\<lambda>skip.
        if skip then hex_loop s (i + 1) dt
        else
          bindE (marker s i 2 1 (CHR ''x'')) (\<lambda>skip.
          if skip then hex_loop s (i + 2) dt
          else
            let v = hex2byte (s ! i); j = i + 1 in
            bindE (if j < length s then
                     if isxdigit (s ! j) then Inr (16 * v + hex2byte (s ! j))
                     else if \<not> isspace (s ! j) then Inl (Logged_Error ''Space required'')
                     else Inr v
                   else Inr v) (\<lambda>v.
            bindE (h_suffix s j) (\<lambda>h.
              hex_loop s (if h then j + 2 else j + 1) (dt @ [of_nat v]))))))"
  by pat_completeness auto
termination
  by (relation "measure (\<lambda>(s, i, dt). length s - i)") auto

declare hex_loop.simps [simp del]

definition readHexData :: "string \<Rightarrow> exn + bytes" where
  "readHexData s = hex_loop s 0 []"

text \<open>\<open>setHexData\<close>: the octets it writes to the buffer; it returns their number.\<close>

definition setHexData :: "string \<Rightarrow> exn + bytes" where
  "setHexData s = hex_loop s 0 []"

function count_loop :: "string \<Rightarrow> nat \<Rightarrow> nat \<Rightarrow> exn + nat" where
  "count_loop s i cnt =
     (if i \<ge> length s then Inr cnt
      else if isspace (s ! i) \<or> s ! i = CHR '','' then count_loop s (i + 1) cnt
      else if \<not> isxdigit (s ! i) then Inl (Logged_Error ''Invalid character'')
      else
        bindE (marker s i 3 3 (CHR ''h'')) (\<lambda>skip.
        if skip then count_loop s (i + 1) cnt
        else
          bindE (marker s i 2 1 (CHR ''x'')) (\<lambda>skip.
          if skip then count_loop s (i + 2) cnt
          else
            let j = i + 1 in
            if j < length s \<and> \<not> isspace (s ! j) then Inl (Logged_Error ''Space required'')
            else
              bindE (h_suffix s j) (\<lambda>h. count_loop s (if h then j + 2 else j + 1) (cnt + 1)))))"
  by pat_completeness auto
termination
  by (relation "measure (\<lambda>(s, i, cnt). length s - i)") auto

declare count_loop.simps [simp del]

definition countHexData :: "string \<Rightarrow> exn + nat" where
  "countHexData s = count_loop s 0 0"

text \<open>\<open>HexByte\<close> and \<open>dumpHexData\<close> (\<open>std::hex\<close>, width 2, fill \<open>0\<close>).\<close>

definition hex_digit :: "bool \<Rightarrow> nat \<Rightarrow> char" where
  "hex_digit uppercase n =
     char_of (if n < 10 then 48 + n else if uppercase then 55 + n else 87 + n)"

definition HexByte :: "byte \<Rightarrow> bool \<Rightarrow> string" where
  "HexByte b uppercase = [hex_digit uppercase (unat b div 16), hex_digit uppercase (unat b mod 16)]"

definition dumpHexData :: "bytes \<Rightarrow> bool \<Rightarrow> bool \<Rightarrow> string" where
  "dumpHexData data withSpace uppercase =
     concat (map (\<lambda>b. HexByte b uppercase @ (if withSpace then '' '' else '''')) data)"

subsection \<open>Reading back a dump\<close>

lemma of_char_hex_digit:
  "n < 16 \<Longrightarrow> (of_char (hex_digit up n) :: nat) = (if n < 10 then 48 + n else if up then 55 + n else 87 + n)"
  by (auto simp: hex_digit_def)

lemma hex_digit_simps:
  assumes "n < 16"
  shows "isxdigit (hex_digit up n)" and "hex2byte (hex_digit up n) = n"
    and "\<not> isspace (hex_digit up n)" and "hex_digit up n \<noteq> CHR '',''"
    and "hex_digit up n \<noteq> CHR ''h''" and "hex_digit up n \<noteq> CHR ''x''"
proof -
  note oc = of_char_hex_digit [OF assms, of up]
  show "isxdigit (hex_digit up n)" using assms by (auto simp: isxdigit_def oc)
  show "hex2byte (hex_digit up n) = n" using assms by (auto simp: hex2byte_def oc Let_def)
  have ne: "hex_digit up n \<noteq> c" if "(of_char c :: nat) \<notin> {48..57} \<union> {65..70} \<union> {97..102}" for c
    using that oc assms by (auto split: if_splits)
  show "\<not> isspace (hex_digit up n)" using assms ne [of "CHR '' ''"] by (auto simp: isspace_def oc)
  show "hex_digit up n \<noteq> CHR '',''" "hex_digit up n \<noteq> CHR ''h''" "hex_digit up n \<noteq> CHR ''x''"
    by (rule ne; simp)+
qed

text \<open>No marker of the reader's syntax occurs in a dump: no digit is \<open>h\<close> or \<open>x\<close>.\<close>

lemma marker_none: "k \<le> length s \<Longrightarrow> j \<le> k \<Longrightarrow> x \<notin> set s \<Longrightarrow> 0 < j \<Longrightarrow> marker s i k j x = Inr False"
  by (auto simp: marker_def str_at_def size_minus_def in_set_conv_nth)

lemma h_suffix_none: "s \<noteq> [] \<Longrightarrow> CHR ''h'' \<notin> set s \<Longrightarrow> h_suffix s i = Inr False"
  by (auto simp: h_suffix_def str_at_def size_minus_def in_set_conv_nth Suc_le_eq)

lemma nibbles: "unat (b :: byte) div 16 < 16" "unat b mod 16 < 16"
proof -
  have "unat b < 256" using unsigned_less [of b, where ?'a = nat] by simp
  then show "unat b div 16 < 16" "unat b mod 16 < 16" by simp_all
qed

lemma HexByte_value: "16 * of_nat (unat b div 16) + of_nat (unat b mod 16) = (b :: byte)"
proof -
  have "of_nat (16 * (unat b div 16) + unat b mod 16) = b" by (simp only: mult_div_mod_eq) simp
  then show ?thesis by (simp only: of_nat_add of_nat_mult of_nat_numeral)
qed

lemma dump_Cons: "dumpHexData (b # ba) sp up = HexByte b up @ (if sp then '' '' else '''') @ dumpHexData ba sp up"
  by (simp add: dumpHexData_def)

lemma dump_no_marker: "CHR ''h'' \<notin> set (dumpHexData ba sp up)" "CHR ''x'' \<notin> set (dumpHexData ba sp up)"
  by (auto simp: dumpHexData_def HexByte_def hex_digit_simps nibbles
      dest!: sym [of "CHR ''h''"] sym [of "CHR ''x''"])

lemma hex_loop_octet:
  assumes s: "s = pre @ HexByte b up @ rest" and marks: "CHR ''h'' \<notin> set s" "CHR ''x'' \<notin> set s"
    and len: "3 \<le> length s"
  shows "hex_loop s (length pre) dt = hex_loop s (length pre + 2) (dt @ [b])"
proof -
  have at: "s ! length pre = hex_digit up (unat b div 16)"
    "s ! Suc (length pre) = hex_digit up (unat b mod 16)" "length pre + 1 < length s"
    by (simp_all add: s HexByte_def nth_append)
  have "marker s (length pre) 3 3 (CHR ''h'') = Inr False" "marker s (length pre) 2 1 (CHR ''x'') = Inr False"
    "h_suffix s (Suc (length pre)) = Inr False"
    using marks len by (auto intro!: marker_none h_suffix_none)
  with at show ?thesis
    by (subst hex_loop.simps) (simp add: hex_digit_simps nibbles HexByte_value)
qed

lemma hex_loop_space: "i < length s \<Longrightarrow> s ! i = CHR '' '' \<Longrightarrow> hex_loop s i dt = hex_loop s (Suc i) dt"
  by (subst hex_loop.simps) (simp add: isspace_def)

lemma hex_loop_dump:
  assumes "s = pre @ dumpHexData ba sp up" "CHR ''h'' \<notin> set s" "CHR ''x'' \<notin> set s" "3 \<le> length s"
  shows "hex_loop s (length pre) dt = Inr (dt @ ba)"
  using assms(1)
proof (induction ba arbitrary: pre dt)
  case Nil
  then show ?case by (subst hex_loop.simps) (simp add: dumpHexData_def)
next
  case (Cons b ba)
  let ?sp = "if sp then '' '' else ''''"
  have s: "s = pre @ HexByte b up @ ?sp @ dumpHexData ba sp up" using Cons.prems by (simp add: dump_Cons)
  then have IH: "hex_loop s (length (pre @ HexByte b up @ ?sp)) (dt @ [b]) = Inr (dt @ b # ba)"
    using Cons.IH [of "pre @ HexByte b up @ ?sp" "dt @ [b]"] by simp
  have "hex_loop s (length pre + 2) (dt @ [b]) = hex_loop s (length (pre @ HexByte b up @ ?sp)) (dt @ [b])"
    using hex_loop_space [of "length pre + 2" s] s by (auto simp: HexByte_def nth_append)
  then show ?case using hex_loop_octet [OF s assms(2-4)] IH by simp
qed

text \<open>
  C40: what \<open>readHexData\<close> makes of the text \<open>dumpHexData\<close> printed: the same octets, in all four
  formats; except for a single octet below 16 printed without a space, for which the test
  \<open>i < slen - 3\<close> wraps around and the reader indexes the string past its end.
\<close>

theorem hex_roundtrip:
  "readHexData (dumpHexData ba sp up) =
     (if \<not> sp \<and> length ba = 1 \<and> unat (hd ba) < 16 then Inl UB else Inr ba)"
proof (cases "3 \<le> length (dumpHexData ba sp up)")
  case True
  then have "\<not> (\<not> sp \<and> length ba = 1)" by (auto simp: dumpHexData_def HexByte_def length_Suc_conv)
  with True show ?thesis
    using hex_loop_dump [of _ "[]" ba sp up "[]"] dump_no_marker [of ba sp up]
    by (auto simp: readHexData_def)
next
  case False
  then consider "ba = []" | b where "ba = [b]" "\<not> sp"
    by (cases ba; cases "tl ba") (auto simp: dumpHexData_def HexByte_def split: if_splits)
  then show ?thesis
  proof cases
    case 1
    then show ?thesis by (simp add: readHexData_def dumpHexData_def hex_loop.simps)
  next
    case (2 b)
    have zero: "hex_digit up (unat b div 16) = CHR ''0'' \<longleftrightarrow> unat b < 16"
      using of_char_hex_digit [OF nibbles(1), of up b] of_char_eq_iff [of "hex_digit up (unat b div 16)" "CHR ''0''", where ?'a = nat]
      by (auto split: if_splits)
    have "marker s 0 2 1 (CHR ''x'') = Inr False" "h_suffix s 1 = Inr False"
      if "s = dumpHexData ba sp up" for s
      using that 2 dump_no_marker [of ba sp up] by (auto intro!: marker_none h_suffix_none simp: dumpHexData_def HexByte_def)
    with 2 zero show ?thesis
      unfolding readHexData_def
      by (subst hex_loop.simps, subst hex_loop.simps)
        (simp add: hex_digit_simps nibbles HexByte_value dumpHexData_def HexByte_def
          marker_def [of _ _ 3] size_minus_def str_at_def)
  qed
qed

end
