(* ===== verification/Cie_Template.thy ===== *)
theory Cie_Template
  imports Slot Asn_Parser Hex_Data
begin

section \<open>The CIE card template (pkcs11/src/pkcs11/cie\_p11\_template.cpp)\<close>

text \<open>
  The functions the module installs in its template's table.  The IAS protocol object
  (\<open>shared/src/csp/ias.cpp\<close>) is the interface record below: its operations exchange APDUs with
  the card behind a card handle and change the object's own state (\<open>Cie_Program\<close> fills it with
  the model of that file).  AES (\<open>crypto/aes.cpp\<close>) is the record's too; the X.509 reader is OpenSSL's.  The progress callbacks and the desktop
  notifications have no effect on the results.
\<close>

type_synonym ('i, 'w, 'a) ias_op = "ulong \<Rightarrow> 'i \<times> 'w \<Rightarrow> (exn + 'a) \<times> 'i \<times> 'w"

record ('i, 'w) ias_functions =
  new_IAS :: "bytes \<Rightarrow> 'i"
  SelectAID_IAS :: "('i, 'w, unit) ias_op"
  SelectAID_CIE :: "('i, 'w, unit) ias_op"
  ReadPAN :: "('i, 'w, unit) ias_op"
  ReadDappPubKey :: "('i, 'w, unit) ias_op"
  InitEncKey :: "('i, 'w, unit) ias_op"
  InitDHParam :: "('i, 'w, unit) ias_op"
  InitExtAuthKeyParam :: "('i, 'w, unit) ias_op"
  DHKeyExchange :: "('i, 'w, unit) ias_op"
  DAPP :: "('i, 'w, unit) ias_op"
  token_Reset :: "('i, 'w, unit) ias_op"
  GetCertificate :: "('i, 'w, bytes) ias_op"
  GetFirstPIN :: "('i, 'w, bytes) ias_op"
  VerifyPIN :: "bytes \<Rightarrow> ('i, 'w, 16 word) ias_op"
  VerifyPUK :: "bytes \<Rightarrow> ('i, 'w, 16 word) ias_op"
  UnblockPIN :: "('i, 'w, 16 word) ias_op"
  ChangePIN_old_new :: "bytes \<Rightarrow> bytes \<Rightarrow> ('i, 'w, 16 word) ias_op"
  ChangePIN_new :: "bytes \<Rightarrow> ('i, 'w, 16 word) ias_op"
  ias_Sign :: "bytes \<Rightarrow> ('i, 'w, bytes) ias_op"
  DappPubKey_isEmpty :: "'i \<Rightarrow> bool"
  PAN :: "'i \<Rightarrow> bytes"

text \<open>What \<open>GetCertInfo\<close> extracts from the certificate.\<close>

record cert_info =
  serial :: bytes
  issuer :: bytes
  subject :: bytes
  notBefore :: bytes
  notAfter :: bytes
  modulus :: bytes
  publicExponent :: bytes

record ('i, 'k, 'w) cie_env =
  ias_fns :: "('i, 'w) ias_functions"
  cie_transport :: "'w transport_functions"
  aes_Init :: "'w \<Rightarrow> (exn + 'k) \<times> 'w"
  aes_Encode :: "'k \<Rightarrow> bytes \<Rightarrow> exn + bytes"
  aes_Decode :: "'k \<Rightarrow> bytes \<Rightarrow> exn + bytes"
  GetCertInfo :: "bytes \<Rightarrow> exn + cert_info"

record ('i, 'k) cie_data =
  userType :: ulong
  aesKey :: 'k
  init :: bool
  ias_obj :: 'i
  SessionPIN :: bytes

type_synonym ('i, 'k, 'w, 'a) cie_op = "(('i, 'k) cie_data, 'w, 'a) card_op"

subsection \<open>Scoped objects\<close>

text \<open>\<open>safeConnection\<close>, \<open>CCardLocker\<close> and \<open>safeTransaction\<close>: what they do around a block.\<close>

definition with_connection :: "'w transport_functions \<Rightarrow> ulong \<Rightarrow> ('s \<times> 'w \<Rightarrow> (exn + 'a) \<times> 's \<times> 'w)
    \<Rightarrow> 's \<times> 'w \<Rightarrow> (exn + 'a) \<times> 's \<times> 'w" where
  "with_connection tr hc f st =
     (case f st of (r, x, w) \<Rightarrow> (r, x, if hc \<noteq> 0 then snd (Disconnect tr hc w) else w))"

definition with_locker :: "'w transport_functions \<Rightarrow> ulong \<Rightarrow> ('s \<times> 'w \<Rightarrow> (exn + 'a) \<times> 's \<times> 'w)
    \<Rightarrow> 's \<times> 'w \<Rightarrow> (exn + 'a) \<times> 's \<times> 'w" where
  "with_locker tr hc f st =
     (case st of (x, w) \<Rightarrow>
        case f (x, snd (BeginTransaction tr hc w)) of (r, x, w) \<Rightarrow> (r, x, snd (EndTransaction tr hc w)))"

definition with_transaction :: "'w transport_functions \<Rightarrow> ulong \<Rightarrow> ('s \<times> 'w \<Rightarrow> (exn + 'a) \<times> 's \<times> 'w)
    \<Rightarrow> 's \<times> 'w \<Rightarrow> (exn + 'a) \<times> 's \<times> 'w" where
  "with_transaction tr hc f st =
     (case st of (x, w) \<Rightarrow>
        case BeginTransaction tr hc w of (ris, w) \<Rightarrow>
          case f (x, w) of (r, x, w) \<Rightarrow>
            (r, x, if hc \<noteq> 0 \<and> ris = 0 then snd (EndTransaction tr hc w) else w))"

definition with_card :: "('i, 'k, 'w) cie_env \<Rightarrow> ('i, 'k, 'w, 'a) cie_op \<Rightarrow> ('i, 'k, 'w, 'a) cie_op" where
  "with_card ce f st =
     (let hc = hCard (fst st) in
      with_connection (cie_transport ce) hc (with_locker (cie_transport ce) hc f) st)"

text \<open>An operation of the \<open>ias\<close> member of the slot's \<open>CIEData\<close>, and access to the data.\<close>

definition cie_ias :: "('i, 'w, 'a) ias_op \<Rightarrow> ('i, 'k, 'w, 'a) cie_op" where
  "cie_ias f = (\<lambda>(sl, w).
     case pTemplateData sl of
       None \<Rightarrow> (Inl UB, sl, w)
     | Some d \<Rightarrow>
         (case f (hCard sl) (ias_obj d, w) of (r, i, w) \<Rightarrow>
            (r, sl\<lparr>pTemplateData := Some (d\<lparr>ias_obj := i\<rparr>)\<rparr>, w)))"

definition cie_get :: "(('i, 'k) cie_data \<Rightarrow> 'a) \<Rightarrow> ('i, 'k, 'w, 'a) cie_op" where
  "cie_get g = (\<lambda>(sl, w).
     case pTemplateData sl of None \<Rightarrow> (Inl UB, sl, w) | Some d \<Rightarrow> (Inr (g d), sl, w))"

definition cie_upd :: "(('i, 'k) cie_data \<Rightarrow> ('i, 'k) cie_data) \<Rightarrow> ('i, 'k, 'w, unit) cie_op" where
  "cie_upd g = (\<lambda>(sl, w).
     case pTemplateData sl of
       None \<Rightarrow> (Inl UB, sl, w)
     | Some d \<Rightarrow> (Inr (), sl\<lparr>pTemplateData := Some (g d)\<rparr>, w))"

text \<open>\<open>f; g\<close> for two operations whose first has no result.\<close>

definition seq :: "('d, 'w, unit) card_op \<Rightarrow> ('d, 'w, 'a) card_op \<Rightarrow> ('d, 'w, 'a) card_op" where
  "seq f g st = bindS (f st) (\<lambda>_ st. g st)"

definition return :: "'a \<Rightarrow> ('d, 'w, 'a) card_op" where
  "return x st = (Inr x, st)"

definition throw :: "exn \<Rightarrow> ('d, 'w, 'a) card_op" where
  "throw e st = (Inl e, st)"

definition get_then :: "('d, 'w, 'b) card_op \<Rightarrow> ('b \<Rightarrow> ('d, 'w, 'a) card_op) \<Rightarrow> ('d, 'w, 'a) card_op" where
  "get_then f g st = bindS (f st) g"

subsection \<open>PIN rules (IAS::IsValidPinLength, IAS::ComposeFullPIN)\<close>

definition IsValidPinLength :: "nat \<Rightarrow> bool" where
  "IsValidPinLength len \<longleftrightarrow> len = 8 \<or> len = 4"

definition ComposeFullPIN :: "('i, 'w) ias_functions \<Rightarrow> bytes \<Rightarrow> ('i, 'w, bytes) ias_op" where
  "ComposeFullPIN ia pin hc st =
     (if length pin \<noteq> 8 then bindS (GetFirstPIN ia hc st) (\<lambda>first st. (Inr (first @ pin), st))
      else (Inr pin, st))"

subsection \<open>Card and session initialisation\<close>

definition new_CIEData :: "('i, 'k, 'w) cie_env \<Rightarrow> bytes \<Rightarrow> 'w \<Rightarrow> (exn + ('i, 'k) cie_data) \<times> 'w" where
  "new_CIEData ce atr w =
     bindS (aes_Init ce w) (\<lambda>k w.
        (Inr \<lparr>userType = - 1, aesKey = k, init = False, ias_obj = new_IAS (ias_fns ce) atr, SessionPIN = []\<rparr>, w))"

definition CIEtemplateInitCard :: "('i, 'k, 'w) cie_env \<Rightarrow> ('i, 'k, 'w, unit) cie_op" where
  "CIEtemplateInitCard ce st =
     bindS (GetATR (cie_transport ce) st) (\<lambda>atr (sl, w).
       case new_CIEData ce atr w of
         (Inl e, w) \<Rightarrow> (Inl e, sl, w)
       | (Inr d, w) \<Rightarrow> (Inr (), sl\<lparr>pTemplateData := Some d\<rparr>, w))"

text \<open>The data are deleted: the pointer that stays behind is not usable, like null.\<close>

definition CIEtemplateFinalCard :: "('i, 'k, 'w, unit) cie_op" where
  "CIEtemplateFinalCard = (\<lambda>(sl, w). (Inr (), sl\<lparr>pTemplateData := None\<rparr>, w))"

definition CIEtemplateFinalSession :: "('i, 'k, 'w, unit) cie_op" where
  "CIEtemplateFinalSession st = (Inr (), st)"

text \<open>
  The part of \<open>CIEtemplateInitSession\<close> on the card: reading the certificate.
\<close>

definition read_certificate :: "('i, 'k, 'w) cie_env \<Rightarrow> ('i, 'k, 'w, bytes) cie_op" where
  "read_certificate ce =
     (let ia = ias_fns ce in
      seq (cie_ias (SelectAID_IAS ia))
     (seq (cie_ias (ReadPAN ia))
     (seq (cie_ias (SelectAID_CIE ia))
     (seq (cie_ias (ReadDappPubKey ia))
     (seq (cie_ias (InitEncKey ia))
     (get_then (cie_ias (GetCertificate ia)) (\<lambda>certRaw.
        if certRaw = [] then throw (Logged_Error ''CIEtemplateInitSession: certificate unavailable'')
        else return certRaw)))))))"

text \<open>A C string literal used as a label: \<open>VarToByteArray\<close> of the array includes its null.\<close>

definition label_bytes :: "string \<Rightarrow> bytes" where
  "label_bytes s = str_bytes s @ [0]"

text \<open>The first eight octets of a time string, \<open>memcpy\<close>'d from \<open>c_str()\<close>: a date.\<close>

definition date_bytes :: "bytes \<Rightarrow> exn + bytes" where
  "date_bytes t = (if length t < 7 then Inl UB else Inr (take 8 (t @ [0])))"

abbreviation (input) CKK_RSA :: ulong where "CKK_RSA \<equiv> 0"
abbreviation (input) CKC_X_509 :: ulong where "CKC_X_509 \<equiv> 0"

definition add_attributes :: "p11_object \<Rightarrow> (ulong \<times> bytes) list \<Rightarrow> p11_object" where
  "add_attributes ob as = foldl (\<lambda>ob (ty, v). addAttribute ob ty v) ob as"

definition cie_public_key :: "cert_info \<Rightarrow> p11_object" where
  "cie_public_key ci = add_attributes new_P11PublicKey
     [(CKA_LABEL, label_bytes ''CIE Public Key''), (CKA_ID, [1]), (CKA_PRIVATE, [0]), (CKA_TOKEN, [1]),
      (CKA_VERIFY, [1]), (CKA_KEY_TYPE, VarToByteArray64 CKK_RSA),
      (CKA_MODULUS, modulus ci), (CKA_PUBLIC_EXPONENT, publicExponent ci),
      (CKA_MODULUS_BITS, VarToByteArray64 (of_nat (length (modulus ci)) * 8))]"

definition cie_private_key :: "cert_info \<Rightarrow> p11_object" where
  "cie_private_key ci = add_attributes new_P11PrivateKey
     [(CKA_LABEL, label_bytes ''CIE Private Key''), (CKA_ID, [1]), (CKA_PRIVATE, [1]), (CKA_TOKEN, [1]),
      (CKA_KEY_TYPE, VarToByteArray64 CKK_RSA), (CKA_SIGN, [1]),
      (CKA_MODULUS, modulus ci), (CKA_PUBLIC_EXPONENT, publicExponent ci)]"

definition cie_certificate :: "cert_info \<Rightarrow> bytes \<Rightarrow> bytes \<Rightarrow> bytes \<Rightarrow> p11_object" where
  "cie_certificate ci start stop val = add_attributes new_P11Certificate
     [(CKA_LABEL, label_bytes ''CIE Certificate''), (CKA_ID, [1]), (CKA_PRIVATE, [0]), (CKA_TOKEN, [1]),
      (CKA_CERTIFICATE_TYPE, VarToByteArray64 CKC_X_509), (CKA_ISSUER, issuer ci),
      (CKA_SERIAL_NUMBER, serial ci), (CKA_SUBJECT, subject ci), (CKA_START_DATE, start),
      (CKA_END_DATE, stop), (CKA_VALUE, val)]"

text \<open>The objects from the certificate: public key, private key and certificate.\<close>

definition cie_objects :: "('i, 'k, 'w) cie_env \<Rightarrow> bytes \<Rightarrow> exn + p11_object list" where
  "cie_objects ce certRaw =
     bindE (GetCertInfo ce certRaw) (\<lambda>ci.
     bindE (date_bytes (notBefore ci)) (\<lambda>start.
     bindE (date_bytes (notAfter ci)) (\<lambda>stop.
     bindE (GetASN1DataLenght certRaw) (\<lambda>len.
     bindE (ba_left certRaw len) (\<lambda>val.
       Inr [cie_public_key ci, cie_private_key ci, cie_certificate ci start stop val])))))"

definition add_object :: "'d cslot \<Rightarrow> p11_object \<Rightarrow> 'd cslot" where
  "add_object sl ob = (case make_object sl ob of (p, sl) \<Rightarrow> AddP11Object sl p)"

definition CIEtemplateInitSession :: "('i, 'k, 'w) cie_env \<Rightarrow> ('i, 'k, 'w, unit) cie_op" where
  "CIEtemplateInitSession ce =
     get_then (cie_get init) (\<lambda>done.
       if done then return ()
       else
         seq (Connect (cie_transport ce))
         (get_then (with_card ce (read_certificate ce)) (\<lambda>certRaw (sl, w).
            case cie_objects ce certRaw of
              Inl e \<Rightarrow> (Inl e, sl, w)
            | Inr obs \<Rightarrow> cie_upd (\<lambda>d. d\<lparr>init := True\<rparr>) (foldl add_object sl obs, w))))"

subsection \<open>Recognition\<close>

definition CIEtemplateMatchCard :: "('i, 'k, 'w) cie_env \<Rightarrow> ('i, 'k, 'w, bool) cie_op" where
  "CIEtemplateMatchCard ce =
     seq (Connect (cie_transport ce)) (\<lambda>st.
       let hc = hCard (fst st); tr = cie_transport ce; ia = ias_fns ce in
       with_connection tr hc (get_then (GetATR tr) (\<lambda>atr.
         with_transaction tr hc (\<lambda>(sl, w).
           case bindS (SelectAID_IAS ia hc (new_IAS ia atr, w)) (\<lambda>_ st. ReadPAN ia hc st) of
             (Inl e, _, w) \<Rightarrow> (Inl e, sl, w)
           | (Inr _, _, w) \<Rightarrow> (Inr True, sl, w)))) st)"

definition CIEtemplateGetSerial :: "('i, 'k, 'w) cie_env \<Rightarrow> ('i, 'k, 'w, bytes) cie_op" where
  "CIEtemplateGetSerial ce =
     seq (Connect (cie_transport ce))
       (with_card ce (get_then (GetATR (cie_transport ce)) (\<lambda>atr (sl, w).
          let ia = ias_fns ce; hc = hCard sl in
          case bindS (SelectAID_IAS ia hc (new_IAS ia atr, w)) (\<lambda>_ st. ReadPAN ia hc st) of
            (Inl e, _, w) \<Rightarrow> (Inl e, sl, w)
          | (Inr _, i, w) \<Rightarrow>
              (bindE (ba_mid_n (PAN ia i) 5 6) (\<lambda>num. Inr (str_bytes (dumpHexData num False True))), sl, w))))"

definition CIEtemplateGetModel :: "('i, 'k, 'w, string) cie_op" where
  "CIEtemplateGetModel st = (Inr ''CIE 3.0'', st)"

abbreviation (input) CKF_WRITE_PROTECTED :: ulong where "CKF_WRITE_PROTECTED \<equiv> 2"
abbreviation (input) CKF_LOGIN_REQUIRED :: ulong where "CKF_LOGIN_REQUIRED \<equiv> 4"
abbreviation (input) CKF_USER_PIN_INITIALIZED :: ulong where "CKF_USER_PIN_INITIALIZED \<equiv> 8"
abbreviation (input) CKF_TOKEN_INITIALIZED :: ulong where "CKF_TOKEN_INITIALIZED \<equiv> 0x400"

definition CIEtemplateGetTokenFlags :: "('i, 'k, 'w, ulong) cie_op" where
  "CIEtemplateGetTokenFlags st =
     (Inr (CKF_LOGIN_REQUIRED OR CKF_USER_PIN_INITIALIZED OR CKF_TOKEN_INITIALIZED OR
           CKF_WRITE_PROTECTED), st)"

subsection \<open>Login, logout and PIN operations\<close>

text \<open>The reading of the status word of the PIN or PUK verification.\<close>

definition login_status :: "ulong \<Rightarrow> 16 word \<Rightarrow> exn + unit" where
  "login_status ut sw =
     (if sw = 0x6983 \<and> (ut = CKU_USER \<or> ut = CKU_SO) then throw_p11 CKR_PIN_LOCKED
      else if 0x63C0 \<le> sw \<and> sw \<le> 0x63CF then throw_p11 CKR_PIN_INCORRECT
      else if sw = 0x6700 then throw_p11 CKR_PIN_INCORRECT
      else if sw = 0x6300 then throw_p11 CKR_PIN_INCORRECT
      else if sw \<noteq> 0x9000 then Inl (Scard_Error sw)
      else Inr ())"

definition compose_pin :: "('i, 'k, 'w) cie_env \<Rightarrow> bytes \<Rightarrow> ('i, 'k, 'w, bytes) cie_op" where
  "compose_pin ce pin = cie_ias (ComposeFullPIN (ias_fns ce) pin)"

definition CIEtemplateLogin :: "('i, 'k, 'w) cie_env \<Rightarrow> ulong \<Rightarrow> bytes \<Rightarrow> ('i, 'k, 'w, unit) cie_op" where
  "CIEtemplateLogin ce ut pin =
     (let ia = ias_fns ce in
      seq (cie_upd (\<lambda>d. d\<lparr>SessionPIN := [], userType := - 1\<rparr>))
      (if ut = CKU_USER \<and> \<not> IsValidPinLength (length pin) then throw (P11_Error CKR_PIN_LEN_RANGE)
       else
         seq (Connect (cie_transport ce))
        (seq (cie_ias (token_Reset ia))
        (with_card ce
          (seq (cie_ias (SelectAID_IAS ia))
          (seq (cie_ias (SelectAID_CIE ia))
          (seq (cie_ias (InitDHParam ia))
          (seq (get_then (cie_get (\<lambda>d. DappPubKey_isEmpty ia (ias_obj d))) (\<lambda>e.
                  if e then cie_ias (ReadDappPubKey ia) else return ()))
          (seq (cie_ias (InitExtAuthKeyParam ia))
          (seq (cie_ias (DHKeyExchange ia))
          (seq (cie_ias (DAPP ia))
          (get_then (if ut = CKU_USER then
                       get_then (compose_pin ce pin) (\<lambda>full. cie_ias (VerifyPIN ia full))
                     else if ut = CKU_SO then cie_ias (VerifyPUK ia pin)
                     else throw (P11_Error CKR_ARGUMENTS_BAD)) (\<lambda>sw.
             case login_status ut sw of
               Inl e \<Rightarrow> throw e
             | Inr _ \<Rightarrow>
                 get_then (cie_get aesKey) (\<lambda>k.
                   case aes_Encode ce k pin of
                     Inl e \<Rightarrow> throw e
                   | Inr c \<Rightarrow> cie_upd (\<lambda>d. d\<lparr>SessionPIN := c, userType := ut\<rparr>)))))))))))))))"

definition CIEtemplateLogout :: "ulong \<Rightarrow> ('i, 'k, 'w, unit) cie_op" where
  "CIEtemplateLogout ut = cie_upd (\<lambda>d. d\<lparr>userType := - 1, SessionPIN := []\<rparr>)"

definition session_pin :: "('i, 'k, 'w) cie_env \<Rightarrow> ('i, 'k, 'w, bytes) cie_op" where
  "session_pin ce =
     get_then (cie_get (\<lambda>d. aes_Decode ce (aesKey d) (SessionPIN d))) (\<lambda>r.
       case r of Inl e \<Rightarrow> throw e | Inr pin \<Rightarrow> return pin)"

text \<open>A status word that has to be \<open>9000\<close>.\<close>

definition require_9000 :: "('i, 'k, 'w, 16 word) cie_op \<Rightarrow> ck_rv \<Rightarrow> ('i, 'k, 'w, unit) cie_op" where
  "require_9000 f rv =
     get_then f (\<lambda>sw. if sw \<noteq> 0x9000 then throw (P11_Error rv) else return ())"

definition CIEtemplateSign :: "('i, 'k, 'w) cie_env \<Rightarrow> obj_ptr \<Rightarrow> bytes \<Rightarrow> ulong
    \<Rightarrow> ('i, 'k, 'w, bytes) cie_op" where
  "CIEtemplateSign ce p baSignBuffer mech =
     (let ia = ias_fns ce in
      get_then (cie_get userType) (\<lambda>ut.
      if ut = CKU_USER then
        seq (Connect (cie_transport ce))
       (seq (cie_ias (token_Reset ia))
       (with_card ce
         (get_then (session_pin ce) (\<lambda>pin.
          seq (cie_ias (SelectAID_IAS ia))
         (seq (cie_ias (SelectAID_CIE ia))
         (seq (cie_ias (DHKeyExchange ia))
         (seq (cie_ias (DAPP ia))
         (get_then (compose_pin ce pin) (\<lambda>full.
          seq (require_9000 (cie_ias (VerifyPIN ia full)) CKR_PIN_INCORRECT)
              (cie_ias (ias_Sign ia baSignBuffer)))))))))))
      else return []))"

definition CIEtemplateInitPIN :: "('i, 'k, 'w) cie_env \<Rightarrow> bytes \<Rightarrow> ('i, 'k, 'w, unit) cie_op" where
  "CIEtemplateInitPIN ce baPin =
     (let ia = ias_fns ce in
      if \<not> IsValidPinLength (length baPin) then throw (P11_Error CKR_PIN_LEN_RANGE)
      else
        get_then (cie_get userType) (\<lambda>ut.
        if ut = CKU_SO then
          seq (Connect (cie_transport ce))
         (seq (cie_ias (token_Reset ia))
         (with_card ce
           (get_then (session_pin ce) (\<lambda>pin.
            seq (cie_ias (SelectAID_IAS ia))
           (seq (cie_ias (SelectAID_CIE ia))
           (seq (cie_ias (DHKeyExchange ia))
           (seq (cie_ias (DAPP ia))
           (seq (require_9000 (cie_ias (VerifyPUK ia pin)) CKR_PIN_INCORRECT)
           (seq (require_9000 (cie_ias (UnblockPIN ia)) CKR_GENERAL_ERROR)
           (get_then (compose_pin ce baPin) (\<lambda>changePIN.
              require_9000 (cie_ias (ChangePIN_new ia changePIN)) CKR_GENERAL_ERROR)))))))))))
        else throw (P11_Error CKR_FUNCTION_NOT_SUPPORTED)))"

definition CIEtemplateSetPIN :: "('i, 'k, 'w) cie_env \<Rightarrow> bytes \<Rightarrow> bytes \<Rightarrow> ulong
    \<Rightarrow> ('i, 'k, 'w, unit) cie_op" where
  "CIEtemplateSetPIN ce baOldPin baNewPin user =
     (let ia = ias_fns ce in
      if \<not> IsValidPinLength (length baOldPin) \<or> \<not> IsValidPinLength (length baNewPin) then
        throw (P11_Error CKR_PIN_LEN_RANGE)
      else
        get_then (cie_get userType) (\<lambda>ut.
        if ut \<noteq> CKU_SO then
          seq (Connect (cie_transport ce))
         (seq (cie_ias (token_Reset ia))
         (with_card ce
           (seq (cie_ias (SelectAID_IAS ia))
           (seq (if ut \<noteq> CKU_USER then cie_ias (InitDHParam ia) else return ())
           (seq (cie_ias (SelectAID_CIE ia))
           (seq (if ut \<noteq> CKU_USER then seq (cie_ias (ReadPAN ia)) (cie_ias (ReadDappPubKey ia))
                 else return ())
           (seq (cie_ias (DHKeyExchange ia))
           (seq (cie_ias (DAPP ia))
           (get_then (compose_pin ce baOldPin) (\<lambda>oldPIN.
            get_then (compose_pin ce baNewPin) (\<lambda>newPIN.
            seq (require_9000 (cie_ias (VerifyPIN ia oldPIN)) CKR_PIN_INCORRECT)
                (require_9000 (cie_ias (ChangePIN_old_new ia oldPIN newPIN)) CKR_GENERAL_ERROR))))))))))))
        else throw (P11_Error CKR_FUNCTION_NOT_SUPPORTED)))"

subsection \<open>What the card does not do\<close>

definition CIEtemplateSignRecover :: "obj_ptr \<Rightarrow> bytes \<Rightarrow> ulong \<Rightarrow> ('i, 'k, 'w, bytes) cie_op" where
  "CIEtemplateSignRecover p buf mech = throw (P11_Error CKR_FUNCTION_NOT_SUPPORTED)"

definition CIEtemplateGenerateRandom :: "nat \<Rightarrow> ('i, 'k, 'w, bytes) cie_op" where
  "CIEtemplateGenerateRandom n = throw (P11_Error CKR_FUNCTION_NOT_SUPPORTED)"

definition CIEtemplateGetObjectSize :: "obj_ptr \<Rightarrow> ('i, 'k, 'w, ulong) cie_op" where
  "CIEtemplateGetObjectSize p = throw (P11_Error CKR_FUNCTION_NOT_SUPPORTED)"

definition CIEtemplateSetAttribute :: "obj_ptr \<Rightarrow> ck_attribute list \<Rightarrow> ('i, 'k, 'w, unit) cie_op" where
  "CIEtemplateSetAttribute p tpl = throw (P11_Error CKR_FUNCTION_NOT_SUPPORTED)"

definition CIEtemplateCreateObject :: "ck_attribute list \<Rightarrow> ('i, 'k, 'w, obj_ptr option) cie_op" where
  "CIEtemplateCreateObject tpl = throw (P11_Error CKR_FUNCTION_NOT_SUPPORTED)"

definition CIEtemplateDestroyObject :: "obj_ptr \<Rightarrow> ('i, 'k, 'w, unit) cie_op" where
  "CIEtemplateDestroyObject p = throw (P11_Error CKR_FUNCTION_NOT_SUPPORTED)"

subsection \<open>The table (CCardTemplate::InitTemplateList)\<close>

definition cie_template :: "('i, 'k, 'w) cie_env \<Rightarrow> (('i, 'k) cie_data, 'w) template_functions" where
  "cie_template ce =
     \<lparr>templateInitCard = CIEtemplateInitCard ce, templateFinalCard = CIEtemplateFinalCard,
      templateInitSession = CIEtemplateInitSession ce, templateFinalSession = CIEtemplateFinalSession,
      templateMatchCard = CIEtemplateMatchCard ce, templateGetSerial = CIEtemplateGetSerial ce,
      templateGetModel = CIEtemplateGetModel, templateGetTokenFlags = CIEtemplateGetTokenFlags,
      templateLogin = CIEtemplateLogin ce, templateLogout = CIEtemplateLogout,
      templateSign = CIEtemplateSign ce, templateSignRecover = CIEtemplateSignRecover,
      templateGenerateRandom = CIEtemplateGenerateRandom, templateInitPIN = CIEtemplateInitPIN ce,
      templateSetPIN = CIEtemplateSetPIN ce, templateGetObjectSize = CIEtemplateGetObjectSize,
      templateSetAttribute = CIEtemplateSetAttribute, templateCreateObject = CIEtemplateCreateObject,
      templateDestroyObject = CIEtemplateDestroyObject\<rparr>"

end
