(* ===== verification/Cie_Contract.thy ===== *)
theory Cie_Contract
  imports Session_Frames Cie_Template
begin

section \<open>The CIE template keeps the contract\<close>

text \<open>
  \<open>cie_module\<close> is the module as the program builds it: the table of \<open>cie_template\<close> and one
  transport for the slots and the template.  Each function of the table keeps the frames of
  the contract, whatever the IAS protocol object does to its own state and to the card.
\<close>

definition cie_module :: "('i, 'k, 'w) cie_env \<Rightarrow> crypto_env \<Rightarrow> (nat \<Rightarrow> byte) \<Rightarrow> (('i, 'k) cie_data, 'w) env" where
  "cie_module ce cr u = \<lparr>tmpl = cie_template ce, transport = cie_transport ce, crypto = cr, uninit = u\<rparr>"

lemma keeps_seq [keeps_intros]: "keeps f \<Longrightarrow> keeps g \<Longrightarrow> keeps (seq f g)"
  unfolding seq_def by (rule keeps_bind)

lemma keeps_get_then [keeps_intros]: "keeps f \<Longrightarrow> (\<And>x. keeps (g x)) \<Longrightarrow> keeps (get_then f g)"
  unfolding get_then_def by (rule keeps_bind)

lemma keeps_return [keeps_intros]: "keeps (return x)" "keeps (throw e)"
  by (simp_all add: keeps_def return_def throw_def)

lemma keeps_cie_ias [keeps_intros]: "keeps (cie_ias f)"
  by (rule keepsI) (auto simp: cie_ias_def template_keep_fields split: option.splits prod.splits)

lemma keeps_cie_get [keeps_intros]: "keeps (cie_get g)"
  by (rule keepsI) (auto simp: cie_get_def split: option.splits)

lemma keeps_cie_upd [keeps_intros]: "keeps (cie_upd g)"
  by (rule keepsI) (auto simp: cie_upd_def template_keep_fields split: option.splits)

lemma keeps_with_card [keeps_intros]: "keeps f \<Longrightarrow> keeps (with_card ce f)"
  by (rule keepsI)
    (auto simp: with_card_def with_connection_def with_locker_def Let_def split: prod.splits dest: keepsD)

lemma keeps_if [keeps_intros]: "keeps f \<Longrightarrow> keeps g \<Longrightarrow> keeps (if b then f else g)"
  by simp

lemma keeps_require [keeps_intros]: "keeps f \<Longrightarrow> keeps (require_9000 f rv)"
  unfolding require_9000_def by (intro keeps_intros)

lemma keeps_sum: "(\<And>e. keeps (f e)) \<Longrightarrow> (\<And>x. keeps (g x)) \<Longrightarrow> keeps (case r of Inl e \<Rightarrow> f e | Inr x \<Rightarrow> g x)"
  by (cases r) auto

lemma keeps_compose [keeps_intros]: "keeps (compose_pin ce pin)" "keeps (session_pin ce)"
  unfolding compose_pin_def session_pin_def by (intro keeps_intros keeps_sum)+

subsection \<open>The functions of the table\<close>

lemma keeps_Login: "keeps (CIEtemplateLogin ce ut pin)"
  unfolding CIEtemplateLogin_def Let_def by (intro keeps_intros keeps_sum)

lemma keeps_Logout: "keeps (CIEtemplateLogout ut)"
  unfolding CIEtemplateLogout_def by (intro keeps_intros)

lemma keeps_Sign: "keeps (CIEtemplateSign ce p buf m)"
  unfolding CIEtemplateSign_def Let_def by (intro keeps_intros)

lemma keeps_InitPIN: "keeps (CIEtemplateInitPIN ce pin)"
  unfolding CIEtemplateInitPIN_def Let_def by (intro keeps_intros)

lemma keeps_SetPIN: "keeps (CIEtemplateSetPIN ce old new ut)"
  unfolding CIEtemplateSetPIN_def Let_def by (intro keeps_intros)

lemma keeps_certificate: "keeps (read_certificate ce)"
  unfolding read_certificate_def Let_def by (intro keeps_intros)

lemma template_keep_add:
  assumes "IsPrivate True ob = Inr b"
  shows "template_keep sl (add_object sl ob)"
  using assms
  by (auto simp: add_object_def make_object_def AddP11Object_def template_keep_def template_frame_def
      slot_frame_def data_kept_def slot_ok_def)

lemma template_keep_objects:
  "list_all (\<lambda>ob. \<exists>b. IsPrivate True ob = Inr b) obs \<Longrightarrow> template_keep sl (foldl add_object sl obs)"
  by (induction obs arbitrary: sl) (auto intro: template_keep_trans template_keep_add)

lemma cie_objects_private:
  assumes "cie_objects ce certRaw = Inr obs"
  shows "list_all (\<lambda>ob. \<exists>b. IsPrivate True ob = Inr b) obs"
  using assms
  by (auto simp: cie_objects_def bindE_eq_Inr IsPrivate_tmpl cie_public_key_def cie_private_key_def
      cie_certificate_def add_attributes_def addAttribute_def)

lemma keeps_InitSession: "keeps (CIEtemplateInitSession ce)"
proof -
  have "keeps (\<lambda>(sl, w). case cie_objects ce certRaw of
            Inl e \<Rightarrow> (Inl e, sl, w)
          | Inr obs \<Rightarrow> cie_upd (\<lambda>d. d\<lparr>init := True\<rparr>) (foldl add_object sl obs, w))" for certRaw
    by (rule keepsI)
      (auto split: sum.splits intro: template_keep_trans [OF template_keep_objects [OF cie_objects_private]]
        dest: keepsD [OF keeps_cie_upd])
  then show ?thesis
    unfolding CIEtemplateInitSession_def by (intro keeps_intros keeps_certificate)
qed

lemma keeps_FinalSession: "keeps CIEtemplateFinalSession"
  by (simp add: keeps_def CIEtemplateFinalSession_def)

lemma keeps_MatchCard: "keeps (CIEtemplateMatchCard ce)"
proof -
  have inner: "keeps (get_then (GetATR tr) (\<lambda>atr. with_transaction tr hc (\<lambda>(sl, w).
           case bindS (SelectAID_IAS ia hc (new_IAS ia atr, w)) (\<lambda>_ st. ReadPAN ia hc st) of
             (Inl e, _, w) \<Rightarrow> (Inl e, sl, w)
           | (Inr _, _, w) \<Rightarrow> (Inr True, sl, w))))"
    for tr hc and ia :: "('i, 'w) ias_functions"
    by (intro keeps_intros, rule keepsI) (auto simp: with_transaction_def split: prod.splits sum.splits)
  have "keeps (\<lambda>st. let hc = hCard (fst st); tr = cie_transport ce; ia = ias_fns ce in
       with_connection tr hc (get_then (GetATR tr) (\<lambda>atr.
         with_transaction tr hc (\<lambda>(sl, w).
           case bindS (SelectAID_IAS ia hc (new_IAS ia atr, w)) (\<lambda>_ st. ReadPAN ia hc st) of
             (Inl e, _, w) \<Rightarrow> (Inl e, sl, w)
           | (Inr _, _, w) \<Rightarrow> (Inr True, sl, w)))) st)"
    by (rule keepsI) (auto simp: Let_def with_connection_def split: prod.splits dest: keepsD [OF inner])
  then show ?thesis
    unfolding CIEtemplateMatchCard_def by (intro keeps_intros)
qed

lemma keeps_GetSerial: "keeps (CIEtemplateGetSerial ce)"
  unfolding CIEtemplateGetSerial_def
  by (intro keeps_intros, rule keepsI) (auto simp: Let_def split: prod.splits sum.splits)

lemma keeps_info: "keeps CIEtemplateGetModel" "keeps CIEtemplateGetTokenFlags"
  by (simp_all add: keeps_def CIEtemplateGetModel_def CIEtemplateGetTokenFlags_def)

lemma keeps_unsupported:
  "keeps (CIEtemplateSignRecover p buf m)" "keeps (CIEtemplateGenerateRandom n)" "keeps (CIEtemplateGetObjectSize p)"
  "keeps (CIEtemplateSetAttribute p tpl)" "keeps (CIEtemplateCreateObject tpl)" "keeps (CIEtemplateDestroyObject p)"
  unfolding CIEtemplateSignRecover_def CIEtemplateGenerateRandom_def CIEtemplateGetObjectSize_def
    CIEtemplateSetAttribute_def CIEtemplateCreateObject_def CIEtemplateDestroyObject_def
  by (intro keeps_intros)+

lemma InitCard_frame:
  "CIEtemplateInitCard ce (sl, w) = (r, sl', w') \<Longrightarrow> template_keep sl sl' \<and> (r = Inr () \<longrightarrow> pTemplateData sl' \<noteq> None)"
  by (auto simp: CIEtemplateInitCard_def GetATR_def split: prod.splits sum.splits if_splits
      intro: template_keep_trans template_keep_fields)

text \<open>The contract holds for the module with the CIE template.\<close>

interpretation cie: card_module "cie_module ce cr u"
proof unfold_locales
  fix sl sl' :: "('a, 'b) cie_data cslot" and w w' :: 'c and r ut
  show "template_frame sl sl'" if "templateInitCard (tmpl (cie_module ce cr u)) (sl, w) = (r, sl', w')"
    using InitCard_frame that by (fastforce simp: cie_module_def cie_template_def template_keep_def)
  show "pTemplateData sl' \<noteq> None" if "templateInitCard (tmpl (cie_module ce cr u)) (sl, w) = (Inr (), sl', w')"
    using InitCard_frame that by (fastforce simp: cie_module_def cie_template_def)
  show "\<exists>sl' w'. templateFinalCard (tmpl (cie_module ce cr u)) (sl, w) = (Inr (), sl', w') \<and> template_frame sl sl'"
    by (simp add: cie_module_def cie_template_def CIEtemplateFinalCard_def template_frame_def slot_frame_def slot_ok_def)
  show "fst (templateLogout (tmpl (cie_module ce cr u)) ut (sl, w)) = Inr ()" if "pTemplateData sl \<noteq> None"
    using that by (auto simp: cie_module_def cie_template_def CIEtemplateLogout_def cie_upd_def)
  show "fst (templateFinalSession (tmpl (cie_module ce cr u)) (sl, w)) = Inr ()"
    by (simp add: cie_module_def cie_template_def CIEtemplateFinalSession_def)
  show "\<exists>m. fst (templateGetModel (tmpl (cie_module ce cr u)) (sl, w)) = Inr m"
    by (simp add: cie_module_def cie_template_def CIEtemplateGetModel_def)
qed (simp_all add: cie_module_def cie_template_def keeps_InitSession keeps_FinalSession keeps_MatchCard keeps_GetSerial
    keeps_info keeps_Login keeps_Logout keeps_Sign keeps_unsupported keeps_InitPIN keeps_SetPIN)

end
