(* ===== verification/Module_Reachable.thy ===== *)
theory Module_Reachable
  imports Session_Refinement Cie_Contract
begin

section \<open>The states the module reaches\<close>

text \<open>
  Every call and every reader event keeps \<open>module_ok\<close> and makes one step of the session
  specification, or none.  \<open>reachable\<close> is the set of the states of all runs.
\<close>

subsection \<open>The event of a call\<close>

text \<open>The event a call stands for; \<open>h\<close> is the next session handle.\<close>

fun event_of :: "api_call \<Rightarrow> ulong \<Rightarrow> login_event option" where
  "event_of (Do_OpenSession i fl null) h = Some (Open i h (fl AND CKF_RW_SESSION \<noteq> 0))"
| "event_of (Do_CloseSession k) h = Some (Close k)"
| "event_of (Do_CloseAllSessions i) h = Some (Close_All i)"
| "event_of (Do_Login k u pin) h = Some (Log_In k u)"
| "event_of (Do_Logout k) h = Some (Log_Out k)"
| "event_of _ h = None"

text \<open>The calls that change the list of slots.\<close>

fun changes_slots :: "api_call \<Rightarrow> bool" where
  "changes_slots (Do_Initialize _) = True"
| "changes_slots (Do_Finalize _) = True"
| "changes_slots Do_UpdateSlotList = True"
| "changes_slots _ = False"

definition opens_session :: "api_call \<Rightarrow> bool" where
  "opens_session c \<longleftrightarrow> (\<exists>i fl null. c = Do_OpenSession i fl null)"

definition spec_call :: "api_call \<Rightarrow> bool \<Rightarrow> ('d, 'w) p11_state \<Rightarrow> ('d, 'w) p11_state \<Rightarrow> bool" where
  "spec_call c completed s s' \<longleftrightarrow>
     (case event_of c (dwSessionCnt s + 1) of
        Some ev \<Rightarrow> follows ev completed s s'
      | None \<Rightarrow> view s' = view s)"

subsection \<open>Calls on all slots\<close>

lemma for_slots_total:
  assumes f: "\<And>p s. module_ok s \<Longrightarrow> p \<in> snd ` set (g_mSlots s) \<Longrightarrow>
      \<exists>s'. f p s = (Inr (), s') \<and> module_ok s' \<and> g_mSlots s' = g_mSlots s \<and> bP11Initialized s' = bP11Initialized s \<and>
        g_mSessions s' = filter (\<lambda>(h, se). pSlot se \<noteq> p) (g_mSessions s)"
    and "module_ok s" and "snd ` set m \<subseteq> snd ` set (g_mSlots s)"
  shows "\<exists>s'. for_slots f m s = (Inr (), s') \<and> module_ok s' \<and> g_mSlots s' = g_mSlots s \<and> bP11Initialized s' = bP11Initialized s \<and>
    g_mSessions s' = filter (\<lambda>(h, se). pSlot se \<notin> snd ` set m) (g_mSessions s)"
  using assms(2,3)
proof (induction m arbitrary: s)
  case Nil
  then show ?case by (simp add: split_beta)
next
  case (Cons e m)
  obtain i p where e: "e = (i, p)" by (cases e)
  obtain s1 where s1: "f p s = (Inr (), s1)" "module_ok s1" "g_mSlots s1 = g_mSlots s" "bP11Initialized s1 = bP11Initialized s"
      "g_mSessions s1 = filter (\<lambda>(h, se). pSlot se \<noteq> p) (g_mSessions s)"
    using f [of s p] Cons.prems e by auto
  obtain s2 where s2: "for_slots f m s1 = (Inr (), s2)" "module_ok s2" "g_mSlots s2 = g_mSlots s" "bP11Initialized s2 = bP11Initialized s"
      "g_mSessions s2 = filter (\<lambda>(h, se). pSlot se \<notin> snd ` set m) (g_mSessions s1)"
    using Cons.IH [OF s1(2)] Cons.prems(2) s1(3,4) by auto
  have "g_mSessions s2 = filter (\<lambda>(h, se). pSlot se \<notin> snd ` set (e # m)) (g_mSessions s)"
    unfolding s2(5) s1(5) filter_filter e by (rule filter_cong) auto
  then show ?case using s1(1) s2(1-4) e by simp
qed

lemma no_other_sessions:
  assumes "module_ok s"
  shows "filter (\<lambda>(h, se). pSlot se \<notin> snd ` set (g_mSlots s)) (g_mSessions s) = []"
  using module_okD(7) [OF assms] by (auto simp: filter_empty_conv session_inv_def)

context card_module
begin

lemma CloseAll_slot:
  assumes "module_ok s"
  shows "\<exists>s'. CloseAllSessions env p s = (Inr (), s') \<and> module_ok s' \<and> g_mSlots s' = g_mSlots s \<and> bP11Initialized s' = bP11Initialized s \<and>
    g_mSessions s' = filter (\<lambda>(h, se). pSlot se \<noteq> p) (g_mSessions s)"
  using CloseAllSessions_total [OF assms, of p] by fastforce

lemma destroy_slot_total:
  assumes "module_ok s" and "p \<in> snd ` set (g_mSlots s)"
  shows "\<exists>s'. destroy_slot env p s = (Inr (), s') \<and> module_ok s' \<and> g_mSlots s' = g_mSlots s \<and> bP11Initialized s' = bP11Initialized s \<and>
    g_mSessions s' = filter (\<lambda>(h, se). pSlot se \<noteq> p) (g_mSessions s)"
proof -
  obtain s1 where s1: "Final env p s = (Inr (), s1)" "module_ok s1" "g_mSlots s1 = g_mSlots s" "bP11Initialized s1 = bP11Initialized s"
      "g_mSessions s1 = filter (\<lambda>(h, se). pSlot se \<noteq> p) (g_mSessions s)"
    using Final_total [OF assms] by fastforce
  moreover have "module_ok (s1\<lparr>world := w\<rparr>)" for w by (rule module_ok_same [OF s1(2)]) simp_all
  ultimately show ?thesis by (simp add: destroy_slot_def)
qed

lemmas closing = DeleteSession_total

text \<open>\<open>C_Finalize\<close> of an initialised module always succeeds and leaves no slot and no session.\<close>

lemma Finalize_total:
  assumes "module_ok s" and "bP11Initialized s"
  shows "\<exists>s'. C_Finalize env False s = (Some CKR_OK, Some (), s') \<and> module_ok s' \<and>
    g_mSlots s' = [] \<and> g_mSessions s' = [] \<and> \<not> bP11Initialized s'"
proof -
  let ?s = "s\<lparr>bP11Initialized := False, Thread := False, bP11Terminate := False\<rparr>"
  have ok: "module_ok ?s" by (rule module_ok_same [OF assms(1)]) simp_all
  obtain s1 where s1: "for_slots (CloseAllSessions env) (g_mSlots s) ?s = (Inr (), s1)" "module_ok s1" "g_mSlots s1 = g_mSlots s"
      "\<not> bP11Initialized s1" "g_mSessions s1 = []"
    using for_slots_total [OF CloseAll_slot ok, of "g_mSlots s"] no_other_sessions [OF ok] by auto
  obtain s2 where s2: "for_slots (destroy_slot env) (g_mSlots s) s1 = (Inr (), s2)" "module_ok s2"
      "\<not> bP11Initialized s2" "g_mSessions s2 = []"
    using for_slots_total [OF destroy_slot_total s1(2), of "g_mSlots s"] s1(3-5) by auto
  have "module_ok (s2\<lparr>g_mSlots := []\<rparr>)" using s2(4) by (intro module_okI) simp_all
  then show ?thesis
    using assms(2) s1 s2 by (simp add: C_Finalize_def when_initialized_def pkcs11_guard_def)
qed

end

subsection \<open>Every call\<close>

context card_module
begin

lemma slot_list_calls:
  assumes "module_ok s" and "changes_slots c" and "run_call env c s = (rv, ok, s')"
  shows "module_ok s'"
proof (cases c)
  case (Do_Initialize args)
  let ?s = "(if g_mCardTemplates s = [] then InitTemplateList s else s)\<lparr>g_transport := True, bP11Initialized := True\<rparr>"
  have "module_ok ?s"
    by (rule module_ok_same [OF assms(1)]) (simp_all add: InitTemplateList_def AddTemplate_def)
  then have i: "module_ok (snd (InitSlotList env ?s))" by (rule InitSlotList_ok)
  then have "module_ok ((snd (InitSlotList env ?s))\<lparr>bP11Initialized := False\<rparr>)" by (rule module_ok_same) simp_all
  then show ?thesis
    using assms(1,3) Do_Initialize i
    by (auto simp: C_Initialize_def ret_guard Let_def split: if_splits sum.splits prod.splits)
next
  case (Do_Finalize reserved)
  then show ?thesis
    using assms(1,3) Finalize_total [OF assms(1)]
    by (cases "reserved \<or> \<not> bP11Initialized s")
      (auto simp: ret_def C_Finalize_def pkcs11_guard_def when_initialized_def split: if_splits)
next
  case Do_UpdateSlotList
  then show ?thesis
    using assms(1,3) InitSlotList_ok [OF assms(1)] by (auto simp: C_UpdateSlotList_def ret_guard split: if_splits)
qed (use assms(2) in simp_all)

text \<open>Every other call keeps the invariant and makes the step of its event.\<close>

lemma run_call_spec:
  assumes "module_ok s" and "\<not> changes_slots c" and "opens_session c \<Longrightarrow> dwSessionCnt s \<noteq> -1"
    and "run_call env c s = (rv, ok, s')"
  shows "module_ok s' \<and> spec_call c ok s s'"
proof (cases "administers c")
  case False
  then have "calm s s'" using run_call_calm [OF assms(1) False] assms(4) by simp
  moreover have "event_of c h = None" for h using False by (cases c) simp_all
  ultimately show ?thesis using assms(1) by (simp add: calm_def spec_call_def)
next
  case True
  then show ?thesis
  proof (cases c)
    case (Do_OpenSession i fl null)
    then show ?thesis using open_follows assms by (simp add: spec_call_def opens_session_def del: run_call.simps)
  next
    case (Do_CloseSession h)
    then show ?thesis using close_follows assms by (simp add: spec_call_def del: run_call.simps)
  next
    case (Do_CloseAllSessions i)
    then show ?thesis using close_all_follows assms by (simp add: spec_call_def del: run_call.simps)
  next
    case (Do_Login h u pin)
    then show ?thesis using login_follows assms by (simp add: spec_call_def del: run_call.simps)
  next
    case (Do_Logout h)
    then show ?thesis using logout_follows assms by (simp add: spec_call_def del: run_call.simps)
  qed (use assms(2) True in simp_all)
qed

lemma run_call_ok:
  assumes "module_ok s" and "opens_session c \<Longrightarrow> dwSessionCnt s \<noteq> -1" and "run_call env c s = (rv, ok, s')"
  shows "module_ok s'"
  using slot_list_calls [OF assms(1) _ assms(3)] run_call_spec [OF assms(1) _ assms(2,3)] by (cases "changes_slots c") simp_all

end

end
