(* ===== verification/Monitor.thy ===== *)
theory Monitor
  imports Slot
begin

section \<open>The monitor thread (pkcs11/src/pkcs11/slot.cpp, slotMonitor)\<close>

text \<open>
  The thread reads the state of every reader once (\<open>monitor_scan\<close>), then waits for changes:
  \<open>monitor_status\<close> is its decision after each wait and \<open>monitor_slots\<close> the treatment of the
  changes it reports, slot by slot.  Between two waits other threads run; the wait itself
  changes the world only.
\<close>

abbreviation (input) SCARD_E_CANCELLED :: int where "SCARD_E_CANCELLED \<equiv> 0x80100002"
abbreviation (input) SCARD_E_TIMEOUT :: int where "SCARD_E_TIMEOUT \<equiv> 0x8010000A"
abbreviation (input) SCARD_E_SYSTEM_CANCELLED :: int where "SCARD_E_SYSTEM_CANCELLED \<equiv> 0x80100012"

text \<open>\<open>Inl\<close> is the exit code of the thread, \<open>Inr\<close> the known states of the slots.\<close>

fun monitor_scan :: "'w transport_functions \<Rightarrow> ulong \<Rightarrow> (ulong, nat) std_map \<Rightarrow> ('d, 'w) p11_state
    \<Rightarrow> (nat + (nat \<times> ulong) list) \<times> ('d, 'w) p11_state" where
  "monitor_scan tr hc [] s = (Inr [], s)"
| "monitor_scan tr hc ((i, p) # m) s =
     (if \<not> bP11Initialized s then (Inl 0, s)
      else
        (case GetStatusChange tr hc (szName (slots s p)) (world s) of (ris, ev, w) \<Rightarrow>
           let s = s\<lparr>world := w\<rparr> in
           if ris \<noteq> SCARD_S_SUCCESS \<and> ris \<noteq> SCARD_E_TIMEOUT then (Inl 1, s)
           else
             (case monitor_scan tr hc m s of
                (Inl c, s) \<Rightarrow> (Inl c, s)
              | (Inr cs, s) \<Rightarrow> (Inr ((p, ev AND NOT SCARD_STATE_CHANGED) # cs), s))))"

text \<open>
  What the thread does next: scan again, end with an exit code (and whether
  \<open>p11slotEvent\<close> is set), or handle the reported states.
\<close>

datatype monitor_next = Rescan | Exit nat bool | Handle

definition monitor_status :: "int \<Rightarrow> ('d, 'w) p11_state \<Rightarrow> monitor_next" where
  "monitor_status ris s =
     (let stop = (if bP11Terminate s \<or> \<not> bP11Initialized s then Exit 0 True else Handle) in
      if ris \<noteq> SCARD_S_SUCCESS then
        if bMonitorUpdate s \<or> ris = SCARD_E_SYSTEM_CANCELLED \<or> ris = SCARD_E_SERVICE_STOPPED \<or>
           ris = SCARD_E_INVALID_HANDLE \<or> ris = ERROR_INVALID_HANDLE then Rescan
        else if ris = SCARD_E_CANCELLED \<or> bP11Terminate s \<or> \<not> bP11Initialized s then Exit 0 True
        else if ris \<noteq> SCARD_E_TIMEOUT \<and> ris \<noteq> SCARD_E_NO_READERS_AVAILABLE then Exit 1 True
        else if ris = SCARD_E_NO_READERS_AVAILABLE then Exit 1 False
        else stop
      else stop)"

text \<open>The loop over the slots, with the known and the reported state of each.\<close>

fun monitor_slots :: "('d, 'w) env \<Rightarrow> (nat \<times> ulong \<times> ulong) list \<Rightarrow> ('d, 'w) p11_state
    \<Rightarrow> (exn + ulong list) \<times> ('d, 'w) p11_state" where
  "monitor_slots env [] s = (Inr [], s)"
| "monitor_slots env ((p, cur, ev) # st) s =
     bindS (monitor_slot env p cur ev s) (\<lambda>c s.
     bindS (monitor_slots env st s) (\<lambda>cs s. (Inr (c # cs), s)))"

end
