(* ===== verification/Module_Theorems.thy ===== *)
theory Module_Theorems
  imports Module_Reachable Monitor Session_Theorems
begin

section \<open>Runs of the module with the CIE template\<close>

text \<open>
  \<open>reachable\<close> collects the states of all runs: calls that return, passes of the monitor,
  wake-ups of a waiting call, and changes of the world outside.  The theorems at the end are
  stated for the module with the CIE template.
\<close>

subsection \<open>The monitor\<close>

context card_module
begin

lemma card_out_step:
  assumes "module_ok s" and "p \<in> snd ` set (g_mSlots s)" and "Final env p (upd_slot p (\<lambda>sl. sl\<lparr>lastEvent := e\<rparr>) s) = (r, s1)"
  shows "r = Inr () \<and> module_ok s1 \<and> g_mSlots s1 = g_mSlots s \<and> view s1 = without_slot (hSlot (slots s p)) (view s) \<and>
    hSlot (slots s1 p) = hSlot (slots s p)"
proof -
  let ?s = "upd_slot p (\<lambda>sl. sl\<lparr>lastEvent := e\<rparr>) s"
  have c: "calm s ?s" by (rule calm_upd_slot) (rule slot_keep_fields)
  then have ok: "module_ok ?s" "view ?s = view s" and l: "p \<in> snd ` set (g_mSlots ?s)"
    using assms(1,2) by (simp_all add: calm_def)
  have id: "hSlot (slots ?s p) = hSlot (slots s p)" by (simp add: upd_slot_def)
  obtain sl w where f: "Final env p ?s = (Inr (), put_slot p sl (filter (\<lambda>(h, se). pSlot se \<noteq> p) (g_mSessions ?s)) w ?s)"
    "module_ok (put_slot p sl (filter (\<lambda>(h, se). pSlot se \<noteq> p) (g_mSessions ?s)) w ?s)" "hSlot sl = hSlot (slots ?s p)"
    using Final_total [OF ok(1) l] by blast
  from emptied_view [OF ok(1) l f(3,2)] show ?thesis
    using assms(3) f ok(2) id by (auto simp: upd_slot_def)
qed

text \<open>
  One slot of a pass: a removed card closes its sessions and logs out, whatever else happens
  leaves sessions and logins alone.
\<close>

lemma monitor_slot_step:
  assumes "module_ok s" and "p \<in> snd ` set (g_mSlots s)" and "monitor_slot env p cur ev s = (r, s')"
  shows "module_ok s' \<and> g_mSlots s' = g_mSlots s \<and>
    view s' = (if card_removed cur ev then without_slot (hSlot (slots s p)) (view s) else view s)"
proof -
  define v where "v = (if card_removed cur ev then without_slot (hSlot (slots s p)) (view s) else view s)"
  let ?first = "if card_removed cur ev then
              bindS (Final env p (upd_slot p (\<lambda>sl. sl\<lparr>lastEvent := Removed\<rparr>) s)) (\<lambda>_ s.
                (Inr (), upd_slot p (\<lambda>sl. sl\<lparr>baATR := []\<rparr>) s))
            else (Inr (), s)"
  obtain s1 where s1: "?first = (Inr (), s1)" "module_ok s1" "g_mSlots s1 = g_mSlots s" "view s1 = v"
  proof (cases "card_removed cur ev")
    case False
    then show ?thesis using that [of s] assms(1) by (simp add: v_def)
  next
    case True
    obtain r0 s0 where f: "Final env p (upd_slot p (\<lambda>sl. sl\<lparr>lastEvent := Removed\<rparr>) s) = (r0, s0)"
      by (cases "Final env p (upd_slot p (\<lambda>sl. sl\<lparr>lastEvent := Removed\<rparr>) s)")
    note out = card_out_step [OF assms(1,2) f]
    have "calm s0 (upd_slot p (\<lambda>sl. sl\<lparr>baATR := []\<rparr>) s0)" by (rule calm_upd_slot) (rule slot_keep_fields)
    then show ?thesis
      using that [of "upd_slot p (\<lambda>sl. sl\<lparr>baATR := []\<rparr>) s0"] True f out by (simp add: calm_def v_def)
  qed
  let ?s2 = "upd_slot p (\<lambda>sl. sl\<lparr>lastEvent := Inserted\<rparr>) s1"
  have "calm s1 ?s2" by (rule calm_upd_slot) (rule slot_keep_fields)
  moreover have "calm ?s2 (snd (on_slot p (GetATR (transport env)) ?s2))" by (intro calm_on_slot keeps_intros)
  ultimately have c: "calm s1 (snd (on_slot p (GetATR (transport env)) ?s2))" by (rule calm_trans)
  have "s' = s1 \<or> s' = snd (on_slot p (GetATR (transport env)) ?s2)"
    using assms(3) s1(1) unfolding monitor_slot_def
    by (cases "on_slot p (GetATR (transport env)) ?s2"; cases "fst (on_slot p (GetATR (transport env)) ?s2)") (auto split: if_splits)
  then show ?thesis using c s1(2-4) unfolding v_def [symmetric] by (auto simp: calm_def)
qed

lemma monitor_slots_step:
  assumes "module_ok s" and "fst ` set st \<subseteq> snd ` set (g_mSlots s)" and "monitor_slots env st s = (r, s')"
  shows "module_ok s' \<and> g_mSlots s' = g_mSlots s"
  using assms
proof (induction st arbitrary: s r s')
  case (Cons x st)
  obtain p cur ev where x: "x = (p, cur, ev)" by (cases x) auto
  obtain q s1 where m: "monitor_slot env p cur ev s = (q, s1)" by (cases "monitor_slot env p cur ev s")
  have 1: "module_ok s1" "g_mSlots s1 = g_mSlots s"
    using monitor_slot_step [OF Cons.prems(1) _ m] Cons.prems(2) x by auto
  show ?case
  proof (cases q)
    case (Inl e)
    then show ?thesis using Cons.prems(3) m x 1 by simp
  next
    case (Inr c)
    obtain q2 s2 where m2: "monitor_slots env st s1 = (q2, s2)" by (cases "monitor_slots env st s1")
    have "module_ok s2 \<and> g_mSlots s2 = g_mSlots s1"
      using Cons.IH [OF 1(1) _ m2] Cons.prems(2) 1(2) by auto
    moreover have "s' = s2" using Cons.prems(3) m m2 x Inr by (cases q2) auto
    ultimately show ?thesis using 1(2) by simp
  qed
qed simp

end

subsection \<open>Reachable states\<close>

text \<open>
  A step of a run; \<open>None\<close> as return code would be undefined behaviour or a call that never
  returns, after which there is no state.  The session counter must not be exhausted: the
  code reuses handles after \<open>2 ^ 64 - 1\<close> openings.
\<close>

inductive reachable :: "('d, 'w) env \<Rightarrow> ('d, 'w) p11_state \<Rightarrow> bool" for env :: "('d, 'w) env" where
  start: "reachable env (initial_state w)"
| call: "reachable env s \<Longrightarrow> opens_session c \<longrightarrow> dwSessionCnt s \<noteq> -1 \<Longrightarrow>
    run_call env c s = (Some rv, ok, s') \<Longrightarrow> reachable env s'"
| monitor: "reachable env s \<Longrightarrow> fst ` set st \<subseteq> snd ` set (g_mSlots s) \<Longrightarrow>
    monitor_slots env st s = (r, s') \<Longrightarrow> reachable env s'"
| wake: "reachable env s \<Longrightarrow> C_WaitForSlotEvent_wake s = (res, s') \<Longrightarrow> reachable env s'"
| outside: "reachable env s \<Longrightarrow> reachable env (s\<lparr>world := w\<rparr>)"

inductive_cases reachableE: "reachable env s"

lemma calm_wake: "calm s (snd (C_WaitForSlotEvent_wake s))"
proof -
  have "snd (C_WaitForSlotEvent_wake s) = s \<or> snd (C_WaitForSlotEvent_wake s) = snd (slot_event_scan s)"
    by (auto simp: C_WaitForSlotEvent_wake_def split: prod.splits sum.splits)
  then show ?thesis using calm_slot_event_scan [of s] by auto
qed

context card_module
begin

lemma reachable_ok: "reachable env s \<Longrightarrow> module_ok s"
proof (induction rule: reachable.induct)
  case (start w)
  show ?case by (rule module_ok_initial)
next
  case (call s c rv ok s')
  then show ?case using run_call_ok by blast
next
  case (monitor s st r s')
  then show ?case using monitor_slots_step by blast
next
  case (wake s res s')
  then show ?case using calm_wake [of s] by (simp add: calm_def)
next
  case (outside s w)
  then show ?case by (auto intro: module_ok_same)
qed

end

subsection \<open>A card for the examples\<close>

definition demo_ias :: "(unit, 'w) ias_functions" where
  "demo_ias =
     \<lparr>new_IAS = (\<lambda>atr. ()), SelectAID_IAS = (\<lambda>hc st. (Inr (), st)), SelectAID_CIE = (\<lambda>hc st. (Inr (), st)),
      ReadPAN = (\<lambda>hc st. (Inr (), st)), ReadDappPubKey = (\<lambda>hc st. (Inr (), st)), InitEncKey = (\<lambda>hc st. (Inr (), st)),
      InitDHParam = (\<lambda>hc st. (Inr (), st)), InitExtAuthKeyParam = (\<lambda>hc st. (Inr (), st)),
      DHKeyExchange = (\<lambda>hc st. (Inr (), st)), DAPP = (\<lambda>hc st. (Inr (), st)), token_Reset = (\<lambda>hc st. (Inr (), st)),
      GetCertificate = (\<lambda>hc st. (Inr [0x30, 0], st)), GetFirstPIN = (\<lambda>hc st. (Inr [1, 2, 3, 4], st)),
      VerifyPIN = (\<lambda>pin hc st. (Inr (if pin = [1, 2, 3, 4, 5, 6, 7, 8] then 0x9000 else 0x63C2), st)),
      VerifyPUK = (\<lambda>pin hc st. (Inr 0x9000, st)), UnblockPIN = (\<lambda>hc st. (Inr 0x9000, st)),
      ChangePIN_old_new = (\<lambda>a b hc st. (Inr 0x9000, st)), ChangePIN_new = (\<lambda>a hc st. (Inr 0x9000, st)),
      ias_Sign = (\<lambda>b hc st. (Inr b, st)), DappPubKey_isEmpty = (\<lambda>i. True), PAN = (\<lambda>i. replicate 12 0x11)\<rparr>"

definition demo_cie :: "(unit, unit, 'w) cie_env" where
  "demo_cie =
     \<lparr>ias_fns = demo_ias, cie_transport = demo_transport, aes_Init = (\<lambda>w. (Inr (), w)), aes_Encode = (\<lambda>k. Inr),
      aes_Decode = (\<lambda>k. Inr),
      GetCertInfo = (\<lambda>c. Inr \<lparr>serial = [1], issuer = [2], subject = [3], notBefore = replicate 15 0x30,
        notAfter = replicate 15 0x31, modulus = replicate 64 0xff, publicExponent = [1, 0, 1]\<rparr>)\<rparr>"

definition demo_module :: "((unit, unit) cie_data, unit) env" where
  "demo_module = cie_module demo_cie demo_crypto (\<lambda>_. 0)"

definition demo_ready :: "((unit, unit) cie_data, unit) p11_state" where
  "demo_ready =
     (initial_state ())\<lparr>bP11Initialized := True, g_transport := True, g_mCardTemplates := [0], templateNext := 1,
        dwSlotCnt := 1, g_mSlots := [(1, 0)], slots := (\<lambda>_. new_CSlot 0 [])(0 := (new_CSlot 1 ''reader'')\<lparr>hSlot := 1\<rparr>),
        slotNext := 1, bMonitorUpdate := True, Thread := True\<rparr>"

lemmas demo_module_simps = demo_module_def cie_module_def demo_cie_def demo_transport_def

lemma demo_initialize: "C_Initialize demo_module None (initial_state ()) = (Some CKR_OK, Some (), demo_ready)"
  by (simp add: C_Initialize_def demo_ready_def initial_state_def check_init_args_def InitTemplateList_def AddTemplate_def
     InitSlotList_def demo_module_simps getContext_def init_slots_def map_insert_def new_CSlot_def
     make_slot_def AddSlot_def pkcs11_guard_def Let_def new_CCardContext_def delete_CCardContext_def  GetSlotFromReaderName_def)

lemma demo_parts: "bP11Initialized demo_ready" "GetSlotFromID demo_ready 1 = Some 0" "g_mSessions demo_ready = []"
  "dwSessionCnt demo_ready = 0" "g_mCardTemplates demo_ready = [0]" "slots demo_ready 0 = (new_CSlot 1 ''reader'')\<lparr>hSlot := 1\<rparr>"
   "world demo_ready = ()" "g_mSlots demo_ready = [(1, 0)]"
  by (simp_all add: demo_ready_def GetSlotFromID_def initial_state_def)

definition demo_data :: "bool \<Rightarrow> (unit, unit) cie_data" where
  "demo_data done = \<lparr>userType = - 1, aesKey = (), init = done, ias_obj = (), SessionPIN = []\<rparr>"

definition demo_card :: "(unit, unit) cie_data cslot" where
  "demo_card = (new_CSlot 1 ''reader'')\<lparr>hSlot := 1, hCard := 1, pTemplate := Some 0, pTemplateData := Some (demo_data False), bUpdated := True\<rparr>"

lemma demo_init: "Init demo_module 0 demo_ready = (Inr (), upd_slot 0 (\<lambda>_. demo_card) demo_ready)"
  by (simp add: Init_def demo_parts on_slot_def need_template_def CIEtemplateMatchCard_def seq_def Connect_def slot_context_def
      connect_loop.simps demo_module_simps new_CSlot_def cie_template_def with_connection_def Let_def get_then_def GetATR_def with_transaction_def
      demo_ias_def CIEtemplateInitCard_def new_CIEData_def upd_slot_def context_validate_def getContext_def GetATR_card_def demo_card_def demo_data_def)

lemma demo_certificate: "GetASN1DataLenght [48, 0] = Inr 2" "ba_left [48, 0] 2 = Inr [48, 0]"
  by (simp_all add: GetASN1DataLenght_def ba_left_def raw_read_def)

lemma demo_session: "fst (CIEtemplateInitSession demo_cie (demo_card, ())) = Inr ()"
  by (simp add: CIEtemplateInitSession_def get_then_def cie_get_def seq_def demo_card_def demo_data_def return_def Connect_def slot_context_def context_validate_def
     demo_cie_def demo_transport_def new_CSlot_def connect_loop.simps with_card_def with_connection_def with_locker_def read_certificate_def cie_ias_def demo_ias_def
     cie_objects_def date_bytes_def cie_upd_def Let_def demo_certificate add_object_def make_object_def AddP11Object_def)

lemma demo_opened:
  "fst (snd (run_call demo_module (Do_OpenSession 1 6 False) demo_ready))"
  "fst (run_call demo_module (Do_OpenSession 1 6 False) demo_ready) = Some CKR_OK"
  "bP11Initialized (snd (snd (run_call demo_module (Do_OpenSession 1 6 False) demo_ready)))"
  "g_mSlots (snd (snd (run_call demo_module (Do_OpenSession 1 6 False) demo_ready))) = [(1, 0)]"
proof -
  obtain sl w where i: "CIEtemplateInitSession demo_cie (demo_card, ()) = (Inr (), sl, w)" using demo_session
    by (cases "CIEtemplateInitSession demo_cie (demo_card, ())") auto
  have m: "tmpl demo_module = cie_template demo_cie" by (simp add: demo_module_simps)
  show "fst (snd (run_call demo_module (Do_OpenSession 1 6 False) demo_ready))"
    "fst (run_call demo_module (Do_OpenSession 1 6 False) demo_ready) = Some CKR_OK"
    "bP11Initialized (snd (snd (run_call demo_module (Do_OpenSession 1 6 False) demo_ready)))"
    "g_mSlots (snd (snd (run_call demo_module (Do_OpenSession 1 6 False) demo_ready))) = [(1, 0)]"
    using i by (simp_all add: C_OpenSession_def ret_guard when_initialized_def demo_parts demo_init m Let_def ExistsSO_RW_def
      AddSession_def GetNewSessionID_def upd_slot_def new_CSession_def on_slot_def demo_card_def cie_template_def CIEtemplateGetModel_def)
qed

lemma demo_reachable: "reachable demo_module demo_ready"
  by (rule reachable.call [OF reachable.start, of "Do_Initialize None" "()" demo_module CKR_OK True])
    (simp_all add: opens_session_def ret_def demo_initialize)

definition demo_open :: "((unit, unit) cie_data, unit) p11_state" where
  "demo_open = snd (snd (run_call demo_module (Do_OpenSession 1 6 False) demo_ready))"

lemma demo_open_call: "run_call demo_module (Do_OpenSession 1 6 False) demo_ready = (Some CKR_OK, True, demo_open)"
  using demo_opened by (cases "run_call demo_module (Do_OpenSession 1 6 False) demo_ready") (auto simp: demo_open_def)

lemma demo_open_reachable: "reachable demo_module demo_open"
  by (rule reachable.call [OF demo_reachable _ demo_open_call]) (simp add: demo_parts)

subsection \<open>The theorems\<close>

text \<open>
  C1: In every state that the module with the CIE template reaches, the tables agree: every
  session hangs on a listed slot, a slot's counter counts its sessions, nobody is logged in
  at a slot without sessions, and no read-only session is open at a slot where the security
  officer is logged in.
\<close>
theorem reachable_states_ok:
  assumes "reachable (cie_module ce cr u) s"
  shows "module_ok s"
  using assms by (rule cie.reachable_ok)

theorem reachable_states_ok_witness: "module_ok demo_open"
  by (rule reachable_states_ok [of demo_cie demo_crypto "\<lambda>_. 0"])
    (use demo_open_reachable in \<open>simp add: demo_module_def\<close>)

text \<open>
  C2: Refinement of the session specification: in a reachable state every call makes on the
  abstract state exactly the step of its event when its body completes, and no step when it
  throws; calls without an event change nothing abstract.  The calls that rebuild the slot
  list are left out, and \<open>C_OpenSession\<close> when all session handles were used.
\<close>
theorem calls_follow_spec:
  assumes "reachable (cie_module ce cr u) s" and "\<not> changes_slots c" and "opens_session c \<longrightarrow> dwSessionCnt s \<noteq> -1"
    and "run_call (cie_module ce cr u) c s = (rv, completed, s')"
  shows "case event_of c (dwSessionCnt s + 1) of
      None \<Rightarrow> view s' = view s
    | Some ev \<Rightarrow> if completed then spec_step ev (view s) = Some (view s') else view s' = view s"
  using cie.run_call_spec [OF cie.reachable_ok [OF assms(1)] assms(2) _ assms(4)] assms(3)
  by (auto simp: spec_call_def follows_def split: option.splits)

theorem calls_follow_spec_witness:
  "spec_step (Open 1 1 True) (view demo_ready) = Some (view demo_open)"
  using calls_follow_spec [of demo_cie demo_crypto "\<lambda>_. 0" demo_ready "Do_OpenSession 1 6 False" "Some CKR_OK" True demo_open]
    demo_reachable demo_open_call
  by (simp add: demo_module_def [symmetric] demo_parts del: run_call.simps spec_step.simps)

lemma demo_session_open: "\<exists>se. map_of (g_mSessions demo_open) 1 = Some se"
proof -
  have "spec_call (Do_OpenSession 1 6 False) True demo_ready demo_open"
    using cie.run_call_spec [of demo_ready "Do_OpenSession 1 6 False" demo_cie demo_crypto "\<lambda>_. 0" "Some CKR_OK" True demo_open]
      demo_open_call cie.reachable_ok [of demo_cie demo_crypto "\<lambda>_. 0" demo_ready] demo_reachable
    by (simp add: demo_module_def [symmetric] demo_parts opens_session_def del: run_call.simps spec_step.simps)
  then have "(view demo_ready)\<lparr>open_sessions := (open_sessions (view demo_ready))(1 \<mapsto> (1, True))\<rparr> = view demo_open"
    by (auto simp: spec_call_def follows_def demo_parts split: if_splits)
  from arg_cong [OF this, of open_sessions] have "open_sessions (view demo_open) 1 = Some (1, True)"
    by (auto dest: fun_cong [of _ _ 1])
  then show ?thesis by (auto simp: view_def)
qed

lemma demo_flags: "bP11Initialized demo_open" "g_mSlots demo_open = [(1, 0)]"
  using demo_opened(3,4) by (simp_all add: demo_open_def del: run_call.simps)

text \<open>
  C4: \<open>C_Finalize\<close> of an initialised module always returns \<open>CKR_OK\<close> in a reachable state:
  all sessions are closed, all slots are destroyed and the module is uninitialised.
\<close>
theorem finalize_completes:
  assumes "reachable (cie_module ce cr u) s" and "bP11Initialized s"
  shows "\<exists>s'. C_Finalize (cie_module ce cr u) False s = (Some CKR_OK, Some (), s') \<and>
    g_mSlots s' = [] \<and> g_mSessions s' = [] \<and> \<not> bP11Initialized s'"
  using cie.Finalize_total [OF cie.reachable_ok [OF assms(1)] assms(2)] by blast

theorem finalize_completes_witness:
  "\<exists>s'. C_Finalize demo_module False demo_ready = (Some CKR_OK, Some (), s') \<and>
    g_mSlots s' = [] \<and> g_mSessions s' = [] \<and> \<not> bP11Initialized s'"
  unfolding demo_module_def
  by (rule finalize_completes) (use demo_reachable in \<open>simp_all add: demo_module_def demo_parts\<close>)

text \<open>
  C5: Closing an open session always succeeds in a reachable state; it removes that session
  and no other, and when it was the last session of its slot nobody is logged in there any
  more.
\<close>
theorem close_session_completes:
  assumes "reachable (cie_module ce cr u) s" and "bP11Initialized s" and "map_of (g_mSessions s) h = Some se"
  shows "\<exists>s'. C_CloseSession (cie_module ce cr u) h s = (Some CKR_OK, Some (), s') \<and>
    map_of (g_mSessions s') = (map_of (g_mSessions s))(h := None) \<and>
    ((\<forall>h' x. map_of (g_mSessions s') h' = Some x \<longrightarrow> pSlot x \<noteq> pSlot se) \<longrightarrow> User (slots s' (pSlot se)) = CKU_NOBODY)"
proof -
  have ok: "module_ok s" using assms(1) by (rule cie.reachable_ok)
  obtain sl w where d: "DeleteSession (cie_module ce cr u) h s = (Inr (), put_slot (pSlot se) sl (map_erase (g_mSessions s) h) w s)"
    and k: "slot_keep ((slots s (pSlot se))\<lparr>dwSessionCount := dwSessionCount (slots s (pSlot se)) - 1,
       User := (if dwSessionCount (slots s (pSlot se)) = 1 then CKU_NOBODY else User (slots s (pSlot se)))\<rparr>) sl"
    using cie.closing [OF ok assms(3)] by blast
  let ?s = "put_slot (pSlot se) sl (map_erase (g_mSessions s) h) w s"
  have "User sl = CKU_NOBODY" if "\<forall>h' x. map_of (g_mSessions ?s) h' = Some x \<longrightarrow> pSlot x \<noteq> pSlot se"
  proof -
    have "sessions_on (pSlot se) (map_erase (g_mSessions s) h) = []"
    proof (rule ccontr)
      assume "sessions_on (pSlot se) (map_erase (g_mSessions s) h) \<noteq> []"
      then obtain h' x where x: "(h', x) \<in> set (g_mSessions s)" "h' \<noteq> h" "pSlot x = pSlot se"
        by (auto simp: sessions_on_def filter_empty_conv)
      then show False using that map_ok_lookup [OF module_okD(1) [OF ok], of h' x] by (metis map_of_map_erase fun_upd_apply put_slot_fields(2))
    qed
    then have "dwSessionCount (slots s (pSlot se)) = 1" using last_session [OF ok assms(3)] by simp
    then show ?thesis using k by (simp add: slot_keep_def slot_frame_def)
  qed
  then show ?thesis
    using d assms(2,3)
    by (simp add: C_CloseSession_def pkcs11_guard_def with_session_def when_initialized_def GetSessionFromID_def fun_eq_iff)
qed

theorem close_session_completes_witness:
  "\<exists>(se :: csession) s'. C_CloseSession demo_module 1 demo_open = (Some CKR_OK, Some (), s') \<and>
    map_of (g_mSessions s') = (map_of (g_mSessions demo_open))(1 := None) \<and>
    ((\<forall>h' x. map_of (g_mSessions s') h' = Some x \<longrightarrow> pSlot x \<noteq> pSlot se) \<longrightarrow> User (slots s' (pSlot se)) = CKU_NOBODY)"
proof -
  have r: "reachable (cie_module demo_cie demo_crypto (\<lambda>_. 0)) demo_open" using demo_open_reachable by (simp add: demo_module_def)
  obtain se where "map_of (g_mSessions demo_open) 1 = Some se" using demo_session_open by blast
  from close_session_completes [OF r demo_flags(1) this] show ?thesis unfolding demo_module_def by (rule exI)
qed

text \<open>
  C3: When the monitor sees that a card was removed, all sessions of its slot are closed and
  nobody is logged in there, the sessions and logins of the other slots are kept, and the
  invariant holds afterwards; this cannot fail in a reachable state.
\<close>
theorem card_removal_closes:
  assumes "reachable (cie_module ce cr u) s" and "p \<in> snd ` set (g_mSlots s)" and "card_removed cur ev"
    and "monitor_slot (cie_module ce cr u) p cur ev s = (r, s')"
  shows "spec_step (Card_Out (hSlot (slots s p))) (view s) = Some (view s') \<and> module_ok s' \<and> g_mSlots s' = g_mSlots s"
proof -
  have ok: "module_ok s" using assms(1) by (rule cie.reachable_ok)
  show ?thesis
    using cie.monitor_slot_step [OF ok assms(2,4)] assms(3) logged_in_listed [OF ok assms(2)] by simp
qed

theorem card_removal_closes_witness:
  "spec_step (Card_Out (hSlot (slots demo_open 0))) (view demo_open) =
     Some (view (snd (monitor_slot demo_module 0 SCARD_STATE_PRESENT SCARD_STATE_EMPTY demo_open)))"
  using card_removal_closes [of demo_cie demo_crypto "\<lambda>_. 0" demo_open 0 SCARD_STATE_PRESENT SCARD_STATE_EMPTY
      "fst (monitor_slot demo_module 0 SCARD_STATE_PRESENT SCARD_STATE_EMPTY demo_open)"
      "snd (monitor_slot demo_module 0 SCARD_STATE_PRESENT SCARD_STATE_EMPTY demo_open)"] demo_open_reachable
  by (simp add: demo_module_def [symmetric] demo_flags card_removed_def del: spec_step.simps)

lemma uninit:
  assumes "\<not> bP11Initialized s"
  shows "when_initialized f s = (throw_p11 CKR_CRYPTOKI_NOT_INITIALIZED, s)"
    and "with_session h g s = (throw_p11 CKR_CRYPTOKI_NOT_INITIALIZED, s)"
    and "in_session h k s = (throw_p11 CKR_CRYPTOKI_NOT_INITIALIZED, s)"
    and "with_slot i l s = (throw_p11 CKR_CRYPTOKI_NOT_INITIALIZED, s)"
  using assms by (simp_all add: in_session_def with_session_def with_slot_def when_initialized_def)

lemma uninit_args:
  assumes "\<not> bP11Initialized s"
  shows "isl (fst (bindS (liftS r s) (\<lambda>x. in_session h (f x))))" "snd (bindS (liftS r s) (\<lambda>x. in_session h (f x))) = s"
    "isl (fst (bindS (liftS q s) (\<lambda>x. with_session h (g x))))" "snd (bindS (liftS q s) (\<lambda>x. with_session h (g x))) = s"
  by (cases r; cases q; simp add: uninit [OF assms])+

text \<open>
  C6: Before \<open>C_Initialize\<close> every other call fails and changes nothing, except
  \<open>C_UpdateSlotList\<close>, which lacks the test.
\<close>
theorem uninitialised_inert:
  assumes "\<not> bP11Initialized s" and "c \<noteq> Do_UpdateSlotList" and "\<forall>args. c \<noteq> Do_Initialize args"
    and "run_call env c s = (rv, completed, s')"
  shows "s' = s \<and> \<not> completed"
proof -
  have attr: "snd (snd (C_GetAttributeValue h obj tpl n s)) = s" "fst (snd (C_GetAttributeValue h obj tpl n s)) = None" for h obj tpl n
    by (cases "template_arg tpl n"; simp add: C_GetAttributeValue_def uninit [OF assms(1)] pkcs11_guard_def split: exn.split)+
  have list: "snd (snd (C_GetSlotList env present want n s)) = s" "fst (snd (C_GetSlotList env present want n s)) = None" for present want n
    by (simp_all add: C_GetSlotList_def uninit [OF assms(1)] pkcs11_guard_def)
  have no: "snd (snd (unsupported f s)) = s" "fst (snd (unsupported f s)) = None" for f
    by (simp_all add: unsupported_def pkcs11_guard_def)
  have "snd (snd (run_call env c s)) = s \<and> \<not> fst (snd (run_call env c s))"
    using assms(2,3)
    by (cases c)
      (simp_all add: ret_guard uninit [OF assms(1)] uninit_args [OF assms(1)] C_Finalize_def C_GetInfo_def C_GetSlotInfo_def
        C_GetTokenInfo_def C_GetMechanismList_def C_GetMechanismInfo_def C_WaitForSlotEvent_nonblocking_def C_OpenSession_def
        C_CloseSession_def C_CloseAllSessions_def C_GetSessionInfo_def C_Login_def C_Logout_def api_call_defs
        C_SeedRandom_def del: liftS_simps, simp_all add: ret_def attr list no)
  then show ?thesis using assms(4) by simp
qed

theorem uninitialised_inert_witness:
  "snd (snd (run_call demo_module (Do_Login 1 CKU_USER [1, 2, 3, 4]) (initial_state ()))) = initial_state ()"
proof -
  obtain rv ok s' where r: "run_call demo_module (Do_Login 1 CKU_USER [1, 2, 3, 4]) (initial_state ()) = (rv, ok, s')"
    by (cases "run_call demo_module (Do_Login 1 CKU_USER [1, 2, 3, 4]) (initial_state ())")
  have "\<not> bP11Initialized (initial_state () :: ((unit, unit) cie_data, unit) p11_state)" by (simp add: initial_state_def)
  from uninitialised_inert [OF this _ _ r] show ?thesis using r by simp
qed

end
