(* ===== verification/Token.thy ===== *)
theory Token
  imports Slot
begin

section \<open>APDUs and the token (shared/src/pcsc/apdu.cpp, token.cpp)\<close>

text \<open>
  \<open>APDU\<close> with its four constructors, \<open>CToken\<close>, and \<open>TokenTransmitCallback\<close>
  (\<open>pkcs11/src/pkcs11/cie\_p11\_template.cpp\<close>), the callback through which the token of a PKCS\#11
  slot reaches the transport.  The callback's data pointer is the slot, of which it reads the
  card handle; the model passes the handle.
\<close>

subsection \<open>APDU\<close>

record apdu =
  btINS :: byte
  btCLA :: byte
  btP1 :: byte
  btP2 :: byte
  btLC :: byte
  bLC :: bool
  pbtData :: bytes
  btLE :: byte
  bLE :: bool

definition APDU_case4 :: "byte \<Rightarrow> byte \<Rightarrow> byte \<Rightarrow> byte \<Rightarrow> byte \<Rightarrow> bytes \<Rightarrow> byte \<Rightarrow> exn + apdu" where
  "APDU_case4 cla ins p1 p2 lc pData le =
     (if lc > 250 then Inl (Logged_Error ''APDU: LC exceeds maximum (250)'')
      else Inr \<lparr>btINS = ins, btCLA = cla, btP1 = p1, btP2 = p2, btLC = lc, bLC = True,
                pbtData = pData, btLE = le, bLE = True\<rparr>)"

definition APDU_case3 :: "byte \<Rightarrow> byte \<Rightarrow> byte \<Rightarrow> byte \<Rightarrow> byte \<Rightarrow> bytes \<Rightarrow> exn + apdu" where
  "APDU_case3 cla ins p1 p2 lc pData =
     (if lc > 251 then Inl (Logged_Error ''APDU: LC exceeds maximum (251)'')
      else Inr \<lparr>btINS = ins, btCLA = cla, btP1 = p1, btP2 = p2, btLC = lc, bLC = True,
                pbtData = pData, btLE = 0, bLE = False\<rparr>)"

definition APDU_case2 :: "byte \<Rightarrow> byte \<Rightarrow> byte \<Rightarrow> byte \<Rightarrow> byte \<Rightarrow> apdu" where
  "APDU_case2 cla ins p1 p2 le =
     \<lparr>btINS = ins, btCLA = cla, btP1 = p1, btP2 = p2, btLC = 0, bLC = False,
      pbtData = [], btLE = le, bLE = True\<rparr>"

definition APDU_case1 :: "byte \<Rightarrow> byte \<Rightarrow> byte \<Rightarrow> byte \<Rightarrow> apdu" where
  "APDU_case1 cla ins p1 p2 =
     \<lparr>btINS = ins, btCLA = cla, btP1 = p1, btP2 = p2, btLC = 0, bLC = False,
      pbtData = [], btLE = 0, bLE = False\<rparr>"

subsection \<open>CToken\<close>

type_synonym 'w transmit_callback = "ulong \<Rightarrow> bytes \<Rightarrow> 'w \<Rightarrow> int \<times> bytes \<times> 'w"

record 'w ctoken =
  transmitCallback :: "'w transmit_callback option"
  transmitCallbackData :: ulong

definition new_CToken :: "'w ctoken" where
  "new_CToken = \<lparr>transmitCallback = None, transmitCallbackData = 0\<rparr>"

definition setTransmitCallback :: "'w transmit_callback option \<Rightarrow> ulong \<Rightarrow> 'w ctoken \<Rightarrow> 'w ctoken" where
  "setTransmitCallback f data tk = tk\<lparr>transmitCallback := f, transmitCallbackData := data\<rparr>"

definition setTransmitCallbackData :: "ulong \<Rightarrow> 'w ctoken \<Rightarrow> 'w ctoken" where
  "setTransmitCallbackData data tk = tk\<lparr>transmitCallbackData := data\<rparr>"

definition getTransmitCallbackData :: "'w ctoken \<Rightarrow> ulong" where
  "getTransmitCallbackData tk = transmitCallbackData tk"

text \<open>
  \<open>Transmit\<close>: a failed call and an answer that has no status word are link errors; else the
  last two octets are the status word and what precedes them the answer.
\<close>

definition token_answer :: "int \<Rightarrow> bytes \<Rightarrow> exn + (16 word \<times> bytes)" where
  "token_answer res scResp =
     (if res \<noteq> SCARD_S_SUCCESS then Inl (Card_Link_Error True)
      else if length scResp < 2 then Inl (Card_Link_Error True)
      else Inr (of_nat (le_value (ba_reverse (drop (length scResp - 2) scResp))),
                take (length scResp - 2) scResp))"

definition Transmit :: "'w ctoken \<Rightarrow> bytes \<Rightarrow> 'w \<Rightarrow> (exn + (16 word \<times> bytes)) \<times> 'w" where
  "Transmit tk apdu w =
     (case transmitCallback tk of
        None \<Rightarrow> (Inl UB, w)
      | Some cb \<Rightarrow> (case cb (transmitCallbackData tk) apdu w of (res, scResp, w) \<Rightarrow> (token_answer res scResp, w)))"

definition apdu_bytes :: "apdu \<Rightarrow> exn + bytes" where
  "apdu_bytes a =
     (let head = [btCLA a, btINS a, btP1 a, btP2 a]; n = unat (btLC a) in
      if bLC a \<and> length (pbtData a) < n then Inl UB
      else Inr (if bLC a \<and> bLE a then head @ [btLC a] @ take n (pbtData a) @ [btLE a]
                else if bLC a \<and> \<not> bLE a then head @ [btLC a] @ take n (pbtData a)
                else if \<not> bLC a \<and> bLE a then head @ [btLE a]
                else head))"

definition Transmit_APDU :: "'w ctoken \<Rightarrow> apdu \<Rightarrow> 'w \<Rightarrow> (exn + (16 word \<times> bytes)) \<times> 'w" where
  "Transmit_APDU tk apdu w =
     (case apdu_bytes apdu of
        Inl e \<Rightarrow> (Inl e, w)
      | Inr pbtAPDU \<Rightarrow>
          (case transmitCallback tk of
             None \<Rightarrow> (Inl UB, w)
           | Some cb \<Rightarrow> (case cb (transmitCallbackData tk) pbtAPDU w of (res, scResp, w) \<Rightarrow> (token_answer res scResp, w))))"

abbreviation not_connected :: exn where
  "not_connected \<equiv> Logged_Error ''Card not connected''"

text \<open>\<open>Reset\<close> passes a two-octet code, little endian; a status other than 9000 is only logged.\<close>

definition token_reset_code :: "bool \<Rightarrow> bytes" where
  "token_reset_code unpower = le_bytes 2 (if unpower then 0xfffe else 0xffff)"

definition Reset :: "'w ctoken \<Rightarrow> bool \<Rightarrow> 'w \<Rightarrow> (exn + unit) \<times> 'w" where
  "Reset tk unpower w =
     (if transmitCallback tk = None then (Inl not_connected, w)
      else case Transmit tk (token_reset_code unpower) w of
             (Inl e, w) \<Rightarrow> (Inl e, w) | (Inr _, w) \<Rightarrow> (Inr (), w))"

definition SelectMF :: "'w ctoken \<Rightarrow> 'w \<Rightarrow> (exn + unit) \<times> 'w" where
  "SelectMF tk w =
     (if transmitCallback tk = None then (Inl not_connected, w)
      else bindS (Transmit_APDU tk (APDU_case1 0x00 0xA4 0x00 0x00) w) (\<lambda>(sw, _) w.
        if sw \<noteq> 0x9000 then (Inl (Scard_Error sw), w) else (Inr (), w)))"

definition BinaryRead :: "'w ctoken \<Rightarrow> 16 word \<Rightarrow> byte \<Rightarrow> 'w \<Rightarrow> (exn + bytes) \<times> 'w" where
  "BinaryRead tk start n w =
     (if transmitCallback tk = None then (Inl not_connected, w)
      else bindS (Transmit_APDU tk (APDU_case2 0x00 0xB0 (ucast (drop_bit 8 start)) (ucast (start AND 0xff)) n) w)
        (\<lambda>(sw, resp) w. if sw \<noteq> 0x9000 then (Inl (Scard_Error sw), w) else (Inr resp, w)))"

subsection \<open>TokenTransmitCallback\<close>

abbreviation (input) SCARD_W_RESET_CARD :: int where "SCARD_W_RESET_CARD \<equiv> 0x80100068"
abbreviation (input) SCARD_W_UNPOWERED_CARD :: int where "SCARD_W_UNPOWERED_CARD \<equiv> 0x80100067"
abbreviation (input) SCARD_LEAVE_CARD :: ulong where "SCARD_LEAVE_CARD \<equiv> 0"
abbreviation (input) SCARD_RESET_CARD :: ulong where "SCARD_RESET_CARD \<equiv> 1"
abbreviation (input) SCARD_UNPOWER_CARD :: ulong where "SCARD_UNPOWER_CARD \<equiv> 2"

text \<open>
  A two-octet command is a request to the callback itself: the handle, a cold or a warm reset.
  A card that was reset behind the library's back is reconnected and the command sent again.
\<close>

definition reset_and_lock :: "'w transport_functions \<Rightarrow> ulong \<Rightarrow> ulong \<Rightarrow> 'w \<Rightarrow> int \<times> bytes \<times> 'w" where
  "reset_and_lock tr hc how w =
     (case Reconnect tr hc how w of (ris, w) \<Rightarrow>
        if ris = SCARD_S_SUCCESS then (ris, [0x90, 0x00], snd (BeginTransaction tr hc w)) else (ris, [], w))"

definition TokenTransmitCallback :: "'w transport_functions \<Rightarrow> 'w transmit_callback" where
  "TokenTransmitCallback tr hc apdu w =
     (let code = le_value apdu in
      if length apdu = 2 \<and> code = 0xfffd then (SCARD_S_SUCCESS, VarToByteArray64 hc @ [0, 0], w)
      else if length apdu = 2 \<and> code = 0xfffe then reset_and_lock tr hc SCARD_UNPOWER_CARD w
      else if length apdu = 2 \<and> code = 0xffff then reset_and_lock tr hc SCARD_RESET_CARD w
      else case TransportTransmit tr hc apdu w of (ris, resp, w) \<Rightarrow>
        if ris = SCARD_W_RESET_CARD \<or> ris = SCARD_W_UNPOWERED_CARD then
          (case Reconnect tr hc SCARD_LEAVE_CARD w of (ris, w) \<Rightarrow>
             if ris \<noteq> SCARD_S_SUCCESS then (ris, resp, w) else TransportTransmit tr hc apdu w)
        else (ris, resp, w))"

subsection \<open>Lemmas\<close>

text \<open>The status word of an answer that ends in the octets \<open>a\<close>, \<open>b\<close>.\<close>

lemma token_answer_eq:
  "token_answer 0 (resp @ [a, b]) = Inr (push_bit 8 (ucast a) OR ucast b, resp)"
proof -
  have "(of_nat (unat b + 256 * unat a) :: 16 word) = push_bit 8 (ucast a) OR ucast b"
  proof -
    have "push_bit 8 (ucast a) OR ucast b = push_bit 8 (ucast a :: 16 word) + ucast b"
      by (rule disjunctive_add [symmetric]) (auto simp: bit_simps dest: bit_imp_le_length)
    then show ?thesis by (simp add: push_bit_eq_mult mult.commute add.commute)
  qed
  then show ?thesis by (simp add: token_answer_def ba_reverse_rev)
qed

end
