(* ===== verification/Cipher.thy ===== *)
theory Cipher
  imports Padding
begin

section \<open>Block ciphers and the retail MAC (shared/src/crypto)\<close>

text \<open>
  \<open>CipherBase\<close>, \<open>CDES3\<close>, \<open>CAES\<close> and \<open>CMAC\<close>.  OpenSSL's EVP interface is the parameter
  \<open>evp\<close>: \<open>evp c enc key iv data\<close> is what the Init, Update and Final calls of cipher \<open>c\<close> deliver
  together with padding disabled, \<open>None\<close> when one of them fails.  Which cipher is called with
  which key and vector, the padding and every check is the code's.

  \<open>evp_is_des\<close> and \<open>evp_is_aes\<close> state what OpenSSL documents of its ciphers; the retail MAC is
  compared with ISO 9797-1 algorithm 3 under the first.
\<close>

datatype evp_cipher = DES_EDE_CBC | DES_EDE3_CBC | AES_128_CBC | AES_192_CBC | AES_256_CBC

type_synonym evp = "evp_cipher \<Rightarrow> bool \<Rightarrow> bytes \<Rightarrow> bytes \<Rightarrow> bytes \<Rightarrow> bytes option"

record cipher_object =
  cipher_key :: bytes
  cipher_iv :: bytes

subsection \<open>CipherBase\<close>

definition perform_cipher_operation ::
    "evp \<Rightarrow> cipher_object \<Rightarrow> bytes \<Rightarrow> bool \<Rightarrow> evp_cipher \<Rightarrow> nat \<Rightarrow> exn + bytes" where
  "perform_cipher_operation evp c data encOp cipher block_size =
     (if \<not> (block_size > 0 \<and> length data mod block_size = 0 \<and> length data > 0)
      then Inl (Logged_Error ''Input data is not a non-empty multiple of the block size'')
      else case evp cipher encOp (cipher_key c) (cipher_iv c) data of
             None \<Rightarrow> Inl (Logged_Error (if encOp then ''Encryption error'' else ''Decryption error''))
           | Some resp \<Rightarrow> Inr resp)"

subsection \<open>CDES3\<close>

definition CDES3_Init :: "bytes \<Rightarrow> bytes \<Rightarrow> exn + cipher_object" where
  "CDES3_Init key iv =
     (if length key = 8 then Inl (Logged_Error ''8-byte single DES key not supported'')
      else if length key = 16 \<or> length key = 24 then Inr \<lparr>cipher_key = key, cipher_iv = iv\<rparr>
      else Inl (Logged_Error ''Invalid 3DES key size''))"

definition Des3 :: "evp \<Rightarrow> cipher_object \<Rightarrow> bytes \<Rightarrow> bool \<Rightarrow> exn + bytes" where
  "Des3 evp c data encOp =
     perform_cipher_operation evp c data encOp
       (if length (cipher_key c) = 16 then DES_EDE_CBC else DES_EDE3_CBC) 8"

definition CDES3_Encode :: "evp \<Rightarrow> (nat \<Rightarrow> byte) \<Rightarrow> cipher_object \<Rightarrow> bytes \<Rightarrow> exn + bytes" where
  "CDES3_Encode evp u c data = bindE (ISOPad u data) (\<lambda>padded. Des3 evp c padded True)"

definition CDES3_RawEncode :: "evp \<Rightarrow> cipher_object \<Rightarrow> bytes \<Rightarrow> exn + bytes" where
  "CDES3_RawEncode evp c data =
     (if length data mod 8 \<noteq> 0 then Inl (Logged_Error ''Data size to encrypt must be a multiple of 8'')
      else Des3 evp c data True)"

definition CDES3_Decode :: "evp \<Rightarrow> cipher_object \<Rightarrow> bytes \<Rightarrow> exn + bytes" where
  "CDES3_Decode evp c data =
     bindE (Des3 evp c data False) (\<lambda>result.
     bindE (RemoveISOPad result) (\<lambda>n. Inr (take n result)))"

definition CDES3_RawDecode :: "evp \<Rightarrow> cipher_object \<Rightarrow> bytes \<Rightarrow> exn + bytes" where
  "CDES3_RawDecode evp c data =
     (if length data mod 8 \<noteq> 0 then Inl (Logged_Error ''Data size to decrypt must be a multiple of 8'')
      else Des3 evp c data False)"

subsection \<open>CAES\<close>

definition aes_cbc_cipher :: "nat \<Rightarrow> evp_cipher option" where
  "aes_cbc_cipher keyLen =
     (if keyLen = 16 then Some AES_128_CBC else if keyLen = 24 then Some AES_192_CBC
      else if keyLen = 32 then Some AES_256_CBC else None)"

definition AES :: "evp \<Rightarrow> cipher_object \<Rightarrow> bytes \<Rightarrow> bool \<Rightarrow> exn + bytes" where
  "AES evp c data encOp =
     (case aes_cbc_cipher (length (cipher_key c)) of
        None \<Rightarrow> Inl (Logged_Error ''Invalid AES key size'')
      | Some cipher \<Rightarrow> perform_cipher_operation evp c data encOp cipher 16)"

definition CAES_Init :: "bytes \<Rightarrow> bytes \<Rightarrow> cipher_object" where
  "CAES_Init key iv = \<lparr>cipher_key = key, cipher_iv = iv\<rparr>"

definition CAES_Encode :: "evp \<Rightarrow> (nat \<Rightarrow> byte) \<Rightarrow> cipher_object \<Rightarrow> bytes \<Rightarrow> exn + bytes" where
  "CAES_Encode evp u c data = bindE (ISOPad16 u data) (\<lambda>padded. AES evp c padded True)"

definition CAES_RawEncode :: "evp \<Rightarrow> cipher_object \<Rightarrow> bytes \<Rightarrow> exn + bytes" where
  "CAES_RawEncode evp c data =
     (if length data mod 16 \<noteq> 0 then Inl (Logged_Error ''Data size to encrypt must be a multiple of 16'')
      else AES evp c data True)"

definition CAES_Decode :: "evp \<Rightarrow> cipher_object \<Rightarrow> bytes \<Rightarrow> exn + bytes" where
  "CAES_Decode evp c data =
     bindE (AES evp c data False) (\<lambda>result.
     bindE (RemoveISOPad result) (\<lambda>n. Inr (take n result)))"

definition CAES_RawDecode :: "evp \<Rightarrow> cipher_object \<Rightarrow> bytes \<Rightarrow> exn + bytes" where
  "CAES_RawDecode evp c data =
     (if length data mod 16 \<noteq> 0 then Inl (Logged_Error ''Data size to decrypt must be a multiple of 16'')
      else AES evp c data False)"

subsection \<open>CMAC: the retail MAC\<close>

definition CMAC_Init :: "bytes \<Rightarrow> bytes \<Rightarrow> exn + cipher_object" where
  "CMAC_Init key iv =
     (if length key = 8 then Inl (Logged_Error ''Error in DES encryption'')
      else if length key = 16 \<or> length key = 24 then Inr \<lparr>cipher_key = key, cipher_iv = iv\<rparr>
      else Inl (Logged_Error ''Invalid MAC key size''))"

text \<open>
  Step 1 runs over all blocks but the last with the first key only (3DES under three equal
  keys) and leaves the vector of step 2; step 2 runs over what remains with the whole key.  The
  vector is copied with \<open>memcpy\<close>, which reads 8 octets whatever the array holds.  The slice
  \<open>data.mid(ANSILen - 8)\<close> is out of range when there are no data at all (the subtraction wraps).
\<close>

definition mac_step1 :: "evp \<Rightarrow> cipher_object \<Rightarrow> bytes \<Rightarrow> nat \<Rightarrow> bytes \<Rightarrow> exn + bytes" where
  "mac_step1 evp c data ANSILen ivBuf =
     (if length data > 8 then
        let k1 = take 8 (cipher_key c) in
        case evp DES_EDE3_CBC True (k1 @ k1 @ k1) ivBuf (take (ANSILen - 8) data) of
          None \<Rightarrow> Inl (Logged_Error ''Error in MAC encryption step 1'')
        | Some out \<Rightarrow> if length out < 8 then Inl UB else Inr (drop (length out - 8) out)
      else Inr ivBuf)"

definition mac_step2 :: "evp \<Rightarrow> cipher_object \<Rightarrow> bytes \<Rightarrow> nat \<Rightarrow> bytes \<Rightarrow> exn + bytes" where
  "mac_step2 evp c data ANSILen ivBuf =
     (if ANSILen < 8 then Inl too_large
      else bindE (ba_mid data (ANSILen - 8)) (\<lambda>rest.
        case evp DES_EDE3_CBC True
               (if length (cipher_key c) = 16 then cipher_key c @ take 8 (cipher_key c) else cipher_key c)
               ivBuf rest of
          None \<Rightarrow> Inl (Logged_Error ''Error in MAC encryption step 2'')
        | Some dest \<Rightarrow> Inr (take 8 dest)))"

definition CMAC_Mac :: "evp \<Rightarrow> cipher_object \<Rightarrow> bytes \<Rightarrow> exn + bytes" where
  "CMAC_Mac evp c data =
     (if length (cipher_iv c) < 8 then Inl UB
      else let ANSILen = unat (ANSIPadLen (of_nat (length data))) in
        bindE (mac_step1 evp c data ANSILen (take 8 (cipher_iv c))) (\<lambda>ivBuf.
        mac_step2 evp c data ANSILen ivBuf))"

subsection \<open>What OpenSSL promises\<close>

text \<open>
  CBC mode over a function on 8-octet blocks, and two- and three-key triple DES in EDE form
  over the DES block functions \<open>E\<close> and \<open>D\<close>.
\<close>

definition xor_block :: "bytes \<Rightarrow> bytes \<Rightarrow> bytes" where
  "xor_block a b = map2 (XOR) a b"

fun cbc_encrypt :: "(bytes \<Rightarrow> bytes) \<Rightarrow> bytes \<Rightarrow> bytes \<Rightarrow> bytes" where
  "cbc_encrypt f iv data =
     (if length data < 8 then []
      else let c = f (xor_block iv (take 8 data)) in c @ cbc_encrypt f c (drop 8 data))"

fun cbc_decrypt :: "(bytes \<Rightarrow> bytes) \<Rightarrow> bytes \<Rightarrow> bytes \<Rightarrow> bytes" where
  "cbc_decrypt g iv data =
     (if length data < 8 then []
      else xor_block iv (g (take 8 data)) @ cbc_decrypt g (take 8 data) (drop 8 data))"

declare cbc_encrypt.simps [simp del] cbc_decrypt.simps [simp del]

type_synonym des = "bytes \<Rightarrow> bytes \<Rightarrow> bytes"

definition ede :: "des \<Rightarrow> des \<Rightarrow> bytes \<Rightarrow> bytes \<Rightarrow> bytes" where
  "ede E D key x = E (take 8 (drop 16 key)) (D (take 8 (drop 8 key)) (E (take 8 key) x))"

definition ede_inverse :: "des \<Rightarrow> des \<Rightarrow> bytes \<Rightarrow> bytes \<Rightarrow> bytes" where
  "ede_inverse E D key x = D (take 8 key) (E (take 8 (drop 8 key)) (D (take 8 (drop 16 key)) x))"

definition des_permutation :: "des \<Rightarrow> des \<Rightarrow> bool" where
  "des_permutation E D \<longleftrightarrow>
     (\<forall>k x. length k = 8 \<longrightarrow> length x = 8 \<longrightarrow>
        length (E k x) = 8 \<and> length (D k x) = 8 \<and> D k (E k x) = x \<and> E k (D k x) = x)"

definition evp_is_des :: "evp \<Rightarrow> des \<Rightarrow> des \<Rightarrow> bool" where
  "evp_is_des evp E D \<longleftrightarrow>
     des_permutation E D \<and>
     (\<forall>key iv data. length iv = 8 \<longrightarrow> data \<noteq> [] \<longrightarrow> length data mod 8 = 0 \<longrightarrow>
        (length key = 16 \<longrightarrow>
           evp DES_EDE_CBC True key iv data = Some (cbc_encrypt (ede E D (key @ take 8 key)) iv data) \<and>
           evp DES_EDE_CBC False key iv data = Some (cbc_decrypt (ede_inverse E D (key @ take 8 key)) iv data)) \<and>
        (length key = 24 \<longrightarrow>
           evp DES_EDE3_CBC True key iv data = Some (cbc_encrypt (ede E D key) iv data) \<and>
           evp DES_EDE3_CBC False key iv data = Some (cbc_decrypt (ede_inverse E D key) iv data)))"

definition evp_is_aes :: "evp \<Rightarrow> bool" where
  "evp_is_aes evp \<longleftrightarrow>
     (\<forall>cipher key iv data. aes_cbc_cipher (length key) = Some cipher \<longrightarrow> length iv = 16 \<longrightarrow>
        data \<noteq> [] \<longrightarrow> length data mod 16 = 0 \<longrightarrow>
        (\<exists>c. evp cipher True key iv data = Some c \<and> length c = length data \<and>
             evp cipher False key iv c = Some data))"

text \<open>ISO 9797-1 MAC algorithm 3 over a padded message: the DES chain and the output transformation.\<close>

fun iso9797_chain :: "des \<Rightarrow> bytes \<Rightarrow> bytes \<Rightarrow> bytes \<Rightarrow> bytes" where
  "iso9797_chain E k1 h data =
     (if length data < 8 then h
      else iso9797_chain E k1 (E k1 (xor_block h (take 8 data))) (drop 8 data))"

declare iso9797_chain.simps [simp del]

definition iso9797_alg3 :: "des \<Rightarrow> des \<Rightarrow> bytes \<Rightarrow> bytes \<Rightarrow> bytes \<Rightarrow> bytes" where
  "iso9797_alg3 E D key iv data =
     (let h = iso9797_chain E (take 8 key) iv data;
          k3 = (if length key = 16 then take 8 key else take 8 (drop 16 key))
      in E k3 (D (take 8 (drop 8 key)) h))"

subsection \<open>CBC mode\<close>

lemma length_xor_block [simp]: "length (xor_block a b) = min (length a) (length b)"
  by (simp add: xor_block_def)

lemma xor_block_cancel:
  assumes "length a = length b"
  shows "xor_block a (xor_block a b) = b"
  unfolding xor_block_def using assms by (induction a b rule: list_induct2) auto

lemma block_induct [consumes 1, case_names Nil Block]:
  fixes data :: bytes
  assumes "length data mod 8 = 0"
    and "P []"
    and "\<And>b rest. length b = 8 \<Longrightarrow> length rest mod 8 = 0 \<Longrightarrow> P rest \<Longrightarrow> P (b @ rest)"
  shows "P data"
  using assms(1)
proof (induction "length data" arbitrary: data rule: less_induct)
  case less
  show ?case
  proof (cases "data = []")
    case False
    then have "8 \<le> length data" using less.prems by (cases "length data < 8") auto
    moreover from this have "(length data - 8) mod 8 = 0" using less.prems le_mod_geq [of 8 "length data"] by simp
    ultimately show ?thesis
      using assms(3) [of "take 8 data" "drop 8 data"] less.hyps [of "drop 8 data"] by simp
  qed (simp add: assms(2))
qed

lemma cbc_block [simp]:
  "length b = 8 \<Longrightarrow> cbc_encrypt f iv (b @ rest)
     = f (xor_block iv b) @ cbc_encrypt f (f (xor_block iv b)) rest"
  "length b = 8 \<Longrightarrow> cbc_decrypt g iv (b @ rest) = xor_block iv (g b) @ cbc_decrypt g b rest"
  "length b = 8 \<Longrightarrow> iso9797_chain E k1 h (b @ rest) = iso9797_chain E k1 (E k1 (xor_block h b)) rest"
  "cbc_encrypt f iv [] = []" "cbc_decrypt g iv [] = []" "iso9797_chain E k1 h [] = h"
  by (simp_all add: cbc_encrypt.simps [of _ _ "b @ rest"] cbc_decrypt.simps [of _ _ "b @ rest"]
        iso9797_chain.simps [of _ _ _ "b @ rest"] cbc_encrypt.simps [of _ _ "[]"]
        cbc_decrypt.simps [of _ _ "[]"] iso9797_chain.simps [of _ _ _ "[]"] Let_def)

text \<open>What the CBC lemmas need of a block function: it keeps the block size and \<open>g\<close> inverts it.\<close>

definition block_inverse :: "(bytes \<Rightarrow> bytes) \<Rightarrow> (bytes \<Rightarrow> bytes) \<Rightarrow> bool" where
  "block_inverse f g \<longleftrightarrow> (\<forall>x. length x = 8 \<longrightarrow> length (f x) = 8 \<and> g (f x) = x)"

lemma cbc_roundtrip:
  assumes "length data mod 8 = 0" and "block_inverse f g" and "length iv = 8"
  shows "length (cbc_encrypt f iv data) = length data \<and>
         cbc_decrypt g iv (cbc_encrypt f iv data) = data"
  using assms
proof (induction data arbitrary: iv rule: block_induct)
  case (Block b rest)
  then show ?case by (simp add: block_inverse_def xor_block_cancel)
qed simp

lemma cbc_encrypt_cong:
  assumes "length data mod 8 = 0" and "length iv = 8"
    and "\<And>x. length x = 8 \<Longrightarrow> f x = h x \<and> length (h x) = 8"
  shows "cbc_encrypt f iv data = cbc_encrypt h iv data"
  using assms by (induction data arbitrary: iv rule: block_induct) auto

text \<open>The last block of the ciphertext is the value of the chain.\<close>

lemma cbc_last_block:
  assumes "length data mod 8 = 0" and "length iv = 8" and "\<And>x. length x = 8 \<Longrightarrow> length (E k1 x) = 8"
  shows "iso9797_chain E k1 iv data
    = (if data = [] then iv else drop (length data - 8) (cbc_encrypt (E k1) iv data))
   \<and> length (iso9797_chain E k1 iv data) = 8 \<and> length (cbc_encrypt (E k1) iv data) = length data"
  using assms
proof (induction data arbitrary: iv rule: block_induct)
  case (Block b rest)
  let ?c = "E k1 (xor_block iv b)"
  have c: "length ?c = 8" using Block by simp
  note ih = Block.IH [OF c Block.prems(2)]
  have "drop (length (b @ rest) - 8) (?c @ cbc_encrypt (E k1) ?c rest)
      = drop (length rest - 8) (cbc_encrypt (E k1) ?c rest)" if "rest \<noteq> []"
  proof -
    have "8 \<le> length rest" using that Block.hyps by (cases "length rest < 8") auto
    then show ?thesis using c Block.hyps by simp
  qed
  with ih c Block.hyps cbc_block(1) [of b "E k1" iv "[]"] cbc_block(3) [of b E k1 iv "[]"]
  show ?case by (cases "rest = []") auto
qed simp

lemma iso9797_chain_append:
  assumes "length a mod 8 = 0"
  shows "iso9797_chain E k1 h (a @ b) = iso9797_chain E k1 (iso9797_chain E k1 h a) b"
  using assms by (induction a arbitrary: h rule: block_induct) auto

lemma des_permutationD:
  assumes "des_permutation E D" and "length k = 8" and "length x = 8"
  shows "length (E k x) = 8" "length (D k x) = 8" "D k (E k x) = x" "E k (D k x) = x"
  using assms by (auto simp: des_permutation_def)

lemma block_inverse_ede:
  assumes "des_permutation E D" and "length key = 24"
  shows "block_inverse (ede E D key) (ede_inverse E D key)"
  unfolding block_inverse_def ede_def ede_inverse_def
  using assms by (simp add: des_permutationD)

lemma ede_single:
  assumes "des_permutation E D" and "length k1 = 8" and "length x = 8"
  shows "ede E D (k1 @ k1 @ k1) x = E k1 x"
  using assms by (simp add: ede_def des_permutationD)

subsection \<open>The ciphers under OpenSSL's contract\<close>

abbreviation des_key :: "bytes \<Rightarrow> bool" where
  "des_key key \<equiv> length key = 16 \<or> length key = 24"

definition des_schedule :: "bytes \<Rightarrow> bytes" where
  "des_schedule key = (if length key = 16 then key @ take 8 key else key)"

lemma length_des_schedule [simp]: "des_key key \<Longrightarrow> length (des_schedule key) = 24"
  by (auto simp: des_schedule_def)

lemma evp_is_desD:
  assumes "evp_is_des evp E D"
  shows "des_permutation E D"
    and "\<lbrakk>length key = 24; length iv = 8; data \<noteq> []; length data mod 8 = 0\<rbrakk> \<Longrightarrow>
      evp DES_EDE3_CBC True key iv data = Some (cbc_encrypt (ede E D key) iv data)"
  using assms by (auto simp: evp_is_des_def)

lemma Des3_eq:
  assumes "evp_is_des evp E D" and "des_key key" and "length iv = 8"
    and "data \<noteq> []" and "length data mod 8 = 0"
  shows "Des3 evp \<lparr>cipher_key = key, cipher_iv = iv\<rparr> data True
      = Inr (cbc_encrypt (ede E D (des_schedule key)) iv data)"
    and "Des3 evp \<lparr>cipher_key = key, cipher_iv = iv\<rparr> data False
      = Inr (cbc_decrypt (ede_inverse E D (des_schedule key)) iv data)"
  using assms by (auto simp: Des3_def perform_cipher_operation_def evp_is_des_def des_schedule_def)

text \<open>
  The ciphertext of \<open>RawEncode\<close>, and that \<open>RawDecode\<close> inverts it.
\<close>

lemma RawEncode_eq:
  assumes "evp_is_des evp E D" and "des_key key" and "length iv = 8"
    and "data \<noteq> []" and "length data mod 8 = 0"
  defines "c \<equiv> cbc_encrypt (ede E D (des_schedule key)) iv data"
  shows "CDES3_RawEncode evp \<lparr>cipher_key = key, cipher_iv = iv\<rparr> data = Inr c"
    and "length c = length data"
    and "CDES3_RawDecode evp \<lparr>cipher_key = key, cipher_iv = iv\<rparr> c = Inr data"
proof -
  have inv: "block_inverse (ede E D (des_schedule key)) (ede_inverse E D (des_schedule key))"
    using block_inverse_ede evp_is_desD(1) [OF assms(1)] assms(2) by simp
  have rt: "length c = length data" "cbc_decrypt (ede_inverse E D (des_schedule key)) iv c = data"
    unfolding c_def using cbc_roundtrip [OF assms(5) inv assms(3)] by auto
  then have "c \<noteq> []" "length c mod 8 = 0" using assms(4,5) by auto
  with rt Des3_eq(2) [OF assms(1-3)] Des3_eq(1) [OF assms(1-5)] assms(5)
  show "CDES3_RawEncode evp \<lparr>cipher_key = key, cipher_iv = iv\<rparr> data = Inr c" "length c = length data"
    "CDES3_RawDecode evp \<lparr>cipher_key = key, cipher_iv = iv\<rparr> c = Inr data"
    by (auto simp: CDES3_RawEncode_def CDES3_RawDecode_def c_def)
qed

lemma ANSIPadLen_blocks:
  assumes "length (data :: bytes) mod 8 = 0" and "length data + 8 < 2 ^ 64"
  shows "unat (ANSIPadLen (of_nat (length data))) = length data"
proof -
  have "unat (of_nat (length data) :: ulong) = length data" using assms(2) by (simp add: unat_of_nat)
  moreover have "(length data + 7) div 8 * 8 = length data" using assms(1) by presburger
  ultimately show ?thesis using unat_ANSIPadLen [of "of_nat (length data)"] assms(2) by simp
qed

lemma mac_step1_eq:
  assumes "evp_is_des evp E D" and "des_key key" and "length iv = 8"
    and "data \<noteq> []" and "length data mod 8 = 0"
  shows "mac_step1 evp \<lparr>cipher_key = key, cipher_iv = iv\<rparr> data (length data) iv
    = Inr (iso9797_chain E (take 8 key) iv (take (length data - 8) data))"
proof (cases "length data > 8")
  case True
  let ?k = "take 8 key" and ?d = "take (length data - 8) data"
  have k: "length ?k = 8" using assms(2) by auto
  have d: "?d \<noteq> []" "length ?d mod 8 = 0"
    using True assms(5) le_mod_geq [of 8 "length data"] by auto
  note perm = evp_is_desD(1) [OF assms(1)]
  have "evp DES_EDE3_CBC True (?k @ ?k @ ?k) iv ?d = Some (cbc_encrypt (ede E D (?k @ ?k @ ?k)) iv ?d)"
    using evp_is_desD(2) [OF assms(1)] k d assms(3) by simp
  also have "cbc_encrypt (ede E D (?k @ ?k @ ?k)) iv ?d = cbc_encrypt (E ?k) iv ?d"
    using perm k by (intro cbc_encrypt_cong d(2) assms(3)) (simp add: ede_single des_permutationD)
  finally show ?thesis
    using cbc_last_block [OF d(2) assms(3), of E ?k] des_permutationD(1) [OF perm k] d True assms(5)
    by (auto simp: mac_step1_def Let_def)
next
  case False
  then have "length data = 8" using assms(4,5) by (cases "length data < 8") auto
  then show ?thesis by (simp add: mac_step1_def)
qed

text \<open>The retail MAC of the code is ISO 9797-1 MAC algorithm 3.\<close>

lemma CMAC_Mac_eq:
  assumes "evp_is_des evp E D" and "des_key key" and "length iv = 8"
    and "data \<noteq> []" and "length data mod 8 = 0" and "length data + 8 < 2 ^ 64"
  shows "CMAC_Mac evp \<lparr>cipher_key = key, cipher_iv = iv\<rparr> data = Inr (iso9797_alg3 E D key iv data)"
    and "length (iso9797_alg3 E D key iv data) = 8"
proof -
  let ?a = "take (length data - 8) data" and ?b = "drop (length data - 8) data"
    and ?h = "iso9797_chain E (take 8 key) iv"
  have n: "8 \<le> length data" using assms(4,5) by (cases "length data < 8") auto
  then have b: "length ?b = 8" "?b \<noteq> []" "length ?b mod 8 = 0" by auto
  have a: "length ?a mod 8 = 0" using n assms(5) le_mod_geq [of 8 "length data"] by simp
  note perm = evp_is_desD(1) [OF assms(1)]
  have k: "length (take 8 key) = 8" "length (take 8 (drop 8 key)) = 8"
    "length (take 8 (drop 16 (des_schedule key))) = 8" using assms(2) by (auto simp: des_schedule_def)
  have sched: "take 8 (des_schedule key) = take 8 key"
    "take 8 (drop 8 (des_schedule key)) = take 8 (drop 8 key)"
    "take 8 (drop 16 (des_schedule key)) = (if length key = 16 then take 8 key else take 8 (drop 16 key))"
    using assms(2) by (auto simp: des_schedule_def)
  have hl: "length (?h d) = 8" if "length d mod 8 = 0" for d
    using cbc_last_block [OF that assms(3), of E "take 8 key"] des_permutationD(1) [OF perm k(1)] by blast
  have split: "?h data = E (take 8 key) (xor_block (?h ?a) ?b)"
    using iso9797_chain_append [OF a, of E "take 8 key" iv ?b] cbc_block(3) [of ?b E "take 8 key" "?h ?a" "[]"] b
    by simp
  have "evp DES_EDE3_CBC True (des_schedule key) (?h ?a) ?b
      = Some (cbc_encrypt (ede E D (des_schedule key)) (?h ?a) ?b)"
    using evp_is_desD(2) [OF assms(1)] assms(2) hl [OF a] b by simp
  also have "cbc_encrypt (ede E D (des_schedule key)) (?h ?a) ?b = ede E D (des_schedule key) (xor_block (?h ?a) ?b)"
    using cbc_block(1) [of ?b _ "?h ?a" "[]"] b by simp
  also have "\<dots> = iso9797_alg3 E D key iv data"
    by (simp add: ede_def sched split iso9797_alg3_def Let_def)
  finally have ev: "evp DES_EDE3_CBC True (des_schedule key) (?h ?a) ?b = Some (iso9797_alg3 E D key iv data)" .
  show l: "length (iso9797_alg3 E D key iv data) = 8"
    using perm k hl [OF assms(5)] sched(3)
    by (simp add: iso9797_alg3_def Let_def des_permutationD split: if_splits)
  then show "CMAC_Mac evp \<lparr>cipher_key = key, cipher_iv = iv\<rparr> data = Inr (iso9797_alg3 E D key iv data)"
    using ev n ANSIPadLen_blocks [OF assms(5,6)] mac_step1_eq [OF assms(1-5)] assms(3)
    by (simp add: CMAC_Mac_def mac_step2_def ba_mid_def des_schedule_def Let_def split: if_splits)
qed

lemma CAES_roundtrip_eq:
  assumes "evp_is_aes evp" and "aes_cbc_cipher (length key) \<noteq> None" and "length iv = 16"
    and "length data + 16 < 2 ^ 64"
  obtains c where "CAES_Encode evp u (CAES_Init key iv) data = Inr c"
    and "CAES_Decode evp (CAES_Init key iv) c = Inr data"
proof -
  obtain cipher where cipher: "aes_cbc_cipher (length key) = Some cipher" using assms(2) by auto
  let ?p = "data @ [0x80] @ replicate (15 - length data mod 16) 0"
  have "length ?p = length data + (16 - length data mod 16)" by (simp add: Suc_diff_le less_eq_Suc_le)
  also have "\<dots> mod 16 = 0" by presburger
  finally have p: "length ?p mod 16 = 0" .
  obtain c where c: "evp cipher True key iv ?p = Some c" "length c = length ?p" "evp cipher False key iv c = Some ?p"
    using assms(1,3) cipher p unfolding evp_is_aes_def by (metis append_is_Nil_conv not_Cons_self2)
  have "CAES_Encode evp u (CAES_Init key iv) data = Inr c"
    using c(1) p cipher ISOPad16_eq [OF assms(4), of u]
    by (simp add: CAES_Encode_def AES_def CAES_Init_def perform_cipher_operation_def)
  moreover have "CAES_Decode evp (CAES_Init key iv) c = Inr data"
    using c(2,3) p cipher RemoveISOPad_pad [of data]
    by (auto simp: CAES_Decode_def AES_def CAES_Init_def perform_cipher_operation_def)
  ultimately show ?thesis by (rule that)
qed

subsection \<open>Properties\<close>

text \<open>
  C26: \<open>CMAC::Mac\<close> computes MAC algorithm 3 of ISO 9797-1.  The code emulates the single DES of
  all blocks but the last by triple DES under three equal keys and runs the last block through
  triple DES under the whole key; for every message of whole blocks the result is the DES
  chain over all blocks followed by the decryption under the second and the encryption under
  the third key.
\<close>

theorem mac_is_algorithm3:
  assumes "evp_is_des evp E D" and "length key = 16 \<or> length key = 24" and "length iv = 8"
    and "data \<noteq> []" and "length data mod 8 = 0" and "length data + 8 < 2 ^ 64"
  shows "\<exists>c. CMAC_Init key iv = Inr c \<and> CMAC_Mac evp c data = Inr (iso9797_alg3 E D key iv data)"
  using CMAC_Mac_eq(1) [OF assms] assms(2) by (auto simp: CMAC_Init_def)

text \<open>
  An instance of OpenSSL's contract: triple DES over the block function that adds the key.
\<close>

definition demo_des :: des where
  "demo_des k x = xor_block k x"

definition demo_evp :: evp where
  "demo_evp cipher enc key iv data =
     (case cipher of
        DES_EDE_CBC \<Rightarrow>
          Some (if enc then cbc_encrypt (ede demo_des demo_des (key @ take 8 key)) iv data
                else cbc_decrypt (ede_inverse demo_des demo_des (key @ take 8 key)) iv data)
      | DES_EDE3_CBC \<Rightarrow>
          Some (if enc then cbc_encrypt (ede demo_des demo_des key) iv data
                else cbc_decrypt (ede_inverse demo_des demo_des key) iv data)
      | _ \<Rightarrow> Some (map (\<lambda>b. b XOR 0x5a) data))"

lemma demo_evp_lawful: "evp_is_des demo_evp demo_des demo_des" "evp_is_aes demo_evp"
proof -
  show "evp_is_des demo_evp demo_des demo_des"
    unfolding evp_is_des_def des_permutation_def by (simp add: demo_evp_def demo_des_def xor_block_cancel)
  have "map (\<lambda>b. b XOR 0x5a) (map (\<lambda>b. b XOR 0x5a) data) = data" for data :: bytes
    by (simp add: comp_def xor.assoc)
  then show "evp_is_aes demo_evp"
    unfolding evp_is_aes_def by (auto simp: demo_evp_def aes_cbc_cipher_def split: if_splits)
qed

theorem mac_is_algorithm3_witness:
  "\<exists>c. CMAC_Init [1, 2, 3, 4, 5, 6, 7, 8, 9, 10, 11, 12, 13, 14, 15, 16] [0, 0, 0, 0, 0, 0, 0, 0] = Inr c
     \<and> CMAC_Mac demo_evp c [1, 1, 1, 1, 1, 1, 1, 1, 2, 2, 2, 2, 2, 2, 2, 2]
       = Inr (iso9797_alg3 demo_des demo_des [1, 2, 3, 4, 5, 6, 7, 8, 9, 10, 11, 12, 13, 14, 15, 16]
           [0, 0, 0, 0, 0, 0, 0, 0] [1, 1, 1, 1, 1, 1, 1, 1, 2, 2, 2, 2, 2, 2, 2, 2])"
  by (rule mac_is_algorithm3 [OF demo_evp_lawful(1)]) simp_all

end
