(* ===== verification/Cache.thy ===== *)
theory Cache
  imports Byte_Array
begin

section \<open>The pairing cache (shared/src/util/cache\_lib.cpp, crypto/crypto\_util.h)\<close>

text \<open>
  When a card is paired, its certificate and the first half of the PIN, both encrypted under a
  key only the card can derive, are kept in \<open>~/.CIEPKI/<PAN>.cache\<close> inside an authenticated
  container.  The model is the POSIX branch of the code.

  The operating system (files, the environment, the random generator) and OpenSSL (AES-128-CBC
  with PKCS\#7 padding, HMAC-SHA256, the digests) are the fields of \<open>cache_env\<close>; the world they
  act on is threaded through.  A path is a \<open>string\<close>, the content of a file a byte list, a null
  pointer \<open>None\<close>.
\<close>

record 'w cache_env =
  getenv_HOME :: "string option"
  getpwuid_dir :: "string option"
  fs_stat :: "string \<Rightarrow> 'w \<Rightarrow> bool \<times> 'w"
  fs_lstat :: "string \<Rightarrow> 'w \<Rightarrow> (bool \<times> bool) option \<times> 'w"
  fs_mkdir :: "string \<Rightarrow> 'w \<Rightarrow> 'w"
  fs_chmod :: "string \<Rightarrow> 'w \<Rightarrow> 'w"
  fs_unlink :: "string \<Rightarrow> 'w \<Rightarrow> int \<times> 'w"
  fs_open :: "string \<Rightarrow> 'w \<Rightarrow> int \<times> 'w"
  fs_write :: "int \<Rightarrow> bytes \<Rightarrow> 'w \<Rightarrow> int \<times> 'w"
  fs_fsync :: "int \<Rightarrow> 'w \<Rightarrow> int \<times> 'w"
  fs_close :: "int \<Rightarrow> 'w \<Rightarrow> 'w"
  fs_rename :: "string \<Rightarrow> string \<Rightarrow> 'w \<Rightarrow> int \<times> 'w"
  fs_read :: "string \<Rightarrow> 'w \<Rightarrow> (int \<times> bytes) option \<times> 'w"
  RAND_bytes :: "nat \<Rightarrow> 'w \<Rightarrow> bytes option \<times> 'w"
  os_SHA1 :: "bytes \<Rightarrow> bytes"
  os_SHA256 :: "bytes \<Rightarrow> bytes"
  os_HMAC :: "bytes \<Rightarrow> bytes \<Rightarrow> bytes option"
  os_AES128 :: "bool \<Rightarrow> bytes \<Rightarrow> bytes \<Rightarrow> bytes \<Rightarrow> bytes option"

subsection \<open>The container: encrypt, decrypt, decryptLegacyZeroIv\<close>

definition bytes_of :: "string \<Rightarrow> bytes" where
  "bytes_of s = map (\<lambda>c. of_nat (of_char c)) s"

definition kCacheCryptoMagic :: bytes where
  "kCacheCryptoMagic = bytes_of ''CIE1''"

definition ENCRYPTION_KEY :: bytes where
  "ENCRYPTION_KEY = bytes_of ''this is a fake key''"

definition deriveCacheKeys :: "'w cache_env \<Rightarrow> bytes \<times> bytes" where
  "deriveCacheKeys ce =
     (take 16 (os_SHA1 ce ENCRYPTION_KEY), os_SHA256 ce (ENCRYPTION_KEY @ bytes_of ''|cache-hmac-v1''))"

text \<open>The message is encrypted with its terminating NUL.  \<open>None\<close> is the return value -1.\<close>

definition encrypt :: "'w cache_env \<Rightarrow> bytes \<Rightarrow> 'w \<Rightarrow> bytes option \<times> 'w" where
  "encrypt ce message w =
     (case RAND_bytes ce 16 w of
        (None, w) \<Rightarrow> (None, w)
      | (Some iv, w) \<Rightarrow>
          (case deriveCacheKeys ce of (key, macKey) \<Rightarrow>
             (case os_AES128 ce True key iv (message @ [0]) of
                None \<Rightarrow> (None, w)
              | Some encBuf \<Rightarrow>
                  (let body = kCacheCryptoMagic @ iv @ encBuf in
                   case os_HMAC ce macKey body of
                     None \<Rightarrow> (None, w)
                   | Some tag \<Rightarrow> if length tag \<noteq> 32 then (None, w) else (Some (body @ tag), w)))))"

definition decryptLegacyZeroIv :: "'w cache_env \<Rightarrow> bytes \<Rightarrow> bytes option" where
  "decryptLegacyZeroIv ce ciphertext =
     (if ciphertext = [] \<or> length ciphertext mod 16 \<noteq> 0 then None
      else os_AES128 ce False (take 16 (os_SHA1 ce ENCRYPTION_KEY)) (replicate 16 0) ciphertext)"

definition decrypt :: "'w cache_env \<Rightarrow> bytes \<Rightarrow> bytes option" where
  "decrypt ce ciphertext =
     (if length ciphertext < 4 + 16 + 32 \<or> take 4 ciphertext \<noteq> kCacheCryptoMagic then None
      else let iv = take 16 (drop 4 ciphertext);
               body = take (length ciphertext - 32) ciphertext;
               tag = drop (length ciphertext - 32) ciphertext;
               encBody = drop 20 body
           in if length encBody < 16 then None
              else case deriveCacheKeys ce of (key, macKey) \<Rightarrow>
                (case os_HMAC ce macKey body of
                   None \<Rightarrow> None
                 | Some expectedTag \<Rightarrow>
                     if length expectedTag \<noteq> 32 then None
                     else if expectedTag \<noteq> tag then None
                     else os_AES128 ce False key iv encBody))"

subsection \<open>PANs and paths\<close>

definition hex_char :: "char \<Rightarrow> bool" where
  "hex_char c \<longleftrightarrow>
     (let n = of_char c :: nat in 48 \<le> n \<and> n \<le> 57 \<or> 97 \<le> n \<and> n \<le> 102 \<or> 65 \<le> n \<and> n \<le> 70)"

definition IsValidPAN :: "string option \<Rightarrow> bool" where
  "IsValidPAN PAN =
     (case PAN of None \<Rightarrow> False
      | Some s \<Rightarrow> \<not> (length s = 0 \<or> length s > 32) \<and> list_all hex_char s)"

definition RequireValidPAN :: "string option \<Rightarrow> exn + string" where
  "RequireValidPAN PAN =
     (if IsValidPAN PAN then Inr (the PAN) else Inl (Logged_Error ''Invalid PAN''))"

definition GetCardDir :: "'w cache_env \<Rightarrow> string" where
  "GetCardDir ce =
     (case getenv_HOME ce of
        Some home \<Rightarrow> home
      | None \<Rightarrow> (case getpwuid_dir ce of Some dir \<Rightarrow> dir | None \<Rightarrow> ''/tmp'')) @ ''/.CIEPKI/''"

definition GetCardPath :: "'w cache_env \<Rightarrow> string option \<Rightarrow> exn + string" where
  "GetCardPath ce PAN = bindE (RequireValidPAN PAN) (\<lambda>p. Inr (GetCardDir ce @ p @ ''.cache''))"

definition GetDerPath :: "'w cache_env \<Rightarrow> string option \<Rightarrow> exn + string" where
  "GetDerPath ce PAN = bindE (RequireValidPAN PAN) (\<lambda>p. Inr (GetCardDir ce @ p @ ''.der''))"

subsection \<open>Files\<close>

text \<open>\<open>ByteDynArray::load\<close> (\<open>array.cpp\<close>): the size that \<open>tellg\<close> gives and the octets \<open>read\<close> delivers.\<close>

definition ba_load :: "'w cache_env \<Rightarrow> string \<Rightarrow> 'w \<Rightarrow> (exn + bytes) \<times> 'w" where
  "ba_load ce path w =
     (case fs_read ce path w of
        (None, w) \<Rightarrow> (Inl (Logged_Error ''ByteDynArray::load: cannot open file''), w)
      | (Some (fsize, got), w) \<Rightarrow>
          if fsize < 0 then (Inl (Logged_Error ''ByteDynArray::load: cannot determine file size''), w)
          else if fsize > 0 \<and> int (length got) \<noteq> fsize
          then (Inl (Logged_Error ''ByteDynArray::load: short read''), w)
          else (Inr (take (nat fsize) got), w))"

function write_loop :: "'w cache_env \<Rightarrow> int \<Rightarrow> bytes \<Rightarrow> 'w \<Rightarrow> bool \<times> 'w" where
  "write_loop ce fd data w =
     (if data = [] then (True, w)
      else case fs_write ce fd data w of (n, w') \<Rightarrow>
        if n \<le> 0 then (False, w') else write_loop ce fd (drop (nat n) data) w')"
  by pat_completeness auto
termination
  by (relation "measure (\<lambda>(ce, fd, data, w). length data)") auto

declare write_loop.simps [simp del]

definition WriteFileAtomic :: "'w cache_env \<Rightarrow> string \<Rightarrow> bytes \<Rightarrow> 'w \<Rightarrow> (exn + unit) \<times> 'w" where
  "WriteFileAtomic ce path data w0 =
     (let tmpPath = path @ ''.tmp''; w1 = snd (fs_unlink ce tmpPath w0) in
      case fs_open ce tmpPath w1 of (fd, w2) \<Rightarrow>
      if fd = -1 then (Inl (Logged_Error ''Cannot create temporary cache file''), w2)
      else case write_loop ce fd data w2 of (ok, w3) \<Rightarrow>
      case (if ok then (case fs_fsync ce fd w3 of (r, w) \<Rightarrow> (r = 0, w)) else (False, w3)) of (ok, w4) \<Rightarrow>
      let w5 = fs_close ce fd w4 in
      if \<not> ok then (Inl (Logged_Error ''Failed to write cache file''), snd (fs_unlink ce tmpPath w5))
      else case fs_rename ce tmpPath path w5 of (r, w6) \<Rightarrow>
      if r \<noteq> 0 then (Inl (Logged_Error ''Failed to finalize cache file''), snd (fs_unlink ce tmpPath w6))
      else (Inr (), w6))"

text \<open>\<open>fs_lstat\<close> gives whether the path is a directory and whether it belongs to the user.\<close>

definition EnsureCacheDirSecure :: "'w cache_env \<Rightarrow> string \<Rightarrow> 'w \<Rightarrow> 'w" where
  "EnsureCacheDirSecure ce dir w =
     (case fs_lstat ce dir w of
        (None, w) \<Rightarrow> fs_mkdir ce dir w
      | (Some (is_dir, own), w) \<Rightarrow> if \<not> is_dir \<or> \<not> own then w else fs_chmod ce dir w)"

subsection \<open>The cache operations\<close>

definition CacheExists :: "'w cache_env \<Rightarrow> string option \<Rightarrow> 'w \<Rightarrow> (exn + bool) \<times> 'w" where
  "CacheExists ce PAN w =
     (case GetCardPath ce PAN of
        Inl e \<Rightarrow> (Inl e, w)
      | Inr path \<Rightarrow> (case fs_stat ce path w of (b, w) \<Rightarrow> (Inr b, w)))"

definition CacheRemove :: "'w cache_env \<Rightarrow> string option \<Rightarrow> 'w \<Rightarrow> (exn + bool) \<times> 'w" where
  "CacheRemove ce PAN w =
     (case GetCardPath ce PAN of
        Inl e \<Rightarrow> (Inl e, w)
      | Inr path \<Rightarrow>
          (case fs_unlink ce path w of (ret, w) \<Rightarrow>
             (Inr (ret = 0), snd (fs_unlink ce (take (length path - 6) path @ ''.der'') w))))"

text \<open>
  A field of the plaintext: a 32-bit little-endian length and that many octets; the field and
  what follows it.
\<close>

definition cache_field :: "bytes \<Rightarrow> exn + (bytes \<times> bytes)" where
  "cache_field plain =
     (if length plain < 4 then Inl (Logged_Error ''corrupted cache data'')
      else let len = le_value (take 4 plain); rest = drop 4 plain in
        if len > length rest then Inl (Logged_Error ''corrupted cache data (invalid length)'')
        else Inr (take len rest, drop len rest))"

definition cache_put :: "bytes \<Rightarrow> bytes" where
  "cache_put data = le_bytes 4 (length data mod 2 ^ 32) @ take (length data mod 2 ^ 32) data"

text \<open>The authenticated format first, then the one of third-party software.\<close>

definition cache_decrypt :: "'w cache_env \<Rightarrow> bytes \<Rightarrow> bytes option" where
  "cache_decrypt ce ciphertext =
     (case decrypt ce ciphertext of Some p \<Rightarrow> Some p | None \<Rightarrow> decryptLegacyZeroIv ce ciphertext)"

definition CacheSetDer :: "'w cache_env \<Rightarrow> string option \<Rightarrow> bytes option \<Rightarrow> 'w \<Rightarrow> (exn + unit) \<times> 'w" where
  "CacheSetDer ce PAN der w0 =
     (if PAN = None \<or> der = None \<or> der = Some []
      then (Inl (Logged_Error ''CacheSetDer: invalid arguments''), w0)
      else let w1 = EnsureCacheDirSecure ce (GetCardDir ce) w0 in
        case GetDerPath ce PAN of
          Inl e \<Rightarrow> (Inl e, w1)
        | Inr path \<Rightarrow>
            (case encrypt ce (le_bytes 4 (length (the der) mod 2 ^ 32) @ the der) w1 of
               (None, w2) \<Rightarrow> (Inl (Logged_Error ''CacheSetDer: failed to encrypt cache data''), w2)
             | (Some ciphertext, w2) \<Rightarrow> WriteFileAtomic ce path ciphertext w2))"

text \<open>\<open>CacheGetDer\<close> swallows every exception of its body; a bad PAN is thrown before the \<open>try\<close>.\<close>

definition CacheGetDer :: "'w cache_env \<Rightarrow> string option \<Rightarrow> 'w \<Rightarrow> (exn + bytes option) \<times> 'w" where
  "CacheGetDer ce PAN w0 =
     (if PAN = None then (Inr None, w0)
      else case GetDerPath ce PAN of
        Inl e \<Rightarrow> (Inl e, w0)
      | Inr path \<Rightarrow>
          (case fs_stat ce path w0 of (found, w1) \<Rightarrow>
             if \<not> found then (Inr None, w1)
             else case ba_load ce path w1 of
               (Inl _, w2) \<Rightarrow> (Inr None, w2)
             | (Inr data, w2) \<Rightarrow>
                 if data = [] then (Inr None, w2)
                 else (Inr (case cache_decrypt ce data of
                              None \<Rightarrow> None
                            | Some plain \<Rightarrow> (case cache_field plain of Inl _ \<Rightarrow> None | Inr (der, _) \<Rightarrow> Some der)), w2)))"

definition cache_plaintext :: "'w cache_env \<Rightarrow> string option \<Rightarrow> 'w \<Rightarrow> (exn + bytes) \<times> 'w" where
  "cache_plaintext ce PAN w0 =
     (if PAN = None then (Inl (Logged_Error ''PAN is required''), w0)
      else case GetCardPath ce PAN of
        Inl e \<Rightarrow> (Inl e, w0)
      | Inr path \<Rightarrow>
          (case fs_stat ce path w0 of (found, w1) \<Rightarrow>
             if \<not> found then (Inl (Logged_Error ''CIE not enabled''), w1)
             else bindS (ba_load ce path w1) (\<lambda>data w2.
               case cache_decrypt ce data of
                 None \<Rightarrow> (Inl (Logged_Error ''failed to decrypt cache''), w2)
               | Some plain \<Rightarrow> (Inr plain, w2))))"

definition CacheGetCertificate :: "'w cache_env \<Rightarrow> string option \<Rightarrow> 'w \<Rightarrow> (exn + bytes) \<times> 'w" where
  "CacheGetCertificate ce PAN w =
     bindS (cache_plaintext ce PAN w) (\<lambda>plain.
     liftS (bindE (cache_field plain) (\<lambda>(_, rest).
            bindE (cache_field rest) (\<lambda>(cert, _). Inr cert))))"

definition CacheGetPIN :: "'w cache_env \<Rightarrow> string option \<Rightarrow> 'w \<Rightarrow> (exn + bytes) \<times> 'w" where
  "CacheGetPIN ce PAN w =
     bindS (cache_plaintext ce PAN w) (\<lambda>plain.
     liftS (bindE (cache_field plain) (\<lambda>(pin, _). Inr pin)))"

definition CacheSetData :: "'w cache_env \<Rightarrow> string option \<Rightarrow> bytes \<Rightarrow> bytes \<Rightarrow> 'w \<Rightarrow> (exn + unit) \<times> 'w" where
  "CacheSetData ce PAN certificate FirstPIN w0 =
     (if PAN = None then (Inl (Logged_Error ''PAN is required''), w0)
      else let w1 = EnsureCacheDirSecure ce (GetCardDir ce) w0 in
        case GetCardPath ce PAN of
          Inl e \<Rightarrow> (Inl e, w1)
        | Inr path \<Rightarrow>
            (case encrypt ce (cache_put FirstPIN @ cache_put certificate) w1 of
               (None, w2) \<Rightarrow> (Inl (Logged_Error ''CacheSetData: failed to encrypt cache data''), w2)
             | (Some ciphertext, w2) \<Rightarrow> WriteFileAtomic ce path ciphertext w2))"

subsection \<open>What the operating system and OpenSSL promise\<close>

text \<open>
  The contract is stated over an abstraction of the world: the files by path, and the path an
  open descriptor writes to.  Only what succeeded is constrained.
\<close>

record 'w fs_view =
  files :: "'w \<Rightarrow> string \<Rightarrow> bytes option"
  fd_path :: "'w \<Rightarrow> int \<Rightarrow> string option"

definition keeps_files :: "'w fs_view \<Rightarrow> 'w \<Rightarrow> 'w \<Rightarrow> bool" where
  "keeps_files v w w' \<longleftrightarrow> files v w' = files v w \<and> fd_path v w' = fd_path v w"

definition fs_lawful :: "'w cache_env \<Rightarrow> 'w fs_view \<Rightarrow> bool" where
  "fs_lawful ce v \<longleftrightarrow>
     (\<forall>p w. files v (snd (fs_unlink ce p w)) = (files v w)(p := None)) \<and>
     (\<forall>p w. fst (fs_open ce p w) \<noteq> -1 \<longrightarrow>
        files v (snd (fs_open ce p w)) = (files v w)(p \<mapsto> []) \<and>
        fd_path v (snd (fs_open ce p w)) (fst (fs_open ce p w)) = Some p) \<and>
     (\<forall>fd d w p c. fd_path v w fd = Some p \<longrightarrow> files v w p = Some c \<longrightarrow> fst (fs_write ce fd d w) > 0 \<longrightarrow>
        files v (snd (fs_write ce fd d w)) = (files v w)(p \<mapsto> c @ take (nat (fst (fs_write ce fd d w))) d) \<and>
        fd_path v (snd (fs_write ce fd d w)) = fd_path v w) \<and>
     (\<forall>fd w. files v (snd (fs_fsync ce fd w)) = files v w \<and> files v (fs_close ce fd w) = files v w) \<and>
     (\<forall>a b w c. fst (fs_rename ce a b w) = 0 \<longrightarrow> files v w a = Some c \<longrightarrow>
        files v (snd (fs_rename ce a b w)) = (files v w)(a := None, b \<mapsto> c)) \<and>
     (\<forall>p w. fst (fs_stat ce p w) = (files v w p \<noteq> None) \<and> keeps_files v w (snd (fs_stat ce p w))) \<and>
     (\<forall>p w. (case files v w p of None \<Rightarrow> fst (fs_read ce p w) = None
              | Some c \<Rightarrow> fst (fs_read ce p w) = Some (int (length c), c)) \<and> keeps_files v w (snd (fs_read ce p w))) \<and>
     (\<forall>p w. keeps_files v w (snd (fs_lstat ce p w)) \<and> files v (fs_mkdir ce p w) = files v w \<and>
        files v (fs_chmod ce p w) = files v w) \<and>
     (\<forall>n w. files v (snd (RAND_bytes ce n w)) = files v w)"

definition cache_crypto_lawful :: "'w cache_env \<Rightarrow> bool" where
  "cache_crypto_lawful ce \<longleftrightarrow>
     (\<forall>d. length (os_SHA1 ce d) = 20) \<and>
     (\<forall>n w iv. fst (RAND_bytes ce n w) = Some iv \<longrightarrow> length iv = n) \<and>
     (\<forall>k d t. os_HMAC ce k d = Some t \<longrightarrow> length t = 32) \<and>
     (\<forall>k iv d c. length k = 16 \<longrightarrow> length iv = 16 \<longrightarrow> os_AES128 ce True k iv d = Some c \<longrightarrow>
        16 \<le> length c \<and> os_AES128 ce False k iv c = Some d)"

lemma fs_lawfulD:
  assumes "fs_lawful ce v"
  shows "files v (snd (fs_unlink ce p w)) = (files v w)(p := None)"
    and "fst (fs_open ce p w) \<noteq> -1 \<Longrightarrow> files v (snd (fs_open ce p w)) = (files v w)(p \<mapsto> []) \<and>
        fd_path v (snd (fs_open ce p w)) (fst (fs_open ce p w)) = Some p"
    and "fd_path v w fd = Some p \<Longrightarrow> files v w p = Some c \<Longrightarrow> fst (fs_write ce fd d w) > 0 \<Longrightarrow>
        files v (snd (fs_write ce fd d w)) = (files v w)(p \<mapsto> c @ take (nat (fst (fs_write ce fd d w))) d) \<and>
        fd_path v (snd (fs_write ce fd d w)) = fd_path v w"
    and "files v (snd (fs_fsync ce fd w)) = files v w" "files v (fs_close ce fd w) = files v w"
    and "fst (fs_rename ce a b w) = 0 \<Longrightarrow> files v w a = Some c \<Longrightarrow>
        files v (snd (fs_rename ce a b w)) = (files v w)(a := None, b \<mapsto> c)"
    and "fst (fs_stat ce p w) = (files v w p \<noteq> None)" "files v (snd (fs_stat ce p w)) = files v w"
    and "files v w p = Some c \<Longrightarrow> fst (fs_read ce p w) = Some (int (length c), c)"
    and "files v (snd (fs_lstat ce p w)) = files v w" "files v (fs_mkdir ce p w) = files v w"
      "files v (fs_chmod ce p w) = files v w" "files v (snd (RAND_bytes ce n w)) = files v w"
  using assms unfolding fs_lawful_def keeps_files_def by (auto split: option.splits)

subsection \<open>Lemmas\<close>

lemma write_loop_files:
  assumes "fs_lawful ce v" and "fd_path v w fd = Some p" and "files v w p = Some c"
    and "write_loop ce fd data w = (True, w')"
  shows "files v w' = (files v w)(p \<mapsto> c @ data)"
  using assms(2-)
proof (induction "length data" arbitrary: data w c rule: less_induct)
  case less
  show ?case
  proof (cases "data = []")
    case True
    with less.prems show ?thesis by (auto simp: write_loop.simps [of ce fd "[]"])
  next
    case False
    obtain n w1 where wr: "fs_write ce fd data w = (n, w1)" by (cases "fs_write ce fd data w")
    with less.prems False have n: "n > 0" and rest: "write_loop ce fd (drop (nat n) data) w1 = (True, w')"
      by (auto simp: write_loop.simps [of ce fd data] split: if_splits)
    have step: "files v w1 = (files v w)(p \<mapsto> c @ take (nat n) data)" "fd_path v w1 = fd_path v w"
      using fs_lawfulD(3) [OF assms(1) less.prems(1,2), of data] wr n by simp_all
    have "length (drop (nat n) data) < length data" using n False by (cases data) auto
    from less.hyps [OF this, of w1 "c @ take (nat n) data"] step less.prems(1) rest
    show ?thesis by (simp add: append_assoc)
  qed
qed

lemma WriteFileAtomic_files:
  assumes "fs_lawful ce v" and "WriteFileAtomic ce path data w = (Inr (), w')"
  shows "files v w' = (files v w)(path @ ''.tmp'' := None, path \<mapsto> data)"
proof -
  let ?tmp = "path @ ''.tmp''"
  let ?w1 = "snd (fs_unlink ce ?tmp w)"
  obtain fd w2 where o: "fs_open ce ?tmp ?w1 = (fd, w2)" by (cases "fs_open ce ?tmp ?w1")
  obtain ok w3 where l: "write_loop ce fd data w2 = (ok, w3)" by (cases "write_loop ce fd data w2")
  obtain r w4 where f: "fs_fsync ce fd w3 = (r, w4)" by (cases "fs_fsync ce fd w3")
  let ?w5 = "fs_close ce fd w4"
  obtain q w6 where m: "fs_rename ce ?tmp path ?w5 = (q, w6)" by (cases "fs_rename ce ?tmp path ?w5")
  from assms(2) have c: "fd \<noteq> -1" "ok" "r = 0" "q = 0" "w' = w6"
    by (auto simp: WriteFileAtomic_def Let_def o l f m split: if_splits)
  have w2: "files v w2 = (files v w)(?tmp \<mapsto> [])" "fd_path v w2 fd = Some ?tmp"
    using fs_lawfulD(2) [OF assms(1), of ?tmp ?w1] c(1) o fs_lawfulD(1) [OF assms(1)] by simp_all
  have "files v w3 = (files v w)(?tmp \<mapsto> data)"
    using write_loop_files [OF assms(1) w2(2), of "[]"] w2(1) l c(2) by simp
  then have "files v ?w5 = (files v w)(?tmp \<mapsto> data)"
    using fs_lawfulD(4,5) [OF assms(1)] f by (metis snd_conv)
  then show ?thesis
    using fs_lawfulD(6) [OF assms(1), of ?tmp path ?w5 data] m c(4,5) by simp
qed

lemma EnsureCacheDirSecure_files:
  "fs_lawful ce v \<Longrightarrow> files v (EnsureCacheDirSecure ce dir w) = files v w"
  using fs_lawfulD(10-12) [of ce v]
  by (auto simp: EnsureCacheDirSecure_def split: prod.splits option.splits) (metis snd_conv)+

lemma decrypt_encrypt:
  assumes "cache_crypto_lawful ce" and "encrypt ce message w = (Some c, w')"
  shows "decrypt ce c = Some (message @ [0])"
proof -
  obtain key macKey where k: "deriveCacheKeys ce = (key, macKey)" by (cases "deriveCacheKeys ce")
  with assms(2) obtain iv w1 enc tag where e: "RAND_bytes ce 16 w = (Some iv, w1)"
    "os_AES128 ce True key iv (message @ [0]) = Some enc"
    "os_HMAC ce macKey (kCacheCryptoMagic @ iv @ enc) = Some tag" "length tag = 32"
    "c = (kCacheCryptoMagic @ iv @ enc) @ tag"
    by (auto simp: encrypt_def Let_def split: prod.splits option.splits if_splits)
  have "length key = 16" using k assms(1) by (auto simp: deriveCacheKeys_def cache_crypto_lawful_def)
  moreover have iv: "length iv = 16" using e(1) assms(1) by (auto simp: cache_crypto_lawful_def) (metis fst_conv)
  ultimately have a: "16 \<le> length enc" "os_AES128 ce False key iv enc = Some (message @ [0])"
    using e(2) assms(1) by (auto simp: cache_crypto_lawful_def)
  have m: "length kCacheCryptoMagic = 4" by (simp add: kCacheCryptoMagic_def bytes_of_def)
  show ?thesis
    using m iv a e(3-5) k by (simp add: decrypt_def Let_def)
qed

lemma cache_field_put:
  assumes "length data < 2 ^ 32"
  shows "cache_field (cache_put data @ rest) = Inr (data, rest)"
  using assms by (simp add: cache_field_def cache_put_def le_value_le_bytes Let_def)

lemma cache_written:
  assumes "fs_lawful ce v" and "cache_crypto_lawful ce" and "GetCardPath ce PAN = Inr path"
    and "CacheSetData ce PAN certificate FirstPIN w = (Inr (), w')"
  obtains c where "files v w' = (files v w)(path @ ''.tmp'' := None, path \<mapsto> c)"
    and "decrypt ce c = Some (cache_put FirstPIN @ cache_put certificate @ [0])"
proof -
  let ?w1 = "EnsureCacheDirSecure ce (GetCardDir ce) w" and ?m = "cache_put FirstPIN @ cache_put certificate"
  have "PAN \<noteq> None" using assms(3) by (cases PAN) (simp_all add: GetCardPath_def RequireValidPAN_def IsValidPAN_def)
  with assms(3,4) obtain c w2 where e: "encrypt ce ?m ?w1 = (Some c, w2)" "WriteFileAtomic ce path c w2 = (Inr (), w')"
    by (auto simp: CacheSetData_def Let_def split: prod.splits option.splits)
  have "w2 = snd (RAND_bytes ce 16 ?w1)"
    using e(1) by (auto simp: encrypt_def Let_def split: prod.splits option.splits if_splits)
  then have "files v w2 = files v w"
    using fs_lawfulD(13) [OF assms(1)] EnsureCacheDirSecure_files [OF assms(1)] by metis
  with WriteFileAtomic_files [OF assms(1) e(2)] decrypt_encrypt [OF assms(2) e(1)] show ?thesis
    by (intro that [of c]) simp_all
qed

lemma cache_plaintext_file:
  assumes "fs_lawful ce v" and "GetCardPath ce PAN = Inr path" and "files v w path = Some c" and "decrypt ce c = Some m"
  shows "fst (cache_plaintext ce PAN w) = Inr m"
proof -
  have pan: "PAN \<noteq> None" using assms(2) by (cases PAN) (simp_all add: GetCardPath_def RequireValidPAN_def IsValidPAN_def)
  obtain w1 where st: "fs_stat ce path w = (True, w1)" "files v w1 path = Some c"
    using fs_lawfulD(7,8) [OF assms(1), of path w] assms(3) by (cases "fs_stat ce path w") auto
  obtain w2 where rd: "fs_read ce path w1 = (Some (int (length c), c), w2)"
    using fs_lawfulD(9) [OF assms(1) st(2)] by (cases "fs_read ce path w1") auto
  show ?thesis
    using pan assms(2,4) st(1) rd by (simp add: cache_plaintext_def ba_load_def cache_decrypt_def)
qed

lemma bindS_fst: "fst m = Inr x \<Longrightarrow> fst (bindS m k) = fst (k x (snd m))"
  by (cases m) simp

text \<open>The paths of two cards differ in the cards' numbers.\<close>

lemma GetCardPath_eq: "GetCardPath ce PAN = Inr path \<longleftrightarrow> IsValidPAN PAN \<and> path = GetCardDir ce @ the PAN @ ''.cache''"
  by (auto simp: GetCardPath_def RequireValidPAN_def)

subsection \<open>Properties\<close>


text \<open>A file system of maps and a trivial cipher, as an instance of the contract.\<close>

type_synonym demo_fs = "(string \<Rightarrow> bytes option) \<times> string option"

definition demo_cache :: "demo_fs cache_env" where
  "demo_cache =
     \<lparr>getenv_HOME = Some ''/home/u'', getpwuid_dir = None,
      fs_stat = (\<lambda>p (f, o'). (f p \<noteq> None, f, o')), fs_lstat = (\<lambda>p w. (Some (True, True), w)),
      fs_mkdir = (\<lambda>p w. w), fs_chmod = (\<lambda>p w. w),
      fs_unlink = (\<lambda>p (f, o'). (0, f(p := None), o')),
      fs_open = (\<lambda>p (f, o'). (3, f(p \<mapsto> []), Some p)),
      fs_write = (\<lambda>fd d (f, o'). case o' of None \<Rightarrow> (-1, f, o')
         | Some p \<Rightarrow> (case f p of None \<Rightarrow> (-1, f, o') | Some c \<Rightarrow> (int (length d), f(p \<mapsto> c @ d), o'))),
      fs_fsync = (\<lambda>fd w. (0, w)), fs_close = (\<lambda>fd w. w),
      fs_rename = (\<lambda>a b (f, o'). (0, f(a := None, b := f a), o')),
      fs_read = (\<lambda>p (f, o'). (map_option (\<lambda>c. (int (length c), c)) (f p), f, o')),
      RAND_bytes = (\<lambda>n w. (Some (replicate n 7), w)),
      os_SHA1 = (\<lambda>d. replicate 20 1), os_SHA256 = (\<lambda>d. replicate 32 2),
      os_HMAC = (\<lambda>k d. Some (replicate 32 (of_nat (length d)))),
      os_AES128 = (\<lambda>enc k iv d. if enc then Some (d @ replicate 16 0) else Some (take (length d - 16) d))\<rparr>"

definition demo_fs_view :: "demo_fs fs_view" where
  "demo_fs_view = \<lparr>files = fst, fd_path = (\<lambda>w fd. snd w)\<rparr>"

lemma demo_cache_lawful: "fs_lawful demo_cache demo_fs_view" "cache_crypto_lawful demo_cache"
  by (auto simp: fs_lawful_def cache_crypto_lawful_def demo_cache_def demo_fs_view_def keeps_files_def
      split: option.splits)

lemma demo_cache_set:
  "fst (CacheSetData demo_cache (Some ''4d61'') [1, 2, 3] [9, 8] (\<lambda>_. None, None)) = Inr ()"
  by (simp add: CacheSetData_def GetCardPath_def RequireValidPAN_def IsValidPAN_def hex_char_def
      EnsureCacheDirSecure_def encrypt_def WriteFileAtomic_def write_loop.simps demo_cache_def Let_def
      deriveCacheKeys_def kCacheCryptoMagic_def cache_put_def)


end
