(* ===== verification/Big_Number.thy ===== *)
theory Big_Number
  imports Prelude
begin

section \<open>Big-endian numbers and RSA (shared/src/crypto/rsa.cpp)\<close>

text \<open>
  \<open>BN_bin2bn\<close>, \<open>BN_num_bytes\<close> and \<open>BN_bn2binpad\<close> on natural numbers, and the class \<open>CRSA\<close>,
  whose \<open>RSA_PURE\<close> is the modular exponentiation of RFC 8017.  Whether OpenSSL accepts a
  modulus and an exponent as a key (\<open>EVP_PKEY_fromdata\<close>) is the parameter \<open>fromdata\<close>.  The
  allocation failures of OpenSSL are not modelled.
\<close>

definition be_value :: "bytes \<Rightarrow> nat" where
  "be_value bs = foldl (\<lambda>v b. 256 * v + unat b) 0 bs"

fun BN_num_bytes :: "nat \<Rightarrow> nat" where
  "BN_num_bytes n = (if n = 0 then 0 else Suc (BN_num_bytes (n div 256)))"

declare BN_num_bytes.simps [simp del]

definition BN_bn2binpad :: "nat \<Rightarrow> nat \<Rightarrow> bytes" where
  "BN_bn2binpad v len = rev (le_bytes len v)"

type_synonym rsa_key = "nat \<times> nat"

definition new_CRSA :: "(nat \<Rightarrow> nat \<Rightarrow> bool) \<Rightarrow> bytes \<Rightarrow> bytes \<Rightarrow> exn + rsa_key" where
  "new_CRSA fromdata mod' exp' =
     (if fromdata (be_value mod') (be_value exp') then Inr (be_value mod', be_value exp')
      else Inl (Logged_Error ''EVP_PKEY_fromdata failed''))"

definition CRSA_RSA_PURE :: "rsa_key \<Rightarrow> bytes \<Rightarrow> exn + bytes" where
  "CRSA_RSA_PURE key data =
     (case key of (n, e) \<Rightarrow>
        let m = be_value data in
        if m \<ge> n then Inl (Std_Error ''RSA_PURE: representative out of range'')
        else Inr (BN_bn2binpad (m ^ e mod n) (BN_num_bytes n)))"

subsection \<open>Lemmas\<close>

lemma be_value_foldl: "foldl (\<lambda>v b. 256 * v + unat b) x bs = x * 256 ^ length bs + be_value bs"
proof (induction bs arbitrary: x)
  case Nil
  then show ?case by (simp add: be_value_def)
next
  case (Cons b bs)
  show ?case
    using Cons [of "256 * x + unat b"] Cons [of "unat b"] by (simp add: be_value_def algebra_simps)
qed

lemma be_value_append: "be_value (xs @ ys) = be_value xs * 256 ^ length ys + be_value ys"
  using be_value_foldl [of "be_value xs" ys] by (simp add: be_value_def)

lemma be_value_cons: "be_value (b # bs) = unat b * 256 ^ length bs + be_value bs"
  using be_value_append [of "[b]" bs] by (simp add: be_value_def)

lemma be_value_Nil [simp]: "be_value [] = 0"
  by (simp add: be_value_def)

lemma be_value_rev: "be_value (rev bs) = le_value bs"
  by (induction bs) (simp_all add: be_value_append be_value_cons)

lemma be_value_bn2binpad: "be_value (BN_bn2binpad v len) = v mod 256 ^ len"
  by (simp add: BN_bn2binpad_def be_value_rev le_value_le_bytes)

lemma length_bn2binpad [simp]: "length (BN_bn2binpad v len) = len"
  by (simp add: BN_bn2binpad_def)

lemma BN_num_bytes_bound: "n < 256 ^ BN_num_bytes n"
proof (induction n rule: BN_num_bytes.induct)
  case (1 n)
  show ?case
  proof (cases "n = 0")
    case True
    then show ?thesis by (simp add: BN_num_bytes.simps)
  next
    case False
    with 1 have "n div 256 < 256 ^ BN_num_bytes (n div 256)" by simp
    then have "n < 256 * 256 ^ BN_num_bytes (n div 256)" by (simp add: less_mult_imp_div_less mult.commute div_less_iff_less_mult)
    with False show ?thesis by (simp add: BN_num_bytes.simps [of n])
  qed
qed

text \<open>The result of \<open>RSA_PURE\<close> as a number.\<close>

lemma CRSA_RSA_PURE_value:
  assumes "be_value data < n"
  obtains c where "CRSA_RSA_PURE (n, e) data = Inr c" "be_value c = be_value data ^ e mod n" "length c = BN_num_bytes n"
proof -
  have "be_value data ^ e mod n < 256 ^ BN_num_bytes n"
    using BN_num_bytes_bound [of n] assms mod_less_divisor [of n "be_value data ^ e"] by linarith
  with assms show ?thesis
    by (intro that [of "BN_bn2binpad (be_value data ^ e mod n) (BN_num_bytes n)"])
       (simp_all add: CRSA_RSA_PURE_def be_value_bn2binpad)
qed

end
