(* ===== verification/Ias_Channel.thy ===== *)
theory Ias_Channel
  imports Token Secure_Messaging Cache Big_Number Atr
begin

section \<open>The IAS object and its channel to the card (shared/src/csp/ias.cpp)\<close>

text \<open>
  The state of an \<open>IAS\<close> object, and the four functions through which every command goes:
  \<open>SendAPDU\<close>, \<open>SendAPDU_SM\<close>, \<open>getResp\<close> and \<open>getResp_SM\<close>, with the file reader on top of them.

  An operation takes the card handle (the callback data of the token) and the object with the
  world, and leaves both changed.  The parts of the system that are not this repository's are
  the fields of \<open>ias_env\<close>: OpenSSL's ciphers, digests and RSA key check, the random generator,
  and through \<open>ias_callback\<close> the card.  The loops whose number of rounds the card decides take
  fuel; \<open>Hang\<close> is the value when it runs out.
\<close>

datatype CIE_DF = DF_Root | DF_IAS | DF_CIE

record ias =
  ias_type :: CIE_Type
  dh_g :: bytes
  dh_p :: bytes
  dh_q :: bytes
  sessENC :: bytes
  sessMAC :: bytes
  sessSSC :: bytes
  dh_pubKey :: bytes
  dh_ICCpubKey :: bytes
  CA_module :: bytes
  CA_pubexp :: bytes
  CA_privexp :: bytes
  CA_CHR :: bytes
  CA_CHA :: bytes
  CA_CAR :: bytes
  CA_AID :: bytes
  IAS_AID :: bytes
  CIE_AID :: bytes
  ias_ATR :: bytes
  ias_Certificate :: bytes
  CardEncKey :: bytes
  CardEncIv :: bytes
  ias_PAN :: bytes
  DappModule :: bytes
  DappPubKey :: bytes
  ActiveSM :: bool
  ActiveDF :: CIE_DF

record 'w ias_env =
  ias_callback :: "'w transmit_callback"
  ias_evp :: evp
  ias_uninit :: "nat \<Rightarrow> byte"
  ias_sha1 :: "bytes \<Rightarrow> bytes"
  ias_sha256 :: "bytes \<Rightarrow> bytes"
  ias_sha512 :: "bytes \<Rightarrow> bytes"
  ias_fromdata :: "nat \<Rightarrow> nat \<Rightarrow> bool"
  ias_random :: "nat \<Rightarrow> 'w \<Rightarrow> bytes option \<times> 'w"
  ias_cache :: "'w cache_env"
  ias_fuel :: nat

type_synonym ('w, 'a) ias_fn = "ulong \<Rightarrow> ias \<times> 'w \<Rightarrow> (exn + 'a) \<times> ias \<times> 'w"

definition new_IAS_object :: "bytes \<Rightarrow> ias" where
  "new_IAS_object atr =
     \<lparr>ias_type = CIE_Unknown, dh_g = [], dh_p = [], dh_q = [], sessENC = [], sessMAC = [], sessSSC = [],
      dh_pubKey = [], dh_ICCpubKey = [], CA_module = [], CA_pubexp = [], CA_privexp = [], CA_CHR = [],
      CA_CHA = [], CA_CAR = [], CA_AID = [],
      IAS_AID = [0xA0, 0x00, 0x00, 0x00, 0x30, 0x80, 0x00, 0x00, 0x00, 0x09, 0x81, 0x60, 0x01],
      CIE_AID = [0xA0, 0x00, 0x00, 0x00, 0x00, 0x39],
      ias_ATR = atr, ias_Certificate = [], CardEncKey = [], CardEncIv = [], ias_PAN = [],
      DappModule = [], DappPubKey = [], ActiveSM = False, ActiveDF = DF_Root\<rparr>"

subsection \<open>Transmission\<close>

definition ias_token :: "'w ias_env \<Rightarrow> ulong \<Rightarrow> 'w ctoken" where
  "ias_token ie hc = setTransmitCallbackData hc (setTransmitCallback (Some (ias_callback ie)) 0 new_CToken)"

definition ias_Transmit :: "'w ias_env \<Rightarrow> bytes \<Rightarrow> ('w, 16 word \<times> bytes) ias_fn" where
  "ias_Transmit ie apdu hc st =
     (case Transmit (ias_token ie hc) apdu (snd st) of (r, w) \<Rightarrow> (r, fst st, w))"

definition HIBYTE :: "16 word \<Rightarrow> byte" where
  "HIBYTE sw = ucast (drop_bit 8 sw)"

definition LOBYTE :: "16 word \<Rightarrow> byte" where
  "LOBYTE sw = ucast (sw AND 0xff)"

fun getResp :: "'w ias_env \<Rightarrow> nat \<Rightarrow> 16 word \<Rightarrow> bytes \<Rightarrow> ('w, 16 word \<times> bytes) ias_fn" where
  "getResp ie 0 sw elabresp hc st = (Inl Hang, st)"
| "getResp ie (Suc fuel) sw elabresp hc st =
     (if HIBYTE sw = 0x61 then
        if LOBYTE sw \<noteq> 0 then
          bindS (ias_Transmit ie [0x00, 0xc0, 0x00, 0x00, LOBYTE sw] hc st) (\<lambda>(sw, curresp) st.
            (Inr (sw, elabresp @ curresp), st))
        else
          bindS (ias_Transmit ie [0x00, 0xc0, 0x00, 0x00, 0x00] hc st) (\<lambda>(sw, curresp) st.
            getResp ie fuel sw (elabresp @ curresp) hc st)
      else (Inr (sw, elabresp), st))"

text \<open>\<open>respSM(sessENC, sessMAC, elabresp, sessSSC, elabresp)\<close>: the counter of the object advances.\<close>

definition ias_respSM :: "'w ias_env \<Rightarrow> bytes \<Rightarrow> ('w, 16 word \<times> bytes) ias_fn" where
  "ias_respSM ie resp hc st =
     (case respSM (ias_evp ie) (ias_uninit ie) (sessENC (fst st)) (sessMAC (fst st)) resp (sessSSC (fst st)) of
        (r, seq) \<Rightarrow> (r, (fst st)\<lparr>sessSSC := seq\<rparr>, snd st))"

definition ias_SM :: "'w ias_env \<Rightarrow> bytes \<Rightarrow> ('w, bytes) ias_fn" where
  "ias_SM ie apdu hc st =
     (case SM (ias_evp ie) (ias_uninit ie) (sessENC (fst st)) (sessMAC (fst st)) apdu (sessSSC (fst st)) of
        (r, seq) \<Rightarrow> (r, (fst st)\<lparr>sessSSC := seq\<rparr>, snd st))"

fun getResp_SM :: "'w ias_env \<Rightarrow> nat \<Rightarrow> 16 word \<Rightarrow> bytes \<Rightarrow> ('w, 16 word \<times> bytes) ias_fn" where
  "getResp_SM ie 0 sw elabresp hc st = (Inl Hang, st)"
| "getResp_SM ie (Suc fuel) sw elabresp hc st =
     (if HIBYTE sw = 0x61 then
        if LOBYTE sw \<noteq> 0 then
          bindS (ias_Transmit ie [0x00, 0xc0, 0x00, 0x00, LOBYTE sw] hc st) (\<lambda>(sw, curresp) st.
            if sw = 0x9000 then ias_respSM ie (elabresp @ curresp) hc st
            else if HIBYTE sw \<noteq> 0x61 then (Inl (Scard_Error sw), st)
            else getResp_SM ie fuel sw (elabresp @ curresp) hc st)
        else
          bindS (ias_Transmit ie [0x0c, 0xc0, 0x00, 0x00, 0x00] hc st) (\<lambda>(sw, curresp) st.
            getResp_SM ie fuel sw (elabresp @ curresp) hc st)
      else if sw = 0x9000 \<or> sw = 0x6b00 \<or> sw = 0x6282 then ias_respSM ie elabresp hc st
      else (Inr (sw, elabresp), st))"

definition le_octets :: "byte option \<Rightarrow> bytes" where
  "le_octets le = (case le of None \<Rightarrow> [] | Some l \<Rightarrow> [l])"

text \<open>One command of \<open>SendAPDU_SM\<close>: protect, transmit, collect and verify the answer.\<close>

definition sm_exchange :: "'w ias_env \<Rightarrow> bytes \<Rightarrow> ('w, 16 word \<times> bytes) ias_fn" where
  "sm_exchange ie apdu hc st =
     bindS (ias_SM ie apdu hc st) (\<lambda>smApdu st.
     bindS (ias_Transmit ie smApdu hc st) (\<lambda>(sw, curresp) st.
     getResp_SM ie (ias_fuel ie) sw curresp hc st))"

text \<open>Command chaining: every chunk but the last has bit 5 of the class octet set.\<close>

definition chained :: "bytes \<Rightarrow> bool \<Rightarrow> bytes" where
  "chained head b = (if b then head[0 := head ! 0 OR 0x10] else head)"

function SendAPDU_SM_loop :: "'w ias_env \<Rightarrow> bytes \<Rightarrow> bytes \<Rightarrow> byte option \<Rightarrow> ('w, 16 word \<times> bytes) ias_fn" where
  "SendAPDU_SM_loop ie head data le hc st =
     (let s = take 0xE7 data; rest = drop 0xE7 data;
          h = chained head (rest \<noteq> []); l = (if rest \<noteq> [] then [] else le_octets le);
          smApdu = (if s \<noteq> [] then h @ [of_nat (length s)] @ s @ l else h @ l)
      in bindS (sm_exchange ie smApdu hc st) (\<lambda>(sw, resp) st.
         if rest = [] then (Inr (sw, resp), st)
         else if sw \<noteq> 0x9000 then (Inl (Scard_Error sw), st)
         else SendAPDU_SM_loop ie head rest le hc st))"
  by pat_completeness auto
termination
  by (relation "measure (\<lambda>(ie, head, data, le, hc, st). length data)") auto

declare SendAPDU_SM_loop.simps [simp del]

definition SendAPDU_SM :: "'w ias_env \<Rightarrow> bytes \<Rightarrow> bytes \<Rightarrow> byte option \<Rightarrow> ('w, 16 word \<times> bytes) ias_fn" where
  "SendAPDU_SM ie head data le hc st =
     (if length data < 0xE7 then
        sm_exchange ie (head @ [of_nat (length data)] @ data @ le_octets le) hc st
      else SendAPDU_SM_loop ie head data le hc st)"

function SendAPDU_loop :: "'w ias_env \<Rightarrow> bytes \<Rightarrow> bytes \<Rightarrow> byte option \<Rightarrow> ('w, 16 word \<times> bytes) ias_fn" where
  "SendAPDU_loop ie head data le hc st =
     (let s = take 255 data; rest = drop 255 data; h = chained head (rest \<noteq> []) in
      bindS (ias_Transmit ie (h @ [of_nat (length s)] @ s @ le_octets le) hc st) (\<lambda>(sw, curresp) st.
        if rest = [] then getResp ie (ias_fuel ie) sw curresp hc st
        else if sw \<noteq> 0x9000 then (Inl (Scard_Error sw), st)
        else SendAPDU_loop ie head rest le hc st))"
  by pat_completeness auto
termination
  by (relation "measure (\<lambda>(ie, head, data, le, hc, st). length data)") auto

declare SendAPDU_loop.simps [simp del]

definition SendAPDU :: "'w ias_env \<Rightarrow> bytes \<Rightarrow> bytes \<Rightarrow> byte option \<Rightarrow> ('w, 16 word \<times> bytes) ias_fn" where
  "SendAPDU ie head data le hc st =
     (if length data > 255 then SendAPDU_loop ie head data le hc st
      else bindS (ias_Transmit ie
             (if data \<noteq> [] then head @ [of_nat (length data)] @ data @ le_octets le else head @ le_octets le) hc st)
           (\<lambda>(sw, curresp) st. getResp ie (ias_fuel ie) sw curresp hc st))"

text \<open>\<open>if ((sw = Send(...)) != 0x9000) throw scard_error(sw)\<close>; the answer.\<close>

definition expect_ok :: "(exn + (16 word \<times> bytes)) \<times> ias \<times> 'w \<Rightarrow> (exn + bytes) \<times> ias \<times> 'w" where
  "expect_ok m = bindS m (\<lambda>(sw, resp) st. if sw \<noteq> 0x9000 then (Inl (Scard_Error sw), st) else (Inr resp, st))"

subsection \<open>Reading files\<close>

text \<open>
  The READ BINARY loop that \<open>readfile\<close> and \<open>readfile_SM\<close> share (\<open>send\<close> is \<open>SendAPDU\<close> or
  \<open>SendAPDU_SM\<close>).  The file is appended to the caller's array, which keeps what was read when
  an exception leaves the loop.  The offset is a 16-bit \<open>WORD\<close>.
\<close>

definition read_at :: "16 word \<Rightarrow> bytes" where
  "read_at cnt = [0x00, 0xb0, HIBYTE cnt, LOBYTE cnt]"

type_synonym 'w sender = "bytes \<Rightarrow> bytes \<Rightarrow> byte option \<Rightarrow> ('w, 16 word \<times> bytes) ias_fn"

definition read_chunk :: "'w sender \<Rightarrow> 16 word \<Rightarrow> byte \<Rightarrow> ('w, 16 word \<times> bytes) ias_fn" where
  "read_chunk send cnt chunk hc st =
     bindS (send (read_at cnt) [] (Some chunk) hc st) (\<lambda>(sw, chn) st.
       if HIBYTE sw = 0x6c then send (read_at cnt) [] (Some (LOBYTE sw)) hc st else (Inr (sw, chn), st))"

fun read_loop :: "'w sender \<Rightarrow> nat \<Rightarrow> 16 word \<Rightarrow> bytes \<Rightarrow> ulong \<Rightarrow> ias \<times> 'w
    \<Rightarrow> (exn + unit) \<times> bytes \<times> ias \<times> 'w" where
  "read_loop send 0 cnt content hc st = (Inl Hang, content, st)"
| "read_loop send (Suc fuel) cnt content hc st =
     (case read_chunk send cnt 224 hc st of
        (Inl e, st) \<Rightarrow> (Inl e, content, st)
      | (Inr (sw, chn), st) \<Rightarrow>
          if sw = 0x9000 then read_loop send fuel (of_nat (length (content @ chn))) (content @ chn) hc st
          else if sw = 0x6282 then (Inr (), content @ chn, st)
          else if sw \<noteq> 0x6b00 then (Inl (Scard_Error sw), content, st)
          else (Inr (), content, st))"

definition read_file_with :: "'w ias_env \<Rightarrow> 'w sender \<Rightarrow> 16 word \<Rightarrow> bytes \<Rightarrow> ulong \<Rightarrow> ias \<times> 'w
    \<Rightarrow> (exn + unit) \<times> bytes \<times> ias \<times> 'w" where
  "read_file_with ie send fid content hc st =
     (case expect_ok (send [0x00, 0xa4, 0x02, 0x04] [HIBYTE fid, LOBYTE fid] None hc st) of
        (Inl e, st) \<Rightarrow> (Inl e, content, st)
      | (Inr _, st) \<Rightarrow> read_loop send (ias_fuel ie) 0 content hc st)"

definition readfile_SM :: "'w ias_env \<Rightarrow> 16 word \<Rightarrow> bytes \<Rightarrow> ulong \<Rightarrow> ias \<times> 'w \<Rightarrow> (exn + unit) \<times> bytes \<times> ias \<times> 'w" where
  "readfile_SM ie fid content hc st = read_file_with ie (SendAPDU_SM ie) fid content hc st"

definition readfile :: "'w ias_env \<Rightarrow> 16 word \<Rightarrow> bytes \<Rightarrow> ulong \<Rightarrow> ias \<times> 'w \<Rightarrow> (exn + unit) \<times> bytes \<times> ias \<times> 'w" where
  "readfile ie fid content hc st =
     (if ActiveSM (fst st) then readfile_SM ie fid content hc st
      else read_file_with ie (SendAPDU ie) fid content hc st)"

end
