(* ===== verification/Ias.thy ===== *)
theory Ias
  imports Ias_Channel Asn_Parser Hex_Data
begin

section \<open>The IAS card protocol (shared/src/csp/ias.cpp)\<close>

text \<open>
  The operations of the \<open>IAS\<close> class, in the order of the file: the file readers, signing and the
  PIN commands, the selection of the applications, the external and internal authentication
  (\<open>DAPP\<close>), the Diffie-Hellman exchange that starts secure messaging, the key parameters, and the
  pairing cache.  What an operation has assigned to the object's members before an exception
  leaves it stays assigned.
\<close>

subsection \<open>Helpers\<close>

definition ASN1Tag :: "'w ias_env \<Rightarrow> 32 word \<Rightarrow> bytes \<Rightarrow> exn + bytes" where
  "ASN1Tag ie tag content = setASN1Tag (ias_uninit ie) tag content"

text \<open>\<open>ASN1Tag(t1, c1).append(ASN1Tag(t2, c2))...\<close>\<close>

fun ASN1Tags :: "'w ias_env \<Rightarrow> (32 word \<times> bytes) list \<Rightarrow> exn + bytes" where
  "ASN1Tags ie [] = Inr []"
| "ASN1Tags ie ((t, c) # tcs) =
     bindE (ASN1Tag ie t c) (\<lambda>d. bindE (ASN1Tags ie tcs) (\<lambda>ds. Inr (d @ ds)))"

text \<open>\<open>tags[n]\<close> of a \<open>std::vector\<close>, and the path \<open>tags[0]->tags[i]->...\<close> of a parse.\<close>

definition tag_at :: "casn_tag list \<Rightarrow> nat \<Rightarrow> exn + casn_tag" where
  "tag_at ts n = (if n < length ts then Inr (ts ! n) else Inl UB)"

fun tag_path :: "casn_tag list \<Rightarrow> nat list \<Rightarrow> exn + casn_tag" where
  "tag_path ts [] = Inl UB"
| "tag_path ts [n] = tag_at ts n"
| "tag_path ts (n # ns) = bindE (tag_at ts n) (\<lambda>t. tag_path (asn_tags t) ns)"

text \<open>\<open>while (x[0] == 0) x = x.mid(1)\<close>: an array of zeros ends in an access out of range.\<close>

fun skip_zeros :: "bytes \<Rightarrow> exn + bytes" where
  "skip_zeros [] = Inl bad_access"
| "skip_zeros (b # bs) = (if b = 0 then skip_zeros bs else Inr (b # bs))"

definition ias_rand :: "'w ias_env \<Rightarrow> nat \<Rightarrow> ('w, bytes) ias_fn" where
  "ias_rand ie n hc st =
     (case ias_random ie n (snd st) of
        (None, w) \<Rightarrow> (Inl (Logged_Error ''RAND_bytes failed''), fst st, w)
      | (Some bs, w) \<Rightarrow> (Inr bs, fst st, w))"

definition rsa_pure :: "'w ias_env \<Rightarrow> bytes \<Rightarrow> bytes \<Rightarrow> bytes \<Rightarrow> exn + bytes" where
  "rsa_pure ie m e data = bindE (new_CRSA (ias_fromdata ie) m e) (\<lambda>key. CRSA_RSA_PURE key data)"

definition upd :: "(ias \<Rightarrow> ias) \<Rightarrow> ias \<times> 'w \<Rightarrow> ias \<times> 'w" where
  "upd f st = (f (fst st), snd st)"

text \<open>The six octets of the PAN that name the card, as hexadecimal digits.\<close>

definition PANStr :: "ias \<Rightarrow> exn + string" where
  "PANStr i = bindE (ba_mid_n (ias_PAN i) 5 6) (\<lambda>p. Inr (dumpHexData p False True))"

subsection \<open>File readers\<close>

definition read_to :: "'w ias_env \<Rightarrow> 16 word \<Rightarrow> bytes \<Rightarrow> ('w, bytes) ias_fn" where
  "read_to ie fid content hc st =
     (case readfile ie fid content hc st of (r, c, st) \<Rightarrow> (bindE r (\<lambda>_. Inr c), st))"

definition ReadSOD :: "'w ias_env \<Rightarrow> bytes \<Rightarrow> ('w, bytes) ias_fn" where "ReadSOD ie = read_to ie 0x1006"
definition ReadDH :: "'w ias_env \<Rightarrow> bytes \<Rightarrow> ('w, bytes) ias_fn" where "ReadDH ie = read_to ie 0xd004"
definition ReadCertCIE :: "'w ias_env \<Rightarrow> bytes \<Rightarrow> ('w, bytes) ias_fn" where "ReadCertCIE ie = read_to ie 0x1003"
definition ReadServiziPubKey :: "'w ias_env \<Rightarrow> bytes \<Rightarrow> ('w, bytes) ias_fn" where
  "ReadServiziPubKey ie = read_to ie 0x1005"
definition ReadSerialeCIE :: "'w ias_env \<Rightarrow> bytes \<Rightarrow> ('w, bytes) ias_fn" where
  "ReadSerialeCIE ie = read_to ie 0x1002"
definition ReadIdServizi :: "'w ias_env \<Rightarrow> bytes \<Rightarrow> ('w, bytes) ias_fn" where
  "ReadIdServizi ie = read_to ie 0x1001"

definition dgFidForSfi :: "byte \<Rightarrow> 16 word" where
  "dgFidForSfi sfi = 0x0100 + ucast sfi"

text \<open>The size of the data group from the TLV header at the start of what was read.\<close>

definition dg_size :: "bytes \<Rightarrow> nat" where
  "dg_size content =
     (if length content \<ge> 2 then
        let b = content ! 1 in
        if b \<le> 0x7f then 2 + unat b
        else if b = 0x81 \<and> length content \<ge> 3 then 3 + unat (content ! 2)
        else if b = 0x82 \<and> length content \<ge> 4 then 4 + (256 * unat (content ! 2) + unat (content ! 3))
        else 0
      else 0)"

fun dg_loop :: "'w ias_env \<Rightarrow> nat \<Rightarrow> nat \<Rightarrow> bytes \<Rightarrow> ulong \<Rightarrow> ias \<times> 'w
    \<Rightarrow> (exn + unit) \<times> bytes \<times> ias \<times> 'w" where
  "dg_loop ie 0 fileSize content hc st = (Inl Hang, content, st)"
| "dg_loop ie (Suc fuel) fileSize content hc st =
     (let cnt = of_nat (length content) :: 16 word in
      if unat cnt < fileSize then
        (case read_chunk (SendAPDU_SM ie) cnt (of_nat (min 224 (fileSize - unat cnt))) hc st of
           (Inl e, st) \<Rightarrow> (Inl e, content, st)
         | (Inr (sw, chn), st) \<Rightarrow>
             if sw = 0x9000 then dg_loop ie fuel fileSize (content @ chn) hc st
             else if sw = 0x6282 then (Inr (), content @ chn, st)
             else if sw \<noteq> 0x6b00 then (Inl (Scard_Error sw), content, st)
             else (Inr (), content, st))
      else (Inr (), content, st))"

definition readDGbySFI :: "'w ias_env \<Rightarrow> byte \<Rightarrow> bytes \<Rightarrow> ulong \<Rightarrow> ias \<times> 'w
    \<Rightarrow> (exn + unit) \<times> bytes \<times> ias \<times> 'w" where
  "readDGbySFI ie sfi content hc st =
     (case expect_ok (SendAPDU ie [0x00, 0xa4, 0x04, 0x0c] [0xA0, 0x00, 0x00, 0x02, 0x47, 0x10, 0x01] None hc st) of
        (Inl e, st) \<Rightarrow> (Inl e, content, st)
      | (Inr _, st) \<Rightarrow>
          (case SendAPDU_SM ie [0x00, 0xb0, 0x80 OR sfi, 0x00] [] (Some 6) hc st of
             (Inl e, st) \<Rightarrow> (Inl e, content, st)
           | (Inr (sw, resp), st) \<Rightarrow>
               if sw = 0x6a82 \<or> sw = 0x6a86 \<or> sw = 0x6981 then readfile_SM ie (dgFidForSfi sfi) content hc st
               else if sw \<noteq> 0x9000 then (Inl (Scard_Error sw), content, st)
               else dg_loop ie (ias_fuel ie) (dg_size (content @ resp)) (content @ resp) hc st))"

definition ReadDG1 :: "'w ias_env \<Rightarrow> bytes \<Rightarrow> ('w, bytes) ias_fn" where
  "ReadDG1 ie content hc st = (case readDGbySFI ie 1 content hc st of (r, c, st) \<Rightarrow> (bindE r (\<lambda>_. Inr c), st))"

definition ReadDG2 :: "'w ias_env \<Rightarrow> bytes \<Rightarrow> ('w, bytes) ias_fn" where
  "ReadDG2 ie content hc st = (case readDGbySFI ie 2 content hc st of (r, c, st) \<Rightarrow> (bindE r (\<lambda>_. Inr c), st))"

subsection \<open>Signing and the PIN commands\<close>

definition IAS_Sign :: "'w ias_env \<Rightarrow> bytes \<Rightarrow> ('w, bytes) ias_fn" where
  "IAS_Sign ie data hc st =
     bindS (ASN1Tags ie [(0x80, [2]), (0x84, [0x81])], st) (\<lambda>d st.
     bindS (expect_ok (SendAPDU_SM ie [0x00, 0x22, 0x41, 0xA4] d None hc st)) (\<lambda>_ st.
     expect_ok (SendAPDU_SM ie [0x00, 0x88, 0x00, 0x00] data None hc st)))"

text \<open>A link error during VERIFY must not be retried: the card may have counted the attempt.\<close>

definition rethrowAsNonRetryable :: "(exn + 'a) \<times> 's \<Rightarrow> (exn + 'a) \<times> 's" where
  "rethrowAsNonRetryable m =
     (case m of (Inl (Card_Link_Error _), st) \<Rightarrow> (Inl (Card_Link_Error False), st) | r \<Rightarrow> r)"

definition status_of :: "(exn + (16 word \<times> bytes)) \<times> 's \<Rightarrow> (exn + 16 word) \<times> 's" where
  "status_of m = bindS m (\<lambda>(sw, _) st. (Inr sw, st))"

definition IAS_VerifyPUK :: "'w ias_env \<Rightarrow> bytes \<Rightarrow> ('w, 16 word) ias_fn" where
  "IAS_VerifyPUK ie puk hc st =
     rethrowAsNonRetryable (status_of (SendAPDU_SM ie [0x00, 0x20, 0x00, 0x82] puk None hc st))"

definition IAS_VerifyPIN :: "'w ias_env \<Rightarrow> bytes \<Rightarrow> ('w, 16 word) ias_fn" where
  "IAS_VerifyPIN ie pin hc st =
     rethrowAsNonRetryable (status_of (SendAPDU_SM ie [0x00, 0x20, 0x00, 0x81] pin None hc st))"

definition IAS_UnblockPIN :: "'w ias_env \<Rightarrow> ('w, 16 word) ias_fn" where
  "IAS_UnblockPIN ie hc st = status_of (SendAPDU_SM ie [0x00, 0x2C, 0x03, 0x81] [] None hc st)"

definition IAS_ChangePIN_old_new :: "'w ias_env \<Rightarrow> bytes \<Rightarrow> bytes \<Rightarrow> ('w, 16 word) ias_fn" where
  "IAS_ChangePIN_old_new ie oldPIN newPIN hc st =
     status_of (SendAPDU_SM ie [0x00, 0x24, 0x00, 0x81] (oldPIN @ newPIN) None hc st)"

definition IAS_ChangePIN_new :: "'w ias_env \<Rightarrow> bytes \<Rightarrow> ('w, 16 word) ias_fn" where
  "IAS_ChangePIN_new ie newPIN hc st = status_of (SendAPDU_SM ie [0x00, 0x2C, 0x02, 0x81] newPIN None hc st)"

subsection \<open>Applications and card type\<close>

definition send_with :: "'w ias_env \<Rightarrow> bool \<Rightarrow> 'w sender" where
  "send_with ie sm = (if sm then SendAPDU_SM ie else SendAPDU ie)"

definition IAS_SelectAID_CIE :: "'w ias_env \<Rightarrow> bool \<Rightarrow> ('w, unit) ias_fn" where
  "IAS_SelectAID_CIE ie sm hc st =
     bindS (expect_ok (send_with ie sm [0x00, 0xa4, 0x04, 0x0c] (CIE_AID (fst st)) None hc st)) (\<lambda>_ st.
     (Inr (), upd (\<lambda>i. i\<lparr>ActiveDF := DF_CIE, ActiveSM := False\<rparr>) st))"

definition ReadCIEType :: "ias \<times> 'w \<Rightarrow> (exn + unit) \<times> ias \<times> 'w" where
  "ReadCIEType st =
     (let family = fst (get_family_type (ias_ATR (fst st))) in
      if family = CIE_Unknown then (Inl Cie_Unsupported_Card_Error, st)
      else (Inr (), upd (\<lambda>i. i\<lparr>ias_type := family\<rparr>) st))"

text \<open>\<open>type >= CIE_NXP\<close> on the enumeration.\<close>

definition from_NXP :: "CIE_Type \<Rightarrow> bool" where
  "from_NXP t \<longleftrightarrow> t \<notin> {CIE_Unknown, CIE_Gemalto, CIE_Gemalto2, CIE_STM, CIE_STM2, CIE_STM3}"

definition IAS_SelectAID_IAS :: "'w ias_env \<Rightarrow> bool \<Rightarrow> ('w, unit) ias_fn" where
  "IAS_SelectAID_IAS ie sm hc st =
     bindS (if ias_type (fst st) = CIE_Unknown then ReadCIEType st else (Inr (), st)) (\<lambda>_ st.
     bindS (expect_ok
              (if from_NXP (ias_type (fst st)) then send_with ie sm [0x00, 0xa4, 0x00, 0x00] [] None hc st
               else send_with ie sm [0x00, 0xa4, 0x04, 0x0c] (IAS_AID (fst st)) None hc st)) (\<lambda>_ st.
     (Inr (), upd (\<lambda>i. i\<lparr>ActiveDF := DF_IAS, ActiveSM := False\<rparr>) st)))"

definition IAS_ReadDappPubKey :: "'w ias_env \<Rightarrow> bytes \<Rightarrow> ('w, bytes) ias_fn" where
  "IAS_ReadDappPubKey ie DappKey hc st =
     bindS (read_to ie 0x1004 DappKey hc st) (\<lambda>key st.
     bindS (bindE (asn_Parse key) (\<lambda>ts. bindE (tag_path ts [0, 0]) (\<lambda>m.
              bindE (skip_zeros (asn_content m)) (\<lambda>module. Inr (ts, module)))), st) (\<lambda>(ts, module) st.
     let st = upd (\<lambda>i. i\<lparr>DappModule := module\<rparr>) st in
     bindS (bindE (tag_path ts [0, 1]) (\<lambda>e. skip_zeros (asn_content e)), st) (\<lambda>pubKey st.
     (Inr key, upd (\<lambda>i. i\<lparr>DappPubKey := pubKey\<rparr>) st))))"

text \<open>\<open>ReadPAN\<close> reads into the member: the file is appended to what it holds.\<close>

definition IAS_ReadPAN :: "'w ias_env \<Rightarrow> ('w, unit) ias_fn" where
  "IAS_ReadPAN ie hc st =
     (case readfile ie 0xd003 (ias_PAN (fst st)) hc st of (r, c, st) \<Rightarrow> (r, upd (\<lambda>i. i\<lparr>ias_PAN := c\<rparr>) st))"

subsection \<open>Keys of the repository\<close>

text \<open>
  The terminal's RSA key pair for the external authentication, and the private exponent of the
  certification key (\<open>ext\_auth\_key.cpp\<close>).
\<close>

definition defModule :: bytes where
  "defModule =
     [0xba, 0x28, 0x37, 0xab, 0x4c, 0x6b, 0xb8, 0x27, 0x57, 0x7b, 0xff, 0x4e, 0xb7, 0xb1, 0xe4, 0x9c,
      0xdd, 0xe0, 0xf1, 0x66, 0x14, 0xd1, 0xef, 0x24, 0xc1, 0xb7, 0x5c, 0xf7, 0x0f, 0xb1, 0x2c, 0xd1,
      0x8f, 0x4d, 0x14, 0xe2, 0x81, 0x4b, 0xa4, 0x87, 0x7e, 0xa8, 0x00, 0xe1, 0x75, 0x90, 0x60, 0x76,
      0xb5, 0x62, 0xba, 0x53, 0x59, 0x73, 0xc5, 0xd8, 0xb3, 0x78, 0x05, 0x1d, 0x8a, 0xfc, 0x74, 0x07,
      0xa1, 0xd9, 0x19, 0x52, 0x9e, 0x03, 0xc1, 0x06, 0xcd, 0xa1, 0x8d, 0x69, 0x9a, 0xfb, 0x0d, 0x8a,
      0xb4, 0xfd, 0xdd, 0x9d, 0xc7, 0x19, 0x15, 0x9a, 0x50, 0xde, 0x94, 0x68, 0xf0, 0x2a, 0xb1, 0x03,
      0xe2, 0x82, 0xa5, 0x0e, 0x71, 0x6e, 0xc2, 0x3c, 0xda, 0x5b, 0xfc, 0x4a, 0x23, 0x2b, 0x09, 0xa4,
      0xb2, 0xc7, 0x07, 0x45, 0x93, 0x95, 0x49, 0x09, 0x9b, 0x44, 0x83, 0xcb, 0xae, 0x62, 0xd0, 0x09,
      0x96, 0x74, 0xdb, 0xf6, 0xf3, 0x9b, 0x72, 0x23, 0xa9, 0x9d, 0x88, 0xe3, 0x3f, 0x1a, 0x0c, 0xde,
      0xde, 0xeb, 0xbd, 0xc3, 0x55, 0x17, 0xab, 0xe9, 0x88, 0x0a, 0xab, 0x24, 0x0e, 0x1e, 0xa1, 0x66,
      0x28, 0x3a, 0x27, 0x4a, 0x9a, 0xd9, 0x3b, 0x4b, 0x1d, 0x19, 0xf3, 0x67, 0x9f, 0x3e, 0x8b, 0x5f,
      0xf6, 0xa1, 0xe0, 0xed, 0x73, 0x6e, 0x84, 0xd5, 0xab, 0xe0, 0x3c, 0x59, 0xe7, 0x34, 0x6b, 0x42,
      0x18, 0x75, 0x5d, 0x75, 0x36, 0x6c, 0xbf, 0x41, 0x36, 0xf0, 0xa2, 0x6c, 0x3d, 0xc7, 0x0a, 0x69,
      0xab, 0xaa, 0xf6, 0x6e, 0x13, 0xa1, 0xb2, 0xfa, 0xad, 0x05, 0x2c, 0xa6, 0xec, 0x9c, 0x51, 0xe2,
      0xae, 0xd1, 0x4d, 0x16, 0xe0, 0x90, 0x25, 0x4d, 0xc3, 0xf6, 0x4e, 0xa2, 0xbd, 0x8a, 0x83, 0x6b,
      0xba, 0x99, 0xde, 0xfa, 0xcb, 0xa3, 0xa6, 0x13, 0xae, 0xed, 0xd9, 0x3a, 0x96, 0x15, 0x27, 0x3d]"

definition defPrivExp :: bytes where
  "defPrivExp =
     [0x47, 0x16, 0xc2, 0xa3, 0x8c, 0xcc, 0x7a, 0x07, 0xb4, 0x15, 0xeb, 0x1a, 0x61, 0x75, 0xf2, 0xaa,
      0xa0, 0xe4, 0x9c, 0xea, 0xf1, 0xba, 0x75, 0xcb, 0xa0, 0x9a, 0x68, 0x4b, 0x04, 0xd8, 0x11, 0x18,
      0x79, 0xd3, 0xe2, 0xcc, 0xd8, 0xb9, 0x4d, 0x3c, 0x5c, 0xf6, 0xc5, 0x57, 0x53, 0xf0, 0xed, 0x95,
      0x87, 0x91, 0x0b, 0x3c, 0x77, 0x25, 0x8a, 0x01, 0x46, 0x0f, 0xe8, 0x4c, 0x2e, 0xde, 0x57, 0x64,
      0xee, 0xbe, 0x9c, 0x37, 0xfb, 0x95, 0xcd, 0x69, 0xce, 0xaf, 0x09, 0xf4, 0xb1, 0x35, 0x7c, 0x27,
      0x63, 0x14, 0xab, 0x43, 0xec, 0x5b, 0x3c, 0xef, 0xb0, 0x40, 0x3f, 0x86, 0x8f, 0x68, 0x8e, 0x2e,
      0xc0, 0x9a, 0x49, 0x73, 0xe9, 0x87, 0x75, 0x6f, 0x8d, 0xa7, 0xa1, 0x01, 0xa2, 0xca, 0x75, 0xa5,
      0x4a, 0x8c, 0x4c, 0xcf, 0x9a, 0x1b, 0x61, 0x47, 0xe4, 0xde, 0x56, 0x42, 0x3a, 0xf7, 0x0b, 0x20,
      0x67, 0x17, 0x9c, 0x5e, 0xeb, 0x64, 0x68, 0x67, 0x86, 0x34, 0x78, 0xd7, 0x52, 0xc7, 0xf4, 0x12,
      0xdb, 0x27, 0x75, 0x41, 0x57, 0x5a, 0xa0, 0x61, 0x9d, 0x30, 0xbc, 0xcc, 0x8d, 0x87, 0xe6, 0x17,
      0x0b, 0x33, 0x43, 0x9a, 0x2c, 0x93, 0xf2, 0xd9, 0x7e, 0x18, 0xc0, 0xa8, 0x23, 0x43, 0xa6, 0x01,
      0x2a, 0x5b, 0xb1, 0x82, 0x28, 0x08, 0xf0, 0x1b, 0x5c, 0xfd, 0x85, 0x67, 0x3a, 0xc0, 0x96, 0x4c,
      0x5f, 0x3c, 0xfd, 0x2d, 0xaf, 0x81, 0x42, 0x35, 0x97, 0x64, 0xa9, 0xad, 0xb9, 0xe3, 0xf7, 0x6d,
      0xb6, 0x13, 0x46, 0x1c, 0x1b, 0xc9, 0x13, 0xdc, 0x9a, 0xc0, 0xab, 0x50, 0xd3, 0x65, 0xf7, 0x7c,
      0xb9, 0x31, 0x94, 0xc9, 0x8a, 0xa9, 0x66, 0xd8, 0x9c, 0xdd, 0x55, 0x51, 0x25, 0xa5, 0xe5, 0x9e,
      0xcf, 0x4f, 0xa3, 0xf0, 0xc3, 0xfd, 0x61, 0x0c, 0xd3, 0xd0, 0x56, 0x43, 0x93, 0x38, 0xfd, 0x81]"

definition ExtAuth_PrivExp :: bytes where
  "ExtAuth_PrivExp =
     [0x18, 0x6B, 0x31, 0x48, 0x8C, 0x25, 0xDC, 0xF8, 0x5D, 0x95, 0x3D, 0x36, 0x30, 0xC0, 0xD0, 0x73,
      0xBA, 0x1C, 0x6A, 0xA2, 0x45, 0x81, 0xAD, 0x25, 0x4F, 0x3B, 0x67, 0x19, 0xC5, 0xD7, 0x2C, 0xCA,
      0x3E, 0x5C, 0xDC, 0x5A, 0x1E, 0x53, 0x16, 0x57, 0x8D, 0x75, 0x95, 0x4F, 0xF7, 0x3B, 0x23, 0x7B,
      0x53, 0x2C, 0x9F, 0x8D, 0xE4, 0xA2, 0xC4, 0xC9, 0x11, 0x38, 0x5A, 0x23, 0xE6, 0x3E, 0x33, 0xE4,
      0x7E, 0xE4, 0x5E, 0x66, 0xEF, 0xD4, 0x9B, 0x18, 0xE0, 0x2C, 0xFF, 0x87, 0x59, 0x8C, 0x39, 0x10,
      0x9E, 0x8F, 0x86, 0xA6, 0x6B, 0xC3, 0x30, 0x24, 0x9C, 0xE3, 0xFC, 0xAD, 0x65, 0x5D, 0xCD, 0xBF,
      0x98, 0xC9, 0xC5, 0xE4, 0x79, 0x32, 0x1A, 0xF5, 0x3B, 0x51, 0x7D, 0x04, 0x10, 0x61, 0x88, 0x0A,
      0x64, 0x7B, 0xBE, 0x0F, 0xF8, 0x13, 0x68, 0x34, 0x70, 0xE6, 0xC5, 0x00, 0x94, 0xCE, 0x81, 0xD0,
      0x64, 0xE2, 0x04, 0xE3, 0x51, 0xBD, 0x3A, 0xE0, 0xA7, 0x94, 0x7D, 0x8E, 0x91, 0xC3, 0xFD, 0x5C,
      0x0A, 0x15, 0x23, 0x3C, 0x34, 0x9A, 0x52, 0x15, 0xA4, 0xE6, 0x6E, 0x21, 0xC5, 0xD3, 0x34, 0x98,
      0xE7, 0x19, 0x91, 0xEA, 0x24, 0x47, 0x3B, 0x29, 0xF1, 0x47, 0x5F, 0x6F, 0xD9, 0xBE, 0x39, 0x96,
      0xE1, 0x9B, 0xD4, 0x74, 0xFA, 0xD1, 0xB4, 0x1E, 0xA0, 0xDC, 0xD2, 0xFC, 0x16, 0xC9, 0xBF, 0xFA,
      0x07, 0x1B, 0xFE, 0xC1, 0xB2, 0x24, 0x15, 0x18, 0x48, 0x11, 0xC1, 0x98, 0x5F, 0xBF, 0xE3, 0xE7,
      0xB4, 0xF4, 0x4A, 0x4B, 0x3C, 0x8D, 0xFA, 0xB4, 0xD9, 0x0C, 0xEC, 0xFC, 0x5E, 0x60, 0x8D, 0x67,
      0x3E, 0x67, 0x62, 0xC6, 0x2C, 0xB7, 0x98, 0x34, 0x12, 0x71, 0x14, 0x9B, 0xA6, 0x88, 0x16, 0x2E,
      0xC7, 0xD0, 0xE3, 0x46, 0x8F, 0x65, 0xA9, 0x4A, 0xB4, 0xAD, 0x1A, 0xB6, 0x7E, 0x37, 0xBF, 0xC1]"

definition defPubExp :: bytes where
  "defPubExp = [0x00, 0x01, 0x00, 0x01]"

subsection \<open>Device authentication (IAS::DAPP)\<close>

definition snIFD :: bytes where
  "snIFD = [0x20, 0x00, 0x00, 0x00, 0x00, 0x00, 0x00, 0x01]"

definition dapp_CHR :: bytes where
  "dapp_CHR = [0x00, 0x00, 0x00, 0x00] @ snIFD"

text \<open>
  The card-verifiable certificate of the terminal key, signed with message recovery under the
  certification key and checked against the public exponent the card gave.
\<close>

definition dapp_certificate :: "'w ias_env \<Rightarrow> ias \<Rightarrow> exn + bytes" where
  "dapp_certificate ie i =
     (let CHA = CA_AID i @ [1];
          OID = [0x2A, 0x81, 0x22, 0xF4, 0x2A, 0x02, 0x04, 0x01] @ [0x04];
          endEntityCert = [0x8A] @ CA_CAR i @ dapp_CHR @ CHA @ OID @ defModule @ defPubExp;
          n = length (CA_module i)
      in bindE (if n < 34 then Inl too_large else ba_left endEntityCert (n - 34)) (\<lambda>recovered.
         let toSign = [0x6A] @ recovered @ ias_sha256 ie endEntityCert @ [0xbc] in
         bindE (rsa_pure ie (CA_module i) (CA_privexp i) toSign) (\<lambda>certSign.
         bindE (rsa_pure ie (CA_module i) (CA_pubexp i) certSign) (\<lambda>certVerif.
         if certVerif \<noteq> toSign then Inl (Logged_Error ''Signature verification error!'')
         else bindE (ba_mid endEntityCert (n - 34)) (\<lambda>PkRem.
         bindE (ASN1Tags ie [(0x5F37, certSign), (0x5F38, PkRem), (0x42, CA_CAR i)]) (\<lambda>d.
         ASN1Tag ie 0x7F21 d))))))"

text \<open>The external authentication: certificate, challenge, and the terminal's answer to it.\<close>

definition dapp_external :: "'w ias_env \<Rightarrow> ('w, bytes) ias_fn" where
  "dapp_external ie hc st =
     bindS (dapp_certificate ie (fst st), st) (\<lambda>cert st.
     bindS (ASN1Tags ie [(0x80, [0x41]), (0x83, [0x84])], st) (\<lambda>d st.
     bindS (expect_ok (SendAPDU_SM ie [0x00, 0x22, 0x81, 0xb6] d (Some 0) hc st)) (\<lambda>_ st.
     bindS (expect_ok (SendAPDU_SM ie [0x00, 0x2A, 0x00, 0xAE] cert None hc st)) (\<lambda>_ st.
     bindS (ASN1Tag ie 0x83 dapp_CHR, st) (\<lambda>d st.
     bindS (expect_ok (SendAPDU_SM ie [0x00, 0x22, 0x81, 0xA4] d None hc st)) (\<lambda>_ st.
     bindS (expect_ok (SendAPDU_SM ie [0x00, 0x84, 0x00, 0x00] [] (Some 8) hc st)) (\<lambda>challenge st.
     bindS (ias_rand ie (length defModule - 32 - 2) hc st) (\<lambda>PRND st.
     let i = fst st;
         toHash = PRND @ dh_pubKey i @ snIFD @ challenge @ dh_ICCpubKey i @ dh_g i @ dh_p i @ dh_q i;
         toSign = [0x6a] @ PRND @ ias_sha256 ie toHash @ [0xBC]
     in bindS (rsa_pure ie defModule defPrivExp toSign, st) (\<lambda>signResp st.
     bindS (expect_ok (SendAPDU_SM ie [0x00, 0x82, 0x00, 0x00] (snIFD @ signResp) None hc st)) (\<lambda>_ st.
     (Inr challenge, st)))))))))))"

text \<open>The internal authentication: the card's signature over the terminal's random number.\<close>

definition dapp_check :: "'w ias_env \<Rightarrow> ias \<Rightarrow> bytes \<Rightarrow> bytes \<Rightarrow> exn + unit" where
  "dapp_check ie i rndIFD resp =
     bindE (ba_mid_n resp 0 8) (\<lambda>SN_ICC.
     bindE (new_CRSA (ias_fromdata ie) (DappModule i) (DappPubKey i)) (\<lambda>key.
     bindE (ba_mid resp 8) (\<lambda>respBa.
     bindE (CRSA_RSA_PURE key respBa) (\<lambda>intAuthResp.
     bindE (ba_at intAuthResp 0) (\<lambda>b0.
     if b0 \<noteq> 0x6a then Inl (Logged_Error ''Chip authentication error'')
     else bindE (if length intAuthResp < 34 then Inl too_large
                 else ba_mid_n intAuthResp 1 (length intAuthResp - 34)) (\<lambda>PRND2.
     bindE (ba_mid_n intAuthResp (length PRND2 + 1) 32) (\<lambda>hashICC.
     let toHashIFD = PRND2 @ dh_ICCpubKey i @ SN_ICC @ rndIFD @ dh_pubKey i @ dh_g i @ dh_p i @ dh_q i in
     if ias_sha256 ie toHashIFD \<noteq> hashICC then Inl (Logged_Error ''Chip authentication error'')
     else bindE (ba_right intAuthResp 1) (\<lambda>l. bindE (ba_at l 0) (\<lambda>trailer.
       if trailer \<noteq> 0xbc then Inl (Logged_Error ''Chip authentication error'') else Inr ())))))))))"

text \<open>The card authenticates itself; the result is the new counter, from both random numbers.\<close>

definition dapp_internal :: "'w ias_env \<Rightarrow> bytes \<Rightarrow> ('w, bytes) ias_fn" where
  "dapp_internal ie challenge hc st =
     bindS (ASN1Tags ie [(0x84, [0x82]), (0x80, [0x9B])], st) (\<lambda>d st.
     bindS (expect_ok (SendAPDU_SM ie [0x00, 0x22, 0x41, 0xa4] d None hc st)) (\<lambda>_ st.
     bindS (ias_rand ie 8 hc st) (\<lambda>rndIFD st.
     bindS (expect_ok (SendAPDU_SM ie [0x00, 0x88, 0x00, 0x00] rndIFD None hc st)) (\<lambda>resp st.
     bindS (dapp_check ie (fst st) rndIFD resp, st) (\<lambda>_ st.
     (bindE (ba_right challenge 4) (\<lambda>c. bindE (ba_right rndIFD 4) (\<lambda>r. Inr (c @ r))), st))))))"

definition IAS_DAPP :: "'w ias_env \<Rightarrow> ('w, unit) ias_fn" where
  "IAS_DAPP ie hc st =
     (if DappPubKey (fst st) = [] then (Inl (Logged_Error ''DAPP - DAPP key not available''), st)
      else
        bindS (dapp_external ie hc st) (\<lambda>challenge st.
        bindS (dapp_internal ie challenge hc st) (\<lambda>ssc st.
        (Inr (), upd (\<lambda>i. i\<lparr>sessSSC := ssc, ActiveSM := True\<rparr>) st))))"

subsection \<open>Key exchange (IAS::DHKeyExchange)\<close>

text \<open>The private key: random octets until the first does not exceed that of the order; odd.\<close>

fun dh_draw :: "'w ias_env \<Rightarrow> nat \<Rightarrow> ('w, bytes) ias_fn" where
  "dh_draw ie 0 hc st = (Inl Hang, st)"
| "dh_draw ie (Suc fuel) hc st =
     bindS (ias_rand ie (length (dh_q (fst st))) hc st) (\<lambda>prKey st.
     bindS (bindE (ba_at (dh_q (fst st)) 0) (\<lambda>q. bindE (ba_at prKey 0) (\<lambda>p. Inr (q, p))), st) (\<lambda>(q, p) st.
     if q < p then dh_draw ie fuel hc st
     else bindS (ba_put prKey (length prKey - 1) (prKey ! (length prKey - 1) OR 1), st) (\<lambda>k st. (Inr k, st))))"

definition session_key :: "'w ias_env \<Rightarrow> bytes \<Rightarrow> byte \<Rightarrow> exn + bytes" where
  "session_key ie secret n = ba_left (ias_sha256 ie (secret @ [0x00, 0x00, 0x00, n])) 16"

text \<open>The session keys from the shared secret; secure messaging starts.\<close>

definition dh_keys :: "'w ias_env \<Rightarrow> bytes \<Rightarrow> ias \<times> 'w \<Rightarrow> (exn + unit) \<times> ias \<times> 'w" where
  "dh_keys ie secret st =
     bindS (session_key ie secret 1, st) (\<lambda>kEnc st.
     let st = upd (\<lambda>i. i\<lparr>sessENC := kEnc\<rparr>) st in
     bindS (session_key ie secret 2, st) (\<lambda>kMac st.
     (Inr (), upd (\<lambda>i. i\<lparr>sessMAC := kMac, sessSSC := [0, 0, 0, 0, 0, 0, 0, 1], ActiveSM := True\<rparr>) st)))"

definition IAS_DHKeyExchange :: "'w ias_env \<Rightarrow> ('w, unit) ias_fn" where
  "IAS_DHKeyExchange ie hc st =
     bindS (dh_draw ie (ias_fuel ie) hc st) (\<lambda>prKey st.
     bindS (ba_rightcopy (replicate (length (dh_g (fst st))) 0) (dh_g (fst st)) 0, st) (\<lambda>dhg st.
     bindS (new_CRSA (ias_fromdata ie) (dh_p (fst st)) prKey, st) (\<lambda>rsa st.
     bindS (CRSA_RSA_PURE rsa dhg, st) (\<lambda>pubKey st.
     let st = upd (\<lambda>i. i\<lparr>dh_pubKey := pubKey\<rparr>) st in
     bindS (ASN1Tags ie [(0x80, [0x9b]), (0x83, [0x81]), (0x91, pubKey)], st) (\<lambda>d1 st.
     bindS (expect_ok (SendAPDU ie [0x00, 0x22, 0x41, 0xa6] d1 None hc st)) (\<lambda>_ st.
     bindS (expect_ok (SendAPDU ie [0x00, 0xcb, 0x3f, 0xff] [0x4d, 0x04, 0xa6, 0x02, 0x91, 0x00] None hc st)) (\<lambda>resp st.
     bindS (bindE (asn_Parse resp) (\<lambda>ts. tag_path ts [0, 0]), st) (\<lambda>t st.
     let st = upd (\<lambda>i. i\<lparr>dh_ICCpubKey := asn_content t\<rparr>) st in
     bindS (CRSA_RSA_PURE rsa (asn_content t), st) (\<lambda>secret st.
     dh_keys ie secret st)))))))))"

subsection \<open>Key parameters of the card\<close>

definition get_data :: "'w ias_env \<Rightarrow> bytes \<Rightarrow> ('w, casn_tag list) ias_fn" where
  "get_data ie query hc st =
     bindS (expect_ok (SendAPDU ie [0x00, 0xcb, 0x3f, 0xff] query None hc st)) (\<lambda>resp st.
     (asn_Parse resp, st))"

definition dh_param :: "casn_tag list \<Rightarrow> nat \<Rightarrow> exn + bytes" where
  "dh_param ts n = bindE (tag_path ts [0, 0, 0, n]) (\<lambda>t. Inr (asn_content t))"

definition dh_query :: "byte \<Rightarrow> bytes" where
  "dh_query t = [0x4D, 0x0A, 0x70, 0x08, 0xBF, 0xA1, 0x01, 0x04, 0xA3, 0x02, t, 0x00]"

definition IAS_InitDHParam :: "'w ias_env \<Rightarrow> ('w, unit) ias_fn" where
  "IAS_InitDHParam ie hc st =
     (let t = ias_type (fst st) in
      if t = CIE_Gemalto then
        bindS (get_data ie [0x4d, 0x08, 0x70, 0x06, 0xBF, 0xA1, 0x01, 0x02, 0xA3, 0x80] hc st) (\<lambda>ts st.
        bindS (dh_param ts 0, st) (\<lambda>g st.
        let st = upd (\<lambda>i. i\<lparr>dh_g := g\<rparr>) st in
        bindS (dh_param ts 1, st) (\<lambda>p st.
        let st = upd (\<lambda>i. i\<lparr>dh_p := p\<rparr>) st in
        bindS (dh_param ts 2, st) (\<lambda>q st. (Inr (), upd (\<lambda>i. i\<lparr>dh_q := q\<rparr>) st)))))
      else if t \<in> {CIE_NXP, CIE_STM, CIE_STM2, CIE_STM3, CIE_ACTALIS, CIE_BIT4ID} then
        bindS (get_data ie (dh_query 0x97) hc st) (\<lambda>ts st. bindS (dh_param ts 0, st) (\<lambda>g st.
        let st = upd (\<lambda>i. i\<lparr>dh_g := g\<rparr>) st in
        bindS (get_data ie (dh_query 0x98) hc st) (\<lambda>ts st. bindS (dh_param ts 0, st) (\<lambda>p st.
        let st = upd (\<lambda>i. i\<lparr>dh_p := p\<rparr>) st in
        bindS (get_data ie (dh_query 0x99) hc st) (\<lambda>ts st. bindS (dh_param ts 0, st) (\<lambda>q st.
        (Inr (), upd (\<lambda>i. i\<lparr>dh_q := q\<rparr>) st)))))))
      else (Inl (Logged_Error ''InitDHParam - CIE type not recognized''), st))"

definition GetTag :: "casn_tag list \<Rightarrow> ulong \<Rightarrow> casn_tag option" where
  "GetTag tags n = find (\<lambda>t. tagInt t = n) tags"

definition tag_content :: "casn_tag list \<Rightarrow> ulong \<Rightarrow> exn + bytes" where
  "tag_content tags n = (case GetTag tags n of None \<Rightarrow> Inl UB | Some t \<Rightarrow> Inr (asn_content t))"

definition IAS_InitExtAuthKeyParam :: "'w ias_env \<Rightarrow> ('w, unit) ias_fn" where
  "IAS_InitExtAuthKeyParam ie hc st =
     bindS (get_data ie [0x4d, 0x09, 0x70, 0x07, 0xBF, 0xA0, 0x04, 0x03, 0x7F, 0x49, 0x80] hc st) (\<lambda>ts st.
     bindS (bindE (tag_path ts [0, 0, 0]) (\<lambda>t. Inr (asn_tags t)), st) (\<lambda>tags st.
     bindS (tag_content tags 0x81, st) (\<lambda>m st.
     let st = upd (\<lambda>i. i\<lparr>CA_module := m\<rparr>) st in
     bindS (tag_content tags 0x82, st) (\<lambda>e st.
     let st = upd (\<lambda>i. i\<lparr>CA_pubexp := e, CA_privexp := ExtAuth_PrivExp\<rparr>) st in
     bindS (tag_content tags 0x5F20, st) (\<lambda>chr st.
     let st = upd (\<lambda>i. i\<lparr>CA_CHR := chr\<rparr>) st in
     bindS (tag_content tags 0x5F4C, st) (\<lambda>cha st.
     let st = upd (\<lambda>i. i\<lparr>CA_CHA := cha\<rparr>) st in
     bindS (ba_mid chr 4, st) (\<lambda>car st.
     let st = upd (\<lambda>i. i\<lparr>CA_CAR := car\<rparr>) st in
     bindS (ba_left cha 6, st) (\<lambda>aid st. (Inr (), upd (\<lambda>i. i\<lparr>CA_AID := aid\<rparr>) st)))))))))"

definition IAS_Deauthenticate :: "'w ias_env \<Rightarrow> ('w, unit) ias_fn" where
  "IAS_Deauthenticate ie hc st = (case Reset (ias_token ie hc) True (snd st) of (r, w) \<Rightarrow> (r, fst st, w))"

subsection \<open>The key of the pairing cache\<close>

text \<open>
  \<open>InitEncKey\<close>: the card signs its own number with the key for the services, and the digest of
  the signature gives the AES key and vector.  The channel is the protected one when a session
  counter exists.
\<close>

definition IAS_InitEncKey :: "'w ias_env \<Rightarrow> ('w, unit) ias_fn" where
  "IAS_InitEncKey ie hc st =
     bindS (PANStr (fst st), st) (\<lambda>strPAN st.
     let send = send_with ie (sessSSC (fst st) \<noteq> []) in
     bindS (expect_ok (send [0x00, 0x22, 0x41, 0xa4] [0x80, 0x01, 0x02, 0x84, 0x01, 0x83] None hc st)) (\<lambda>_ st.
     bindS (expect_ok (send [0x00, 0x88, 0x00, 0x00] (bytes_of strPAN) None hc st)) (\<lambda>resp st.
     let cardSeed = ias_sha512 ie resp in
     bindS (ba_left cardSeed 32, st) (\<lambda>k st.
     let st = upd (\<lambda>i. i\<lparr>CardEncKey := k\<rparr>) st in
     bindS (bindE (ba_mid cardSeed 32) (\<lambda>r. ba_left r 16), st) (\<lambda>iv st.
     (Inr (), upd (\<lambda>i. i\<lparr>CardEncIv := iv\<rparr>) st))))))"

definition card_cipher :: "ias \<Rightarrow> cipher_object" where
  "card_cipher i = CAES_Init (CardEncKey i) (CardEncIv i)"

definition SetCache :: "'w ias_env \<Rightarrow> string option \<Rightarrow> bytes \<Rightarrow> bytes \<Rightarrow> ('w, unit) ias_fn" where
  "SetCache ie PAN certificate FirstPIN hc st =
     bindS (CAES_Encode (ias_evp ie) (ias_uninit ie) (card_cipher (fst st)) certificate, st) (\<lambda>encCert st.
     bindS (CAES_Encode (ias_evp ie) (ias_uninit ie) (card_cipher (fst st)) FirstPIN, st) (\<lambda>encPIN st.
     case CacheSetData (ias_cache ie) PAN encCert encPIN (snd st) of (r, w) \<Rightarrow> (r, fst st, w)))"

definition IAS_GetFirstPIN :: "'w ias_env \<Rightarrow> ('w, bytes) ias_fn" where
  "IAS_GetFirstPIN ie hc st =
     bindS (PANStr (fst st), st) (\<lambda>pan st.
     bindS (case CacheGetPIN (ias_cache ie) (Some pan) (snd st) of (r, w) \<Rightarrow> (r, fst st, w)) (\<lambda>enc st.
     (CAES_Decode (ias_evp ie) (card_cipher (fst st)) enc, st)))"

definition IsEnrolled :: "'w ias_env \<Rightarrow> ('w, bool) ias_fn" where
  "IsEnrolled ie hc st =
     bindS (PANStr (fst st), st) (\<lambda>pan st.
     case CacheExists (ias_cache ie) (Some pan) (snd st) of (r, w) \<Rightarrow> (r, fst st, w))"

definition IsEnrolled_PAN :: "'w ias_env \<Rightarrow> string option \<Rightarrow> 'w \<Rightarrow> (exn + bool) \<times> 'w" where
  "IsEnrolled_PAN ie szPAN w = CacheExists (ias_cache ie) szPAN w"

definition Unenroll_PAN :: "'w ias_env \<Rightarrow> string option \<Rightarrow> 'w \<Rightarrow> (exn + bool) \<times> 'w" where
  "Unenroll_PAN ie szPAN w = CacheRemove (ias_cache ie) szPAN w"

definition Unenroll :: "'w ias_env \<Rightarrow> ('w, bool) ias_fn" where
  "Unenroll ie hc st =
     bindS (PANStr (fst st), st) (\<lambda>pan st.
     case CacheRemove (ias_cache ie) (Some pan) (snd st) of (r, w) \<Rightarrow> (r, fst st, w))"

text \<open>
  \<open>GetCertificate\<close>: from the object, else from the cache; whatever \<open>std::exception\<close> the cache
  raises leaves an empty certificate.
\<close>

definition cached_certificate :: "'w ias_env \<Rightarrow> string \<Rightarrow> ('w, bytes) ias_fn" where
  "cached_certificate ie pan hc st =
     bindS (case CacheGetCertificate (ias_cache ie) (Some pan) (snd st) of (r, w) \<Rightarrow> (r, fst st, w)) (\<lambda>enc st.
     (CAES_Decode (ias_evp ie) (card_cipher (fst st)) enc, st))"

definition IAS_GetCertificate :: "'w ias_env \<Rightarrow> ('w, bytes) ias_fn" where
  "IAS_GetCertificate ie hc st =
     (if ias_Certificate (fst st) \<noteq> [] then (Inr (ias_Certificate (fst st)), st)
      else bindS (PANStr (fst st), st) (\<lambda>pan st.
        bindS (case CacheExists (ias_cache ie) (Some pan) (snd st) of (r, w) \<Rightarrow> (r, fst st, w)) (\<lambda>found st.
        if found then
          (case cached_certificate ie pan hc st of
             (Inr cert, st) \<Rightarrow> (Inr cert, upd (\<lambda>i. i\<lparr>ias_Certificate := cert\<rparr>) st)
           | (Inl UB, st) \<Rightarrow> (Inl UB, st)
           | (Inl _, st) \<Rightarrow> (Inr [], st))
        else (Inr [], st))))"

end
