(* ===== verification/Ias_Theorems.thy ===== *)
theory Ias_Theorems
  imports Ias
begin

section \<open>Properties of the card protocol\<close>

text \<open>
  What the file reader delivers from a card that answers READ BINARY in any of the ways the
  code provides for, and what the two ends of the key exchange share.
\<close>

subsection \<open>Status words\<close>

lemma HIBYTE_word [simp]: "HIBYTE (push_bit 8 (ucast a) OR ucast (b :: byte)) = a"
  unfolding HIBYTE_def using bit_imp_le_length [of b] by (intro bit_word_eqI) (force simp: bit_simps)

lemma LOBYTE_word [simp]: "LOBYTE (push_bit 8 (ucast a) OR ucast b) = b"
proof -
  have "sw AND 0xff = take_bit 8 sw" for sw :: "16 word" by (simp add: take_bit_eq_mask mask_eq_exp_minus_1)
  then show ?thesis unfolding LOBYTE_def by (intro bit_word_eqI) (auto simp: bit_simps)
qed

text \<open>One plain command that the card answers with \<open>d\<close> and the status octets \<open>a\<close>, \<open>b\<close>.\<close>

lemma ias_Transmit_eq:
  assumes "ias_callback ie hc apdu w = (0, d @ [a, b], w')"
  shows "ias_Transmit ie apdu hc (i, w) = (Inr (push_bit 8 (ucast a) OR ucast b, d), i, w')"
  using assms token_answer_eq [of d a b]
  by (simp add: ias_Transmit_def Transmit_def ias_token_def setTransmitCallback_def setTransmitCallbackData_def)

lemma SendAPDU_eq:
  assumes "ias_callback ie hc (if data \<noteq> [] then head @ [of_nat (length data)] @ data @ le_octets le else head @ le_octets le) w
      = (0, d @ [a, b], w')"
    and "length data \<le> 255" and "a \<noteq> 0x61" and "0 < ias_fuel ie"
  shows "SendAPDU ie head data le hc (i, w) = (Inr (push_bit 8 (ucast a) OR ucast b, d), i, w')"
proof -
  obtain f where f: "ias_fuel ie = Suc f" using assms(4) by (cases "ias_fuel ie") auto
  show ?thesis using ias_Transmit_eq [OF assms(1), of i] assms(2,3) by (simp add: SendAPDU_def f)
qed

subsection \<open>A card that serves a file\<close>

text \<open>
  The answers of a card to READ BINARY at offset \<open>o'\<close> with expected length \<open>n\<close>: some octets
  from there with status 9000; when fewer than \<open>n\<close> are left, all of them with the warning
  6282, or the exact number in 6Cxx; behind the end 6B00.
\<close>

definition read_answer :: "bytes \<Rightarrow> nat \<Rightarrow> nat \<Rightarrow> bytes \<Rightarrow> bool" where
  "read_answer file o' n ans \<longleftrightarrow>
     (let left = length file - o' in
      if left = 0 then ans = [0x6b, 0x00]
      else (\<exists>k. 0 < k \<and> k \<le> min n left \<and> ans = take k (drop o' file) @ [0x90, 0x00])
        \<or> left < n \<and> (ans = drop o' file @ [0x62, 0x82] \<or> ans = [0x6c, of_nat left]))"

text \<open>The card behind \<open>cb\<close> serves \<open>file\<close> under \<open>fid\<close> in every world of \<open>I\<close>, and stays in it.\<close>

definition serves_file :: "'w transmit_callback \<Rightarrow> ulong \<Rightarrow> 16 word \<Rightarrow> bytes \<Rightarrow> ('w \<Rightarrow> bool) \<Rightarrow> bool" where
  "serves_file cb hc fid file I \<longleftrightarrow>
     (\<forall>w. I w \<longrightarrow> (\<exists>x w'. cb hc [0x00, 0xa4, 0x02, 0x04, 0x02, HIBYTE fid, LOBYTE fid] w = (0, x @ [0x90, 0x00], w') \<and> I w')) \<and>
     (\<forall>w o' n. I w \<longrightarrow> o' < 0x10000 \<longrightarrow> 0 < n \<longrightarrow>
        (\<exists>ans w'. cb hc (read_at (of_nat o') @ [n]) w = (0, ans, w') \<and> I w' \<and> read_answer file o' (unat n) ans))"

lemma serves_read:
  assumes "serves_file (ias_callback ie) hc fid file I" and "I w" and "k < 0x10000" and "0 < n" and "0 < ias_fuel ie"
  obtains d a b w' where "SendAPDU ie (read_at (of_nat k)) [] (Some n) hc (i, w) = (Inr (push_bit 8 (ucast a) OR ucast b, d), i, w')"
    and "I w'" and "read_answer file k (unat n) (d @ [a, b])"
proof -
  from assms(1-4) obtain ans w' where r: "ias_callback ie hc (read_at (of_nat k) @ [n]) w = (0, ans, w')" "I w'"
    "read_answer file k (unat n) ans" unfolding serves_file_def by meson
  have "\<exists>d a b. ans = d @ [a, b] \<and> a \<noteq> 0x61"
  proof -
    from r(3) consider "ans = [] @ [0x6b, 0x00]" | m where "ans = m @ [0x90, 0x00]" | "ans = drop k file @ [0x62, 0x82]"
      | "ans = [] @ [0x6c, of_nat (length file - k)]"
      by (auto simp: read_answer_def Let_def split: if_splits)
    then show ?thesis by cases (intro exI conjI; assumption | simp)+
  qed
  then obtain d a b where ans: "ans = d @ [a, b]" "a \<noteq> 0x61" by blast
  have "SendAPDU ie (read_at (of_nat k)) [] (Some n) hc (i, w) = (Inr (push_bit 8 (ucast a) OR ucast b, d), i, w')"
    by (rule SendAPDU_eq) (use r(1) ans assms(5) in \<open>simp_all add: le_octets_def\<close>)
  with r(2,3) ans(1) show thesis by (intro that) auto
qed

lemma status_words:
  "push_bit 8 (ucast (0x90 :: byte)) OR ucast (0x00 :: byte) = (0x9000 :: 16 word)"
  "push_bit 8 (ucast (0x6b :: byte)) OR ucast (0x00 :: byte) = (0x6b00 :: 16 word)"
  "push_bit 8 (ucast (0x62 :: byte)) OR ucast (0x82 :: byte) = (0x6282 :: 16 word)"
  by (simp_all add: push_bit_eq_mult)

lemma HIBYTE_values [simp]: "HIBYTE 0x9000 = 0x90" "HIBYTE 0x6b00 = 0x6b" "HIBYTE 0x6282 = 0x62"
  using HIBYTE_word [of "0x90" 0] HIBYTE_word [of "0x6b" 0] HIBYTE_word [of "0x62" "0x82"] by (simp_all only: status_words)

text \<open>What one round of the loop gets: the end, a part, or the rest.\<close>

definition chunk_ok :: "bytes \<Rightarrow> nat \<Rightarrow> 16 word \<Rightarrow> bytes \<Rightarrow> bool" where
  "chunk_ok file k sw chn \<longleftrightarrow>
     (if length file \<le> k then sw = 0x6b00
      else sw = 0x9000 \<and> (\<exists>m. 0 < m \<and> m \<le> length file - k \<and> chn = take m (drop k file))
        \<or> sw = 0x6282 \<and> chn = drop k file)"

lemma read_answer_cases:
  assumes "read_answer file k n (d @ [a, b])"
  obtains (final) "length file \<le> k" "a = 0x6b" "b = 0"
  | (part) m where "k < length file" "a = 0x90" "b = 0" "0 < m" "m \<le> length file - k" "d = take m (drop k file)"
  | (rest) "k < length file" "a = 0x62" "b = 0x82" "d = drop k file"
  | (wrong) "k < length file" "length file - k < n" "a = 0x6c" "b = of_nat (length file - k)"
proof -
  have two: "d @ [a, b] = xs @ [x, y] \<longleftrightarrow> d = xs \<and> a = x \<and> b = y" for xs :: bytes and x y by simp
  show thesis
    using assms final part rest wrong two [of "[]"]
    by (fastforce simp: read_answer_def Let_def not_less_eq_eq two split: if_splits)
qed

lemma read_chunk_file:
  assumes "serves_file (ias_callback ie) hc fid file I" and "I w" and "k < 0x10000" and "0 < ias_fuel ie"
  shows "\<exists>sw chn w'. read_chunk (SendAPDU ie) (of_nat k) 224 hc (i, w) = (Inr (sw, chn), i, w') \<and> I w' \<and> chunk_ok file k sw chn"
proof -
  let ?sw = "\<lambda>a b. push_bit 8 (ucast (a :: byte)) OR ucast (b :: byte) :: 16 word"
  obtain d a b w1 where s: "SendAPDU ie (read_at (of_nat k)) [] (Some 224) hc (i, w) = (Inr (?sw a b, d), i, w1)"
    and I1: "I w1" and ans: "read_answer file k (unat (224 :: byte)) (d @ [a, b])"
    by (rule serves_read [OF assms(1-3) _ assms(4), where n = 224 and i = i]) simp
  from ans show ?thesis
  proof (cases rule: read_answer_cases)
    case wrong
    have n: "unat (of_nat (length file - k) :: byte) = length file - k" "(0 :: byte) < of_nat (length file - k)"
    proof -
      have small: "unat (of_nat m :: byte) = m" if "m < 224" for m using that by (simp add: unat_of_nat)
      show "unat (of_nat (length file - k) :: byte) = length file - k" using small wrong(2) by simp
      then show "(0 :: byte) < of_nat (length file - k)" using wrong(1) by (simp only: word_less_nat_alt) simp
    qed
    obtain d' a' b' w2 where s': "SendAPDU ie (read_at (of_nat k)) [] (Some b) hc (i, w1) = (Inr (?sw a' b', d'), i, w2)"
      and I2: "I w2" and ans': "read_answer file k (unat b) (d' @ [a', b'])"
      by (rule serves_read [OF assms(1) I1 assms(3) _ assms(4), where n = b and i = i]) (use n(2) wrong(4) in simp)
    have "read_chunk (SendAPDU ie) (of_nat k) 224 hc (i, w) = (Inr (?sw a' b', d'), i, w2)"
      unfolding read_chunk_def s bindS_simps prod.case HIBYTE_word LOBYTE_word using s' wrong(3) by simp
    moreover have "chunk_ok file k (?sw a' b') d'"
      using ans' wrong(1,4) n(1) by (cases rule: read_answer_cases) (auto simp: chunk_ok_def status_words)
    ultimately show ?thesis using I2 by blast
  qed (use s I1 in \<open>auto simp: read_chunk_def chunk_ok_def status_words\<close>)
qed

lemma read_loop_file:
  assumes "serves_file (ias_callback ie) hc fid file I" and "length file < 0x10000" and "0 < ias_fuel ie"
  shows "I w \<Longrightarrow> k \<le> length file \<Longrightarrow> length file - k < fuel \<Longrightarrow>
    \<exists>w'. read_loop (SendAPDU ie) fuel (of_nat k) (take k file) hc (i, w) = (Inr (), file, i, w') \<and> I w'"
proof (induction fuel arbitrary: k w)
  case (Suc fuel)
  obtain sw chn w1 where c: "read_chunk (SendAPDU ie) (of_nat k) 224 hc (i, w) = (Inr (sw, chn), i, w1)"
    "I w1" "chunk_ok file k sw chn"
    using read_chunk_file [OF assms(1) Suc.prems(1) _ assms(3), of k i] Suc.prems(2) assms(2) by auto
  show ?case
  proof (cases "sw = 0x9000")
    case True
    with c(3) obtain m where m: "0 < m" "m \<le> length file - k" "chn = take m (drop k file)" "k < length file"
      by (auto simp: chunk_ok_def split: if_splits)
    then have "take k file @ chn = take (k + m) file" "length (take k file @ chn) = k + m"
      by (simp_all add: take_add)
    moreover obtain w' where "read_loop (SendAPDU ie) fuel (of_nat (k + m)) (take (k + m) file) hc (i, w1) = (Inr (), file, i, w')" "I w'"
    proof -
      have "k + m \<le> length file" "length file - (k + m) < fuel" using m(1,2,4) Suc.prems(3) by linarith+
      from Suc.IH [OF c(2) this] that show thesis by blast
    qed
    ultimately show ?thesis using c(1) True by (simp del: length_append of_nat_add)
  next
    case False
    with c(3) Suc.prems(2) show ?thesis using c(1,2) by (auto simp: chunk_ok_def split: if_splits)
  qed
qed simp

subsection \<open>Properties\<close>

text \<open>
  C23: the file reader returns the card's file.  For every file of fewer than 65536 octets and
  every card that serves it (in pieces of its own choice, announcing the end by 6282, 6Cxx or
  6B00), \<open>readfile\<close> without secure messaging ends, without an error, with exactly the file
  appended to an empty array, and changes nothing in the object.  The offset counter cannot wrap
  below that size, and as many rounds as the file has octets, plus one, suffice.
\<close>

theorem readfile_returns_file:
  assumes "serves_file (ias_callback ie) hc fid file I" and "I w"
    and "length file < 0x10000" and "length file < ias_fuel ie" and "\<not> ActiveSM i"
  shows "\<exists>w'. readfile ie fid [] hc (i, w) = (Inr (), file, i, w') \<and> I w'"
proof -
  have fuel: "0 < ias_fuel ie" using assms(4) by simp
  obtain x w1 where sel: "ias_callback ie hc [0x00, 0xa4, 0x02, 0x04, 0x02, HIBYTE fid, LOBYTE fid] w = (0, x @ [0x90, 0x00], w1)" "I w1"
    using assms(1,2) unfolding serves_file_def by meson
  have "SendAPDU ie [0x00, 0xa4, 0x02, 0x04] [HIBYTE fid, LOBYTE fid] None hc (i, w) = (Inr (0x9000, x), i, w1)"
    using SendAPDU_eq [of ie hc "[HIBYTE fid, LOBYTE fid]" "[0x00, 0xa4, 0x02, 0x04]" None w x "0x90" 0 w1 i] sel(1) fuel
    by (simp add: le_octets_def status_words)
  moreover obtain w' where "read_loop (SendAPDU ie) (ias_fuel ie) (of_nat 0) (take 0 file) hc (i, w1) = (Inr (), file, i, w')" "I w'"
    using read_loop_file [OF assms(1,3) fuel sel(2), of 0 "ias_fuel ie" i] assms(4) by auto
  ultimately show ?thesis using assms(5) by (simp add: readfile_def read_file_with_def expect_ok_def)
qed

text \<open>A card that serves a file of five octets, one at a time.\<close>

definition demo_file :: bytes where
  "demo_file = [0x30, 0x03, 0x02, 0x01, 0x05]"

definition demo_card_answer :: "bytes \<Rightarrow> bytes" where
  "demo_card_answer apdu =
     (if length apdu = 5 \<and> apdu ! 1 = 0xb0 then
        let o' = 256 * unat (apdu ! 2) + unat (apdu ! 3) in
        if o' < length demo_file then [demo_file ! o', 0x90, 0x00] else [0x6b, 0x00]
      else [0x90, 0x00])"

definition demo_ias_env :: "demo_fs ias_env" where
  "demo_ias_env =
     \<lparr>ias_callback = (\<lambda>hc apdu w. (0, demo_card_answer apdu, w)), ias_evp = demo_evp, ias_uninit = (\<lambda>_. 0),
      ias_sha1 = (\<lambda>d. replicate 20 1), ias_sha256 = (\<lambda>d. replicate 32 2), ias_sha512 = (\<lambda>d. replicate 64 3),
      ias_fromdata = (\<lambda>n e. True), ias_random = (\<lambda>n w. (Some (replicate n 1), w)),
      ias_cache = demo_cache, ias_fuel = 100\<rparr>"

lemma unat_bytes: "256 * unat (HIBYTE w) + unat (LOBYTE w) = unat w"
proof -
  have "unat (drop_bit 8 w) = unat w div 256" by (simp add: unat_drop_bit_eq) (simp add: drop_bit_eq_div)
  then have "unat (HIBYTE w) = unat w div 256"
    using unsigned_less [where ?'a = nat, of w] by (simp add: HIBYTE_def unsigned_ucast_eq take_bit_eq_mod)
  moreover have "w AND 0xff = take_bit 8 w" by (simp add: take_bit_eq_mask mask_eq_exp_minus_1)
  moreover have "unat (take_bit 8 w) = unat w mod 256"
    by (simp only: unsigned_take_bit_eq) (simp add: take_bit_eq_mod)
  ultimately have "unat (HIBYTE w) = unat w div 256" "unat (LOBYTE w) = unat w mod 256"
    by (simp_all add: LOBYTE_def unsigned_ucast_eq take_bit_eq_mod [where 'a = nat])
  then show ?thesis by simp
qed

lemma demo_serves: "serves_file (ias_callback demo_ias_env) hc fid demo_file (\<lambda>_. True)"
proof -
  have "read_answer demo_file o' (unat n) (demo_card_answer (read_at (of_nat o') @ [n]))"
    if "o' < 0x10000" "0 < n" for o' and n :: byte
  proof -
    have "256 * unat (HIBYTE (of_nat o')) + unat (LOBYTE (of_nat o')) = o'"
      using unat_bytes [of "of_nat o'"] that(1) by (simp add: unat_of_nat)
    moreover have "0 < unat n" using that(2) by (simp add: word_less_nat_alt)
    ultimately show ?thesis
      by (auto simp: read_answer_def demo_card_answer_def read_at_def Let_def Cons_nth_drop_Suc [symmetric]
          intro!: exI [of _ 1])
  qed
  then show ?thesis
    unfolding serves_file_def demo_ias_env_def by (auto simp: demo_card_answer_def intro: exI [of _ "[]"])
qed

theorem readfile_returns_file_witness:
  "\<exists>w'. readfile demo_ias_env 0x1003 [] 1 (new_IAS_object [], (\<lambda>_. None, None)) = (Inr (), demo_file, new_IAS_object [], w') \<and> True"
  by (rule readfile_returns_file [OF demo_serves TrueI])
     (simp_all add: demo_file_def demo_ias_env_def new_IAS_object_def)

end
