(* ===== verification/Sm_Theorems.thy ===== *)
theory Sm_Theorems
  imports Secure_Messaging Big_Number
begin

section \<open>Secure messaging against ISO 7816-4\<close>

text \<open>
  The reference: data objects and what the parser demands of them, the protected reply of an
  honest card, the protected form of a command, and the counter as a number.  The properties
  compare \<open>SM\<close>, \<open>respSM\<close> and \<open>increment\<close> with them, under the contract of the ciphers.
\<close>

subsection \<open>Data objects\<close>

text \<open>
  A data object of a protected response: its tag and length octets, and its value.  \<open>sm_valid\<close>
  is what the parser demands of it, \<open>sm_apply\<close> what the parser does with it.
\<close>

type_synonym sm_do = "bytes \<times> bytes"

fun sm_header :: "bytes \<Rightarrow> nat \<Rightarrow> bool" where
  "sm_header [t, n] len = (n \<le> 0x80 \<and> unat n = len)"
| "sm_header [t, l, n] len = (l = 0x81 \<and> unat n = len)"
| "sm_header [t, l, a, b] len = (l = 0x82 \<and> 256 * unat a + unat b = len)"
| "sm_header _ len = False"

fun sm_valid :: "sm_do \<Rightarrow> bool" where
  "sm_valid (h, v) =
     (sm_header h (length v) \<and>
      (if hd h = 0x99 then length h = 2 \<and> length v = 2
       else if hd h = 0x8e then length h = 2 \<and> length v = 8
       else hd h = 0x85 \<or> hd h = 0x87 \<and> v \<noteq> []))"

fun sm_apply :: "sm_acc \<Rightarrow> sm_do \<Rightarrow> sm_acc" where
  "sm_apply acc (h, v) =
     (if hd h = 0x99
      then acc\<lparr>sm_sw := push_bit 8 (ucast (v ! 0)) OR ucast (v ! 1), sm_calc := sm_calc acc @ h @ v\<rparr>
      else if hd h = 0x8e then acc\<lparr>sm_mac := v\<rparr>
      else acc\<lparr>sm_enc := if hd h = 0x87 then tl v else v, sm_calc := sm_calc acc @ h @ v\<rparr>)"

definition do_bytes :: "sm_do \<Rightarrow> bytes" where
  "do_bytes d = fst d @ snd d"

lemma sm_header_cases:
  assumes "sm_header h len"
  obtains (short) t n where "h = [t, n]" "n \<le> 0x80" "unat n = len"
  | (one) t n where "h = [t, 0x81, n]" "unat n = len"
  | (two) t a b where "h = [t, 0x82, a, b]" "256 * unat a + unat b = len"
  using assms by (cases "(h, len)" rule: sm_header.cases) auto

lemma ba_at_cons [simp]:
  "ba_at (b # bs) 0 = Inr b" "ba_at (b # bs) (Suc k) = ba_at bs k" "ba_at [] k = Inl bad_access"
  "ba_at (a # b # bs) 2 = ba_at bs 0" "ba_at (a # b # bs) 3 = ba_at bs 1"
  by (auto simp: ba_at_def numeral_eq_Suc)

lemma ba_mid_n_append [simp]:
  "ba_mid_n (a @ b @ c) (length a) (length b) = Inr b"
  by (simp add: ba_mid_n_def)

lemma sm_length_header:
  assumes "sm_header h len"
  shows "sm_length (h @ rest) 0 = Inr (length h - 2, len)"
  using assms by (cases rule: sm_header_cases) (auto simp: sm_length_def Let_def not_less)

lemma sm_length_0D:
  assumes "sm_length d 0 = Inr (llen, lgn)"
  shows "sm_header (take (llen + 2) d) lgn \<and> llen + 2 \<le> length d \<and> hd (take (llen + 2) d) = hd d"
proof -
  from assms obtain t l more where d: "d = t # l # more"
    by (cases d; cases "tl d") (auto simp: sm_length_def)
  show ?thesis
  proof (cases "l > 0x80")
    case False
    with assms d show ?thesis by (auto simp: sm_length_def not_less)
  next
    case True
    have l: "l = 0x81 \<longleftrightarrow> unat l - 128 = 1" "l = 0x82 \<longleftrightarrow> unat l - 128 = 2"
      using True by (auto simp: word_less_nat_alt unat_arith_simps)
    from assms d True l show ?thesis
      by (cases more; cases "tl more")
         (auto simp: sm_length_def Let_def numeral_eq_Suc split: if_splits)
  qed
qed

lemma sm_object_valid:
  assumes "sm_valid (h, v)"
  shows "sm_object (h @ v @ rest) 0 acc = Inr (length h + length v, sm_apply acc (h, v))"
proof -
  let ?n = "length h - 2"
  have hdr: "sm_header h (length v)" using assms by simp
  have len: "sm_length (h @ v @ rest) 0 = Inr (?n, length v)" by (rule sm_length_header [OF hdr])
  have n: "?n + 2 = length h" using hdr by (cases rule: sm_header_cases) auto
  have tag: "ba_at (h @ v @ rest) 0 = Inr (hd h)" using hdr by (cases rule: sm_header_cases) auto
  have whole: "ba_mid_n (h @ v @ rest) 0 (length v + ?n + 2) = Inr (h @ v)"
    using n by (simp add: ba_mid_n_def)
  have val: "ba_mid_n (h @ v @ rest) (?n + 2) (length v) = Inr v"
    using n by (simp add: ba_mid_n_def)
  have tlv: "ba_mid_n (h @ v @ rest) (?n + 3) (length v - 1) = Inr (tl v)" if "v \<noteq> []"
  proof -
    have "?n + 3 = Suc (length h)" using n by simp
    with that show ?thesis by (cases v) (simp_all add: ba_mid_n_def)
  qed
  consider (sw) "hd h = 0x99" | (mac) "hd h = 0x8e" | (data) "hd h = 0x85 \<or> hd h = 0x87 \<and> v \<noteq> []"
    using assms by (auto split: if_splits)
  then show ?thesis
  proof cases
    case sw
    from hdr assms sw obtain a b where "h = [0x99, 2]" "v = [a, b]"
      by (cases rule: sm_header_cases; cases v; cases "tl v"; simp add: word_unat_eq_iff)+
    then show ?thesis by (simp add: sm_object_def ba_mid_n_def)
  next
    case mac
    from hdr assms mac have h: "h = [0x8e, 8]" "length v = 8"
      by (cases rule: sm_header_cases; simp add: word_unat_eq_iff)+
    then show ?thesis using ba_mid_n_append [of h v rest] by (simp add: sm_object_def)
  next
    case data
    then show ?thesis using tag len whole val tlv n by (auto simp: sm_object_def)
  qed
qed

lemma sm_object_0D:
  assumes "sm_object d 0 acc = Inr (i, acc')"
  shows "\<exists>h v rest. sm_valid (h, v) \<and> d = h @ v @ rest"
proof -
  from assms obtain t more where d: "d = t # more" by (cases d) (auto simp: sm_object_def)
  have two: "\<exists>h v rest. sm_valid (h, v) \<and> d = h @ v @ rest"
    if "ba_at d 1 = Inr l" "unat l = n" "n + 2 \<le> length d" "t = 0x99 \<and> n = 2 \<or> t = 0x8e \<and> n = 8" for l n
  proof -
    from that(1) d obtain rest where "d = [t, l] @ rest" by (cases more) auto
    moreover have "sm_valid ([t, l], take n rest)"
      using that calculation by (auto simp: word_le_nat_alt)
    ultimately show ?thesis by (metis append_take_drop_id)
  qed
  have data: "\<exists>h v rest. sm_valid (h, v) \<and> d = h @ v @ rest"
    if "sm_length d 0 = Inr (llen, lgn)" "lgn + llen + 2 \<le> length d" "t = 0x85 \<or> t = 0x87 \<and> 1 \<le> lgn" for llen lgn
  proof -
    let ?h = "take (llen + 2) d" and ?r = "drop (llen + 2) d"
    have "sm_valid (?h, take lgn ?r)"
      using sm_length_0D [OF that(1)] that(2,3) d by auto
    then show ?thesis by (metis append_take_drop_id)
  qed
  consider (sw) "t = 0x99" | (mac) "t = 0x8e" | (plain) "t = 0x85" | (padded) "t = 0x87"
    using assms d by (auto simp: sm_object_def split: if_splits)
  then show ?thesis
  proof cases
    case sw
    then obtain l where "ba_at d 1 = Inr l" "l = 2" "4 \<le> length d"
      using assms d by (auto simp: sm_object_def bindE_eq_Inr ba_mid_n_def split: if_splits)
    then show ?thesis using two [of l 2] sw by simp
  next
    case mac
    then obtain l where "ba_at d 1 = Inr l" "l = 8" "10 \<le> length d"
      using assms d by (auto simp: sm_object_def bindE_eq_Inr ba_mid_n_def split: if_splits)
    then show ?thesis using two [of l 8] mac by simp
  next
    case plain
    then obtain llen lgn where "sm_length d 0 = Inr (llen, lgn)" "lgn + llen + 2 \<le> length d"
      using assms d by (auto simp: sm_object_def bindE_eq_Inr ba_mid_n_def split: if_splits)
    then show ?thesis using data plain by simp
  next
    case padded
    then obtain llen lgn where "sm_length d 0 = Inr (llen, lgn)" "lgn + llen + 2 \<le> length d" "1 \<le> lgn"
      using assms d by (auto simp: sm_object_def bindE_eq_Inr ba_mid_n_def split: if_splits)
    then show ?thesis using data padded by simp
  qed
qed

text \<open>The parser at \<open>index\<close> is the parser at the start of what is left.\<close>

lemma map_sum_bindE: "map_sum id f (bindE m k) = bindE m (\<lambda>x. map_sum id f (k x))"
  by (cases m) auto

lemma ba_at_shift: "ba_at resp (index + k) = ba_at (drop index resp) k" "ba_at resp index = ba_at (drop index resp) 0"
  by (auto simp: ba_at_def)

lemma ba_mid_n_shift:
  "index \<le> length resp \<Longrightarrow> ba_mid_n resp (index + k) n = ba_mid_n (drop index resp) k n"
  "index \<le> length resp \<Longrightarrow> ba_mid_n resp index n = ba_mid_n (drop index resp) 0 n"
  by (auto simp: ba_mid_n_def add.commute)

lemma sm_length_shift: "sm_length resp index = sm_length (drop index resp) 0"
  by (simp only: sm_length_def ba_at_shift(1) [of resp index] add_0)

lemma sm_object_shift:
  assumes "index \<le> length resp"
  shows "sm_object resp index acc = map_sum id (apfst ((+) index)) (sm_object (drop index resp) 0 acc)"
  unfolding sm_object_def map_sum_bindE sm_length_shift [of resp index] if_distrib [of "map_sum id (apfst ((+) index))"]
    prod.case_distrib [of "map_sum id (apfst ((+) index))"] ba_at_shift(2) [of resp index]
    ba_mid_n_shift(2) [OF assms] ba_at_shift(1) [of resp index] add.assoc ba_mid_n_shift(1) [OF assms]
  by (simp only: add_0 map_sum.simps apfst_conv id_apply add.assoc)

lemma sm_loop_objects:
  assumes "drop index resp = concat (map do_bytes objs)" and "objs \<noteq> []" and "list_all sm_valid objs"
    and "index \<le> length resp"
  shows "sm_loop resp index acc = Inr (foldl sm_apply acc objs)"
  using assms
proof (induction objs arbitrary: index acc)
  case (Cons obj objs)
  obtain h v where obj: "obj = (h, v)" by (cases obj)
  let ?rest = "concat (map do_bytes objs)" and ?n = "length h + length v"
  have d: "drop index resp = h @ v @ ?rest" using Cons.prems(1) obj by (simp add: do_bytes_def [of "(h, v)"])
  have step: "sm_object resp index acc = Inr (index + ?n, sm_apply acc obj)"
    using sm_object_shift [OF Cons.prems(4), of acc] sm_object_valid [of h v ?rest acc] Cons.prems(3) obj d by simp
  have len: "length resp = index + ?n + length ?rest"
    using arg_cong [OF d, of length] Cons.prems(4) by simp
  have next_rest: "drop (index + ?n) resp = ?rest"
    using arg_cong [OF d, of "drop ?n"] by (simp add: add.commute)
  show ?case
  proof (cases "objs = []")
    case True
    then show ?thesis using step len by (simp add: sm_loop.simps [of resp index])
  next
    case False
    have "length ?rest > 0" using False Cons.prems(3)
      by (cases objs; cases "hd objs") (auto simp: do_bytes_def elim: sm_header_cases)
    then show ?thesis
      using step len Cons.IH [OF next_rest False, of "sm_apply acc obj"] Cons.prems(3)
      by (simp add: sm_loop.simps [of resp index])
  qed
qed simp

lemma sm_loop_objectsD:
  assumes "sm_loop resp index acc = Inr acc'" and "index \<le> length resp"
  shows "\<exists>objs. drop index resp = concat (map do_bytes objs) \<and> objs \<noteq> [] \<and> list_all sm_valid objs"
  using assms
proof (induction resp index acc rule: sm_loop.induct)
  case (1 resp index acc)
  from "1.prems"(1) obtain i' a' where step: "sm_object resp index acc = Inr (i', a')"
    by (auto simp: sm_loop.simps [of resp index] bindE_eq_Inr)
  then obtain i where "sm_object (drop index resp) 0 acc = Inr (i, a')" "i' = index + i"
    using sm_object_shift [OF "1.prems"(2), of acc] by (cases "sm_object (drop index resp) 0 acc") auto
  then obtain h v rest where o: "sm_valid (h, v)" "drop index resp = h @ v @ rest" "i' = index + length h + length v"
  proof -
    assume s: "sm_object (drop index resp) 0 acc = Inr (i, a')" "i' = index + i"
      and c: "\<And>h v rest. \<lbrakk>sm_valid (h, v); drop index resp = h @ v @ rest; i' = index + length h + length v\<rbrakk> \<Longrightarrow> thesis"
    from sm_object_0D [OF s(1)] obtain h v rest where o: "sm_valid (h, v)" "drop index resp = h @ v @ rest" by auto
    with sm_object_valid [OF o(1), of rest acc] s show thesis by (intro c [OF o]) simp
  qed
  have rest: "drop i' resp = rest" using arg_cong [OF o(2), of "drop (length h + length v)"] o(3)
    by (simp add: add.commute add.left_commute)
  have single: "drop index resp = concat (map do_bytes [(h, v)]) @ rest" using o(2) by (simp add: do_bytes_def)
  show ?case
  proof (cases "i' < length resp")
    case True
    with "1.IH" [OF step] "1.prems"(1) step obtain objs
      where "drop i' resp = concat (map do_bytes objs)" "list_all sm_valid objs"
      by (auto simp: sm_loop.simps [of resp index])
    then show ?thesis using single rest o(1) by (intro exI [of _ "(h, v) # objs"]) auto
  next
    case False
    then have "rest = []" using rest by auto
    then show ?thesis using single o(1) by (intro exI [of _ "[(h, v)]"]) auto
  qed
qed

subsection \<open>The protection of ISO 7816-4\<close>

text \<open>
  Padding method 2, the cryptogram and the checksum of the standard over DES.  An honest card
  answers with the cryptogram (when there are data), the status and the checksum over the
  counter and both.
\<close>

definition iso_pad :: "bytes \<Rightarrow> bytes" where
  "iso_pad data = data @ [0x80] @ replicate (7 - length data mod 8) 0"

definition sm_encrypted :: "des \<Rightarrow> des \<Rightarrow> bytes \<Rightarrow> bytes \<Rightarrow> bytes" where
  "sm_encrypted E D key data = cbc_encrypt (ede E D (des_schedule key)) zero_iv (iso_pad data)"

definition sm_checksum :: "des \<Rightarrow> des \<Rightarrow> bytes \<Rightarrow> bytes \<Rightarrow> bytes" where
  "sm_checksum E D key data = iso9797_alg3 E D key zero_iv (iso_pad data)"

definition status_octets :: "16 word \<Rightarrow> bytes" where
  "status_octets sw = [ucast (drop_bit 8 sw), ucast sw]"

definition reply_objects :: "des \<Rightarrow> des \<Rightarrow> bytes \<Rightarrow> bytes \<Rightarrow> 16 word \<Rightarrow> sm_do list" where
  "reply_objects E D keyEnc data sw =
     (if data = [] then []
      else let c = sm_encrypted E D keyEnc data in [(0x87 # length_octets (length (1 # c)), 1 # c)])
     @ [([0x99, 2], status_octets sw)]"

definition sm_reply :: "des \<Rightarrow> des \<Rightarrow> bytes \<Rightarrow> bytes \<Rightarrow> bytes \<Rightarrow> bytes \<Rightarrow> 16 word \<Rightarrow> bytes" where
  "sm_reply E D keyEnc keySig seq data sw =
     (let body = concat (map do_bytes (reply_objects E D keyEnc data sw))
      in body @ [0x8e, 8] @ sm_checksum E D keySig (seq @ body))"

lemma iso_pad_blocks [simp]: "iso_pad data \<noteq> []" "length (iso_pad data) mod 8 = 0"
proof -
  have "length (iso_pad data) = length data + (8 - length data mod 8)"
    by (simp add: iso_pad_def Suc_diff_le less_eq_Suc_le)
  also have "\<dots> mod 8 = 0" by presburger
  finally show "length (iso_pad data) mod 8 = 0" .
qed (simp add: iso_pad_def)

lemma length_iso_pad: "length (iso_pad data) \<le> length data + 8"
  by (simp add: iso_pad_def)

lemma ISOPad_iso_pad: "length data + 8 < 2 ^ 64 \<Longrightarrow> ISOPad u data = Inr (iso_pad data)"
  by (simp add: ISOPad_eq iso_pad_def)

lemma sm_checksum_eq:
  assumes "evp_is_des evp E D" and "des_key key" and "length data + 16 < 2 ^ 64"
  shows "bindE (ISOPad u data) (CMAC_Mac evp \<lparr>cipher_key = key, cipher_iv = zero_iv\<rparr>) = Inr (sm_checksum E D key data)"
    and "length (sm_checksum E D key data) = 8"
  using CMAC_Mac_eq [OF assms(1,2), of zero_iv "iso_pad data"] length_iso_pad [of data] assms(3)
  by (simp_all add: ISOPad_iso_pad sm_checksum_def)

lemma sm_encrypted_eq:
  assumes "evp_is_des evp E D" and "des_key key"
  shows "CDES3_RawEncode evp \<lparr>cipher_key = key, cipher_iv = zero_iv\<rparr> (iso_pad data) = Inr (sm_encrypted E D key data)"
    and "length (sm_encrypted E D key data) = length (iso_pad data)"
    and "CDES3_RawDecode evp \<lparr>cipher_key = key, cipher_iv = zero_iv\<rparr> (sm_encrypted E D key data) = Inr (iso_pad data)"
  using RawEncode_eq [OF assms, of zero_iv "iso_pad data"] by (simp_all add: sm_encrypted_def)

lemma length_octets_header:
  assumes "length v < 0x10000"
  shows "sm_header (t # length_octets (length v)) (length v)"
proof -
  consider "length v < 0x80" | "0x80 \<le> length v" "length v \<le> 0xff" | "0xff < length v" by linarith
  then show ?thesis
    using assms by cases (simp_all add: length_octets_def word_le_nat_alt unat_of_nat)
qed

lemma status_octets_word: "push_bit 8 (ucast (status_octets sw ! 0)) OR ucast (status_octets sw ! 1) = (sw :: 16 word)"
  unfolding status_octets_def by (rule bit_word_eqI) (auto simp: bit_simps)

lemma reply_objects_valid:
  assumes "evp_is_des evp E D" and "des_key keyEnc" and "length data < 0xfff0"
  shows "list_all sm_valid (reply_objects E D keyEnc data sw)"
proof -
  have "length (1 # sm_encrypted E D keyEnc data) < 0x10000"
    using sm_encrypted_eq(2) [OF assms(1,2), of data] length_iso_pad [of data] assms(3) by simp
  from length_octets_header [OF this] show ?thesis
    by (simp add: reply_objects_def status_octets_def Let_def)
qed

lemma length_reply:
  assumes "evp_is_des evp E D" and "des_key keyEnc" and "length data < 0xfff0"
  shows "length (concat (map do_bytes (reply_objects E D keyEnc data sw))) < 0x20000"
proof -
  have "length (length_octets n) \<le> 5" for n by (simp add: length_octets_def)
  from this [of "length (1 # sm_encrypted E D keyEnc data)"] show ?thesis
    using sm_encrypted_eq(2) [OF assms(1,2), of data] length_iso_pad [of data] assms(3)
    by (simp add: reply_objects_def do_bytes_def status_octets_def Let_def)
qed

lemma reply_fold:
  "foldl sm_apply \<lparr>sm_sw = 0xffff, sm_enc = [], sm_mac = [], sm_calc = seq\<rparr>
     (reply_objects E D keyEnc data sw @ [([0x8e, 8], mac)])
   = \<lparr>sm_sw = sw, sm_enc = (if data = [] then [] else sm_encrypted E D keyEnc data), sm_mac = mac,
      sm_calc = seq @ concat (map do_bytes (reply_objects E D keyEnc data sw))\<rparr>"
  by (simp add: reply_objects_def do_bytes_def Let_def status_octets_word [unfolded One_nat_def])

lemma bindE_assoc: "bindE (bindE m f) g = bindE m (\<lambda>x. bindE (f x) g)"
  by (cases m) simp_all

lemma sm_check_eq:
  "sm_check evp u sigMac resp seq =
     bindE (sm_loop resp 0 \<lparr>sm_sw = 0xffff, sm_enc = [], sm_mac = [], sm_calc = seq\<rparr>) (\<lambda>acc.
     bindE (bindE (ISOPad u (sm_calc acc)) (CMAC_Mac evp sigMac)) (\<lambda>smMac.
     if smMac \<noteq> sm_mac acc then Inl (Logged_Error ''Chip response checksum error'') else Inr acc))"
  by (simp add: sm_check_def bindE_assoc)

lemma respSM_reply:
  assumes "evp_is_des evp E D" and "des_key keyEnc" and "des_key keySig"
    and "length data < 0xfff0" and "length seq < 2 ^ 32"
  shows "respSM evp u keyEnc keySig (sm_reply E D keyEnc keySig (increment seq) data sw) seq
    = (Inr (sw, data), increment seq)"
proof -
  have inc: "length (increment_loop n s) = length s" if "n \<le> length s" for n s
    using that by (induction n) auto
  let ?seq = "increment seq" and ?objs = "reply_objects E D keyEnc data sw"
  let ?body = "concat (map do_bytes ?objs)"
  let ?mac = "sm_checksum E D keySig (?seq @ ?body)"
  have small: "length (?seq @ ?body) + 16 < 2 ^ 64"
    using length_reply [OF assms(1,2,4), of sw] assms(5) inc [of "length seq" seq] by (simp add: increment_def)
  note mac = sm_checksum_eq [OF assms(1,3) small]
  have "sm_loop (sm_reply E D keyEnc keySig ?seq data sw) 0 a
      = Inr (foldl sm_apply a (?objs @ [([0x8e, 8], ?mac)]))" for a
    using reply_objects_valid [OF assms(1,2,4), of sw] mac(2)
    by (intro sm_loop_objects) (simp_all add: sm_reply_def Let_def do_bytes_def)
  then have "as_link_error (sm_check evp u \<lparr>cipher_key = keySig, cipher_iv = zero_iv\<rparr>
        (sm_reply E D keyEnc keySig ?seq data sw) ?seq)
      = Inr \<lparr>sm_sw = sw, sm_enc = (if data = [] then [] else sm_encrypted E D keyEnc data), sm_mac = ?mac,
             sm_calc = ?seq @ ?body\<rparr>"
    using mac(1) [of u] by (simp only: sm_check_eq reply_fold bindE_simps sm_acc.select_convs as_link_error_def) simp
  moreover have "sm_encrypted E D keyEnc data \<noteq> []"
    using sm_encrypted_eq(2) [OF assms(1,2), of data] by (metis iso_pad_blocks(1) length_0_conv)
  moreover have "RemoveISOPad (iso_pad data) = Inr (length data)" "take (length data) (iso_pad data) = data"
    using RemoveISOPad_pad [of data] by (simp_all add: iso_pad_def)
  ultimately show ?thesis
    using sm_encrypted_eq(3) [OF assms(1,2), of data] assms(2,3)
    by (auto simp: respSM_def Let_def CDES3_Init_def CMAC_Init_def)
qed

subsection \<open>Accepted responses\<close>

text \<open>
  The last value of an object with one of the given tags, and the octets the checksum covers.
\<close>

definition last_value :: "byte set \<Rightarrow> sm_do list \<Rightarrow> sm_do option" where
  "last_value tags objs =
     (let ds = filter (\<lambda>d. hd (fst d) \<in> tags) objs in if ds = [] then None else Some (last ds))"

definition covered :: "sm_do list \<Rightarrow> bytes" where
  "covered objs = concat (map do_bytes (filter (\<lambda>d. hd (fst d) \<noteq> 0x8e) objs))"

lemma last_value_snoc:
  "last_value tags (objs @ [d]) = (if hd (fst d) \<in> tags then Some d else last_value tags objs)"
  by (auto simp: last_value_def Let_def)

lemma sm_fold:
  assumes "list_all sm_valid objs"
  shows "foldl sm_apply \<lparr>sm_sw = sw0, sm_enc = [], sm_mac = [], sm_calc = seq\<rparr> objs
    = \<lparr>sm_sw = (case last_value {0x99} objs of None \<Rightarrow> sw0
          | Some d \<Rightarrow> push_bit 8 (ucast (snd d ! 0)) OR ucast (snd d ! 1)),
       sm_enc = (case last_value {0x85, 0x87} objs of None \<Rightarrow> []
          | Some d \<Rightarrow> if hd (fst d) = 0x87 then tl (snd d) else snd d),
       sm_mac = (case last_value {0x8e} objs of None \<Rightarrow> [] | Some d \<Rightarrow> snd d),
       sm_calc = seq @ covered objs\<rparr>"
  using assms
proof (induction objs rule: rev_induct)
  case Nil
  then show ?case by (simp add: last_value_def covered_def Let_def)
next
  case (snoc d objs)
  obtain h v where d: "d = (h, v)" by (cases d)
  from snoc.prems d have "hd h = 0x99 \<or> hd h = 0x8e \<or> hd h = 0x85 \<or> hd h = 0x87"
    by (auto split: if_splits)
  with snoc d show ?case by (auto simp: last_value_snoc covered_def do_bytes_def)
qed

lemma iso_scan_shape: "iso_scan r = Inr n \<Longrightarrow> \<exists>k rest. r = replicate k 0 @ 0x80 # rest \<and> n = length rest"
proof (induction r rule: iso_scan.induct)
  case (2 b rest)
  show ?case
  proof (cases "b = 0")
    case True
    with 2 obtain k r where "rest = replicate k 0 @ 0x80 # r" "n = length r" by auto
    with True have "b # rest = replicate (Suc k) 0 @ 0x80 # r" by simp
    then show ?thesis using \<open>n = length r\<close> by blast
  next
    case False
    with 2 show ?thesis by (intro exI [of _ 0] exI [of _ rest]) (auto split: if_splits)
  qed
qed simp

lemma RemoveISOPad_shape:
  assumes "RemoveISOPad p = Inr n"
  shows "\<exists>k. p = take n p @ [0x80] @ replicate k 0"
proof -
  from iso_scan_shape [of "rev p" n] assms obtain k rest
    where r: "rev p = replicate k 0 @ 0x80 # rest" "n = length rest" by (auto simp: RemoveISOPad_def)
  from arg_cong [OF r(1), of rev] have "p = rev rest @ [0x80] @ replicate k 0" by simp
  then show ?thesis using r(2) by (intro exI [of _ k]) simp
qed

lemma as_link_error_Inr: "as_link_error m = Inr x \<longleftrightarrow> m = Inr x"
  by (auto simp: as_link_error_def split: sum.splits exn.splits)

lemma length_covered: "length (covered objs) \<le> length (concat (map do_bytes objs))"
  by (induction objs) (auto simp: covered_def)

lemma length_increment [simp]: "length (increment seq) = length seq"
proof -
  have "length (increment_loop n s) = length s" if "n \<le> length s" for n s
    using that by (induction n) auto
  then show ?thesis by (simp add: increment_def)
qed

text \<open>The checked part of an accepted response.\<close>

lemma sm_check_accepts:
  assumes "evp_is_des evp E D" and "des_key keySig" and "length seq + length resp + 16 < 2 ^ 64"
    and "sm_check evp u \<lparr>cipher_key = keySig, cipher_iv = zero_iv\<rparr> resp seq = Inr acc"
  shows "\<exists>objs. list_all sm_valid objs \<and> resp = concat (map do_bytes objs)
     \<and> acc = foldl sm_apply \<lparr>sm_sw = 0xffff, sm_enc = [], sm_mac = [], sm_calc = seq\<rparr> objs
     \<and> (\<exists>d. last_value {0x8e} objs = Some d \<and> snd d = sm_checksum E D keySig (seq @ covered objs))"
proof -
  let ?a = "\<lparr>sm_sw = 0xffff, sm_enc = [], sm_mac = [], sm_calc = seq\<rparr>"
  from assms(4) have l: "sm_loop resp 0 ?a = Inr acc"
    and m: "bindE (ISOPad u (sm_calc acc)) (CMAC_Mac evp \<lparr>cipher_key = keySig, cipher_iv = zero_iv\<rparr>) = Inr (sm_mac acc)"
    by (auto simp: sm_check_eq bindE_eq_Inr split: if_splits)
  from sm_loop_objectsD [OF l] obtain objs
    where o: "resp = concat (map do_bytes objs)" "objs \<noteq> []" "list_all sm_valid objs" by auto
  with sm_loop_objects [of 0 resp objs ?a] l have acc: "acc = foldl sm_apply ?a objs" by simp
  note fold = acc [unfolded sm_fold [OF o(3)]]
  have "length (seq @ covered objs) + 16 < 2 ^ 64" using length_covered [of objs] o(1) assms(3) by simp
  note cs = sm_checksum_eq [OF assms(1,2) this]
  have mac: "sm_mac acc = sm_checksum E D keySig (seq @ covered objs)"
    using cs(1) [of u] m fold by simp
  then have "last_value {0x8e} objs \<noteq> None" using cs(2) fold by (cases "last_value {0x8e} objs") auto
  with mac fold o acc show ?thesis by auto
qed

subsection \<open>Protected commands\<close>

text \<open>
  The protected command of ISO 7816-4 for a header, data and an optional expected length: the
  class octet says secure messaging, the data become a cryptogram (under an even instruction
  with the padding indicator), the expected length an object of its own, and the checksum
  covers the counter, the padded header and both.
\<close>

definition command_objects :: "des \<Rightarrow> des \<Rightarrow> bytes \<Rightarrow> byte \<Rightarrow> bytes \<Rightarrow> byte option \<Rightarrow> bytes" where
  "command_objects E D keyEnc ins data le =
     (let c = sm_encrypted E D keyEnc data;
          v = (if ins AND 1 = 0 then 1 # c else c)
      in (if data = [] then []
          else (if ins AND 1 = 0 then 0x87 else 0x85) # length_octets (length v) @ v))
     @ (case le of None \<Rightarrow> [] | Some l \<Rightarrow> [0x97, 1, l])"

definition sm_command ::
    "des \<Rightarrow> des \<Rightarrow> bytes \<Rightarrow> bytes \<Rightarrow> bytes \<Rightarrow> bytes \<Rightarrow> bytes \<Rightarrow> byte option \<Rightarrow> bytes" where
  "sm_command E D keyEnc keySig seq head data le =
     (let smHead = head[0 := head ! 0 OR 0x0C];
          body = command_objects E D keyEnc (head ! 1) data le;
          field = body @ [0x8e, 8] @ sm_checksum E D keySig (iso_pad (seq @ smHead) @ body)
      in smHead @ [of_nat (length field)] @ field @ [0])"

text \<open>The command as \<open>SendAPDU_SM\<close> puts it together before it is protected.\<close>

definition plain_command :: "bytes \<Rightarrow> bytes \<Rightarrow> byte option \<Rightarrow> bytes" where
  "plain_command head data le =
     head @ [of_nat (length data)] @ data @ (case le of None \<Rightarrow> [] | Some l \<Rightarrow> [l])"

text \<open>A command without data and without expected length reads as one with expected length 0.\<close>

definition effective_le :: "bytes \<Rightarrow> byte option \<Rightarrow> byte option" where
  "effective_le data le = (if data = [] \<and> le = None then Some 0 else le)"

lemma length_sm_encrypted:
  assumes "evp_is_des evp E D" and "des_key keyEnc"
  shows "length (sm_encrypted E D keyEnc data) = 8 * (length data div 8 + 1)"
proof -
  have "length data mod 8 \<le> 7" by simp
  then have "length (iso_pad data) = 8 * (length data div 8) + length data mod 8 + 1 + (7 - length data mod 8)"
    by (simp add: iso_pad_def)
  also have "\<dots> = 8 * (length data div 8 + 1)"
  proof -
    have "r \<le> 7 \<Longrightarrow> 8 * q + r + 1 + (7 - r) = 8 * (q + 1)" for q r :: nat by simp
    then show ?thesis using \<open>length data mod 8 \<le> 7\<close> by blast
  qed
  finally show ?thesis using sm_encrypted_eq(2) [OF assms, of data] by simp
qed

lemma length_command_objects:
  assumes "evp_is_des evp E D" and "des_key keyEnc" and "length data \<le> 231"
  shows "length (command_objects E D keyEnc ins data le) \<le> 239"
proof -
  have n: "length (sm_encrypted E D keyEnc data) \<le> 232"
    using length_sm_encrypted [OF assms(1,2), of data] assms(3) by simp
  have "length (length_octets m) \<le> 2" if "m \<le> 233" for m using that by (simp add: length_octets_def)
  from this [of "length (sm_encrypted E D keyEnc data)"] this [of "Suc (length (sm_encrypted E D keyEnc data))"] n
  show ?thesis by (cases le) (simp_all add: command_objects_def Let_def)
qed

lemma tag_octets_sm [simp]: "tag_octets 0x87 = [0x87]" "tag_octets 0x85 = [0x85]" "tag_octets 0x97 = [0x97]" "tag_octets 0x8e = [0x8e]"
  by (simp_all add: tag_octets_def)

lemma setASN1Tag_sm:
  "length content \<le> 0xffffffff \<Longrightarrow> t \<in> {0x85, 0x87, 0x97, 0x8e} \<Longrightarrow>
     setASN1Tag u t content = Inr (tag_octets t @ length_octets (length content) @ content)"
  by (intro setASN1Tag_eq tag_octets_single) auto

lemma sm_cryptogram_eq:
  assumes "evp_is_des evp E D" and "des_key keyEnc" and "length head = 4" and "data \<noteq> []" and "length data \<le> 231"
  shows "sm_cryptogram evp u \<lparr>cipher_key = keyEnc, cipher_iv = zero_iv\<rparr> (plain_command head data le) 5 (length data)
    = Inr (command_objects E D keyEnc (head ! 1) data None)"
proof -
  have "ba_mid_n (plain_command head data le) 5 (length data) = Inr data" "plain_command head data le ! 1 = head ! 1"
    using assms(3) by (simp_all add: plain_command_def ba_mid_n_def nth_append)
  moreover have "ISOPad u data = Inr (iso_pad data)" using assms(5) by (intro ISOPad_iso_pad) simp
  moreover have "length (sm_encrypted E D keyEnc data) \<le> 232"
    using length_sm_encrypted [OF assms(1,2), of data] assms(5) by simp
  ultimately show ?thesis
    using sm_encrypted_eq(1) [OF assms(1,2), of data] assms(4)
    by (simp add: sm_cryptogram_def setASN1Tag_sm command_objects_def Let_def)
qed

lemma unat_len: "length data \<le> 231 \<Longrightarrow> unat (of_nat (length data) :: byte) = length data"
  by (simp add: unat_of_nat)

lemma SM_eq:
  assumes "evp_is_des evp E D" and "des_key keyEnc" and "des_key keySig" and "length head = 4"
    and "length data \<le> 231" and "length seq = 8"
  shows "SM evp u keyEnc keySig (plain_command head data le) seq
    = (Inr (sm_command E D keyEnc keySig (increment seq) head data (effective_le data le)), increment seq)"
proof -
  let ?apdu = "plain_command head data le" and ?le = "effective_le data le"
  let ?h = "head[0 := head ! 0 OR 0x0C]" and ?body = "command_objects E D keyEnc (head ! 1) data ?le"
  let ?sum = "sm_checksum E D keySig (iso_pad (increment seq @ ?h) @ ?body)"
  have lc: "ba_at ?apdu 4 = Inr (of_nat (length data))" and left: "ba_left ?apdu 4 = Inr head"
    using assms(4) by (simp_all add: plain_command_def ba_at_def ba_left_def nth_append)
  have zero: "(of_nat (length data) :: byte) = 0 \<longleftrightarrow> data = []"
    using arg_cong [of "of_nat (length data) :: byte" 0 unat] unat_len [OF assms(5)] by auto
  have len: "length ?apdu = 5 + length data + (if le = None then 0 else 1)"
    using assms(4) by (auto simp: plain_command_def split: option.splits)
  have d1: "(if (of_nat (length data) :: byte) \<noteq> 0 \<and> length ?apdu > 5
        then sm_cryptogram evp u \<lparr>cipher_key = keyEnc, cipher_iv = zero_iv\<rparr> ?apdu 5 (unat (of_nat (length data) :: byte)) else Inr [])
      = Inr (command_objects E D keyEnc (head ! 1) data None)"
    using sm_cryptogram_eq [OF assms(1,2,4) _ assms(5), of u le] zero unat_len [OF assms(5)] len
    by (auto simp: command_objects_def Let_def)
  have d3: "(if length ?apdu = 5 \<or> length ?apdu = unat (of_nat (length data) :: byte) + 6
        then setASN1Tag u 0x97 [?apdu ! (length ?apdu - 1)] else Inr [])
      = Inr (case ?le of None \<Rightarrow> [] | Some l \<Rightarrow> [0x97, 1, l])"
    using len unat_len [OF assms(5)] assms(4)
    by (cases le; cases "data = []")
       (simp_all add: setASN1Tag_sm effective_le_def plain_command_def nth_append length_octets_def)
  have body: "command_objects E D keyEnc (head ! 1) data None @ (case ?le of None \<Rightarrow> [] | Some l \<Rightarrow> [0x97, 1, l]) = ?body"
    by (simp add: command_objects_def Let_def)
  have n: "length ?body \<le> 239" by (rule length_command_objects [OF assms(1,2,5)])
  have p: "ISOPad u (increment seq @ ?h) = Inr (iso_pad (increment seq @ ?h))"
    using assms(4,6) by (intro ISOPad_iso_pad) simp
  have "length (iso_pad (increment seq @ ?h) @ ?body) + 16 < 2 ^ 64"
    using n length_iso_pad [of "increment seq @ ?h"] assms(4,6) by simp
  note mac = sm_checksum_eq [OF assms(1,3) this]
  have init: "CDES3_Init keyEnc zero_iv = Inr \<lparr>cipher_key = keyEnc, cipher_iv = zero_iv\<rparr>"
    "CMAC_Init keySig zero_iv = Inr \<lparr>cipher_key = keySig, cipher_iv = zero_iv\<rparr>"
    using assms(2,3) by (auto simp: CDES3_Init_def CMAC_Init_def)
  have d2: "((of_nat (length data) :: byte) = 0 \<and> length ?apdu > 7) = False"
    using zero len by auto
  have tag: "setASN1Tag u 0x8e ?sum = Inr ([0x8e, 8] @ ?sum)"
    using mac(2) by (simp add: setASN1Tag_sm length_octets_def)
  have "SM evp u keyEnc keySig ?apdu seq = (bindE (Inr ?sum) (\<lambda>m. bindE (setASN1Tag u 0x8e m) (\<lambda>tagMac.
      Inr (sm_assemble ?h (?body @ tagMac)))), increment seq)"
    unfolding SM_def Let_def left p lc init bindE_simps d1 d2 d3 if_False append_Nil body mac(1) [of u, symmetric]
    by (simp only: bindE_assoc)
  also have "\<dots> = (Inr (sm_assemble ?h (?body @ [0x8e, 8] @ ?sum)), increment seq)"
    by (simp only: bindE_simps tag)
  finally show ?thesis
    using n mac(2) by (simp add: sm_assemble_def sm_command_def Let_def)
qed

subsection \<open>The counter as a number\<close>

lemma be_value_replicate: "be_value (replicate n 255) + 1 = 256 ^ n" "be_value (replicate n 0) = 0"
  by (induction n) (simp_all add: be_value_cons)

lemma increment_loop_skip:
  "increment_loop (Suc (length a + n)) (a @ b # replicate n 255)
     = increment_loop (Suc (length a)) (a @ b # replicate n 255)"
proof -
  have "increment_loop (Suc (length a + k)) (a @ b # replicate n 255)
      = increment_loop (Suc (length a)) (a @ b # replicate n 255)" if "k \<le> n" for k
    using that by (induction k) (simp_all add: nth_append)
  then show ?thesis by simp
qed

lemma increment_value:
  assumes "\<exists>b\<in>set seq. b \<noteq> 255"
  shows "be_value (increment seq) = be_value seq + 1"
proof -
  obtain a b c where seq: "seq = a @ b # c" "b \<noteq> 255" "\<forall>x\<in>set c. x = 255"
    using split_list_last_prop [of seq "\<lambda>x. x \<noteq> 255"] assms by auto
  then have c: "c = replicate (length c) 255" by (simp add: replicate_eqI)
  have b: "b < 255" "unat (b + 1) = unat b + 1"
  proof -
    have "unat b < 256" "unat b \<noteq> 255"
      using unsigned_less [where ?'a = nat, of b] seq(2) by (simp_all add: word_unat_eq_iff)
    then show "b < 255" "unat (b + 1) = unat b + 1" by (simp_all add: word_less_nat_alt unat_word_ariths)
  qed
  have "increment seq = a @ (b + 1) # replicate (length c) 0"
    using increment_loop_skip [of a "length c" b] c b(1) unfolding seq(1) increment_def
    by (metis (no_types, lifting) add_Suc_right append_Cons append_Nil append_eq_conv_conj diff_Suc_Suc
      diff_add_inverse increment_loop.simps(2) length_Cons length_append length_replicate nth_append_length)
  then show ?thesis
    using b(2) be_value_replicate [of "length c"] c
    by (simp add: seq(1) be_value_append be_value_cons)
qed

lemma be_value_full: "(\<forall>b\<in>set seq. b = 255) \<Longrightarrow> be_value seq + 1 = 256 ^ length seq"
  using be_value_replicate(1) [of "length seq"] by (metis replicate_eqI)

lemma length_increments [simp]: "length ((increment ^^ n) seq) = length seq"
  by (induction n) auto

lemma increments_value:
  "be_value seq + n < 256 ^ length seq \<Longrightarrow> be_value ((increment ^^ n) seq) = be_value seq + n"
proof (induction n)
  case (Suc n)
  then have v: "be_value ((increment ^^ n) seq) = be_value seq + n" by simp
  have "\<exists>b\<in>set ((increment ^^ n) seq). b \<noteq> 255"
    using be_value_full [of "(increment ^^ n) seq"] v Suc.prems by fastforce
  with increment_value v show ?case by simp
qed simp

subsection \<open>Properties\<close>

text \<open>
  C20: what an honest card answers is read back.  Whatever data (up to the two-octet length
  form) and status word the card protects under the session keys and the advanced counter,
  \<open>respSM\<close> returns exactly them and leaves the counter advanced by one.
\<close>

theorem response_roundtrip:
  assumes "evp_is_des evp E D" and "length keyEnc = 16 \<or> length keyEnc = 24"
    and "length keySig = 16 \<or> length keySig = 24" and "length data < 0xfff0" and "length seq = 8"
  shows "respSM evp u keyEnc keySig (sm_reply E D keyEnc keySig (increment seq) data sw) seq
    = (Inr (sw, data), increment seq)"
  using assms by (intro respSM_reply) simp_all

theorem response_roundtrip_witness:
  "respSM demo_evp (\<lambda>_. 0) (replicate 16 7) (replicate 24 9)
     (sm_reply demo_des demo_des (replicate 16 7) (replicate 24 9) (increment (replicate 8 1)) [1, 2, 3] 0x9000) (replicate 8 1)
   = (Inr (0x9000, [1, 2, 3]), increment (replicate 8 1))"
  by (rule response_roundtrip [OF demo_evp_lawful(1)]) simp_all

text \<open>What an accepted response is, and where the returned status and data come from.\<close>

lemma respSM_accepts:
  assumes "evp_is_des evp E D" and "length keyEnc = 16 \<or> length keyEnc = 24"
    and "length keySig = 16 \<or> length keySig = 24" and "length seq + length resp + 16 < 2 ^ 64"
    and "respSM evp u keyEnc keySig resp seq = (Inr (sw, data), seq')"
  shows "\<exists>objs d. list_all sm_valid objs \<and> resp = concat (map do_bytes objs) \<and> seq' = increment seq
    \<and> last_value {0x8e} objs = Some d \<and> snd d = sm_checksum E D keySig (seq' @ covered objs)
    \<and> sw = (case last_value {0x99} objs of None \<Rightarrow> 0xffff
            | Some s \<Rightarrow> push_bit 8 (ucast (snd s ! 0)) OR ucast (snd s ! 1))
    \<and> (let c = (case last_value {0x85, 0x87} objs of None \<Rightarrow> []
                | Some e \<Rightarrow> if hd (fst e) = 0x87 then tl (snd e) else snd e)
       in if c = [] then data = []
          else \<exists>k. cbc_decrypt (ede_inverse E D (des_schedule keyEnc)) zero_iv c = data @ [0x80] @ replicate k 0)"
proof -
  let ?sig = "\<lparr>cipher_key = keySig, cipher_iv = zero_iv\<rparr>" and ?enc = "\<lparr>cipher_key = keyEnc, cipher_iv = zero_iv\<rparr>"
  have seq': "seq' = increment seq" using assms(5) by (simp add: respSM_def Let_def)
  from assms(2,3,5) obtain acc where c: "sm_check evp u ?sig resp (increment seq) = Inr acc"
    and r: "(if sm_enc acc \<noteq> [] then bindE (CDES3_RawDecode evp ?enc (sm_enc acc)) (\<lambda>clear.
           bindE (RemoveISOPad clear) (\<lambda>n. Inr (sm_sw acc, take n clear))) else Inr (sm_sw acc, [])) = Inr (sw, data)"
    by (auto simp: respSM_def Let_def CDES3_Init_def CMAC_Init_def bindE_eq_Inr as_link_error_Inr)
  obtain objs d where o: "list_all sm_valid objs" "resp = concat (map do_bytes objs)"
    "acc = foldl sm_apply \<lparr>sm_sw = 0xffff, sm_enc = [], sm_mac = [], sm_calc = increment seq\<rparr> objs"
    "last_value {0x8e} objs = Some d" "snd d = sm_checksum E D keySig (increment seq @ covered objs)"
    using sm_check_accepts [OF assms(1,3) _ c] assms(4) by auto
  have dec: "if sm_enc acc = [] then data = []
      else \<exists>k. cbc_decrypt (ede_inverse E D (des_schedule keyEnc)) zero_iv (sm_enc acc) = data @ [0x80] @ replicate k 0"
  proof (cases "sm_enc acc = []")
    case False
    then obtain clear n where cl: "CDES3_RawDecode evp ?enc (sm_enc acc) = Inr clear" "RemoveISOPad clear = Inr n"
      "data = take n clear" using r by (auto simp: bindE_eq_Inr)
    then have "clear = cbc_decrypt (ede_inverse E D (des_schedule keyEnc)) zero_iv (sm_enc acc)"
      using Des3_eq(2) [OF assms(1,2), of zero_iv "sm_enc acc"] False
      by (auto simp: CDES3_RawDecode_def split: if_splits)
    with RemoveISOPad_shape [OF cl(2)] cl(3) False show ?thesis by auto
  qed (use r in auto)
  moreover have "sw = sm_sw acc" using r by (auto simp: bindE_eq_Inr split: if_splits)
  moreover have "sm_enc acc = (case last_value {0x85, 0x87} objs of None \<Rightarrow> []
        | Some e \<Rightarrow> if hd (fst e) = 0x87 then tl (snd e) else snd e)"
    "sm_sw acc = (case last_value {0x99} objs of None \<Rightarrow> 0xffff
        | Some s \<Rightarrow> push_bit 8 (ucast (snd s ! 0)) OR ucast (snd s ! 1))"
    unfolding o(3) sm_fold [OF o(1)] by simp_all
  ultimately show ?thesis
    using o(1,2,4,5) seq' by (intro exI [of _ objs] exI [of _ d]) (simp only: Let_def simp_thms)
qed

text \<open>
  C19: nothing is accepted that is not authenticated.  When \<open>respSM\<close> returns a status word and
  data for a response of the card, the response is a sequence of well-formed data objects, one
  of them carries as its value the retail MAC of the advanced counter and of all the other
  objects under the session key, the status word is the one of the last status object (or
  0xffff when there is none, which the callers treat as an error), and the data are the
  unpadded decryption of the last cryptogram.
\<close>

theorem response_authenticated:
  assumes "evp_is_des evp E D" and "length keyEnc = 16 \<or> length keyEnc = 24"
    and "length keySig = 16 \<or> length keySig = 24" and "length seq + length resp + 16 < 2 ^ 64"
    and "respSM evp u keyEnc keySig resp seq = (Inr (sw, data), seq')"
  shows "\<exists>objs d. list_all sm_valid objs \<and> resp = concat (map do_bytes objs) \<and> seq' = increment seq
    \<and> last_value {0x8e} objs = Some d \<and> snd d = sm_checksum E D keySig (seq' @ covered objs)
    \<and> sw = (case last_value {0x99} objs of None \<Rightarrow> 0xffff
            | Some s \<Rightarrow> push_bit 8 (ucast (snd s ! 0)) OR ucast (snd s ! 1))
    \<and> (let c = (case last_value {0x85, 0x87} objs of None \<Rightarrow> []
                | Some e \<Rightarrow> if hd (fst e) = 0x87 then tl (snd e) else snd e)
       in if c = [] then data = []
          else \<exists>k. cbc_decrypt (ede_inverse E D (des_schedule keyEnc)) zero_iv c = data @ [0x80] @ replicate k 0)"
  using assms by (rule respSM_accepts)

text \<open>A response that \<open>respSM\<close> accepts.\<close>

definition demo_response :: bytes where
  "demo_response =
     sm_reply demo_des demo_des (replicate 16 7) (replicate 24 9) (increment (replicate 8 1)) [1, 2, 3] 0x9000"

lemma demo_response_accepted:
  "respSM demo_evp (\<lambda>_. 0) (replicate 16 7) (replicate 24 9) demo_response (replicate 8 1)
    = (Inr (0x9000, [1, 2, 3]), increment (replicate 8 1))"
  unfolding demo_response_def by (rule respSM_reply [OF demo_evp_lawful(1)]) simp_all

lemma length_demo_response: "length demo_response < 0x20010"
proof -
  let ?b = "concat (map do_bytes (reply_objects demo_des demo_des (replicate 16 7) [1, 2, 3] 0x9000))"
    and ?s = "increment (replicate 8 1)"
  have b: "length ?b < 0x20000" by (rule length_reply [OF demo_evp_lawful(1)]) simp_all
  then have "length (sm_checksum demo_des demo_des (replicate 24 9) (?s @ ?b)) = 8"
    by (intro sm_checksum_eq(2) [OF demo_evp_lawful(1)]) simp_all
  with b show ?thesis by (simp add: demo_response_def sm_reply_def Let_def)
qed

theorem response_authenticated_witness:
  "\<exists>objs d. list_all sm_valid objs \<and> demo_response = concat (map do_bytes objs)
    \<and> last_value {0x8e} objs = Some d
    \<and> snd d = sm_checksum demo_des demo_des (replicate 24 9) (increment (replicate 8 1) @ covered objs)"
proof -
  have "length (replicate 8 (1::byte)) + length demo_response + 16 < 2 ^ 64"
    using length_demo_response by simp
  from response_authenticated [OF demo_evp_lawful(1) _ _ this demo_response_accepted] show ?thesis by auto
qed

text \<open>
  C21: the command that leaves for the card is the protected form of ISO 7816-4.  For every
  header, every chunk of data that \<open>SendAPDU_SM\<close> sends (at most 231 octets) and every expected
  length, \<open>SM\<close> produces exactly the reference command under the advanced counter, and it is a
  short APDU of at most 255 octets.
\<close>

theorem command_protected:
  assumes "evp_is_des evp E D" and "length keyEnc = 16 \<or> length keyEnc = 24"
    and "length keySig = 16 \<or> length keySig = 24" and "length head = 4"
    and "length data \<le> 231" and "length seq = 8"
  shows "SM evp u keyEnc keySig (plain_command head data le) seq
      = (Inr (sm_command E D keyEnc keySig (increment seq) head data (effective_le data le)), increment seq)
    \<and> length (sm_command E D keyEnc keySig (increment seq) head data (effective_le data le)) \<le> 255"
proof
  let ?body = "command_objects E D keyEnc (head ! 1) data (effective_le data le)"
    and ?h = "head[0 := head ! 0 OR 0x0C]"
  have n: "length ?body \<le> 239" by (rule length_command_objects [OF assms(1,2,5)])
  moreover have "length (iso_pad (increment seq @ ?h) @ ?body) + 16 < 2 ^ 64"
    using n length_iso_pad [of "increment seq @ ?h"] assms(4,6) by simp
  ultimately show "length (sm_command E D keyEnc keySig (increment seq) head data (effective_le data le)) \<le> 255"
    using sm_checksum_eq(2) [OF assms(1,3)] assms(4) by (simp add: sm_command_def Let_def)
qed (rule SM_eq [OF assms])

theorem command_protected_witness:
  "SM demo_evp (\<lambda>_. 0) (replicate 16 7) (replicate 16 9) (plain_command [0, 0xa4, 4, 0x0c] [1, 2, 3] None) (replicate 8 0)
      = (Inr (sm_command demo_des demo_des (replicate 16 7) (replicate 16 9) (increment (replicate 8 0)) [0, 0xa4, 4, 0x0c]
                [1, 2, 3] (effective_le [1, 2, 3] None)), increment (replicate 8 0))
    \<and> length (sm_command demo_des demo_des (replicate 16 7) (replicate 16 9) (increment (replicate 8 0)) [0, 0xa4, 4, 0x0c]
                [1, 2, 3] (effective_le [1, 2, 3] None)) \<le> 255"
  by (rule command_protected [OF demo_evp_lawful(1)]) simp_all



end
