(* ===== verification/Ias_Security.thy ===== *)
theory Ias_Security
  imports Ias_Theorems Sm_Theorems
begin

section \<open>The protected channel and the key exchange\<close>

text \<open>
  What goes over the wire when a protected command succeeds, the well-formedness of the session
  keys and of the counter in every state an \<open>IAS\<close> object reaches, the keys that the two ends of
  the Diffie-Hellman exchange compute, and the treatment of a lost link during VERIFY.
\<close>

subsection \<open>Conversations\<close>

text \<open>The commands that the callback was given, each with the card's answer, from a world to a world.\<close>

fun conversation :: "'w transmit_callback \<Rightarrow> ulong \<Rightarrow> (bytes \<times> bytes) list \<Rightarrow> 'w \<Rightarrow> 'w \<Rightarrow> bool" where
  "conversation cb hc [] w w' \<longleftrightarrow> w' = w"
| "conversation cb hc ((a, r) # cs) w w' \<longleftrightarrow>
     (\<exists>w1. cb hc a w = (SCARD_S_SUCCESS, r, w1) \<and> 2 \<le> length r \<and> conversation cb hc cs w1 w')"

text \<open>An answer without its status word.\<close>

definition answer_body :: "bytes \<Rightarrow> bytes" where
  "answer_body r = take (length r - 2) r"

definition bodies :: "(bytes \<times> bytes) list \<Rightarrow> bytes" where
  "bodies cs = concat (map (\<lambda>(a, r). answer_body r) cs)"

lemma bodies_simps [simp]: "bodies [] = []" "bodies ((a, r) # cs) = answer_body r @ bodies cs"
  by (simp_all add: bodies_def)

text \<open>The buffer of \<open>CToken::Transmit\<close> has 3000 octets: no answer is longer.\<close>

definition bounded_answers :: "'w transmit_callback \<Rightarrow> bool" where
  "bounded_answers cb \<longleftrightarrow> (\<forall>hc a w. length (fst (snd (cb hc a w))) \<le> 3000)"

lemma length_bodies:
  "bounded_answers cb \<Longrightarrow> conversation cb hc cs w w' \<Longrightarrow> length (bodies cs) \<le> 3000 * length cs"
proof (induction cb hc cs w w' rule: conversation.induct)
  case (2 cb hc a r cs w w')
  then obtain w1 where c: "cb hc a w = (SCARD_S_SUCCESS, r, w1)" "conversation cb hc cs w1 w'" by auto
  from 2(2) have "length (fst (snd (cb hc a w))) \<le> 3000" unfolding bounded_answers_def by blast
  then show ?case using c(1) 2(1) [OF 2(2) c(2)] by (simp add: answer_body_def)
qed simp

lemma ias_Transmit_Inr:
  assumes "ias_Transmit ie a hc (i, w) = (Inr (sw, d), st)"
  obtains r w' where "ias_callback ie hc a w = (SCARD_S_SUCCESS, r, w')" "2 \<le> length r" "d = answer_body r" "st = (i, w')"
  using assms
  by (auto simp: ias_Transmit_def Transmit_def ias_token_def setTransmitCallback_def setTransmitCallbackData_def
      token_answer_def answer_body_def split: prod.splits if_splits)

text \<open>A success of \<open>getResp_SM\<close> is a success of \<open>respSM\<close> on everything the card sent.\<close>

lemma getResp_SM_success:
  "getResp_SM ie fuel sw elab hc (i, w) = (Inr (0x9000, data), i', w') \<Longrightarrow>
    \<exists>cs. conversation (ias_callback ie) hc cs w w' \<and> length cs \<le> fuel \<and>
      ias_respSM ie (elab @ bodies cs) hc (i, w') = (Inr (0x9000, data), i', w')"
proof (induction fuel arbitrary: sw elab w)
  case (Suc fuel)
  have resp: "\<exists>cs. conversation (ias_callback ie) hc cs v w' \<and> length cs \<le> m \<and>
      ias_respSM ie (e @ bodies cs) hc (i, w') = (Inr (0x9000, data), i', w')"
    if "ias_respSM ie e hc (i, v) = (Inr (0x9000, data), i', w')" for e v m
  proof -
    from that have "w' = v" by (simp add: ias_respSM_def split: prod.splits)
    with that show ?thesis by (intro exI [of _ "[]"]) simp
  qed
  have more: ?case if t: "ias_Transmit ie a hc (i, w) = (Inr (sw', d), st)"
    and k: "sw' = 0x9000 \<and> ias_respSM ie (elab @ d) hc st = (Inr (0x9000, data), i', w') \<or>
      getResp_SM ie fuel sw' (elab @ d) hc st = (Inr (0x9000, data), i', w')" for a sw' d st
  proof -
    from t obtain r w1 where r: "ias_callback ie hc a w = (SCARD_S_SUCCESS, r, w1)" "2 \<le> length r" "d = answer_body r" "st = (i, w1)"
      by (rule ias_Transmit_Inr)
    from k r(4) obtain cs where "conversation (ias_callback ie) hc cs w1 w'" "length cs \<le> fuel"
      "ias_respSM ie ((elab @ d) @ bodies cs) hc (i, w') = (Inr (0x9000, data), i', w')"
      using resp [of "elab @ d" w1 fuel] Suc.IH [of sw' "elab @ d" w1] by blast
    then show ?thesis using r(1,2,3) by (intro exI [of _ "(a, r) # cs"]) simp
  qed
  from Suc.prems consider (last) "ias_respSM ie elab hc (i, w) = (Inr (0x9000, data), i', w')"
    | (more) a sw' d st where "ias_Transmit ie a hc (i, w) = (Inr (sw', d), st)"
      "sw' = 0x9000 \<and> ias_respSM ie (elab @ d) hc st = (Inr (0x9000, data), i', w') \<or>
        getResp_SM ie fuel sw' (elab @ d) hc st = (Inr (0x9000, data), i', w')"
    by (auto simp: bindS_eq_Inr split: if_splits prod.splits)
  then show ?case
  proof cases
    case last
    then show ?thesis using resp [of elab w "Suc fuel"] by simp
  qed (rule more)
qed simp

subsection \<open>One protected command\<close>

text \<open>
  The card's answers to a protected command make up an authentic response with a success status:
  they are a sequence of well-formed objects, the checksum object holds the retail MAC of the
  counter and of the other objects, and the status object says 9000.
\<close>

definition authentic_success :: "des \<Rightarrow> des \<Rightarrow> bytes \<Rightarrow> bytes \<Rightarrow> bytes \<Rightarrow> bool" where
  "authentic_success E D keySig ssc resp \<longleftrightarrow>
     (\<exists>objs mac status. list_all sm_valid objs \<and> resp = concat (map do_bytes objs)
        \<and> last_value {0x8e} objs = Some mac \<and> snd mac = sm_checksum E D keySig (ssc @ covered objs)
        \<and> last_value {0x99} objs = Some status \<and> snd status ! 0 = 0x90 \<and> snd status ! 1 = 0x00)"

lemma respSM_success:
  assumes "evp_is_des evp E D" and "des_key keyEnc" and "des_key keySig" and "length seq + length resp + 16 < 2 ^ 64"
    and "respSM evp u keyEnc keySig resp seq = (Inr (0x9000, data), seq')"
  shows "authentic_success E D keySig seq' resp \<and> seq' = increment seq"
proof -
  from respSM_accepts [OF assms] obtain objs mac where o: "list_all sm_valid objs" "resp = concat (map do_bytes objs)"
    "seq' = increment seq" "last_value {0x8e} objs = Some mac" "snd mac = sm_checksum E D keySig (seq' @ covered objs)"
    "(0x9000 :: 16 word) = (case last_value {0x99} objs of None \<Rightarrow> 0xffff
            | Some s \<Rightarrow> push_bit 8 (ucast (snd s ! 0)) OR ucast (snd s ! 1))" by blast
  then obtain s where s: "last_value {0x99} objs = Some s"
    "(0x9000 :: 16 word) = push_bit 8 (ucast (snd s ! 0)) OR ucast (snd s ! 1)" by (auto split: option.splits)
  have "snd s ! 0 = 0x90" using HIBYTE_word [of "snd s ! 0" "snd s ! 1"] unfolding s(2) [symmetric] by simp
  moreover have "snd s ! 1 = 0" using LOBYTE_word [of "snd s ! 0" "snd s ! 1"] unfolding s(2) [symmetric]
    by (simp add: LOBYTE_def)
  ultimately show ?thesis using o s(1) unfolding authentic_success_def by blast
qed

lemma exchange_success:
  assumes "evp_is_des (ias_evp ie) E D" and "des_key (sessENC i)" and "des_key (sessMAC i)" and "length (sessSSC i) = 8"
    and "bounded_answers (ias_callback ie)" and "ias_fuel ie < 2 ^ 32" and "length head = 4" and "length data \<le> 231"
    and "sm_exchange ie (plain_command head data le) hc (i, w) = (Inr (0x9000, resp), i', w')"
  shows "\<exists>a r cs. conversation (ias_callback ie) hc ((a, r) # cs) w w'
    \<and> a = sm_command E D (sessENC i) (sessMAC i) (increment (sessSSC i)) head data (effective_le data le)
    \<and> i' = i\<lparr>sessSSC := increment (increment (sessSSC i))\<rparr>
    \<and> authentic_success E D (sessMAC i) (sessSSC i') (bodies ((a, r) # cs))"
proof -
  let ?a = "sm_command E D (sessENC i) (sessMAC i) (increment (sessSSC i)) head data (effective_le data le)"
    and ?i = "i\<lparr>sessSSC := increment (sessSSC i)\<rparr>"
  have sm: "ias_SM ie (plain_command head data le) hc (i, w) = (Inr ?a, ?i, w)"
    using SM_eq [OF assms(1-3) assms(7,8,4), of "ias_uninit ie" le] by (simp add: ias_SM_def)
  from assms(9) obtain sw d st where t: "ias_Transmit ie ?a hc (?i, w) = (Inr (sw, d), st)"
    and g: "getResp_SM ie (ias_fuel ie) sw d hc st = (Inr (0x9000, resp), i', w')"
    unfolding sm_exchange_def sm bindS_simps by (auto simp: bindS_eq_Inr)
  from t obtain r w1 where r: "ias_callback ie hc ?a w = (SCARD_S_SUCCESS, r, w1)" "2 \<le> length r" "d = answer_body r" "st = (?i, w1)"
    by (rule ias_Transmit_Inr)
  from getResp_SM_success [OF g [unfolded r(4)]] obtain cs where cs: "conversation (ias_callback ie) hc cs w1 w'"
    "length cs \<le> ias_fuel ie" "ias_respSM ie (bodies ((?a, r) # cs)) hc (?i, w') = (Inr (0x9000, resp), i', w')"
    using r(3) by auto
  have conv: "conversation (ias_callback ie) hc ((?a, r) # cs) w w'" using r(1,2) cs(1) by auto
  have "length (bodies ((?a, r) # cs)) \<le> 3000 * Suc (ias_fuel ie)"
    using length_bodies [OF assms(5) conv] cs(2) by simp
  then have small: "length (increment (sessSSC i)) + length (bodies ((?a, r) # cs)) + 16 < 2 ^ 64"
    using assms(4,6) by simp
  obtain seq where q: "respSM (ias_evp ie) (ias_uninit ie) (sessENC i) (sessMAC i) (bodies ((?a, r) # cs)) (increment (sessSSC i))
      = (Inr (0x9000, resp), seq)" "i' = i\<lparr>sessSSC := seq\<rparr>"
    using cs(3) by (auto simp: ias_respSM_def split: prod.splits)
  from respSM_success [OF assms(1-3) small q(1)] q(2) conv show ?thesis by (intro exI [of _ ?a] exI) auto
qed

text \<open>A card that answers every command with the success a counter of all ones is due.\<close>

definition demo_success :: bytes where
  "demo_success = sm_reply demo_des demo_des (replicate 16 7) (replicate 16 9) (replicate 8 1) [] 0x9000"

lemma length_demo_success: "length demo_success = 14"
  by (simp add: demo_success_def sm_reply_def reply_objects_def do_bytes_def status_octets_def Let_def
      sm_checksum_eq(2) [OF demo_evp_lawful(1)])

definition demo_sm_env :: "demo_fs ias_env" where
  "demo_sm_env = demo_ias_env\<lparr>ias_callback := (\<lambda>hc apdu w. (0, demo_success @ [0x90, 0x00], w))\<rparr>"

definition demo_sm_object :: ias where
  "demo_sm_object = (new_IAS_object [])
     \<lparr>sessENC := replicate 16 7, sessMAC := replicate 16 9, sessSSC := [1, 1, 1, 1, 1, 1, 0, 255], ActiveSM := True\<rparr>"

lemma demo_sm_lawful:
  "evp_is_des (ias_evp demo_sm_env) demo_des demo_des" "bounded_answers (ias_callback demo_sm_env)"
  "ias_fuel demo_sm_env < 2 ^ 32" "sessENC demo_sm_object = replicate 16 7" "sessMAC demo_sm_object = replicate 16 9"
  "sessSSC demo_sm_object = [1, 1, 1, 1, 1, 1, 0, 255]" "ActiveSM demo_sm_object"
  using demo_evp_lawful(1) length_demo_success
  by (simp_all add: demo_sm_env_def demo_ias_env_def bounded_answers_def demo_sm_object_def)

lemma demo_counter: "increment [1, 1, 1, 1, 1, 1, 0, 255] = [1, 1, 1, 1, 1, 1, 1, 0]"
  "increment [1, 1, 1, 1, 1, 1, 1, 0] = replicate 8 1"
  by code_simp+

text \<open>The demonstration card accepts every short command.\<close>

lemma demo_exchange:
  assumes "length head = 4" and "length data < 231"
  shows "SendAPDU_SM demo_sm_env head data le hc (demo_sm_object, w)
    = (Inr (0x9000, []), demo_sm_object\<lparr>sessSSC := replicate 8 1\<rparr>, w)"
proof -
  let ?i = "demo_sm_object\<lparr>sessSSC := [1, 1, 1, 1, 1, 1, 1, 0]\<rparr>"
  have sm: "\<exists>a. ias_SM demo_sm_env (plain_command head data le) hc (demo_sm_object, w) = (Inr a, ?i, w)"
    using SM_eq [OF demo_sm_lawful(1), of "replicate 16 7" "replicate 16 9" head data "[1, 1, 1, 1, 1, 1, 0, 255]"
        "ias_uninit demo_sm_env" le] assms
    by (simp add: ias_SM_def demo_sm_lawful demo_counter)
  have tr: "ias_Transmit demo_sm_env a hc (?i, w) = (Inr (0x9000, demo_success), ?i, w)" for a
    using ias_Transmit_eq [of demo_sm_env hc a w demo_success "0x90" 0 w ?i]
    by (simp add: demo_sm_env_def status_words)
  have fuel_pos: "ias_fuel demo_sm_env \<noteq> 0" by (simp add: demo_sm_env_def demo_ias_env_def)
  have "respSM (ias_evp demo_sm_env) (ias_uninit demo_sm_env) (replicate 16 7) (replicate 16 9) demo_success
      [1, 1, 1, 1, 1, 1, 1, 0] = (Inr (0x9000, []), replicate 8 1)"
    using respSM_reply [OF demo_sm_lawful(1), of "replicate 16 7" "replicate 16 9" "[]" "[1, 1, 1, 1, 1, 1, 1, 0]"
        "ias_uninit demo_sm_env" "0x9000"]
    by (simp add: demo_counter demo_success_def)
  then have "getResp_SM demo_sm_env (ias_fuel demo_sm_env) 0x9000 demo_success hc (?i, w)
      = (Inr (0x9000, []), demo_sm_object\<lparr>sessSSC := replicate 8 1\<rparr>, w)"
    by (cases "ias_fuel demo_sm_env") (simp_all add: ias_respSM_def demo_sm_lawful fuel_pos)
  with sm tr assms(2) show ?thesis
    by (auto simp: SendAPDU_SM_def sm_exchange_def plain_command_def le_octets_def split: option.splits)
qed

subsection \<open>Well-formed objects\<close>

text \<open>
  The types of the channel's state: a key is absent or has sixteen octets, the counter is absent
  or has eight, and all three are there when secure messaging is active.
\<close>

definition ias_ok :: "ias \<Rightarrow> bool" where
  "ias_ok i \<longleftrightarrow>
     (sessENC i = [] \<or> length (sessENC i) = 16) \<and> (sessMAC i = [] \<or> length (sessMAC i) = 16) \<and>
     (sessSSC i = [] \<or> length (sessSSC i) = 8) \<and>
     (ActiveSM i \<longrightarrow> sessENC i \<noteq> [] \<and> sessMAC i \<noteq> [] \<and> sessSSC i \<noteq> [])"

text \<open>What sending a command may change: the counter, not its size.\<close>

definition channel_step :: "ias \<Rightarrow> ias \<Rightarrow> bool" where
  "channel_step i i' \<longleftrightarrow> (\<exists>s. length s = length (sessSSC i) \<and> i' = i\<lparr>sessSSC := s\<rparr>)"

lemma channel_step_refl [simp, intro]: "channel_step i i"
  unfolding channel_step_def by (intro exI [of _ "sessSSC i"]) simp

lemma channel_step_trans: "channel_step i j \<Longrightarrow> channel_step j k \<Longrightarrow> channel_step i k"
  unfolding channel_step_def by auto

lemma channel_step_keys:
  "channel_step i i' \<Longrightarrow> sessENC i' = sessENC i \<and> sessMAC i' = sessMAC i \<and> length (sessSSC i') = length (sessSSC i)
    \<and> ActiveSM i' = ActiveSM i"
  unfolding channel_step_def by auto

definition steps :: "(exn + 'a) \<times> ias \<times> 'w \<Rightarrow> ias \<Rightarrow> bool" where
  "steps m i \<longleftrightarrow> channel_step i (fst (snd m))"

lemma steps_bind:
  assumes "steps m i" and "\<And>x j v. m = (Inr x, j, v) \<Longrightarrow> steps (k x (j, v)) j"
  shows "steps (bindS m k) i"
  using assms channel_step_trans by (cases m; cases "fst m") (fastforce simp: steps_def)+

lemma steps_Transmit [simp, intro]: "steps (ias_Transmit ie a hc (i, w)) i"
  by (simp add: steps_def ias_Transmit_def split: prod.splits)

lemma steps_crypto [simp, intro]: "steps (ias_respSM ie r hc (i, w)) i" "steps (ias_SM ie a hc (i, w)) i"
  by (simp_all add: steps_def ias_respSM_def ias_SM_def respSM_def SM_def Let_def channel_step_def)
    (rule exI [of _ "increment (sessSSC i)"]; simp)+

lemma steps_return [simp, intro]: "steps (r, i, w) i"
  by (simp add: steps_def)

lemma steps_getResp: "steps (getResp ie fuel sw e hc (i, w)) i"
  by (induction fuel arbitrary: sw e i w) (auto intro!: steps_bind)

lemma steps_getResp_SM: "steps (getResp_SM ie fuel sw e hc (i, w)) i"
  by (induction fuel arbitrary: sw e i w) (auto intro!: steps_bind)

lemma steps_exchange: "steps (sm_exchange ie a hc (i, w)) i"
  unfolding sm_exchange_def by (auto intro!: steps_bind steps_getResp_SM)

lemma steps_SendAPDU_SM_loop: "steps (SendAPDU_SM_loop ie head data le hc (i, w)) i"
  by (induction ie head data le hc "(i, w)" arbitrary: i w rule: SendAPDU_SM_loop.induct, subst SendAPDU_SM_loop.simps)
    (auto simp: Let_def intro!: steps_bind steps_exchange)

lemma steps_SendAPDU_loop: "steps (SendAPDU_loop ie head data le hc (i, w)) i"
  by (induction ie head data le hc "(i, w)" arbitrary: i w rule: SendAPDU_loop.induct, subst SendAPDU_loop.simps)
    (auto simp: Let_def intro!: steps_bind steps_getResp)

lemma steps_send:
  "steps (SendAPDU_SM ie head data le hc (i, w)) i" "steps (SendAPDU ie head data le hc (i, w)) i"
  "steps (send_with ie b head data le hc (i, w)) i"
proof -
  show sm: "steps (SendAPDU_SM ie head data le hc (i, w)) i"
    by (simp add: SendAPDU_SM_def steps_exchange steps_SendAPDU_SM_loop)
  show plain: "steps (SendAPDU ie head data le hc (i, w)) i"
    by (auto simp: SendAPDU_def intro!: steps_bind steps_getResp steps_SendAPDU_loop)
  show "steps (send_with ie b head data le hc (i, w)) i" using sm plain by (simp add: send_with_def)
qed

text \<open>Preservation, through the sequencing of the operations.\<close>

definition ok_res :: "(exn + 'a) \<times> ias \<times> 'w \<Rightarrow> bool" where
  "ok_res m \<longleftrightarrow> ias_ok (fst (snd m))"

named_theorems ok_intros "rules by which the well-formedness goes through an operation"

lemma ok_bind [ok_intros]:
  assumes "ok_res m" and "\<And>x i w. ias_ok i \<Longrightarrow> ok_res (k x (i, w))"
  shows "ok_res (bindS m k)"
  using assms by (cases m; cases "fst m") (auto simp: ok_res_def)

lemma ok_return [ok_intros]: "ias_ok i \<Longrightarrow> ok_res (r, i, w)"
  by (simp add: ok_res_def)

lemma ok_if [ok_intros]: "ok_res m \<Longrightarrow> ok_res m' \<Longrightarrow> ok_res (if b then m else m')"
  by simp

lemma ok_pair [ok_intros]: "(\<And>a b. ok_res (f a b st)) \<Longrightarrow> ok_res ((case p of (a, b) \<Rightarrow> f a b) st)"
  by (cases p) simp

lemma ok_steps: "steps m i \<Longrightarrow> ias_ok i \<Longrightarrow> ok_res m"
  by (auto simp: steps_def ok_res_def channel_step_def ias_ok_def)

lemma ok_send [ok_intros]:
  assumes "ias_ok i"
  shows "ok_res (SendAPDU_SM ie head data le hc (i, w))" "ok_res (SendAPDU ie head data le hc (i, w))"
    "ok_res (send_with ie b head data le hc (i, w))"
  by (rule ok_steps [OF steps_send(1) assms], rule ok_steps [OF steps_send(2) assms], rule ok_steps [OF steps_send(3) assms])

lemma ok_expect [ok_intros]: "ok_res m \<Longrightarrow> ok_res (expect_ok m)"
  unfolding expect_ok_def by (intro ok_intros)

lemma ok_status [ok_intros]: "ok_res m \<Longrightarrow> ok_res (status_of m)"
  unfolding status_of_def by (intro ok_intros)

lemma ok_rethrow [ok_intros]: "ok_res m \<Longrightarrow> ok_res (rethrowAsNonRetryable m)"
  by (auto simp: rethrowAsNonRetryable_def ok_res_def split: prod.splits sum.splits exn.splits)

lemma ok_world [ok_intros]: "ias_ok i \<Longrightarrow> ok_res (case m of (r, w) \<Rightarrow> (r, i, w))"
  by (simp add: ok_res_def split: prod.splits)

lemma ok_rand [ok_intros]: "ias_ok i \<Longrightarrow> ok_res (ias_rand ie n hc (i, w))"
  by (simp add: ias_rand_def ok_res_def split: prod.splits option.splits)

lemma ok_draw [ok_intros]: "ias_ok i \<Longrightarrow> ok_res (dh_draw ie fuel hc (i, w))"
  by (induction fuel arbitrary: i w) (auto simp: ok_return intro!: ok_intros)

lemma ok_get_data [ok_intros]: "ias_ok i \<Longrightarrow> ok_res (get_data ie q hc (i, w))"
  unfolding get_data_def by (intro ok_intros)

text \<open>Fields outside the channel.\<close>

lemma ias_ok_fields [simp]:
  "ias_ok (i\<lparr>ias_type := t\<rparr>) = ias_ok i" "ias_ok (i\<lparr>dh_g := b\<rparr>) = ias_ok i" "ias_ok (i\<lparr>dh_p := b\<rparr>) = ias_ok i"
  "ias_ok (i\<lparr>dh_q := b\<rparr>) = ias_ok i" "ias_ok (i\<lparr>dh_pubKey := b\<rparr>) = ias_ok i" "ias_ok (i\<lparr>dh_ICCpubKey := b\<rparr>) = ias_ok i"
  "ias_ok (i\<lparr>CA_module := b\<rparr>) = ias_ok i" "ias_ok (i\<lparr>CA_pubexp := b\<rparr>) = ias_ok i" "ias_ok (i\<lparr>CA_privexp := b\<rparr>) = ias_ok i"
  "ias_ok (i\<lparr>CA_CHR := b\<rparr>) = ias_ok i" "ias_ok (i\<lparr>CA_CHA := b\<rparr>) = ias_ok i" "ias_ok (i\<lparr>CA_CAR := b\<rparr>) = ias_ok i"
  "ias_ok (i\<lparr>CA_AID := b\<rparr>) = ias_ok i" "ias_ok (i\<lparr>ias_Certificate := b\<rparr>) = ias_ok i" "ias_ok (i\<lparr>CardEncKey := b\<rparr>) = ias_ok i"
  "ias_ok (i\<lparr>CardEncIv := b\<rparr>) = ias_ok i" "ias_ok (i\<lparr>ias_PAN := b\<rparr>) = ias_ok i" "ias_ok (i\<lparr>DappModule := b\<rparr>) = ias_ok i"
  "ias_ok (i\<lparr>DappPubKey := b\<rparr>) = ias_ok i" "ias_ok (i\<lparr>ActiveDF := d\<rparr>) = ias_ok i"
  by (simp_all add: ias_ok_def)

lemma ias_ok_inactive: "ias_ok i \<Longrightarrow> ias_ok (i\<lparr>ActiveSM := False\<rparr>)"
  by (simp add: ias_ok_def)

lemma ok_upd [ok_intros]: "ias_ok (f i) \<Longrightarrow> ok_res (r, upd f (i, w))"
  by (simp add: ok_res_def upd_def)

lemma upd_pair [simp]: "upd f (i, w) = (f i, w)"
  by (simp add: upd_def)

text \<open>
  The file reader relies on its channel for one thing: a command leaves the object well-formed.
  Both channels of the \<open>IAS\<close> object do.
\<close>

locale command_channel =
  fixes send :: "'w sender"
  assumes send_ok: "ias_ok i \<Longrightarrow> ok_res (send head data le hc (i, w))"
begin

lemma read_chunk_ok: "ias_ok i \<Longrightarrow> read_chunk send cnt n hc (i, w) = (q, j, v) \<Longrightarrow> ias_ok j"
proof -
  assume "ias_ok i" "read_chunk send cnt n hc (i, w) = (q, j, v)"
  moreover from this(1) have "ok_res (read_chunk send cnt n hc (i, w))"
    unfolding read_chunk_def by (intro ok_intros send_ok)
  ultimately show ?thesis by (simp add: ok_res_def)
qed

lemma read_loop_ok: "ias_ok i \<Longrightarrow> read_loop send fuel cnt c hc (i, w) = (r, c', i', w') \<Longrightarrow> ias_ok i'"
proof (induction fuel arbitrary: cnt c i w)
  case (Suc fuel)
  then show ?case
    using read_chunk_ok [OF Suc.prems(1)] by (auto split: prod.splits sum.splits if_splits) blast
qed simp

lemma read_file_ok:
  assumes "ias_ok i" and "read_file_with ie send fid c hc (i, w) = (r, c', i', w')"
  shows "ias_ok i'"
proof -
  have "ok_res (expect_ok (send [0x00, 0xa4, 0x02, 0x04] [HIBYTE fid, LOBYTE fid] None hc (i, w)))"
    by (intro ok_intros send_ok assms(1))
  then show ?thesis
    using assms(2) read_loop_ok
    by (auto simp: read_file_with_def ok_res_def split: prod.splits sum.splits)
qed

end

interpretation protected: command_channel "SendAPDU_SM ie"
  by unfold_locales (rule ok_send)

interpretation plain: command_channel "SendAPDU ie"
  by unfold_locales (rule ok_send)

lemma readfile_ok: "ias_ok i \<Longrightarrow> readfile ie fid c hc (i, w) = (r, c', i', w') \<Longrightarrow> ias_ok i'"
  using protected.read_file_ok plain.read_file_ok
  by (auto simp: readfile_def readfile_SM_def split: if_splits)

lemma ok_read_to [ok_intros]: "ias_ok i \<Longrightarrow> ok_res (read_to ie fid c hc (i, w))"
  using readfile_ok by (fastforce simp: read_to_def ok_res_def split: prod.splits)

lemma dg_loop_ok: "ias_ok i \<Longrightarrow> dg_loop ie fuel n c hc (i, w) = (r, c', i', w') \<Longrightarrow> ias_ok i'"
proof (induction fuel arbitrary: c i w)
  case (Suc fuel)
  obtain q j v where rc: "read_chunk (SendAPDU_SM ie) (of_nat (length c))
      (of_nat (min 224 (n - unat (of_nat (length c) :: 16 word)))) hc (i, w) = (q, j, v)" by (metis prod_cases3)
  from protected.read_chunk_ok [OF Suc.prems(1) this] have "ias_ok j" .
  then show ?case
    using Suc.IH [OF \<open>ias_ok j\<close>] Suc.prems rc by (auto simp: Let_def split: sum.splits prod.splits if_splits)
qed simp

lemma readDGbySFI_ok:
  assumes "ias_ok i" and "readDGbySFI ie sfi c hc (i, w) = (r, c', i', w')"
  shows "ias_ok i'"
proof -
  obtain q j v where sel: "expect_ok (SendAPDU ie [0x00, 0xa4, 0x04, 0x0c] [0xA0, 0x00, 0x00, 0x02, 0x47, 0x10, 0x01] None hc (i, w))
      = (q, j, v)" by (metis prod_cases3)
  moreover have j: "ias_ok j"
    using ok_expect [OF ok_send(2) [OF assms(1)]] sel by (metis fst_conv ok_res_def snd_conv)
  moreover obtain q' k u where first: "SendAPDU_SM ie [0x00, 0xb0, 0x80 OR sfi, 0x00] [] (Some 6) hc (j, v) = (q', k, u)"
    by (metis prod_cases3)
  moreover have "ias_ok k" using ok_send(1) [OF j] first by (metis fst_conv ok_res_def snd_conv)
  ultimately show ?thesis
    using assms(2) dg_loop_ok [of k] protected.read_file_ok [of k]
    by (auto simp: readDGbySFI_def readfile_SM_def split: sum.splits prod.splits if_splits)
qed

lemma ok_operations:
  assumes "ias_ok i"
  shows "ok_res (IAS_SelectAID_CIE ie b hc (i, w))" "ok_res (IAS_SelectAID_IAS ie b hc (i, w))"
    "ok_res (IAS_ReadPAN ie hc (i, w))" "ok_res (IAS_ReadDappPubKey ie c hc (i, w))" "ok_res (IAS_Sign ie d hc (i, w))"
    "ok_res (IAS_VerifyPIN ie d hc (i, w))" "ok_res (IAS_VerifyPUK ie d hc (i, w))" "ok_res (IAS_UnblockPIN ie hc (i, w))"
    "ok_res (IAS_ChangePIN_old_new ie d d' hc (i, w))" "ok_res (IAS_ChangePIN_new ie d hc (i, w))"
  subgoal unfolding IAS_SelectAID_CIE_def by (intro ok_intros assms) (simp add: ias_ok_inactive)
  subgoal unfolding IAS_SelectAID_IAS_def ReadCIEType_def Let_def
    by (intro ok_intros assms) (simp_all add: ias_ok_inactive assms)
  subgoal using readfile_ok [OF assms] by (fastforce simp: IAS_ReadPAN_def ok_res_def split: prod.splits)
  subgoal unfolding IAS_ReadDappPubKey_def Let_def by (intro ok_intros assms) simp_all
  subgoal unfolding IAS_Sign_def by (intro ok_intros assms)
  subgoal unfolding IAS_VerifyPIN_def by (intro ok_intros assms)
  subgoal unfolding IAS_VerifyPUK_def by (intro ok_intros assms)
  subgoal unfolding IAS_UnblockPIN_def by (intro ok_intros assms)
  subgoal unfolding IAS_ChangePIN_old_new_def by (intro ok_intros assms)
  subgoal unfolding IAS_ChangePIN_new_def by (intro ok_intros assms)
  done

lemma ok_parameters:
  assumes "ias_ok i"
  shows "ok_res (IAS_InitDHParam ie hc (i, w))" "ok_res (IAS_InitExtAuthKeyParam ie hc (i, w))"
    "ok_res (IAS_Deauthenticate ie hc (i, w))" "ok_res (IAS_InitEncKey ie hc (i, w))"
    "ok_res (SetCache ie pan cert pin hc (i, w))" "ok_res (IAS_GetFirstPIN ie hc (i, w))"
    "ok_res (IsEnrolled ie hc (i, w))" "ok_res (Unenroll ie hc (i, w))" "ok_res (IAS_GetCertificate ie hc (i, w))"
  subgoal unfolding IAS_InitDHParam_def Let_def by (intro ok_intros assms) (simp_all add: assms ok_get_data ok_return)
  subgoal unfolding IAS_InitExtAuthKeyParam_def Let_def by (intro ok_intros assms) (simp_all add: assms)
  subgoal unfolding IAS_Deauthenticate_def by (simp add: assms ok_res_def split: prod.splits)
  subgoal unfolding IAS_InitEncKey_def Let_def by (intro ok_intros assms) (simp_all add: assms)
  subgoal unfolding SetCache_def by (intro ok_bind ok_return assms) (simp_all add: ok_res_def split: prod.splits)
  subgoal unfolding IAS_GetFirstPIN_def by (intro ok_bind ok_return assms) (simp_all add: ok_res_def split: prod.splits)
  subgoal unfolding IsEnrolled_def by (intro ok_bind ok_return assms) (simp add: ok_res_def split: prod.splits)
  subgoal unfolding Unenroll_def by (intro ok_bind ok_return assms) (simp add: ok_res_def split: prod.splits)
  subgoal
  proof -
    have cached: "cached_certificate ie pan hc (j, v) = (r, k, u) \<Longrightarrow> k = j" for pan j v r k u
      by (auto simp: cached_certificate_def bindS_def split: prod.splits sum.splits)
    show ?thesis
      unfolding IAS_GetCertificate_def using assms
      by (intro ok_if ok_bind ok_return)
         (auto simp: ok_res_def split: prod.splits sum.splits exn.splits dest: cached)
  qed
  done

lemma session_key_length: "session_key ie secret n = Inr k \<Longrightarrow> length k = 16"
  by (auto simp: session_key_def ba_left_def split: if_splits)

lemma ok_dh_keys: "ias_ok i \<Longrightarrow> ok_res (dh_keys ie secret (i, w))"
  using session_key_length [of ie secret 1] session_key_length [of ie secret 2]
  by (cases "session_key ie secret 1"; cases "session_key ie secret 2") (auto simp: dh_keys_def ok_res_def ias_ok_def Let_def)

lemma ok_DHKeyExchange: "ias_ok i \<Longrightarrow> ok_res (IAS_DHKeyExchange ie hc (i, w))"
  unfolding IAS_DHKeyExchange_def Let_def
  by (intro ok_bind ok_return ok_draw ok_expect ok_send; (simp add: ok_return ok_dh_keys)?)

lemma steps_expect: "steps m i \<Longrightarrow> steps (expect_ok m) i"
  unfolding expect_ok_def by (auto intro!: steps_bind)

lemma steps_rand [simp, intro]: "steps (ias_rand ie n hc (i, w)) i"
  by (simp add: ias_rand_def steps_def split: prod.splits option.splits)

lemma steps_dapp: "steps (dapp_external ie hc (i, w)) i" "steps (dapp_internal ie challenge hc (i, w)) i"
  unfolding dapp_external_def dapp_internal_def Let_def
  by (auto intro!: steps_bind steps_expect steps_send)

text \<open>A protected command needs both session keys.\<close>

lemma exchange_keys: "sm_exchange ie a hc (i, w) = (Inr x, st) \<Longrightarrow> des_key (sessENC i) \<and> des_key (sessMAC i)"
  by (auto simp: sm_exchange_def bindS_eq_Inr bindE_eq_Inr ias_SM_def SM_def Let_def CDES3_Init_def CMAC_Init_def
      split: if_splits)

lemma SendAPDU_SM_keys:
  "SendAPDU_SM ie head data le hc (i, w) = (Inr x, st) \<Longrightarrow> des_key (sessENC i) \<and> des_key (sessMAC i)"
  unfolding SendAPDU_SM_def by (subst (asm) SendAPDU_SM_loop.simps)
    (auto simp: Let_def bindS_eq_Inr dest: exchange_keys split: if_splits)

lemma bindS_InrE:
  assumes "bindS m k = (Inr y, t)"
  obtains x s where "m = (Inr x, s)" "k x s = (Inr y, t)"
  using assms by (auto simp: bindS_eq_Inr)

lemma expect_ok_keys:
  "expect_ok (SendAPDU_SM ie head data le hc (i, w)) = (Inr x, st) \<Longrightarrow> sessENC i \<noteq> [] \<and> sessMAC i \<noteq> []"
  unfolding expect_ok_def by (erule bindS_InrE, drule SendAPDU_SM_keys) auto

lemma ok_DAPP:
  assumes "ias_ok i"
  shows "ok_res (IAS_DAPP ie hc (i, w))"
proof -
  obtain r j v where e: "dapp_external ie hc (i, w) = (r, j, v)" by (metis prod_cases3)
  then have sj: "channel_step i j" using steps_dapp(1) [of ie hc i w] by (simp add: steps_def)
  have keys: "sessENC i \<noteq> [] \<and> sessMAC i \<noteq> []" if "r = Inr c" for c
    using e unfolding that dapp_external_def
    by (elim bindS_InrE) (metis expect_ok_keys prod.inject)
  show ?thesis
  proof (cases r)
    case (Inr c)
    obtain r' k u where f: "dapp_internal ie c hc (j, v) = (r', k, u)" by (metis prod_cases3)
    then have sk: "channel_step i k" using steps_dapp(2) [of ie c hc j v] sj channel_step_trans by (fastforce simp: steps_def)
    have "length ssc = 8" if "r' = Inr ssc" for ssc
      using f unfolding that dapp_internal_def by (auto simp: bindS_eq_Inr bindE_eq_Inr ba_right_def split: if_splits)
    then show ?thesis
      using e f Inr sk keys assms channel_step_keys [OF sk]
      by (cases r') (auto simp: IAS_DAPP_def ok_res_def ias_ok_def)
  qed (use e sj assms channel_step_keys [OF sj] in \<open>auto simp: IAS_DAPP_def ok_res_def ias_ok_def\<close>)
qed

lemma DAPP_Inr:
  assumes "IAS_DAPP ie hc (i, w) = (Inr (), i', w')"
  shows "sessENC i' = sessENC i \<and> sessMAC i' = sessMAC i \<and> length (sessSSC i') = 8 \<and> ActiveSM i'"
proof -
  from assms obtain c j v ssc k u where e: "dapp_external ie hc (i, w) = (Inr c, j, v)"
    and f: "dapp_internal ie c hc (j, v) = (Inr ssc, k, u)" and i': "i' = k\<lparr>sessSSC := ssc, ActiveSM := True\<rparr>"
    by (auto simp: IAS_DAPP_def bindS_eq_Inr upd_def split: if_splits)
  have "channel_step i k"
    using steps_dapp(1) [of ie hc i w] steps_dapp(2) [of ie c hc j v] e f channel_step_trans by (fastforce simp: steps_def)
  moreover have "length ssc = 8"
    using f unfolding dapp_internal_def by (auto simp: bindS_eq_Inr bindE_eq_Inr ba_right_def split: if_splits)
  ultimately show ?thesis using channel_step_keys [of i k] i' by simp
qed

text \<open>The calls of a client, and the objects it can reach with them.\<close>

datatype ias_call =
    Do_SelectAID_IAS bool | Do_SelectAID_CIE bool | Do_ReadPAN | Do_ReadDappPubKey bytes | Do_Read "16 word" bytes
  | Do_ReadDG byte bytes | Do_InitDHParam | Do_InitExtAuthKeyParam | Do_DHKeyExchange | Do_DAPP | Do_Deauthenticate
  | Do_VerifyPIN bytes | Do_VerifyPUK bytes | Do_UnblockPIN | Do_ChangePIN_old_new bytes bytes | Do_ChangePIN_new bytes
  | Do_Sign bytes | Do_InitEncKey | Do_SetCache "string option" bytes bytes | Do_GetFirstPIN | Do_GetCertificate
  | Do_IsEnrolled | Do_Unenroll

definition ias_run :: "'w ias_env \<Rightarrow> ias_call \<Rightarrow> ulong \<Rightarrow> ias \<times> 'w \<Rightarrow> ias \<times> 'w" where
  "ias_run ie c hc st = (case c of
       Do_SelectAID_IAS b \<Rightarrow> snd (IAS_SelectAID_IAS ie b hc st) | Do_SelectAID_CIE b \<Rightarrow> snd (IAS_SelectAID_CIE ie b hc st)
     | Do_ReadPAN \<Rightarrow> snd (IAS_ReadPAN ie hc st) | Do_ReadDappPubKey d \<Rightarrow> snd (IAS_ReadDappPubKey ie d hc st)
     | Do_Read fid d \<Rightarrow> snd (read_to ie fid d hc st) | Do_ReadDG sfi d \<Rightarrow> snd (snd (readDGbySFI ie sfi d hc st))
     | Do_InitDHParam \<Rightarrow> snd (IAS_InitDHParam ie hc st) | Do_InitExtAuthKeyParam \<Rightarrow> snd (IAS_InitExtAuthKeyParam ie hc st)
     | Do_DHKeyExchange \<Rightarrow> snd (IAS_DHKeyExchange ie hc st) | Do_DAPP \<Rightarrow> snd (IAS_DAPP ie hc st)
     | Do_Deauthenticate \<Rightarrow> snd (IAS_Deauthenticate ie hc st)
     | Do_VerifyPIN p \<Rightarrow> snd (IAS_VerifyPIN ie p hc st) | Do_VerifyPUK p \<Rightarrow> snd (IAS_VerifyPUK ie p hc st)
     | Do_UnblockPIN \<Rightarrow> snd (IAS_UnblockPIN ie hc st) | Do_ChangePIN_old_new p q \<Rightarrow> snd (IAS_ChangePIN_old_new ie p q hc st)
     | Do_ChangePIN_new p \<Rightarrow> snd (IAS_ChangePIN_new ie p hc st) | Do_Sign d \<Rightarrow> snd (IAS_Sign ie d hc st)
     | Do_InitEncKey \<Rightarrow> snd (IAS_InitEncKey ie hc st) | Do_SetCache pan c p \<Rightarrow> snd (SetCache ie pan c p hc st)
     | Do_GetFirstPIN \<Rightarrow> snd (IAS_GetFirstPIN ie hc st) | Do_GetCertificate \<Rightarrow> snd (IAS_GetCertificate ie hc st)
     | Do_IsEnrolled \<Rightarrow> snd (IsEnrolled ie hc st) | Do_Unenroll \<Rightarrow> snd (Unenroll ie hc st))"

inductive ias_reachable :: "'w ias_env \<Rightarrow> ias \<Rightarrow> bool" for ie where
  new: "ias_reachable ie (new_IAS_object atr)"
| call: "ias_reachable ie i \<Longrightarrow> ias_reachable ie (fst (ias_run ie c hc (i, w)))"

lemma ias_run_ok:
  assumes "ias_ok i"
  shows "ias_ok (fst (ias_run ie c hc (i, w)))"
proof -
  have "ias_ok (fst (snd (snd (readDGbySFI ie sfi d hc (i, w)))))" for sfi d
    using readDGbySFI_ok [OF assms, of ie sfi d hc w] by (metis prod.collapse)
  then show ?thesis
    using ok_operations [OF assms] ok_parameters [OF assms] ok_DHKeyExchange [OF assms] ok_DAPP [OF assms] ok_read_to [OF assms]
    by (cases c) (simp_all add: ias_run_def ok_res_def)
qed

subsection \<open>The two ends of the key exchange\<close>

lemma CRSA_RSA_PURE_Inr:
  assumes "CRSA_RSA_PURE (n, e) data = Inr c"
  shows "c = BN_bn2binpad (be_value data ^ e mod n) (BN_num_bytes n)" "be_value c = be_value data ^ e mod n"
proof -
  have "be_value data < n" using assms by (simp add: CRSA_RSA_PURE_def Let_def split: if_splits)
  then obtain c' where "CRSA_RSA_PURE (n, e) data = Inr c'" "be_value c' = be_value data ^ e mod n"
    by (rule CRSA_RSA_PURE_value)
  with assms show "be_value c = be_value data ^ e mod n" by simp
qed (use assms in \<open>simp add: CRSA_RSA_PURE_def Let_def split: if_splits\<close>)

lemma dh_draw_state: "dh_draw ie fuel hc (i, w) = (Inr k, st) \<Longrightarrow> fst st = i"
  by (induction fuel arbitrary: w)
    (auto simp: bindS_eq_Inr ias_rand_def split: prod.splits option.splits if_splits)

lemma expect_ok_state:
  assumes "expect_ok (SendAPDU ie head data le hc st) = (Inr x, st')"
  shows "channel_step (fst st) (fst st')"
  using steps_expect [OF steps_send(2) [of ie head data le hc "fst st" "snd st"]] assms by (simp add: steps_def)

lemma channel_step_dh: "channel_step i j \<Longrightarrow> dh_pubKey j = dh_pubKey i \<and> dh_ICCpubKey j = dh_ICCpubKey i"
  unfolding channel_step_def by auto

lemma dh_keys_Inr:
  assumes "dh_keys ie secret st = (Inr (), st')"
  shows "session_key ie secret 1 = Inr (sessENC (fst st'))" "session_key ie secret 2 = Inr (sessMAC (fst st'))"
    "sessSSC (fst st') = [0, 0, 0, 0, 0, 0, 0, 1]" "ActiveSM (fst st')"
    "dh_pubKey (fst st') = dh_pubKey (fst st)" "dh_ICCpubKey (fst st') = dh_ICCpubKey (fst st)"
  using assms by (auto simp: dh_keys_def bindS_eq_Inr Let_def upd_def)

lemma rightcopy_same: "ba_rightcopy (replicate (length xs) 0) xs 0 = Inr xs"
  by (simp add: ba_rightcopy_def)

text \<open>The terminal's side: one private exponent makes its public value and the shared secret.\<close>

lemma DHKeyExchange_values:
  assumes "IAS_DHKeyExchange ie hc (i, w) = (Inr (), i', w')"
  obtains a where "be_value (dh_pubKey i') = be_value (dh_g i) ^ a mod be_value (dh_p i)"
    "session_key ie (BN_bn2binpad (be_value (dh_ICCpubKey i') ^ a mod be_value (dh_p i)) (BN_num_bytes (be_value (dh_p i)))) 1
      = Inr (sessENC i')"
    "session_key ie (BN_bn2binpad (be_value (dh_ICCpubKey i') ^ a mod be_value (dh_p i)) (BN_num_bytes (be_value (dh_p i)))) 2
      = Inr (sessMAC i')"
    "sessSSC i' = [0, 0, 0, 0, 0, 0, 0, 1]" "ActiveSM i'"
proof -
  from assms obtain k s1 where 1: "dh_draw ie (ias_fuel ie) hc (i, w) = (Inr k, s1)"
    and r1: "bindS (ba_rightcopy (replicate (length (dh_g (fst s1))) 0) (dh_g (fst s1)) 0, s1) (\<lambda>dhg st.
     bindS (new_CRSA (ias_fromdata ie) (dh_p (fst st)) k, st) (\<lambda>rsa st.
     bindS (CRSA_RSA_PURE rsa dhg, st) (\<lambda>pubKey st.
     let st = upd (\<lambda>i. i\<lparr>dh_pubKey := pubKey\<rparr>) st in
     bindS (ASN1Tags ie [(0x80, [0x9b]), (0x83, [0x81]), (0x91, pubKey)], st) (\<lambda>d1 st.
     bindS (expect_ok (SendAPDU ie [0x00, 0x22, 0x41, 0xa6] d1 None hc st)) (\<lambda>_ st.
     bindS (expect_ok (SendAPDU ie [0x00, 0xcb, 0x3f, 0xff] [0x4d, 0x04, 0xa6, 0x02, 0x91, 0x00] None hc st)) (\<lambda>resp st.
     bindS (bindE (asn_Parse resp) (\<lambda>ts. tag_path ts [0, 0]), st) (\<lambda>t st.
     let st = upd (\<lambda>i. i\<lparr>dh_ICCpubKey := asn_content t\<rparr>) st in
     bindS (CRSA_RSA_PURE rsa (asn_content t), st) (\<lambda>secret st.
     dh_keys ie secret st)))))))) = (Inr (), i', w')"
    unfolding IAS_DHKeyExchange_def by (rule bindS_InrE)
  have s1: "fst s1 = i" by (rule dh_draw_state [OF 1])
  let ?rsa = "(be_value (dh_p i), be_value k)"
  from r1 obtain pubKey d1 x s2 resp s3 t secret where
    2: "CRSA_RSA_PURE ?rsa (dh_g i) = Inr pubKey"
    and 3: "expect_ok (SendAPDU ie [0x00, 0x22, 0x41, 0xa6] d1 None hc (upd (\<lambda>i. i\<lparr>dh_pubKey := pubKey\<rparr>) s1)) = (Inr x, s2)"
    and 4: "expect_ok (SendAPDU ie [0x00, 0xcb, 0x3f, 0xff] [0x4d, 0x04, 0xa6, 0x02, 0x91, 0x00] None hc s2) = (Inr resp, s3)"
    and 5: "CRSA_RSA_PURE ?rsa (asn_content t) = Inr secret"
    and 6: "dh_keys ie secret (upd (\<lambda>i. i\<lparr>dh_ICCpubKey := asn_content t\<rparr>) s3) = (Inr (), i', w')"
    unfolding rightcopy_same bindS_simps Let_def s1
    by (elim bindS_InrE) (auto simp: new_CRSA_def split: if_splits)
  have pub: "dh_pubKey (fst s3) = pubKey"
    using channel_step_dh [OF expect_ok_state [OF 3]] channel_step_dh [OF expect_ok_state [OF 4]] by (simp add: upd_def)
  note keys = dh_keys_Inr [OF 6, unfolded fst_conv]
  show thesis
  proof (rule that [of "be_value k"])
    show "be_value (dh_pubKey i') = be_value (dh_g i) ^ be_value k mod be_value (dh_p i)"
      using CRSA_RSA_PURE_Inr(2) [OF 2] keys(5) pub by (simp add: upd_def)
  qed (use CRSA_RSA_PURE_Inr(1) [OF 5] keys in \<open>simp_all add: upd_def\<close>)
qed

lemma session_key_take: "session_key ie secret n = Inr k \<Longrightarrow> k = take 16 (ias_sha256 ie (secret @ [0, 0, 0, n]))"
  by (auto simp: session_key_def ba_left_def split: if_splits)

text \<open>A key exchange in the group of order 22 modulo 23: the card's exponent is 6, the terminal's 3.\<close>

definition demo_dh_env :: "demo_fs ias_env" where
  "demo_dh_env = demo_ias_env\<lparr>ias_random := (\<lambda>n w. (Some (replicate n 3), w)),
     ias_callback := (\<lambda>hc apdu w. (0, (if apdu ! 1 = 0xcb then [0x7c, 3, 0x91, 1, 8] else []) @ [0x90, 0x00], w))\<rparr>"

definition demo_dh_object :: ias where
  "demo_dh_object = (new_IAS_object [])\<lparr>dh_g := [5], dh_p := [23], dh_q := [11]\<rparr>"

definition demo_dh_result :: ias where
  "demo_dh_result = demo_dh_object\<lparr>dh_pubKey := [10], dh_ICCpubKey := [8], sessENC := replicate 16 2,
     sessMAC := replicate 16 2, sessSSC := [0, 0, 0, 0, 0, 0, 0, 1], ActiveSM := True\<rparr>"

lemma demo_dh_data:
  "bindE (setASN1Tag (\<lambda>_. 0) 0x80 [0x9b]) (\<lambda>a. bindE (setASN1Tag (\<lambda>_. 0) 0x83 [0x81]) (\<lambda>b.
     bindE (setASN1Tag (\<lambda>_. 0) 0x91 [10]) (\<lambda>c. Inr (a @ b @ c))))
   = Inr [0x80, 1, 0x9b, 0x83, 1, 0x81, 0x91, 1, 10]"
  "bindE (asn_Parse [0x7c, 3, 0x91, 1, 8]) (\<lambda>ts. bindE (tag_path ts [0, 0]) (\<lambda>t. Inr (asn_content t))) = Inr [8]"
  "CRSA_RSA_PURE (23, 3) [5] = Inr [10]" "CRSA_RSA_PURE (23, 3) [8] = Inr [6]" "be_value [23] = 23" "be_value [3] = 3"
  by code_simp+

lemma demo_dh_send:
  "SendAPDU demo_dh_env head data None hc (i, w)
     = (Inr (0x9000, if (if data \<noteq> [] then head @ [of_nat (length data)] @ data else head) ! 1 = 0xcb
                     then [0x7c, 3, 0x91, 1, 8] else []), i, w)" if "length data \<le> 255"
proof -
  let ?d = "if (if data \<noteq> [] then head @ [of_nat (length data)] @ data else head) ! 1 = 0xcb then [0x7c, 3, 0x91, 1, 8] else []"
  have "SendAPDU demo_dh_env head data None hc (i, w) = (Inr (push_bit 8 (ucast (0x90 :: byte)) OR ucast (0x00 :: byte), ?d), i, w)"
    by (rule SendAPDU_eq) (use that in \<open>simp_all add: demo_dh_env_def demo_ias_env_def le_octets_def\<close>)
  then show ?thesis by (simp only: status_words)
qed

lemma demo_dh_run: "IAS_DHKeyExchange demo_dh_env 1 (demo_dh_object, w) = (Inr (), demo_dh_result, w)"
proof -
  have draw: "dh_draw demo_dh_env (ias_fuel demo_dh_env) 1 (demo_dh_object, w) = (Inr [3], demo_dh_object, w)"
  proof -
    have "dh_draw demo_dh_env (Suc n) 1 (demo_dh_object, w) = (Inr [3], demo_dh_object, w)" for n
      by (simp add: demo_dh_env_def demo_dh_object_def ias_rand_def ba_at_def ba_put_def)
    moreover have "ias_fuel demo_dh_env = Suc 99" by (simp add: demo_dh_env_def demo_ias_env_def)
    ultimately show ?thesis by presburger
  qed
  have tags: "ASN1Tags demo_dh_env [(0x80, [0x9b]), (0x83, [0x81]), (0x91, [10])] = Inr [0x80, 1, 0x9b, 0x83, 1, 0x81, 0x91, 1, 10]"
    using demo_dh_data(1) by (auto simp: ASN1Tag_def demo_dh_env_def demo_ias_env_def bindE_eq_Inr)
  obtain ts t where parse: "asn_Parse [0x7c, 3, 0x91, 1, 8] = Inr ts" "tag_path ts [0, 0] = Inr t" "asn_content t = [8]"
    using demo_dh_data(2) by (auto simp: bindE_eq_Inr)
  have key: "session_key demo_dh_env s n = Inr (replicate 16 2)" for s n
    by (simp add: session_key_def ba_left_def demo_dh_env_def demo_ias_env_def)
  have rsa: "new_CRSA (ias_fromdata demo_dh_env) [23] [3] = Inr (23, 3)"
    by (simp add: new_CRSA_def demo_dh_env_def demo_ias_env_def demo_dh_data)
  have o: "dh_g demo_dh_object = [5]" "dh_p demo_dh_object = [23]" by (simp_all add: demo_dh_object_def)
  show ?thesis
    unfolding IAS_DHKeyExchange_def draw bindS_simps Let_def fst_conv o
    by (simp add: ba_rightcopy_def rsa o demo_dh_data tags demo_dh_send expect_ok_def parse dh_keys_def key
        demo_dh_result_def upd_def del: ASN1Tags.simps tag_path.simps)
qed

subsection \<open>Properties\<close>

text \<open>
  C16: a success is only what the card authenticated.  When a protected command of up to 230
  octets of data returns 9000, the first thing that went to the card was the ISO 7816-4 protected
  form of exactly this command under the session keys and the next counter, what came back (over
  however many GET RESPONSE rounds) is a response whose MAC object is right for the counter after
  that and whose status object says 9000, and of the object only the counter changed, by two.  In
  particular no unprotected 9000 of the card or of anyone on the line passes as a success.
\<close>

theorem success_authenticated:
  assumes "evp_is_des (ias_evp ie) E D" and "length (sessENC i) = 16" and "length (sessMAC i) = 16" and "length (sessSSC i) = 8"
    and "bounded_answers (ias_callback ie)" and "ias_fuel ie < 2 ^ 32" and "length head = 4" and "length data < 231"
    and "SendAPDU_SM ie head data le hc (i, w) = (Inr (0x9000, resp), i', w')"
  shows "\<exists>a r cs. conversation (ias_callback ie) hc ((a, r) # cs) w w'
    \<and> a = sm_command E D (sessENC i) (sessMAC i) (increment (sessSSC i)) head data (effective_le data le)
    \<and> i' = i\<lparr>sessSSC := increment (increment (sessSSC i))\<rparr>
    \<and> authentic_success E D (sessMAC i) (sessSSC i') (bodies ((a, r) # cs))"
proof (rule exchange_success [OF assms(1) _ _ assms(4-7)])
  show "sm_exchange ie (plain_command head data le) hc (i, w) = (Inr (0x9000, resp), i', w')"
    using assms(8,9) by (auto simp: SendAPDU_SM_def plain_command_def le_octets_def split: option.splits)
qed (use assms(2,3,8) in auto)

theorem success_authenticated_witness:
  "\<exists>a r cs. conversation (ias_callback demo_sm_env) 1 ((a, r) # cs) (\<lambda>_. None, None) (\<lambda>_. None, None)
    \<and> a = sm_command demo_des demo_des (replicate 16 7) (replicate 16 9) [1, 1, 1, 1, 1, 1, 1, 0] [0x00, 0x20, 0x00, 0x81]
            [0x31, 0x32, 0x33, 0x34] (effective_le [0x31, 0x32, 0x33, 0x34] None)
    \<and> authentic_success demo_des demo_des (replicate 16 9) (replicate 8 1) (bodies ((a, r) # cs))"
proof -
  have "SendAPDU_SM demo_sm_env [0x00, 0x20, 0x00, 0x81] [0x31, 0x32, 0x33, 0x34] None 1 (demo_sm_object, (\<lambda>_. None, None))
    = (Inr (0x9000, []), demo_sm_object\<lparr>sessSSC := replicate 8 1\<rparr>, (\<lambda>_. None, None))" by (rule demo_exchange) simp_all
  from success_authenticated [OF demo_sm_lawful(1) _ _ _ demo_sm_lawful(2,3) _ _ this]
  show ?thesis by (auto simp: demo_sm_lawful demo_counter)
qed

text \<open>
  C17: the types of the channel.  In every object that calls of the IAS operations reach, whatever
  the card answers and wherever they fail, the session keys and the counter are absent or have
  sixteen, sixteen and eight octets, and they are all present when secure messaging is active:
  what the protection of commands and the check of responses need.
\<close>

theorem ias_objects_typed: "ias_reachable ie i \<Longrightarrow> ias_ok i"
proof (induction rule: ias_reachable.induct)
  case (new atr)
  then show ?case by (simp add: ias_ok_def new_IAS_object_def)
qed (rule ias_run_ok)

theorem ias_objects_typed_witness:
  "ias_ok (fst (ias_run demo_ias_env (Do_SelectAID_CIE False) 1 (new_IAS_object [], (\<lambda>_. None, None))))"
  by (rule ias_objects_typed [OF ias_reachable.call [OF ias_reachable.new]])

text \<open>
  C18: the Diffie-Hellman exchange agrees.  When the exchange completes with a card whose public
  value is \<open>g^x mod p\<close>, the session keys of the terminal are the first sixteen octets of the
  digests that the card computes from the terminal's public value with its exponent \<open>x\<close>, padded to
  the size of the modulus; the counter starts at 1 and secure messaging is active.
\<close>

theorem dh_agreement:
  assumes "IAS_DHKeyExchange ie hc (i, w) = (Inr (), i', w')"
    and "be_value (dh_ICCpubKey i') = be_value (dh_g i) ^ x mod be_value (dh_p i)"
  shows "let n = be_value (dh_p i); secret = BN_bn2binpad (be_value (dh_pubKey i') ^ x mod n) (BN_num_bytes n) in
    sessENC i' = take 16 (ias_sha256 ie (secret @ [0, 0, 0, 1])) \<and>
    sessMAC i' = take 16 (ias_sha256 ie (secret @ [0, 0, 0, 2])) \<and>
    sessSSC i' = [0, 0, 0, 0, 0, 0, 0, 1] \<and> ActiveSM i'"
proof -
  obtain a where a: "be_value (dh_pubKey i') = be_value (dh_g i) ^ a mod be_value (dh_p i)"
    and k: "session_key ie (BN_bn2binpad (be_value (dh_ICCpubKey i') ^ a mod be_value (dh_p i)) (BN_num_bytes (be_value (dh_p i)))) 1
        = Inr (sessENC i')"
      "session_key ie (BN_bn2binpad (be_value (dh_ICCpubKey i') ^ a mod be_value (dh_p i)) (BN_num_bytes (be_value (dh_p i)))) 2
        = Inr (sessMAC i')" "sessSSC i' = [0, 0, 0, 0, 0, 0, 0, 1]" "ActiveSM i'"
    using assms(1) by (rule DHKeyExchange_values)
  have "be_value (dh_ICCpubKey i') ^ a mod be_value (dh_p i) = be_value (dh_pubKey i') ^ x mod be_value (dh_p i)"
    unfolding assms(2) a power_mod power_mult [symmetric] by (simp add: mult.commute)
  then show ?thesis using session_key_take [OF k(1)] session_key_take [OF k(2)] k(3,4) by (simp add: Let_def)
qed

theorem dh_agreement_witness:
  "let secret = BN_bn2binpad (be_value (dh_pubKey demo_dh_result) ^ 6 mod be_value (dh_p demo_dh_object))
       (BN_num_bytes (be_value (dh_p demo_dh_object))) in
   sessENC demo_dh_result = take 16 (ias_sha256 demo_dh_env (secret @ [0, 0, 0, 1]))"
proof -
  have "be_value (dh_ICCpubKey demo_dh_result) = be_value (dh_g demo_dh_object) ^ 6 mod be_value (dh_p demo_dh_object)"
    by (simp add: demo_dh_result_def demo_dh_object_def be_value_cons)
  from dh_agreement [OF demo_dh_run this] show ?thesis by (simp add: Let_def)
qed

end
