(* ===== verification/X509_Reader.thy ===== *)
theory X509_Reader
  imports Cie_Template Big_Number
begin

section \<open>Reading certificates (pkcs11/src/pkcs11/cie_p11_template.cpp)\<close>

text \<open>
  \<open>GetPublicKeyFromCert\<close> and \<open>GetCertInfo\<close> over OpenSSL's X.509 functions, which are parameters:
  the record has one field for each call (or getter inside a call), with \<open>None\<close> where the call gives a
  null pointer or no octets.  The modulus and the exponent are numbers; \<open>X509_rsa\<close> is \<open>None\<close>
  when the certificate has no key or another kind of key.
\<close>

record 'x x509_api =
  d2i_X509 :: "bytes \<Rightarrow> 'x option"
  i2d_X509_PUBKEY :: "'x \<Rightarrow> bytes option"
  i2d_issuer_name :: "'x \<Rightarrow> bytes option"
  i2d_subject_name :: "'x \<Rightarrow> bytes option"
  serialNumber_BN :: "'x \<Rightarrow> int option"
  BN_bn2dec :: "int \<Rightarrow> bytes option"
  notBefore_time :: "'x \<Rightarrow> bytes option"
  notAfter_time :: "'x \<Rightarrow> bytes option"
  X509_rsa :: "'x \<Rightarrow> (nat option \<times> nat option) option"

definition BN_bn2bin :: "nat \<Rightarrow> bytes" where
  "BN_bn2bin n = BN_bn2binpad n (BN_num_bytes n)"

text \<open>An output parameter that stays empty when the call gives nothing.\<close>

definition out_octets :: "bytes option \<Rightarrow> bytes" where
  "out_octets r = (case r of None \<Rightarrow> [] | Some d \<Rightarrow> d)"

text \<open>The public key information, the issuer and the serial number.\<close>

definition GetPublicKeyFromCert :: "'x x509_api \<Rightarrow> bytes \<Rightarrow> exn + bytes \<times> bytes \<times> bytes" where
  "GetPublicKeyFromCert xa certDer =
     (case d2i_X509 xa certDer of
        None \<Rightarrow> Inl (Logged_Error ''Failed to parse X.509 certificate'')
      | Some x \<Rightarrow>
          Inr (out_octets (i2d_X509_PUBKEY xa x), out_octets (i2d_issuer_name xa x),
               out_octets (map_option (\<lambda>bn. BN_bn2bin (nat \<bar>bn\<bar>)) (serialNumber_BN xa x))))"

definition timeToStr :: "bytes option \<Rightarrow> exn + bytes" where
  "timeToStr t = (case t of None \<Rightarrow> Inl (Logged_Error ''Failed to convert certificate time'') | Some s \<Rightarrow> Inr s)"

text \<open>The decimal serial number, names, validity and RSA key; a null result of \<open>BN_bn2dec\<close> is dereferenced.\<close>

definition read_cert_info :: "'x x509_api \<Rightarrow> bytes \<Rightarrow> exn + cert_info" where
  "read_cert_info xa certDer =
     (case d2i_X509 xa certDer of
        None \<Rightarrow> Inl (Logged_Error ''Failed to parse X.509 certificate'')
      | Some x \<Rightarrow>
     (case serialNumber_BN xa x of
        None \<Rightarrow> Inl (Logged_Error ''Failed to read certificate serial number'')
      | Some bn \<Rightarrow>
     (case BN_bn2dec xa bn of
        None \<Rightarrow> Inl UB
      | Some dec \<Rightarrow>
          bindE (timeToStr (notBefore_time xa x)) (\<lambda>nb.
          bindE (timeToStr (notAfter_time xa x)) (\<lambda>na.
          let (n, e) = (case X509_rsa xa x of None \<Rightarrow> (None, None) | Some ne \<Rightarrow> ne) in
          Inr \<lparr>serial = dec, issuer = out_octets (i2d_issuer_name xa x), subject = out_octets (i2d_subject_name xa x),
               notBefore = nb, notAfter = na, modulus = out_octets (map_option BN_bn2bin n),
               publicExponent = out_octets (map_option BN_bn2bin e)\<rparr>)))))"

subsection \<open>Lemmas\<close>

lemma be_value_bn2bin [simp]: "be_value (BN_bn2bin n) = n"
  using BN_num_bytes_bound [of n] by (simp add: BN_bn2bin_def be_value_bn2binpad)

text \<open>The modulus and the exponent of an RSA certificate reach the objects of the slot as they are.\<close>

lemma read_cert_info_rsa:
  assumes "read_cert_info xa certDer = Inr ci" and "d2i_X509 xa certDer = Some x" and "X509_rsa xa x = Some (Some n, Some e)"
  shows "be_value (modulus ci) = n \<and> be_value (publicExponent ci) = e"
  using assms by (auto simp: read_cert_info_def bindE_eq_Inr out_octets_def split: option.splits)

end
