(* ===== verification/Cie_Program.thy ===== *)
theory Cie_Program
  imports Cie_Contract Ias_Security X509_Reader
begin

section \<open>The template over the card protocol\<close>

text \<open>
  The card template with its parameters filled in: the IAS operations are those of \<open>Ias\<close>, the
  callback of the token is \<open>TokenTransmitCallback\<close> on the slot's transport, and the session PIN is
  encrypted by \<open>CAES\<close> with a random key.  What remains open are OpenSSL, the transport and the file
  system.  The theorems say what a login leaves behind, whatever the card
  does.
\<close>

subsection \<open>Filling in the interface\<close>

definition ignoring :: "('w, 'a) ias_fn \<Rightarrow> ('w, unit) ias_fn" where
  "ignoring f hc st = (case f hc st of (r, st) \<Rightarrow> (bindE r (\<lambda>_. Inr ()), st))"

definition IAS_token_Reset :: "'w ias_env \<Rightarrow> ('w, unit) ias_fn" where
  "IAS_token_Reset ie hc st = (case Reset (ias_token ie hc) False (snd st) of (r, w) \<Rightarrow> (r, fst st, w))"

definition cie_ias_functions :: "'w ias_env \<Rightarrow> (ias, 'w) ias_functions" where
  "cie_ias_functions ie =
     \<lparr>new_IAS = new_IAS_object, SelectAID_IAS = IAS_SelectAID_IAS ie False, SelectAID_CIE = IAS_SelectAID_CIE ie False,
      ReadPAN = IAS_ReadPAN ie, ReadDappPubKey = ignoring (IAS_ReadDappPubKey ie []), InitEncKey = IAS_InitEncKey ie,
      InitDHParam = IAS_InitDHParam ie, InitExtAuthKeyParam = IAS_InitExtAuthKeyParam ie,
      DHKeyExchange = IAS_DHKeyExchange ie, DAPP = IAS_DAPP ie, token_Reset = IAS_token_Reset ie,
      GetCertificate = IAS_GetCertificate ie, GetFirstPIN = IAS_GetFirstPIN ie, VerifyPIN = IAS_VerifyPIN ie,
      VerifyPUK = IAS_VerifyPUK ie, UnblockPIN = IAS_UnblockPIN ie, ChangePIN_old_new = IAS_ChangePIN_old_new ie,
      ChangePIN_new = IAS_ChangePIN_new ie, ias_Sign = IAS_Sign ie,
      DappPubKey_isEmpty = (\<lambda>i. DappPubKey i = []), PAN = ias_PAN\<rparr>"

text \<open>\<open>aesKey.Init(key.random(), iv.random())\<close> of \<open>CIEData::CIEData\<close>.\<close>

definition session_cipher :: "'w ias_env \<Rightarrow> 'w \<Rightarrow> (exn + cipher_object) \<times> 'w" where
  "session_cipher ie w =
     (case ias_random ie 32 w of
        (None, w) \<Rightarrow> (Inl (Logged_Error ''RAND_bytes failed''), w)
      | (Some key, w) \<Rightarrow>
          (case ias_random ie 16 w of
             (None, w) \<Rightarrow> (Inl (Logged_Error ''RAND_bytes failed''), w)
           | (Some iv, w) \<Rightarrow> (Inr (CAES_Init key iv), w)))"

definition program_env :: "'w ias_env \<Rightarrow> 'w transport_functions \<Rightarrow> 'w ias_env" where
  "program_env ie tr = ie\<lparr>ias_callback := TokenTransmitCallback tr\<rparr>"

definition cie_program :: "'w ias_env \<Rightarrow> 'w transport_functions \<Rightarrow> 'x x509_api
    \<Rightarrow> (ias, cipher_object, 'w) cie_env" where
  "cie_program ie tr xa =
     \<lparr>ias_fns = cie_ias_functions (program_env ie tr), cie_transport = tr, aes_Init = session_cipher ie,
      aes_Encode = CAES_Encode (ias_evp ie) (ias_uninit ie), aes_Decode = CAES_Decode (ias_evp ie),
      GetCertInfo = read_cert_info xa\<rparr>"

subsection \<open>A login that fails\<close>

text \<open>Nobody is recorded as logged in, and no PIN is kept.\<close>

definition logged_out :: "('i, 'k) cie_data cslot \<Rightarrow> bool" where
  "logged_out sl \<longleftrightarrow> (case pTemplateData sl of None \<Rightarrow> True | Some d \<Rightarrow> userType d = - 1 \<and> SessionPIN d = [])"

text \<open>
  \<open>neutral\<close> operations leave that so; \<open>guarded\<close> ones leave it so when they fail, whatever they do
  when they succeed.
\<close>

definition neutral :: "('i, 'k, 'w, 'a) cie_op \<Rightarrow> bool" where
  "neutral f \<longleftrightarrow> (\<forall>sl w. logged_out sl \<longrightarrow> logged_out (fst (snd (f (sl, w)))))"

definition guarded :: "('i, 'k, 'w, 'a) cie_op \<Rightarrow> bool" where
  "guarded f \<longleftrightarrow> (\<forall>sl w e sl' w'. logged_out sl \<longrightarrow> f (sl, w) = (Inl e, sl', w') \<longrightarrow> logged_out sl')"

named_theorems guarded_intros "rules for operations that record nothing when they fail"

lemma neutral_cie_ias [guarded_intros]: "neutral (cie_ias f)"
  by (auto simp: neutral_def cie_ias_def logged_out_def split: option.splits prod.splits)

lemma neutral_cie_get [guarded_intros]: "neutral (cie_get g)"
  by (auto simp: neutral_def cie_get_def split: option.splits)

lemma neutral_return [guarded_intros]: "neutral (return x)" "neutral (throw e)"
  by (simp_all add: neutral_def return_def throw_def)

lemma logged_out_bind:
  assumes "logged_out (fst (snd m))" and "\<And>x sl w. logged_out sl \<Longrightarrow> logged_out (fst (snd (k x (sl, w))))"
  shows "logged_out (fst (snd (bindS m k)))"
  using assms by (cases m; cases "fst m") auto

lemma neutral_get_then [guarded_intros]: "neutral f \<Longrightarrow> (\<And>x. neutral (g x)) \<Longrightarrow> neutral (get_then f g)"
  unfolding neutral_def get_then_def by (intro allI impI logged_out_bind) simp_all

lemma neutral_seq [guarded_intros]: "neutral f \<Longrightarrow> neutral g \<Longrightarrow> neutral (seq f g)"
  unfolding neutral_def seq_def by (intro allI impI logged_out_bind) simp_all

lemma neutral_if [guarded_intros]: "neutral f \<Longrightarrow> neutral g \<Longrightarrow> neutral (if b then f else g)"
  by simp

lemma connect_loop_data: "pTemplateData (fst (snd (connect_loop tr retry st))) = pTemplateData (fst st)"
proof (induction tr retry st rule: connect_loop.induct)
  case (1 tr retry sl w)
  then show ?case
    by (subst connect_loop.simps) (auto simp: slot_context_def bindS_def split: prod.splits sum.splits if_splits)
qed

lemma Connect_data: "pTemplateData (fst (snd (Connect tr (sl, w)))) = pTemplateData sl"
  by (auto simp: Connect_def slot_context_def bindS_def connect_loop_data split: prod.splits sum.splits)

lemma neutral_Connect [guarded_intros]: "neutral (Connect tr)"
  by (simp add: neutral_def logged_out_def Connect_data)

lemma guarded_neutral: "neutral f \<Longrightarrow> guarded f"
  unfolding neutral_def guarded_def by (metis fst_conv snd_conv)

lemma guarded_seq [guarded_intros]: "neutral f \<Longrightarrow> guarded g \<Longrightarrow> guarded (seq f g)"
  unfolding guarded_def seq_def neutral_def by (auto simp: bindS_eq_Inl) (metis fst_conv snd_conv)+

lemma guarded_get_then [guarded_intros]: "neutral f \<Longrightarrow> (\<And>x. guarded (g x)) \<Longrightarrow> guarded (get_then f g)"
  unfolding guarded_def get_then_def neutral_def by (auto simp: bindS_eq_Inl) (metis fst_conv snd_conv)+

lemma guarded_if [guarded_intros]: "guarded f \<Longrightarrow> guarded g \<Longrightarrow> guarded (if b then f else g)"
  by simp

lemma guarded_sum: "(\<And>e. guarded (f e)) \<Longrightarrow> (\<And>x. guarded (g x)) \<Longrightarrow> guarded (case r of Inl e \<Rightarrow> f e | Inr x \<Rightarrow> g x)"
  by (cases r) auto

lemma guarded_upd: "guarded (cie_upd g)"
  by (auto simp: guarded_def cie_upd_def split: option.splits)

lemma guarded_with_card [guarded_intros]: "guarded f \<Longrightarrow> guarded (with_card ce f)"
  unfolding guarded_def with_card_def with_connection_def with_locker_def Let_def
  by (auto split: prod.splits) blast

text \<open>\<open>CIEtemplateLogin\<close> clears what was recorded; the rest records nothing unless it succeeds.\<close>

lemma login_split:
  "\<exists>rest. CIEtemplateLogin ce ut pin = seq (cie_upd (\<lambda>d. d\<lparr>SessionPIN := [], userType := - 1\<rparr>)) rest \<and> guarded rest"
  unfolding CIEtemplateLogin_def Let_def compose_pin_def
  by (rule exI, rule conjI, rule refl)
     (intro guarded_intros guarded_sum guarded_upd guarded_neutral [OF neutral_return(2)])

lemma login_failed:
  assumes "CIEtemplateLogin ce ut pin (sl, w) = (Inl e, sl', w')"
  shows "logged_out sl'"
proof -
  obtain rest where r: "CIEtemplateLogin ce ut pin = seq (cie_upd (\<lambda>d. d\<lparr>SessionPIN := [], userType := - 1\<rparr>)) rest"
    "guarded rest" using login_split by blast
  show ?thesis
  proof (cases "pTemplateData sl")
    case None
    then show ?thesis using assms unfolding r(1) by (auto simp: seq_def cie_upd_def logged_out_def)
  next
    case (Some d)
    let ?sl = "sl\<lparr>pTemplateData := Some (d\<lparr>SessionPIN := [], userType := - 1\<rparr>)\<rparr>"
    have "rest (?sl, w) = (Inl e, sl', w')"
      using assms Some unfolding r(1) by (simp add: seq_def cie_upd_def)
    moreover have "logged_out ?sl" by (simp add: logged_out_def)
    ultimately show ?thesis using r(2) unfolding guarded_def by blast
  qed
qed

subsection \<open>A login that succeeds\<close>

lemma seq_InrE:
  assumes "seq f g st = (Inr y, t)"
  obtains x sl w where "f st = (Inr x, sl, w)" "g (sl, w) = (Inr y, t)"
  using assms unfolding seq_def by (rule bindS_InrE) (metis prod.collapse)

lemma get_then_InrE:
  assumes "get_then f g st = (Inr y, t)"
  obtains x sl w where "f st = (Inr x, sl, w)" "g x (sl, w) = (Inr y, t)"
  using assms unfolding get_then_def by (rule bindS_InrE) (metis prod.collapse)

lemma with_card_InrE:
  assumes "with_card ce f (sl, w) = (Inr y, sl', w')"
  obtains v v' where "f (sl, v) = (Inr y, sl', v')"
  using assms by (auto simp: with_card_def with_connection_def with_locker_def Let_def split: prod.splits)

lemma cie_ias_InrE:
  assumes "cie_ias f (sl, w) = (Inr x, sl', w')"
  obtains d i where "pTemplateData sl = Some d" "f (hCard sl) (ias_obj d, w) = (Inr x, i, w')"
    "sl' = sl\<lparr>pTemplateData := Some (d\<lparr>ias_obj := i\<rparr>)\<rparr>"
  using assms by (auto simp: cie_ias_def split: option.splits prod.splits)

lemma login_status_user: "login_status CKU_USER sw = Inr x \<Longrightarrow> sw = 0x9000"
  by (auto simp: login_status_def split: if_splits)

text \<open>The end of a login, from the key exchange on.\<close>

definition login_tail :: "('i, 'k, 'w) cie_env \<Rightarrow> bytes \<Rightarrow> ('i, 'k, 'w, unit) cie_op" where
  "login_tail ce pin =
     seq (cie_ias (DHKeyExchange (ias_fns ce)))
    (seq (cie_ias (DAPP (ias_fns ce)))
    (get_then (get_then (compose_pin ce pin) (\<lambda>full. cie_ias (VerifyPIN (ias_fns ce) full))) (\<lambda>sw.
       case login_status CKU_USER sw of
         Inl e \<Rightarrow> throw e
       | Inr _ \<Rightarrow>
           get_then (cie_get aesKey) (\<lambda>k.
             case aes_Encode ce k pin of
               Inl e \<Rightarrow> throw e
             | Inr c \<Rightarrow> cie_upd (\<lambda>d. d\<lparr>SessionPIN := c, userType := CKU_USER\<rparr>)))))"

lemma login_reaches_tail:
  assumes "CIEtemplateLogin ce CKU_USER pin st = (Inr (), sl', w')"
  obtains sl w v' where "login_tail ce pin (sl, w) = (Inr (), sl', v')" "IsValidPinLength (length pin)"
proof -
  have len: "IsValidPinLength (length pin)"
    using assms by (auto simp: CIEtemplateLogin_def Let_def throw_def elim!: seq_InrE split: if_splits)
  show thesis
    using assms len that unfolding CIEtemplateLogin_def Let_def
    by (simp add: login_tail_def [symmetric]) (elim seq_InrE with_card_InrE; blast)
qed

lemma login_tail_Inr:
  assumes "login_tail ce pin (sl, w) = (Inr (), sl', w')"
  shows "\<exists>d hc i0 w0 i1 w1 i2 w2 full i3 w3 i4 w4.
     DHKeyExchange (ias_fns ce) hc (i0, w0) = (Inr (), i1, w1) \<and> DAPP (ias_fns ce) hc (i1, w1) = (Inr (), i2, w2)
   \<and> ComposeFullPIN (ias_fns ce) pin hc (i2, w2) = (Inr full, i3, w3)
   \<and> VerifyPIN (ias_fns ce) full hc (i3, w3) = (Inr 0x9000, i4, w4)
   \<and> pTemplateData sl' = Some d \<and> userType d = CKU_USER \<and> ias_obj d = i4 \<and> aes_Encode ce (aesKey d) pin = Inr (SessionPIN d)"
  using assms unfolding login_tail_def compose_pin_def
  apply (elim seq_InrE get_then_InrE cie_ias_InrE)
  apply (auto split: sum.splits simp: throw_def cie_get_def cie_upd_def dest!: login_status_user elim!: get_then_InrE)
  subgoal for w1 w2 full w3 d i1 i2 i3 i4 c
    by (rule exI [of _ "d\<lparr>ias_obj := i4, SessionPIN := c, userType := CKU_USER\<rparr>"])
       (intro exI conjI; (assumption | (simp, assumption) | simp))
  done

lemma GetFirstPIN_object: "IAS_GetFirstPIN ie hc (i, w) = (r, i', w') \<Longrightarrow> i' = i"
  by (auto simp: IAS_GetFirstPIN_def bindS_def split: prod.splits sum.splits)

lemma ComposeFullPIN_object:
  "ComposeFullPIN (cie_ias_functions ie) pin hc (i, w) = (Inr full, i', w') \<Longrightarrow> i' = i"
  by (auto simp: ComposeFullPIN_def cie_ias_functions_def bindS_eq_Inr dest: GetFirstPIN_object split: if_splits)

text \<open>
  The exchange with the card that ends in \<open>i4\<close>: keys agreed, terminal and card authenticated,
  full PIN composed and verified on the protected channel.
\<close>

definition pin_verified :: "'w ias_env \<Rightarrow> bytes \<Rightarrow> ias \<Rightarrow> bool" where
  "pin_verified pe pin i4 \<longleftrightarrow>
     (\<exists>hc i0 w0 i1 w1 i2 w2 full w3 w4.
        IAS_DHKeyExchange pe hc (i0, w0) = (Inr (), i1, w1) \<and> IAS_DAPP pe hc (i1, w1) = (Inr (), i2, w2)
      \<and> length (sessENC i2) = 16 \<and> length (sessMAC i2) = 16 \<and> length (sessSSC i2) = 8 \<and> ActiveSM i2
      \<and> ComposeFullPIN (cie_ias_functions pe) pin hc (i2, w2) = (Inr full, i2, w3)
      \<and> IAS_VerifyPIN pe full hc (i2, w3) = (Inr 0x9000, i4, w4))"

subsection \<open>Properties\<close>

text \<open>
  C11: what a login leaves behind.  Whatever the card, the reader and the cache do, a user login
  through the template that fails leaves nobody recorded as logged in and no PIN in memory.  One
  that succeeds has, in this order and over the same card handle, agreed on session keys,
  completed the mutual authentication of terminal and card, and had the full PIN (the given one,
  or its second half behind the cached first) verified with status 9000 on a channel with keys of
  sixteen octets, an eight-octet counter and active secure messaging; the PIN had an
  admissible length, and what is kept of it is its encryption under the session cipher.
\<close>

theorem login_outcome:
  "case CIEtemplateLogin (cie_program ie tr xa) CKU_USER pin (sl, w) of (r, sl', w') \<Rightarrow>
     (case r of
        Inl e \<Rightarrow> logged_out sl'
      | Inr _ \<Rightarrow> IsValidPinLength (length pin) \<and>
          (\<exists>d. pTemplateData sl' = Some d \<and> userType d = CKU_USER \<and> pin_verified (program_env ie tr) pin (ias_obj d)
             \<and> CAES_Encode (ias_evp ie) (ias_uninit ie) (aesKey d) pin = Inr (SessionPIN d)))"
proof -
  obtain r sl' w' where run: "CIEtemplateLogin (cie_program ie tr xa) CKU_USER pin (sl, w) = (r, sl', w')"
    by (metis prod_cases3)
  show ?thesis
  proof (cases r)
    case (Inl e)
    then show ?thesis using run login_failed by fastforce
  next
    case (Inr x)
    let ?pe = "program_env ie tr"
    obtain sl1 v v' where t: "login_tail (cie_program ie tr xa) pin (sl1, v) = (Inr (), sl', v')" "IsValidPinLength (length pin)"
    proof -
      have "CIEtemplateLogin (cie_program ie tr xa) CKU_USER pin (sl, w) = (Inr (), sl', w')" using run Inr by simp
      then show thesis using that by (rule login_reaches_tail)
    qed
    have f: "ias_fns (cie_program ie tr xa) = cie_ias_functions ?pe"
      "aes_Encode (cie_program ie tr xa) = CAES_Encode (ias_evp ie) (ias_uninit ie)" by (simp_all add: cie_program_def)
    obtain d hc i0 w0 i1 w1 i2 w2 full i3 w3 i4 w4 where
      dh: "IAS_DHKeyExchange ?pe hc (i0, w0) = (Inr (), i1, w1)" and dapp: "IAS_DAPP ?pe hc (i1, w1) = (Inr (), i2, w2)"
      and c: "ComposeFullPIN (cie_ias_functions ?pe) pin hc (i2, w2) = (Inr full, i3, w3)"
      and rest: "IAS_VerifyPIN ?pe full hc (i3, w3) = (Inr 0x9000, i4, w4)"
        "pTemplateData sl' = Some d" "userType d = CKU_USER" "ias_obj d = i4"
        "CAES_Encode (ias_evp ie) (ias_uninit ie) (aesKey d) pin = Inr (SessionPIN d)"
      using login_tail_Inr [OF t(1)] unfolding f by (auto simp: cie_ias_functions_def)
    have "i3 = i2" by (rule ComposeFullPIN_object [OF c])
    moreover have "length (sessENC i1) = 16" "length (sessMAC i1) = 16"
      using dh by (auto elim!: DHKeyExchange_values dest!: session_key_length)
    ultimately have "pin_verified ?pe pin i4"
      using dh dapp c rest(1) DAPP_Inr [OF dapp] unfolding pin_verified_def by metis
    then show ?thesis using run Inr t(2) rest(2-5) by simp
  qed
qed

end
