(* ===== verification/Card_Errors.thy ===== *)
theory Card_Errors
  imports Prelude
begin

section \<open>Error record and retries of the card programs (shared/src/csp/cie\_error.cpp, util/retry.h)\<close>

text \<open>
  The classification of status words, the calling thread's last-error record, and
  \<open>RetryOnCardLinkError\<close>.  The pause between two attempts is not modelled.
\<close>

datatype cie_error_kind =
    CIE_ERR_NONE | CIE_ERR_WRONG_PIN | CIE_ERR_PIN_BLOCKED | CIE_ERR_PIN_NOT_SET | CIE_ERR_SECURITY_NOT_SATISFIED
  | CIE_ERR_FILE_NOT_FOUND | CIE_ERR_WRONG_PARAMS | CIE_ERR_INS_NOT_SUPPORTED | CIE_ERR_CARD_COMMUNICATION
  | CIE_ERR_UNKNOWN | CIE_ERR_UNSUPPORTED_CARD | CIE_ERR_WRONG_CAN | CIE_ERR_CARD_RESET_REQUIRED

record CieErrorRecord =
  err_kind :: cie_error_kind
  err_sw :: "16 word"

definition cie_classify_sw :: "16 word \<Rightarrow> cie_error_kind" where
  "cie_classify_sw sw =
     (if 0x63C0 \<le> sw \<and> sw \<le> 0x63CF then CIE_ERR_WRONG_PIN
      else if sw = 0x9000 then CIE_ERR_NONE
      else if sw = 0x6300 \<or> sw = 0x6700 then CIE_ERR_WRONG_PIN
      else if sw = 0x6983 then CIE_ERR_PIN_BLOCKED
      else if sw = 0x6984 then CIE_ERR_PIN_NOT_SET
      else if sw = 0x6982 then CIE_ERR_SECURITY_NOT_SATISFIED
      else if sw = 0x6A82 then CIE_ERR_FILE_NOT_FOUND
      else if sw = 0x6A80 \<or> sw = 0x6A86 \<or> sw = 0x6A88 \<or> sw = 0x6B00 then CIE_ERR_WRONG_PARAMS
      else if sw = 0x6D00 \<or> sw = 0x6E00 then CIE_ERR_INS_NOT_SUPPORTED
      else CIE_ERR_UNKNOWN)"

definition cie_last_error :: "CieErrorRecord \<Rightarrow> ck_rv \<times> cie_error_kind \<times> 16 word" where
  "cie_last_error g_lastError = (CKR_OK, err_kind g_lastError, err_sw g_lastError)"

definition cie_record_sw_error :: "16 word \<Rightarrow> CieErrorRecord" where
  "cie_record_sw_error sw = \<lparr>err_kind = cie_classify_sw sw, err_sw = sw\<rparr>"

definition cie_record_transport_error :: CieErrorRecord where
  "cie_record_transport_error = \<lparr>err_kind = CIE_ERR_CARD_COMMUNICATION, err_sw = 0\<rparr>"

definition cie_record_unsupported_card :: CieErrorRecord where
  "cie_record_unsupported_card = \<lparr>err_kind = CIE_ERR_UNSUPPORTED_CARD, err_sw = 0\<rparr>"

definition cie_record_wrong_can :: CieErrorRecord where
  "cie_record_wrong_can = \<lparr>err_kind = CIE_ERR_WRONG_CAN, err_sw = 0\<rparr>"

definition cie_record_card_reset_required :: "16 word \<Rightarrow> CieErrorRecord" where
  "cie_record_card_reset_required sw = \<lparr>err_kind = CIE_ERR_CARD_RESET_REQUIRED, err_sw = sw\<rparr>"

definition cie_clear_error :: CieErrorRecord where
  "cie_clear_error = \<lparr>err_kind = CIE_ERR_NONE, err_sw = 0\<rparr>"

subsection \<open>Retries\<close>

text \<open>\<open>retry_loop n attempt\<close>: \<open>n\<close> attempts are left, the next is number \<open>attempt\<close>.\<close>

fun retry_loop :: "nat \<Rightarrow> nat \<Rightarrow> (nat \<Rightarrow> 's \<Rightarrow> (exn + 'a) \<times> 's) \<Rightarrow> 's \<Rightarrow> (exn + 'a) \<times> 's" where
  "retry_loop 0 attempt fn s = (Inl (Logged_Error ''RetryOnCardLinkError loop exited unexpectedly''), s)"
| "retry_loop (Suc n) attempt fn s =
     (case fn attempt s of
        (Inl (Card_Link_Error retryable), s) \<Rightarrow>
          if \<not> retryable \<or> n = 0 then (Inl (Card_Link_Error retryable), s) else retry_loop n (attempt + 1) fn s
      | r \<Rightarrow> r)"

definition RetryOnCardLinkError :: "nat \<Rightarrow> (nat \<Rightarrow> 's \<Rightarrow> (exn + 'a) \<times> 's) \<Rightarrow> 's \<Rightarrow> (exn + 'a) \<times> 's" where
  "RetryOnCardLinkError maxAttempts fn s = retry_loop maxAttempts 1 fn s"

subsection \<open>Lemmas\<close>

text \<open>
  The states a retried function runs in: each attempt but the last ended in a link error that may be
  retried and starts where the one before it left off; the last one gives the result.
\<close>

inductive attempts :: "(nat \<Rightarrow> 's \<Rightarrow> (exn + 'a) \<times> 's) \<Rightarrow> nat \<Rightarrow> 's \<Rightarrow> 's list \<Rightarrow> (exn + 'a) \<times> 's \<Rightarrow> bool" where
  last_attempt: "fn k s = res \<Longrightarrow> attempts fn k s [s] res"
| failed_attempt: "fn k s = (Inl (Card_Link_Error True), s1) \<Longrightarrow> attempts fn (Suc k) s1 ss res \<Longrightarrow> attempts fn k s (s # ss) res"

lemma retry_loop_attempts:
  "0 < n \<Longrightarrow> \<exists>ss. length ss \<le> n \<and> attempts fn k s ss (retry_loop n k fn s)"
proof (induction n arbitrary: k s)
  case (Suc n)
  show ?case
  proof (cases "\<exists>s1. fn k s = (Inl (Card_Link_Error True), s1) \<and> n \<noteq> 0")
    case True
    then obtain s1 where s1: "fn k s = (Inl (Card_Link_Error True), s1)" "0 < n" by auto
    then obtain ss where "length ss \<le> n" "attempts fn (Suc k) s1 ss (retry_loop n (Suc k) fn s1)" using Suc.IH by blast
    then show ?thesis using s1 by (intro exI [of _ "s # ss"]) (simp add: failed_attempt)
  next
    case False
    then have "retry_loop (Suc n) k fn s = fn k s" by (auto split: prod.splits sum.splits exn.splits)
    then show ?thesis by (intro exI [of _ "[s]"]) (simp add: last_attempt)
  qed
qed simp

lemma attempts_last: "attempts fn k s ss res \<Longrightarrow> \<exists>j s'. fn j s' = res"
  by (induction rule: attempts.induct) blast+

lemma retry_last:
  assumes "0 < n"
  shows "\<exists>j s'. fn j s' = RetryOnCardLinkError n fn s"
proof -
  obtain ss where "attempts fn 1 s ss (retry_loop n 1 fn s)" using retry_loop_attempts [OF assms, of fn 1 s] by auto
  then show ?thesis unfolding RetryOnCardLinkError_def by (rule attempts_last)
qed

text \<open>No status word is classified as a communication error, so that branch of the card programs is dead.\<close>

lemma classify_not_communication: "cie_classify_sw sw \<noteq> CIE_ERR_CARD_COMMUNICATION"
  by (simp add: cie_classify_sw_def)

end
