(* ===== verification/Pin_Manager.thy ===== *)
theory Pin_Manager
  imports Cie_Program Card_Errors
begin

section \<open>Changing and unblocking the PIN (pkcs11/src/csp/pin\_manager.cpp)\<close>

text \<open>
  \<open>cie_change_pin\<close> and \<open>cie_unblock_pin\<close>: both look for a card in the readers, authenticate to
  it, verify the secret they were given, send the new PIN and renew the cache of a paired card.
  They share everything but the two commands, which are parameters of the shared part.  A C string
  is the list of its octets, a null pointer \<open>None\<close>; \<open>*pAttempts\<close> is part of the result (\<open>None\<close>:
  not written).  The progress callback is not modelled.  \<open>hSC\<close> and the connections are released
  by the guards of the code on every path.
\<close>

datatype pin_step = Next_Reader bool | Return ck_rv "int option" | Changed

text \<open>The exceptions that a handler for \<open>logged_error\<close> catches.\<close>

fun is_logged_error :: "exn \<Rightarrow> bool" where
  "is_logged_error (Std_Error _) = False"
| "is_logged_error UB = False"
| "is_logged_error Hang = False"
| "is_logged_error _ = True"

text \<open>What both programs do with a card that answers to the selection of the application.\<close>

definition open_card :: "'w ias_env \<Rightarrow> ('w, unit) ias_fn" where
  "open_card ie hc st =
     bindS (IAS_ReadPAN ie hc st) (\<lambda>_ st.
     bindS (IAS_SelectAID_CIE ie False hc st) (\<lambda>_ st.
     bindS (IAS_InitEncKey ie hc st) (\<lambda>_ st.
     bindS (IAS_ReadDappPubKey ie [] hc st) (\<lambda>_ st.
     bindS (IAS_InitDHParam ie hc st) (\<lambda>_ st.
     bindS (IAS_InitExtAuthKeyParam ie hc st) (\<lambda>_ st.
     bindS (IAS_DHKeyExchange ie hc st) (\<lambda>_ st. IAS_DAPP ie hc st)))))))"

text \<open>The status words of VERIFY that end the program: the code and the attempts left.\<close>

definition pin_status :: "16 word \<Rightarrow> (ck_rv \<times> int option) option" where
  "pin_status sw =
     (if sw = 0x6983 then Some (CKR_PIN_LOCKED, None)
      else if 0x63C0 \<le> sw \<and> sw \<le> 0x63CF then Some (CKR_PIN_INCORRECT, Some (uint sw - 0x63C0))
      else if sw = 0x6700 then Some (CKR_PIN_INCORRECT, None)
      else if sw = 0x6300 then Some (CKR_PIN_INCORRECT, None)
      else None)"

text \<open>The new PIN, and the cache of a card that was paired: its first four digits and the certificate.\<close>

definition renew_pin :: "'w ias_env \<Rightarrow> ('w, 16 word) ias_fn \<Rightarrow> bytes \<Rightarrow> ('w, pin_step) ias_fn" where
  "renew_pin ie change newPIN hc st =
     bindS (IsEnrolled ie hc st) (\<lambda>isEnrolled st.
     bindS (if isEnrolled then IAS_GetCertificate ie hc st else (Inr [], st)) (\<lambda>cert st.
     bindS (change hc st) (\<lambda>sw st.
     if sw \<noteq> 0x9000 then (Inl (Scard_Error sw), st)
     else bindS
       (if isEnrolled then
          bindS (PANStr (fst st), st) (\<lambda>strPAN st.
          bindS (ba_left newPIN 4, st) (\<lambda>leftPIN st. SetCache ie (Some strPAN) cert leftPIN hc st))
        else (Inr (), st)) (\<lambda>_ st. (Inr Changed, st)))))"

definition pin_commands :: "'w ias_env \<Rightarrow> ('w, 16 word) ias_fn \<Rightarrow> ('w, 16 word) ias_fn \<Rightarrow> bytes \<Rightarrow> ('w, pin_step) ias_fn" where
  "pin_commands ie verify change newPIN hc st =
     bindS (open_card ie hc st) (\<lambda>_ st.
     bindS (verify hc st) (\<lambda>sw st.
     case pin_status sw of
       Some (rv, left) \<Rightarrow> (Inr (Return rv left), st)
     | None \<Rightarrow>
         if sw \<noteq> 0x9000 then (Inl (Scard_Error sw), st) else renew_pin ie change newPIN hc st))"

text \<open>One reader: its ATR, and the selection of the IAS application, whose failure is a step to the next.\<close>

definition pin_card :: "'w ias_env \<Rightarrow> 'w transport_functions \<Rightarrow> ('w, pin_step) ias_fn \<Rightarrow> ulong \<Rightarrow> 'w \<Rightarrow> (exn + pin_step) \<times> 'w" where
  "pin_card ie tr action hc w =
     (case GetAttrib tr hc w of (nRet, _, w) \<Rightarrow>
      if nRet \<noteq> SCARD_S_SUCCESS then (Inr (Return CKR_DEVICE_ERROR None), w)
      else case GetAttrib tr hc w of (nRet, atr, w) \<Rightarrow>
      if nRet \<noteq> SCARD_S_SUCCESS then (Inr (Return CKR_DEVICE_ERROR None), w)
      else case IAS_token_Reset ie hc (new_IAS_object atr, w) of
        (Inl e, st) \<Rightarrow> (Inl e, snd st)
      | (Inr _, st) \<Rightarrow>
          (case IAS_SelectAID_IAS ie False hc st of
             (Inl e, st) \<Rightarrow>
               if e = Cie_Unsupported_Card_Error then (Inr (Next_Reader True), snd st)
               else if is_logged_error e then (Inr (Next_Reader False), snd st)
               else (Inl e, snd st)
           | (Inr _, st) \<Rightarrow> (case action hc st of (r, st) \<Rightarrow> (r, snd st))))"

definition pin_reader :: "'w ias_env \<Rightarrow> 'w transport_functions \<Rightarrow> ('w, pin_step) ias_fn \<Rightarrow> ulong \<Rightarrow> string \<Rightarrow> 'w
    \<Rightarrow> (exn + pin_step) \<times> 'w" where
  "pin_reader ie tr action hSC reader w =
     (case TransportConnect tr hSC reader w of (ris, hc, w) \<Rightarrow>
      if ris \<noteq> SCARD_S_SUCCESS \<or> hc = 0 then (Inr (Next_Reader False), w)
      else case pin_card ie tr action hc w of (r, w) \<Rightarrow> (r, snd (Disconnect tr hc w)))"

text \<open>The multi-string of the readers ends at an empty name.\<close>

fun pin_readers :: "(string \<Rightarrow> 'w \<Rightarrow> (exn + pin_step) \<times> 'w) \<Rightarrow> string list \<Rightarrow> bool \<Rightarrow> 'w \<Rightarrow> (exn + pin_step) \<times> 'w" where
  "pin_readers f [] sawUnsupported w = (Inr (Next_Reader sawUnsupported), w)"
| "pin_readers f (r # rs) sawUnsupported w =
     (if r = [] then (Inr (Next_Reader sawUnsupported), w)
      else case f r w of
        (Inr (Next_Reader u), w) \<Rightarrow> pin_readers f rs (sawUnsupported \<or> u) w
      | res \<Rightarrow> res)"

definition pin_scan :: "'w ias_env \<Rightarrow> 'w transport_functions \<Rightarrow> ('w, pin_step) ias_fn \<Rightarrow> 'w \<Rightarrow> (exn + pin_step) \<times> 'w" where
  "pin_scan ie tr action w =
     (case EstablishContext tr w of (nRet, hSC, w) \<Rightarrow>
      if nRet \<noteq> SCARD_S_SUCCESS then (Inr (Return CKR_DEVICE_ERROR None), w)
      else case
        (case ListReaders tr hSC w of (nRet, names, w) \<Rightarrow>
         if nRet \<noteq> SCARD_S_SUCCESS then (Inr (Return CKR_TOKEN_NOT_PRESENT None), w)
         else if names = [] then (Inr (Return CKR_TOKEN_NOT_PRESENT None), w)
         else case ListReaders tr hSC w of (nRet, readers, w) \<Rightarrow>
         if nRet \<noteq> SCARD_S_SUCCESS then (Inr (Return CKR_TOKEN_NOT_PRESENT None), w)
         else pin_readers (pin_reader ie tr action hSC) readers False w)
      of (r, w) \<Rightarrow> (r, if hSC \<noteq> 0 then snd (ReleaseContext tr hSC w) else w))"

text \<open>The code for the status word of a command that failed.\<close>

definition sw_code :: "16 word \<Rightarrow> ck_rv" where
  "sw_code sw =
     (let kind = cie_classify_sw sw in
      if kind = CIE_ERR_PIN_BLOCKED then CKR_PIN_LOCKED
      else if kind = CIE_ERR_WRONG_PIN then CKR_PIN_INCORRECT
      else if kind = CIE_ERR_CARD_COMMUNICATION then CKR_DEVICE_ERROR
      else CKR_GENERAL_ERROR)"

text \<open>The end of both programs: the handlers and what follows the \<open>try\<close> block.\<close>

definition pin_result :: "exn + pin_step \<Rightarrow> CieErrorRecord \<Rightarrow> (exn + ck_rv \<times> int option) \<times> CieErrorRecord" where
  "pin_result r er =
     (case r of
        Inr Changed \<Rightarrow> (Inr (CKR_OK, None), cie_clear_error)
      | Inr (Return rv left) \<Rightarrow> (Inr (rv, left), er)
      | Inr (Next_Reader saw) \<Rightarrow>
          (Inr (CKR_TOKEN_NOT_RECOGNIZED, None), if saw then cie_record_unsupported_card else er)
      | Inl Cie_Unsupported_Card_Error \<Rightarrow> (Inr (CKR_TOKEN_NOT_RECOGNIZED, None), cie_record_unsupported_card)
      | Inl (Scard_Error sw) \<Rightarrow> (Inr (sw_code sw, None), cie_record_sw_error sw)
      | Inl UB \<Rightarrow> (Inl UB, er)
      | Inl Hang \<Rightarrow> (Inl Hang, er)
      | Inl _ \<Rightarrow> (Inr (CKR_GENERAL_ERROR, None), cie_record_transport_error))"

definition eight_octets :: "bytes option \<Rightarrow> bool" where
  "eight_octets s \<longleftrightarrow> (case s of None \<Rightarrow> False | Some p \<Rightarrow> min 9 (length p) = 8)"

definition pin_program :: "'w ias_env \<Rightarrow> 'w transport_functions \<Rightarrow> (bytes \<Rightarrow> bytes \<Rightarrow> ('w, pin_step) ias_fn) \<Rightarrow> bytes option \<Rightarrow> bytes option
    \<Rightarrow> CieErrorRecord \<Rightarrow> 'w \<Rightarrow> (exn + ck_rv \<times> int option) \<times> CieErrorRecord \<times> 'w" where
  "pin_program ie tr action given newPIN er w =
     (if \<not> eight_octets given then (Inr (CKR_PIN_LEN_RANGE, None), er, w)
      else if \<not> eight_octets newPIN then (Inr (CKR_PIN_LEN_RANGE, None), er, w)
      else case pin_scan ie tr (action (the given) (the newPIN)) w of (r, w) \<Rightarrow>
        (case pin_result r er of (rv, er) \<Rightarrow> (rv, er, w)))"

definition cie_change_pin :: "'w ias_env \<Rightarrow> 'w transport_functions \<Rightarrow> bytes option \<Rightarrow> bytes option
    \<Rightarrow> CieErrorRecord \<Rightarrow> 'w \<Rightarrow> (exn + ck_rv \<times> int option) \<times> CieErrorRecord \<times> 'w" where
  "cie_change_pin ie tr szCurrentPIN szNewPIN er w =
     (let pe = program_env ie tr in
      pin_program pe tr (\<lambda>old new. pin_commands pe (IAS_VerifyPIN pe old) (IAS_ChangePIN_old_new pe old new) new)
        szCurrentPIN szNewPIN er w)"

definition cie_unblock_pin :: "'w ias_env \<Rightarrow> 'w transport_functions \<Rightarrow> bytes option \<Rightarrow> bytes option
    \<Rightarrow> CieErrorRecord \<Rightarrow> 'w \<Rightarrow> (exn + ck_rv \<times> int option) \<times> CieErrorRecord \<times> 'w" where
  "cie_unblock_pin ie tr szPUK szNewPIN er w =
     (let pe = program_env ie tr in
      pin_program pe tr (\<lambda>puk new. pin_commands pe (IAS_VerifyPUK pe puk) (IAS_ChangePIN_new pe new) new)
        szPUK szNewPIN er w)"

subsection \<open>Where a result comes from\<close>

text \<open>A result of the scan is one of the codes for missing readers and cards, or the action's on some card.\<close>

definition came_from :: "('w, pin_step) ias_fn \<Rightarrow> exn + pin_step \<Rightarrow> bool" where
  "came_from action r \<longleftrightarrow>
     (case r of
        Inr Changed \<Rightarrow> \<exists>hc st st'. action hc st = (Inr Changed, st')
      | Inr (Return rv left) \<Rightarrow>
          (rv = CKR_DEVICE_ERROR \<or> rv = CKR_TOKEN_NOT_PRESENT) \<and> left = None
          \<or> (\<exists>hc st st'. action hc st = (Inr (Return rv left), st'))
      | _ \<Rightarrow> True)"

lemma came_from_simps [simp]:
  "came_from action (Inl e)" "came_from action (Inr (Next_Reader u))"
  "came_from action (Inr (Return CKR_DEVICE_ERROR None))" "came_from action (Inr (Return CKR_TOKEN_NOT_PRESENT None))"
  by (simp_all add: came_from_def)

lemma came_from_action: "action hc st = (r, st') \<Longrightarrow> came_from action r"
  by (cases st; cases st'; auto simp: came_from_def split: sum.splits pin_step.splits; blast)

lemma came_from_card: "pin_card ie tr action hc w = (r, w') \<Longrightarrow> came_from action r"
  by (auto simp: pin_card_def dest: came_from_action split: prod.splits sum.splits if_splits)

lemma came_from_reader: "came_from action (fst (pin_reader ie tr action hSC reader w))"
  using came_from_card [of ie tr action] by (auto simp: pin_reader_def split: prod.splits)

lemma came_from_readers:
  assumes "\<And>r w. came_from action (fst (f r w))"
  shows "came_from action (fst (pin_readers f rs saw w))"
proof (induction rs arbitrary: saw w)
  case (Cons r rs)
  then show ?case
    using assms [of r w] by (auto split: prod.splits sum.splits pin_step.splits)
qed simp

lemma came_from_scan: "came_from action (fst (pin_scan ie tr action w))"
proof -
  have "came_from action r" if "pin_readers (pin_reader ie tr action hSC) rs saw v = (r, v')" for hSC rs saw v r v'
    using came_from_readers [of action "pin_reader ie tr action hSC" rs saw v] came_from_reader that by (metis fst_conv)
  then show ?thesis by (auto simp: pin_scan_def split: prod.splits if_splits)
qed

subsection \<open>Properties\<close>

text \<open>
  A PIN that was renewed: keys were agreed, terminal and card authenticated each other, the card
  accepted the secret and then the command that sets the new PIN, all on one protected channel, and
  the cache of a paired card got the first four digits of the new PIN with the certificate.
\<close>

definition pin_renewed :: "'w ias_env \<Rightarrow> ('w, 16 word) ias_fn \<Rightarrow> ('w, 16 word) ias_fn \<Rightarrow> bytes \<Rightarrow> bool" where
  "pin_renewed pe verify change newPIN \<longleftrightarrow>
     (\<exists>hc s0 s1 i2 w2 s3 enrolled s4 cert s5 s6.
        IAS_DHKeyExchange pe hc s0 = (Inr (), s1) \<and> IAS_DAPP pe hc s1 = (Inr (), i2, w2)
      \<and> length (sessENC i2) = 16 \<and> length (sessMAC i2) = 16 \<and> length (sessSSC i2) = 8 \<and> ActiveSM i2
      \<and> verify hc (i2, w2) = (Inr 0x9000, s3) \<and> IsEnrolled pe hc s3 = (Inr enrolled, s4)
      \<and> (if enrolled then IAS_GetCertificate pe hc s4 else (Inr [], s4)) = (Inr cert, s5)
      \<and> change hc s5 = (Inr 0x9000, s6)
      \<and> (if enrolled then \<exists>pan s7. PANStr (fst s6) = Inr pan \<and> SetCache pe (Some pan) cert (take 4 newPIN) hc s6 = (Inr (), s7)
         else True))"

text \<open>A secret that the card refused with \<open>k\<close> attempts left.\<close>

definition secret_refused :: "('w, 16 word) ias_fn \<Rightarrow> int \<Rightarrow> bool" where
  "secret_refused verify k \<longleftrightarrow> (\<exists>hc st sw st'. verify hc st = (Inr sw, st') \<and> uint sw = 0x63C0 + k \<and> 0 \<le> k \<and> k \<le> 15)"

lemma open_card_channel:
  assumes "open_card pe hc st = (Inr (), i2, w2)"
  shows "\<exists>s0 s1. IAS_DHKeyExchange pe hc s0 = (Inr (), s1) \<and> IAS_DAPP pe hc s1 = (Inr (), i2, w2)
    \<and> length (sessENC i2) = 16 \<and> length (sessMAC i2) = 16 \<and> length (sessSSC i2) = 8 \<and> ActiveSM i2"
proof -
  obtain i0 w0 i1 w1 where s: "IAS_DHKeyExchange pe hc (i0, w0) = (Inr (), i1, w1)" "IAS_DAPP pe hc (i1, w1) = (Inr (), i2, w2)"
    using assms unfolding open_card_def by (elim bindS_InrE) auto
  have "length (sessENC i1) = 16" "length (sessMAC i1) = 16"
    using s(1) by (auto elim!: DHKeyExchange_values dest!: session_key_length)
  then show ?thesis using s DAPP_Inr [OF s(2)] by (intro exI [of _ "(i0, w0)"] exI [of _ "(i1, w1)"]) auto
qed

lemma renew_pin_Inr:
  assumes "renew_pin pe change newPIN hc s3 = (Inr step, s)" and "4 \<le> length newPIN"
  shows "step = Changed \<and> (\<exists>enrolled s4 cert s5 s6. IsEnrolled pe hc s3 = (Inr enrolled, s4)
      \<and> (if enrolled then IAS_GetCertificate pe hc s4 else (Inr [], s4)) = (Inr cert, s5)
      \<and> change hc s5 = (Inr 0x9000, s6)
      \<and> (if enrolled then \<exists>pan s7. PANStr (fst s6) = Inr pan \<and> SetCache pe (Some pan) cert (take 4 newPIN) hc s6 = (Inr (), s7)
         else True))"
proof -
  have left: "ba_left newPIN 4 = Inr (take 4 newPIN)" using assms(2) by (rule ba_slices(1))
  obtain enrolled s4 cert s5 sw s6 where 1: "IsEnrolled pe hc s3 = (Inr enrolled, s4)"
    and 2: "(if enrolled then IAS_GetCertificate pe hc s4 else (Inr [], s4)) = (Inr cert, s5)" "change hc s5 = (Inr sw, s6)"
    and r2: "(if sw \<noteq> 0x9000 then (Inl (Scard_Error sw), s6)
       else bindS (if enrolled then bindS (PANStr (fst s6), s6) (\<lambda>strPAN st.
            bindS (ba_left newPIN 4, st) (\<lambda>leftPIN st. SetCache pe (Some strPAN) cert leftPIN hc st)) else (Inr (), s6))
          (\<lambda>_ st. (Inr Changed, st))) = (Inr step, s)"
    using assms(1) unfolding renew_pin_def by (elim bindS_InrE) blast
  have sw: "sw = 0x9000" using r2 by (auto split: if_splits)
  then obtain s7 where r3: "(if enrolled then bindS (PANStr (fst s6), s6) (\<lambda>strPAN st.
            bindS (ba_left newPIN 4, st) (\<lambda>leftPIN st. SetCache pe (Some strPAN) cert leftPIN hc st)) else (Inr (), s6)) = (Inr (), s7)"
    "step = Changed" using r2 by (auto elim!: bindS_InrE)
  have "if enrolled then \<exists>pan s7. PANStr (fst s6) = Inr pan \<and> SetCache pe (Some pan) cert (take 4 newPIN) hc s6 = (Inr (), s7) else True"
    using r3(1) unfolding left by (auto elim!: bindS_InrE)
  then show ?thesis using 1 2 r3(2) unfolding sw by blast
qed

lemma pin_commands_Inr:
  assumes "pin_commands pe verify change newPIN hc st = (Inr step, st')" and "4 \<le> length newPIN"
  shows "case step of
      Next_Reader _ \<Rightarrow> False
    | Changed \<Rightarrow> pin_renewed pe verify change newPIN
    | Return rv att \<Rightarrow> \<exists>hc s sw s'. verify hc s = (Inr sw, s') \<and> pin_status sw = Some (rv, att)"
proof -
  obtain i2 w2 sw s3 where o: "open_card pe hc st = (Inr (), i2, w2)" and v: "verify hc (i2, w2) = (Inr sw, s3)"
    and rest: "(case pin_status sw of
       Some (rv, left) \<Rightarrow> (Inr (Return rv left), s3)
     | None \<Rightarrow> if sw \<noteq> 0x9000 then (Inl (Scard_Error sw), s3) else renew_pin pe change newPIN hc s3) = (Inr step, st')"
    using assms(1) unfolding pin_commands_def by (elim bindS_InrE) auto
  show ?thesis
  proof (cases "pin_status sw")
    case None
    with rest have sw: "sw = 0x9000" and r: "renew_pin pe change newPIN hc s3 = (Inr step, st')" by (auto split: if_splits)
    have "step = Changed" using renew_pin_Inr [OF r assms(2)] by blast
    moreover have "pin_renewed pe verify change newPIN"
      using open_card_channel [OF o] v renew_pin_Inr [OF r assms(2)] unfolding pin_renewed_def sw by blast
    ultimately show ?thesis by simp
  next
    case (Some a)
    obtain rv att where a: "a = (rv, att)" by (cases a)
    have "step = Return rv att" using rest Some a by simp
    then show ?thesis using v Some a by (simp only: pin_step.case) blast
  qed
qed

lemma pin_status_attempts:
  assumes "pin_status sw = Some (rv, att)"
  shows "rv \<noteq> CKR_OK" and "att = Some k \<Longrightarrow> rv = CKR_PIN_INCORRECT \<and> uint sw = 0x63C0 + k \<and> 0 \<le> k \<and> k \<le> 15"
proof -
  show "rv \<noteq> CKR_OK" using assms by (auto simp: pin_status_def split: if_splits)
  have "uint (0x63C0 :: 16 word) \<le> uint sw" "uint sw \<le> uint (0x63CF :: 16 word)" if "0x63C0 \<le> sw" "sw \<le> 0x63CF"
    using that by (simp_all only: word_le_def)
  then show "rv = CKR_PIN_INCORRECT \<and> uint sw = 0x63C0 + k \<and> 0 \<le> k \<and> k \<le> 15" if "att = Some k"
    using assms that by (auto simp: pin_status_def split: if_splits)
qed

lemma sw_code_not_OK: "sw_code sw \<noteq> CKR_OK"
  by (simp add: sw_code_def Let_def)

text \<open>What the two programs have in common.\<close>

definition pin_outcome :: "'w ias_env \<Rightarrow> (bytes \<Rightarrow> ('w, 16 word) ias_fn) \<Rightarrow> (bytes \<Rightarrow> bytes \<Rightarrow> ('w, 16 word) ias_fn)
    \<Rightarrow> bytes option \<Rightarrow> bytes option \<Rightarrow> CieErrorRecord \<Rightarrow> (exn + ck_rv \<times> int option) \<times> CieErrorRecord \<times> 'w \<Rightarrow> bool" where
  "pin_outcome pe verify change given newPIN er res \<longleftrightarrow>
     (case res of (r, er', _) \<Rightarrow>
      case r of
        Inl e \<Rightarrow> e = UB \<or> e = Hang
      | Inr (rv, att) \<Rightarrow>
          if rv = CKR_OK then
            att = None \<and> er' = cie_clear_error
            \<and> (\<exists>g n. given = Some g \<and> newPIN = Some n \<and> length g = 8 \<and> length n = 8 \<and> pin_renewed pe (verify g) (change g n) n)
          else (case att of
                  None \<Rightarrow> True
                | Some k \<Rightarrow> rv = CKR_PIN_INCORRECT \<and> er' = er \<and> (\<exists>g. given = Some g \<and> secret_refused (verify g) k)))"

lemma pin_program_outcome:
  "pin_outcome pe verify change given newPIN er
     (pin_program pe tr (\<lambda>g n. pin_commands pe (verify g) (change g n) n) given newPIN er w)"
proof (cases "eight_octets given \<and> eight_octets newPIN")
  case True
  then obtain g n where gn: "given = Some g" "newPIN = Some n" "length g = 8" "length n = 8"
    by (auto simp: eight_octets_def min_def split: option.splits if_splits)
  let ?a = "pin_commands pe (verify g) (change g n) n"
  obtain r w' where s: "pin_scan pe tr ?a w = (r, w')" by fastforce
  have from': "came_from ?a r" using came_from_scan [of ?a pe tr w] s by simp
  have run: "pin_program pe tr (\<lambda>g n. pin_commands pe (verify g) (change g n) n) given newPIN er w
      = (case pin_result r er of (rv, er) \<Rightarrow> (rv, er, w'))"
    using True s unfolding pin_program_def by (simp add: gn(1,2))
  show ?thesis
  proof (cases r)
    case (Inl e)
    then show ?thesis unfolding run by (cases e) (simp_all add: pin_outcome_def pin_result_def sw_code_not_OK)
  next
    case (Inr step)
    show ?thesis
    proof (cases step)
      case (Next_Reader u)
      then show ?thesis unfolding run Inr by (simp add: pin_outcome_def pin_result_def)
    next
      case (Return rv att)
      then consider "rv = CKR_DEVICE_ERROR \<or> rv = CKR_TOKEN_NOT_PRESENT" "att = None"
        | hc st st' where "?a hc st = (Inr (Return rv att), st')" using from' Inr by (auto simp: came_from_def)
      then show ?thesis
      proof cases
        case 1
        then show ?thesis unfolding run Inr Return by (auto simp: pin_outcome_def pin_result_def)
      next
        case 2
        then obtain hc s sw s' where v: "verify g hc s = (Inr sw, s')" "pin_status sw = Some (rv, att)"
          using pin_commands_Inr [OF 2] gn(4) by auto
        have "rv = CKR_PIN_INCORRECT \<and> secret_refused (verify g) k" if "att = Some k" for k
          using pin_status_attempts(2) [OF v(2) that] v(1) unfolding secret_refused_def by blast
        then show ?thesis
          using pin_status_attempts(1) [OF v(2)] gn(1) unfolding run Inr Return
          by (auto simp: pin_outcome_def pin_result_def split: option.splits)
      qed
    next
      case Changed
      then obtain hc st st' where "?a hc st = (Inr Changed, st')" using from' Inr by (auto simp: came_from_def)
      then have "pin_renewed pe (verify g) (change g n) n" using pin_commands_Inr [of pe _ _ n hc st Changed st'] gn(4) by simp
      then show ?thesis unfolding run Inr Changed using gn by (simp add: pin_outcome_def pin_result_def)
    qed
  qed
next
  case False
  then have "pin_program pe tr (\<lambda>g n. pin_commands pe (verify g) (change g n) n) given newPIN er w
      = (Inr (CKR_PIN_LEN_RANGE, None), er, w)" unfolding pin_program_def by simp
  then show ?thesis by (simp add: pin_outcome_def)
qed

text \<open>
  C12: what changing the PIN means.  Whatever the readers, the card and the cache do,
  \<open>cie_change_pin\<close> returns a code (or its run has undefined behaviour or does not end).  \<open>CKR_OK\<close> comes only when
  both PINs have eight octets, the card accepted the old one and then the change on one protected
  channel after both sides were authenticated, and the cache of a paired card holds the first digits
  of the new PIN.  Attempts are reported only with \<open>CKR_PIN_INCORRECT\<close>, as many as the card's answer
  to VERIFY says; the thread's last-error record is left as it was then.
\<close>

theorem change_pin_outcome:
  "pin_outcome (program_env ie tr) (IAS_VerifyPIN (program_env ie tr)) (IAS_ChangePIN_old_new (program_env ie tr))
     szCurrentPIN szNewPIN er (cie_change_pin ie tr szCurrentPIN szNewPIN er w)"
  unfolding cie_change_pin_def Let_def by (rule pin_program_outcome)

text \<open>
  The same for \<open>cie_unblock_pin\<close>, with the PUK in place of the old PIN and the command that
  resets the PIN in place of the one that changes it.
\<close>

lemma unblock_pin_outcome:
  "pin_outcome (program_env ie tr) (IAS_VerifyPUK (program_env ie tr)) (\<lambda>_. IAS_ChangePIN_new (program_env ie tr))
     szPUK szNewPIN er (cie_unblock_pin ie tr szPUK szNewPIN er w)"
  unfolding cie_unblock_pin_def Let_def by (rule pin_program_outcome)

end
