(* ===== verification/Sod.thy ===== *)
theory Sod
  imports Ias Asn_Roundtrip X509_Reader
begin

section \<open>The security object of the document (shared/src/csp/ias.cpp)\<close>

text \<open>
  \<open>GetSODDigestAlg\<close>, \<open>VerificaSOD\<close> and \<open>VerificaSODPSS\<close>: the checks of the signed list of file
  digests that pairing makes before it trusts what it read from the card.  The set of digests of
  the files is a map from data group numbers; \<open>VerificaSOD\<close> may insert empty entries into it
  (\<open>operator[]\<close>).  OpenSSL's certificate functions and its digest verification context are
  parameters.  Positions in the object are below 2\^31.
\<close>

text \<open>
  \<open>CRSA::RSA_PSS\<close> over OpenSSL's calls, each with its result: the digest is SHA-512, the padding
  PSS, the salt of any length.
\<close>

record 'x sod_env =
  sod_x509 :: "'x x509_api"
  EVP_MD_CTX_new :: bool
  EVP_DigestVerifyInit :: "rsa_key \<Rightarrow> int"
  EVP_PKEY_CTX_set_rsa_padding :: "rsa_key \<Rightarrow> int"
  EVP_PKEY_CTX_set_rsa_pss_saltlen :: "rsa_key \<Rightarrow> int"
  EVP_DigestVerifyUpdate :: "bytes \<Rightarrow> int"
  EVP_DigestVerifyFinal :: "rsa_key \<Rightarrow> bytes \<Rightarrow> bytes \<Rightarrow> int"

definition RSA_PSS :: "'x sod_env \<Rightarrow> rsa_key \<Rightarrow> bytes \<Rightarrow> bytes \<Rightarrow> bool" where
  "RSA_PSS se pkey signatureData toSign =
     (if \<not> EVP_MD_CTX_new se then False
      else if EVP_DigestVerifyInit se pkey \<noteq> 1 then False
      else if EVP_PKEY_CTX_set_rsa_padding se pkey \<noteq> 1 \<or> EVP_PKEY_CTX_set_rsa_pss_saltlen se pkey \<noteq> 1 then False
      else if EVP_DigestVerifyUpdate se toSign \<noteq> 1 then False
      else EVP_DigestVerifyFinal se pkey toSign signatureData = 1)"

type_synonym hash_set = "byte \<rightharpoonup> bytes"

definition OID_SHA512 :: bytes where
  "OID_SHA512 = [0x60, 0x86, 0x48, 0x01, 0x65, 0x03, 0x04, 0x02, 0x03]"
definition OID_SHA256 :: bytes where
  "OID_SHA256 = [0x60, 0x86, 0x48, 0x01, 0x65, 0x03, 0x04, 0x02, 0x01]"
definition OID_SignedData :: bytes where
  "OID_SignedData = [0x2A, 0x86, 0x48, 0x86, 0xF7, 0x0D, 0x01, 0x07, 0x02]"
definition OID_LdsSecurityObject :: bytes where
  "OID_LdsSecurityObject = [0x67, 0x81, 0x08, 0x01, 0x01, 0x01]"
definition OID_ContentType :: bytes where
  "OID_ContentType = [0x2A, 0x86, 0x48, 0x86, 0xF7, 0x0D, 0x01, 0x09, 0x03]"
definition OID_MessageDigest :: bytes where
  "OID_MessageDigest = [0x2A, 0x86, 0x48, 0x86, 0xF7, 0x0D, 0x01, 0x09, 0x04]"
definition OID_RSAPSS :: bytes where
  "OID_RSAPSS = [0x2A, 0x86, 0x48, 0x86, 0xF7, 0x0D, 0x01, 0x01, 0x0A]"
definition OID_RSAwithSHA256 :: bytes where
  "OID_RSAwithSHA256 = [0x2A, 0x86, 0x48, 0x86, 0xF7, 0x0D, 0x01, 0x01, 0x0b]"
definition OID_RSAwithSHA1 :: bytes where
  "OID_RSAwithSHA1 = [0x2a, 0x86, 0x48, 0x86, 0xf7, 0x0d, 0x01, 0x01, 0x05]"

text \<open>\<open>t.Child(n1, t1).Child(n2, t2)...\<close>, with the check of the content at the end of the path.\<close>

fun child_path :: "casn_tag \<Rightarrow> (nat \<times> byte) list \<Rightarrow> exn + casn_tag" where
  "child_path t [] = Inr t"
| "child_path t ((n, tg) # ps) = bindE (Child t n tg) (\<lambda>c. child_path c ps)"

definition verify_at :: "casn_tag \<Rightarrow> (nat \<times> byte) list \<Rightarrow> bytes \<Rightarrow> exn + unit" where
  "verify_at t ps content = bindE (child_path t ps) (\<lambda>c. Verify_content c content)"

definition parse_first :: "bytes \<Rightarrow> exn + casn_tag" where
  "parse_first data = bindE (asn_Parse data) (\<lambda>ts. tag_at ts 0)"

definition tag_octets_in :: "bytes \<Rightarrow> casn_tag \<Rightarrow> exn + bytes" where
  "tag_octets_in data t = ba_mid_n data (startPos t) (endPos t - startPos t)"

definition GetSODDigestAlg :: "bytes \<Rightarrow> exn + nat" where
  "GetSODDigestAlg SOD =
     bindE (parse_first SOD) (\<lambda>SODTag.
     bindE (child_path SODTag [(0, 0x30), (1, 0xA0), (0, 0x30), (1, 0x31), (0, 0x30), (0, 6)]) (\<lambda>t.
     if asn_content t = OID_SHA256 then Inr 1
     else if asn_content t = OID_SHA512 then Inr 2
     else Inl (Logged_Error ''GetSODDigestAlg - Digest algorithm not supported'')))"

subsection \<open>The common part\<close>

record sod_parts =
  ttData :: bytes
  signedData :: casn_tag
  signerCert :: casn_tag
  signer :: casn_tag
  issuerName :: casn_tag
  signerInfo :: casn_tag
  digest :: casn_tag

text \<open>
  The structure of the CMS message up to the digest attribute.  \<open>serial\<close> says whether the
  presence of the issuer's serial number is checked (\<open>VerificaSODPSS\<close>).
\<close>

definition sod_structure :: "bytes \<Rightarrow> bool \<Rightarrow> bytes \<Rightarrow> exn + sod_parts" where
  "sod_structure OID_SHA serial' SOD =
     bindE (parse_first SOD) (\<lambda>SODTag.
     bindE (Child SODTag 0 0x30) (\<lambda>temp.
     bindE (verify_at temp [(0, 6)] OID_SignedData) (\<lambda>_.
     bindE (child_path temp [(1, 0xA0), (0, 0x30)]) (\<lambda>temp2.
     bindE (verify_at temp2 [(0, 2)] [3]) (\<lambda>_.
     bindE (verify_at temp2 [(1, 0x31), (0, 0x30), (0, 6)] OID_SHA) (\<lambda>_.
     bindE (verify_at temp2 [(2, 0x30), (0, 6)] OID_LdsSecurityObject) (\<lambda>_.
     bindE (child_path temp2 [(2, 0x30), (1, 0xA0), (0, 4)]) (\<lambda>tt.
     bindE (parse_first (asn_content tt)) (\<lambda>data.
     bindE (CheckTag data 0x30) (\<lambda>_.
     bindE (child_path temp2 [(3, 0xA0), (0, 0x30)]) (\<lambda>cert.
     bindE (child_path temp2 [(4, 0x31), (0, 0x30)]) (\<lambda>temp3.
     bindE (verify_at temp3 [(0, 2)] [1]) (\<lambda>_.
     bindE (child_path temp3 [(1, 0x30), (0, 0x30)]) (\<lambda>issuer.
     bindE (if serial' then bindE (child_path temp3 [(1, 0x30), (1, 2)]) (\<lambda>_. Inr ()) else Inr ()) (\<lambda>_.
     bindE (verify_at temp3 [(2, 0x30), (0, 6)] OID_SHA) (\<lambda>_.
     bindE (Child temp3 3 0xA0) (\<lambda>info.
     bindE (verify_at info [(0, 0x30), (0, 6)] OID_ContentType) (\<lambda>_.
     bindE (verify_at info [(0, 0x30), (1, 0x31), (0, 6)] OID_LdsSecurityObject) (\<lambda>_.
     bindE (verify_at info [(1, 0x30), (0, 6)] OID_MessageDigest) (\<lambda>_.
     bindE (child_path temp3 [(3, 0xA0), (1, 0x30), (1, 0x31), (0, 4)]) (\<lambda>dig.
     Inr \<lparr>ttData = asn_content tt, signedData = data, signerCert = cert, signer = temp3, issuerName = issuer,
          signerInfo = info, digest = dig\<rparr>)))))))))))))))))))))"

text \<open>The signer's RSA key and issuer from the certificate inside the object.\<close>

definition sod_key :: "'w ias_env \<Rightarrow> 'x sod_env \<Rightarrow> bytes \<Rightarrow> sod_parts \<Rightarrow> exn + (rsa_key \<times> bytes)" where
  "sod_key ie se SOD p =
     bindE (tag_octets_in SOD (signerCert p)) (\<lambda>certRaw.
     bindE (GetPublicKeyFromCert (sod_x509 se) certRaw) (\<lambda>(pubKeyData, issuerBa, serialBa).
     bindE (asn_Parse pubKeyData) (\<lambda>ts.
     bindE (tag_path ts [0, 1]) (\<lambda>pubKey.
     case asn_content pubKey of
       [] \<Rightarrow> Inl UB
     | b # bs \<Rightarrow>
         bindE (parse_first (if b = 0 then bs else b # bs)) (\<lambda>pubKey2.
         bindE (Child pubKey2 0 2) (\<lambda>modTag.
         bindE (skip_zeros (asn_content modTag)) (\<lambda>m.
         bindE (Child pubKey2 1 2) (\<lambda>expTag.
         bindE (skip_zeros (asn_content expTag)) (\<lambda>e.
         bindE (new_CRSA (ias_fromdata ie) m e) (\<lambda>rsa. Inr (rsa, issuerBa)))))))))))"

text \<open>The signed attributes, as they lie in the object; they are signed with the tag of a set.\<close>

definition sod_toSign :: "bytes \<Rightarrow> sod_parts \<Rightarrow> exn + bytes" where
  "sod_toSign SOD p =
     (let ts = asn_tags (signerInfo p) in
      if ts = [] then Inl UB else ba_mid_n SOD (startPos (hd ts)) (endPos (last ts) - startPos (hd ts)))"

text \<open>The issuer of the certificate is only compared for the log.\<close>

definition sod_issuer :: "sod_parts \<Rightarrow> bytes \<Rightarrow> exn + unit" where
  "sod_issuer p issuerBa =
     bindE (Reparse (issuerName p)) (\<lambda>_. bindE (parse_first issuerBa) (\<lambda>_. Inr ()))"

text \<open>The list of digests in the signed data, after its version and algorithm.\<close>

definition sod_list :: "sod_parts \<Rightarrow> byte \<Rightarrow> bytes \<Rightarrow> exn + casn_tag list" where
  "sod_list p version OID_SHA =
     bindE (verify_at (signedData p) [(0, 2)] [version]) (\<lambda>_.
     bindE (verify_at (signedData p) [(1, 0x30), (0, 6)] OID_SHA) (\<lambda>_.
     bindE (Child (signedData p) 2 0x30) (\<lambda>hashTag. Inr (asn_tags hashTag))))"

text \<open>Number and digest of an entry; \<open>ByteArrayToVar\<close> reads the first octet unchecked.\<close>

definition dg_entry :: "casn_tag \<Rightarrow> exn + (byte \<times> bytes)" where
  "dg_entry hashDG =
     bindE (CheckTag hashDG 0x30) (\<lambda>t.
     bindE (Child t 0 2) (\<lambda>dgNum.
     bindE (Child hashDG 1 4) (\<lambda>dgHash.
     case asn_content dgNum of [] \<Rightarrow> Inl UB | num # _ \<Rightarrow> Inr (num, asn_content dgHash))))"

subsection \<open>The two verifications\<close>

fun require_digests :: "casn_tag list \<Rightarrow> hash_set \<Rightarrow> exn + unit" where
  "require_digests [] hs = Inr ()"
| "require_digests (t # ts) hs =
     bindE (dg_entry t) (\<lambda>(num, h).
       case hs num of
         None \<Rightarrow> Inl (Logged_Error ''Digest not found for DG'')
       | Some [] \<Rightarrow> Inl (Logged_Error ''Digest not found for DG'')
       | Some d \<Rightarrow> if d \<noteq> h then Inl (Logged_Error ''VerificaSODPSS - Digest for DG not found'') else require_digests ts hs)"

definition VerificaSODPSS :: "'w ias_env \<Rightarrow> 'x sod_env \<Rightarrow> bytes \<Rightarrow> hash_set \<Rightarrow> exn + unit" where
  "VerificaSODPSS ie se SOD hs =
     bindE (sod_structure OID_SHA512 True SOD) (\<lambda>p.
     bindE (tag_octets_in SOD (digest p)) (\<lambda>_.
     bindE (child_path (signer p) [(4, 0x30), (0, 6)]) (\<lambda>signAlgo.
     bindE (child_path (signer p) [(4, 0x30), (1, 0x30), (0, 0xA0), (0, 0x30), (0, 6)]) (\<lambda>digestAlgo.
     if asn_content digestAlgo \<noteq> OID_SHA512 then Inl (Logged_Error ''VerificaSODPSS - Digest algorithm not valid'')
     else if asn_content signAlgo \<noteq> OID_RSAPSS then Inl (Logged_Error ''VerificaSODPSS - Digest algorithm not valid'')
     else bindE (tag_octets_in (ttData p) (signedData p)) (\<lambda>toHash.
     if ias_sha512 ie toHash \<noteq> asn_content (digest p) then
       Inl (Logged_Error ''VerificaSODPSS - SOD Digest doesn't correspond to data'')
     else bindE (Child (signer p) 5 4) (\<lambda>signature.
     bindE (sod_key ie se SOD p) (\<lambda>(rsa, issuerBa).
     bindE (bindE (sod_toSign SOD p) (ASN1Tag ie 0x31)) (\<lambda>ba.
     if \<not> RSA_PSS se rsa (asn_content signature) ba then Inl (Logged_Error ''VerificaSODPSS - SOD Sign not valid'')
     else bindE (sod_issuer p issuerBa) (\<lambda>_.
     bindE (sod_list p 1 OID_SHA512) (\<lambda>ts. require_digests ts hs))))))))))"

text \<open>
  \<open>VerificaSOD\<close> goes over the same list, but what it finds there is only logged; \<open>hashSet[num]\<close>
  inserts an empty digest where there was none.
\<close>

fun log_digests :: "casn_tag list \<Rightarrow> hash_set \<Rightarrow> (exn + unit) \<times> hash_set" where
  "log_digests [] hs = (Inr (), hs)"
| "log_digests (t # ts) hs =
     (case dg_entry t of
        Inl e \<Rightarrow> (Inl e, hs)
      | Inr (num, h) \<Rightarrow> log_digests ts (if hs num = None then hs(num \<mapsto> []) else hs))"

definition VerificaSOD :: "'w ias_env \<Rightarrow> 'x sod_env \<Rightarrow> bytes \<Rightarrow> hash_set \<Rightarrow> (exn + unit) \<times> hash_set" where
  "VerificaSOD ie se SOD hs =
     (case
        bindE (sod_structure OID_SHA256 False SOD) (\<lambda>p.
        bindE (child_path (signer p) [(4, 0x30), (0, 6)]) (\<lambda>digestAlgo.
        bindE (if asn_content digestAlgo = OID_RSAwithSHA1 then Inr True
               else if asn_content digestAlgo = OID_RSAwithSHA256 then Inr False
               else Inl (Logged_Error ''VerificaSOD - Digest algorithm not valid'')) (\<lambda>isSHA1.
        bindE (Child (signer p) 5 4) (\<lambda>signature.
        bindE (tag_octets_in (ttData p) (signedData p)) (\<lambda>toHash.
        if ias_sha256 ie toHash \<noteq> asn_content (digest p) then
          Inl (Logged_Error ''VerificaSOD - SOD digest does not match with data'')
        else bindE (sod_key ie se SOD p) (\<lambda>(rsa, issuerBa).
        bindE (CRSA_RSA_PURE rsa (asn_content signature)) (\<lambda>dec.
        bindE (bindE (RemovePaddingBT1 dec) (ba_mid dec)) (\<lambda>dec.
        bindE (sod_toSign SOD p) (\<lambda>toSign.
        bindE (bindE (if isSHA1 then RemoveSha1 dec else RemoveSha256 dec) (ba_mid dec)) (\<lambda>dec.
        bindE (ASN1Tag ie 0x31 toSign) (\<lambda>ba.
        if (if isSHA1 then ias_sha1 ie ba else ias_sha256 ie ba) \<noteq> dec then
          Inl (Logged_Error ''VerificaSOD - SOD sign not valid'')
        else bindE (sod_issuer p issuerBa) (\<lambda>_. sod_list p 0 OID_SHA256))))))))))))
      of Inl e \<Rightarrow> (Inl e, hs) | Inr ts \<Rightarrow> log_digests ts hs)"

subsection \<open>Properties\<close>

text \<open>An entry whose digest is the given one, which is not empty.\<close>

definition dg_matches :: "hash_set \<Rightarrow> casn_tag \<Rightarrow> bool" where
  "dg_matches hs t \<longleftrightarrow> (case dg_entry t of Inl _ \<Rightarrow> False | Inr (num, h) \<Rightarrow> h \<noteq> [] \<and> hs num = Some h)"

lemma require_digests_iff: "require_digests ts hs = Inr () \<longleftrightarrow> list_all (dg_matches hs) ts"
  by (induction ts) (auto simp: dg_matches_def bindE_def split: sum.splits prod.splits option.splits list.splits)

lemma log_digests_result: "fst (log_digests ts hs) = fst (log_digests ts hs')"
  by (induction ts arbitrary: hs hs') (auto split: sum.splits prod.splits)


text \<open>
  C25: \<open>VerificaSOD\<close> does not look at the digests of the files.  Whether it returns or throws, and
  with what, is the same for any two sets of digests, those of files that were altered and the
  empty one included: a mismatch is only logged, where \<open>VerificaSODPSS\<close> throws.
\<close>

theorem sod_digests_ignored: "fst (VerificaSOD ie se SOD hs) = fst (VerificaSOD ie se SOD hs')"
  unfolding VerificaSOD_def using log_digests_result [of _ hs hs'] by (auto split: sum.splits)

subsection \<open>A security object that is accepted\<close>

text \<open>One data group (A1) with a digest of two octets; the digests and the signature check are stand-ins.\<close>

definition leaf :: "byte \<Rightarrow> bytes \<Rightarrow> casn_tag" where
  "leaf tg c = CASNTag [tg] c [] 0 0 False"

definition branch :: "byte \<Rightarrow> casn_tag list \<Rightarrow> casn_tag" where
  "branch tg ts = CASNTag [tg] [] ts 0 0 False"

definition sample_list :: casn_tag where
  "sample_list = branch 0x30 [leaf 2 [1], branch 0x30 [leaf 6 OID_SHA512],
     branch 0x30 [branch 0x30 [leaf 2 [0xa1], leaf 4 [5, 6]]]]"

definition sample_signer :: casn_tag where
  "sample_signer = branch 0x30 [leaf 2 [1], branch 0x30 [branch 0x30 [], leaf 2 [7]], branch 0x30 [leaf 6 OID_SHA512],
     branch 0xA0 [branch 0x30 [leaf 6 OID_ContentType, branch 0x31 [leaf 6 OID_LdsSecurityObject]],
       branch 0x30 [leaf 6 OID_MessageDigest, branch 0x31 [leaf 4 [3]]]],
     branch 0x30 [leaf 6 OID_RSAPSS, branch 0x30 [branch 0xA0 [branch 0x30 [leaf 6 OID_SHA512]]]], leaf 4 [9]]"

definition sample_sod_tree :: casn_tag where
  "sample_sod_tree = branch 0x77 [branch 0x30 [leaf 6 OID_SignedData, branch 0xA0 [branch 0x30 [leaf 2 [3],
     branch 0x31 [branch 0x30 [leaf 6 OID_SHA512]],
     branch 0x30 [leaf 6 OID_LdsSecurityObject, branch 0xA0 [leaf 4 (asn_bytes sample_list)]],
     branch 0xA0 [branch 0x30 []], branch 0x31 [sample_signer]]]]]"

definition sample_key :: casn_tag where
  "sample_key = branch 0x30 [leaf 2 [0x17], leaf 2 [3]]"

definition sample_SOD :: bytes where
  "sample_SOD = asn_bytes sample_sod_tree"

lemmas sample_defs = sample_list_def sample_signer_def sample_sod_tree_def sample_key_def leaf_def branch_def
  OID_SHA512_def OID_SignedData_def OID_LdsSecurityObject_def OID_ContentType_def OID_MessageDigest_def OID_RSAPSS_def

lemma sample_octets:
  "asn_bytes sample_list = [0x30, 0x1b, 0x02, 0x01, 0x01, 0x30, 0x0b, 0x06, 0x09, 0x60, 0x86, 0x48, 0x01, 0x65, 0x03, 0x04,
     0x02, 0x03, 0x30, 0x09, 0x30, 0x07, 0x02, 0x01, 0xa1, 0x04, 0x02, 0x05, 0x06]"
  "asn_bytes sample_key = [0x30, 0x06, 0x02, 0x01, 0x17, 0x02, 0x01, 0x03]"
  "length (asn_bytes sample_sod_tree) = 191"
  by (simp_all add: sample_defs constructed_def length_octets_def Let_def)

lemma sample_canonical: "canonical 0 sample_sod_tree" "canonical 0 sample_list" "canonical 0 sample_key"
  by (simp_all add: sample_defs constructed_def length_octets_def Let_def valid_tag_def kMaxAsn1NestingDepth_def)

lemma sample_parses:
  "asn_Parse sample_SOD = Inr [place 0 sample_sod_tree]" "asn_Parse (asn_bytes sample_list) = Inr [place 0 sample_list]"
  "asn_Parse (asn_bytes sample_key) = Inr [place 0 sample_key]"
  using asn_Parse_placed [of "[sample_sod_tree]"] asn_Parse_placed [of "[sample_list]"] asn_Parse_placed [of "[sample_key]"]
  by (simp_all add: sample_canonical sample_SOD_def)

lemma sample_small_parses:
  "asn_Parse [] = Inr []" "\<exists>ts. asn_Parse [0x30, 0x00] = Inr ts \<and> 0 < length ts"
  "\<exists>t t'. asn_Parse ([0x30, 0x0d, 0x30, 0x00, 0x03, 0x09, 0x00] @ asn_bytes sample_key) = Inr [t] \<and>
     tag_path [t] [0, 1] = Inr t' \<and> asn_content t' = 0 # asn_bytes sample_key"
  subgoal using asn_Parse_placed [of "[]"] by simp
  subgoal using asn_Parse_placed [of "[branch 0x30 []]"]
    by (auto simp: branch_def constructed_def length_octets_def Let_def valid_tag_def kMaxAsn1NestingDepth_def)
  subgoal using asn_Parse_placed [of "[branch 0x30 [branch 0x30 [], leaf 3 (0 # asn_bytes sample_key)]]"]
    by (auto simp: sample_octets branch_def leaf_def constructed_def length_octets_def Let_def valid_tag_def
        kMaxAsn1NestingDepth_def tag_at_def)
  done

definition sample_x509 :: "unit x509_api" where
  "sample_x509 =
     \<lparr>d2i_X509 = (\<lambda>cert. Some ()),
      i2d_X509_PUBKEY = (\<lambda>_. Some ([0x30, 0x0d, 0x30, 0x00, 0x03, 0x09, 0x00] @ asn_bytes sample_key)),
      i2d_issuer_name = (\<lambda>_. Some [0x30, 0x00]), i2d_subject_name = (\<lambda>_. Some [0x30, 0x00]), serialNumber_BN = (\<lambda>_. Some 7),
      BN_bn2dec = (\<lambda>_. Some [0x37]), notBefore_time = (\<lambda>_. None), notAfter_time = (\<lambda>_. None), X509_rsa = (\<lambda>_. None)\<rparr>"

definition sample_sod_env :: "unit sod_env" where
  "sample_sod_env =
     \<lparr>sod_x509 = sample_x509, EVP_MD_CTX_new = True, EVP_DigestVerifyInit = (\<lambda>_. 1), EVP_PKEY_CTX_set_rsa_padding = (\<lambda>_. 1),
      EVP_PKEY_CTX_set_rsa_pss_saltlen = (\<lambda>_. 1), EVP_DigestVerifyUpdate = (\<lambda>_. 1),
      EVP_DigestVerifyFinal = (\<lambda>key data signature. if signature = [9] then 1 else 0)\<rparr>"

lemma sample_sod_env_simps [simp]:
  "GetPublicKeyFromCert (sod_x509 sample_sod_env) cert =
     Inr ([0x30, 0x0d, 0x30, 0x00, 0x03, 0x09, 0x00] @ asn_bytes sample_key, [0x30, 0x00], BN_bn2bin 7)"
  "RSA_PSS sample_sod_env key sg data \<longleftrightarrow> sg = [9]"
  by (simp_all add: sample_sod_env_def sample_x509_def GetPublicKeyFromCert_def RSA_PSS_def out_octets_def)

lemma sample_structure:
  "\<exists>p. sod_structure OID_SHA512 True sample_SOD = Inr p \<and> ttData p = asn_bytes sample_list \<and> signedData p = place 0 sample_list
     \<and> signer p = place 90 sample_signer \<and> asn_content (digest p) = [3] \<and> asn_content (issuerName p) = [] \<and> asn_tag (issuerName p) = [0x30]
     \<and> startPos (digest p) \<le> endPos (digest p) \<and> endPos (digest p) \<le> 191
     \<and> startPos (signerCert p) \<le> endPos (signerCert p) \<and> endPos (signerCert p) \<le> 191
     \<and> signerInfo p = asn_tags (place 90 sample_signer) ! 3"
proof -
  have list: "asn_Parse L = Inr [place 0 sample_list]" if "asn_bytes sample_list = L" for L
    using sample_parses(2) that by simp
  show ?thesis
    unfolding sod_structure_def parse_first_def sample_parses(1) bindE_simps
    by (simp add: tag_at_def verify_at_def Verify_content_def Child_def CheckTag_def sample_defs constructed_def
        length_octets_def Let_def list sample_octets(1) [unfolded sample_defs])
qed

definition sample_ias_env :: "unit ias_env" where
  "sample_ias_env =
     \<lparr>ias_callback = (\<lambda>hc apdu w. (0, [], w)), ias_evp = undefined, ias_uninit = (\<lambda>_. 0), ias_sha1 = (\<lambda>d. [1]),
      ias_sha256 = (\<lambda>d. [2]), ias_sha512 = (\<lambda>d. [3]), ias_fromdata = (\<lambda>n e. True), ias_random = (\<lambda>n w. (None, w)),
      ias_cache = undefined, ias_fuel = 1\<rparr>"

lemma sample_ias_env_simps [simp]:
  "ias_sha512 sample_ias_env d = [3]" "ias_fromdata sample_ias_env n e" "ias_uninit sample_ias_env = (\<lambda>_. 0)"
  by (simp_all add: sample_ias_env_def)

lemma sample_key_parse:
  "parse_first (asn_bytes sample_key) =
     Inr (CASNTag [0x30] [] [CASNTag [2] [0x17] [] 2 5 False, CASNTag [2] [3] [] 5 8 False] 0 8 False)"
  unfolding parse_first_def sample_parses(3)
  by (simp add: tag_at_def sample_key_def leaf_def branch_def constructed_def length_octets_def)

lemma sample_key_parts:
  assumes "startPos (signerCert p) \<le> endPos (signerCert p)" "endPos (signerCert p) \<le> 191"
  shows "\<exists>rsa. sod_key sample_ias_env sample_sod_env sample_SOD p = Inr (rsa, [0x30, 0x00])"
proof -
  obtain t t' where k: "asn_Parse ([0x30, 0x0d, 0x30, 0x00, 0x03, 0x09, 0x00] @ asn_bytes sample_key) = Inr [t]"
    "tag_path [t] [0, 1] = Inr t'" "asn_content t' = 0 # asn_bytes sample_key" using sample_small_parses(3) by blast
  obtain cert where c: "tag_octets_in sample_SOD (signerCert p) = Inr cert"
    using assms sample_octets(3) ba_slices(4) [of _ _ sample_SOD] that by (simp add: tag_octets_in_def sample_SOD_def)
  show ?thesis
    unfolding sod_key_def c bindE_simps sample_sod_env_simps prod.case k list.case
    by (simp add: sample_key_parse Child_def new_CRSA_def)
qed

lemma sample_OID_lengths:
  "length OID_SHA512 = 9" "length OID_ContentType = 9" "length OID_LdsSecurityObject = 6"
  "length OID_MessageDigest = 9" "length OID_RSAPSS = 9"
  by (simp_all add: OID_SHA512_def OID_ContentType_def OID_LdsSecurityObject_def OID_MessageDigest_def OID_RSAPSS_def)

lemma sample_constructed:
  "constructed [0x30]" "constructed [0x31]" "constructed [0xA0]" "\<not> constructed [2]" "\<not> constructed [4]" "\<not> constructed [6]"
  by (simp_all add: constructed_def)

lemma sample_placed:
  "place 90 sample_signer =
     CASNTag [0x30] [] [CASNTag [2] [1] [] 92 95 False, CASNTag [0x30] [] [CASNTag [0x30] [] [] 97 99 False, CASNTag [2]
     [7] [] 99 102 False] 95 102 False, CASNTag [0x30] [] [CASNTag [6] OID_SHA512 [] 104 115 False] 102 115 False, CASNTag
     [0xA0] [] [CASNTag [0x30] [] [CASNTag [6] OID_ContentType [] 119 130 False, CASNTag [0x31] [] [CASNTag [6]
     OID_LdsSecurityObject [] 132 140 False] 130 140 False] 117 140 False, CASNTag [0x30] [] [CASNTag [6] OID_MessageDigest
     [] 142 153 False, CASNTag [0x31] [] [CASNTag [4] [3] [] 155 158 False] 153 158 False] 140 158 False] 115 158 False,
     CASNTag [0x30] [] [CASNTag [6] OID_RSAPSS [] 160 171 False, CASNTag [0x30] [] [CASNTag [0xA0] [] [CASNTag [0x30] []
     [CASNTag [6] OID_SHA512 [] 177 188 False] 175 188 False] 173 188 False] 171 188 False] 158 188 False, CASNTag [4] [9]
     [] 188 191 False] 90 191 False"
  "place 0 sample_list =
     CASNTag [0x30] [] [CASNTag [2] [1] [] 2 5 False, CASNTag [0x30] [] [CASNTag [6] OID_SHA512 [] 7 18 False] 5 18 False,
     CASNTag [0x30] [] [CASNTag [0x30] [] [CASNTag [2] [0xa1] [] 22 25 False, CASNTag [4] [5, 6] [] 25 29 False] 20 29
     False] 18 29 False] 0 29 False"
  by (simp_all add: sample_signer_def sample_list_def leaf_def branch_def sample_constructed sample_OID_lengths length_octets_def)

lemma sample_signed_parts:
  "\<exists>a. child_path (place 90 sample_signer) [(4, 0x30), (0, 6)] = Inr a \<and> asn_content a = OID_RSAPSS"
  "\<exists>a. child_path (place 90 sample_signer) [(4, 0x30), (1, 0x30), (0, 0xA0), (0, 0x30), (0, 6)] = Inr a \<and> asn_content a = OID_SHA512"
  "\<exists>s. Child (place 90 sample_signer) 5 4 = Inr s \<and> asn_content s = [9]"
  "asn_tags (asn_tags (place 90 sample_signer) ! 3) \<noteq> []"
  "startPos (hd (asn_tags (asn_tags (place 90 sample_signer) ! 3))) = 117"
  "endPos (last (asn_tags (asn_tags (place 90 sample_signer) ! 3))) = 158"
  by (simp_all add: Child_def sample_placed)

lemma sample_toSign:
  assumes "signerInfo p = asn_tags (place 90 sample_signer) ! 3"
  shows "\<exists>ba. bindE (sod_toSign sample_SOD p) (ASN1Tag sample_ias_env 0x31) = Inr ba"
proof -
  have "sod_toSign sample_SOD p = Inr (take 41 (drop 117 sample_SOD))"
    unfolding sod_toSign_def assms Let_def sample_signed_parts(5,6)
    using sample_signed_parts(4) sample_octets(3) by (simp add: ba_slices sample_SOD_def)
  then show ?thesis
    using sample_octets(3) by (simp add: ASN1Tag_def setASN1Tag_eq tag_octets_single sample_SOD_def)
qed

lemma sample_list_entries:
  assumes "signedData p = place 0 sample_list"
  shows "\<exists>ts. sod_list p 1 OID_SHA512 = Inr ts \<and> require_digests ts [0xa1 \<mapsto> [5, 6]] = Inr ()"
  unfolding sod_list_def assms
  by (simp add: sample_placed verify_at_def Verify_content_def Child_def dg_entry_def CheckTag_def)

lemma sample_issuer:
  assumes "asn_content (issuerName p) = []" "asn_tag (issuerName p) = [0x30]"
  shows "sod_issuer p [0x30, 0x00] = Inr ()"
  using sample_small_parses(2) assms
  by (auto simp: sod_issuer_def Reparse_def sample_small_parses(1) parse_first_def tag_at_def)

lemma sample_accepted: "VerificaSODPSS sample_ias_env sample_sod_env sample_SOD [0xa1 \<mapsto> [5, 6]] = Inr ()"
proof -
  obtain p where p: "sod_structure OID_SHA512 True sample_SOD = Inr p" "ttData p = asn_bytes sample_list"
    "signedData p = place 0 sample_list" "signer p = place 90 sample_signer" "asn_content (digest p) = [3]"
    "asn_content (issuerName p) = []" "asn_tag (issuerName p) = [0x30]"
    "startPos (digest p) \<le> endPos (digest p)" "endPos (digest p) \<le> 191"
    "startPos (signerCert p) \<le> endPos (signerCert p)" "endPos (signerCert p) \<le> 191"
    "signerInfo p = asn_tags (place 90 sample_signer) ! 3"
    using sample_structure by blast
  obtain d where d: "tag_octets_in sample_SOD (digest p) = Inr d"
    using p(8,9) sample_octets(3) ba_slices(4) [of _ _ sample_SOD] that by (simp add: tag_octets_in_def sample_SOD_def)
  have h: "tag_octets_in (asn_bytes sample_list) (place 0 sample_list) = Inr (asn_bytes sample_list)"
    by (simp add: tag_octets_in_def sample_placed sample_octets(1) ba_slices)
  obtain a a' sg where a: "child_path (place 90 sample_signer) [(4, 0x30), (0, 6)] = Inr a" "asn_content a = OID_RSAPSS"
    "child_path (place 90 sample_signer) [(4, 0x30), (1, 0x30), (0, 0xA0), (0, 0x30), (0, 6)] = Inr a'" "asn_content a' = OID_SHA512"
    "Child (place 90 sample_signer) 5 4 = Inr sg" "asn_content sg = [9]"
    using sample_signed_parts(1-3) by blast
  obtain rsa where k: "sod_key sample_ias_env sample_sod_env sample_SOD p = Inr (rsa, [0x30, 0x00])"
    using sample_key_parts [OF p(10,11)] by blast
  obtain ba where b: "bindE (sod_toSign sample_SOD p) (ASN1Tag sample_ias_env 0x31) = Inr ba"
    using sample_toSign [OF p(12)] by blast
  obtain ts where l: "sod_list p 1 OID_SHA512 = Inr ts" "require_digests ts [0xa1 \<mapsto> [5, 6]] = Inr ()"
    using sample_list_entries [OF p(3)] by blast
  show ?thesis
    unfolding VerificaSODPSS_def p(1) bindE_simps d p(2-5) a h k b l sample_issuer [OF p(6,7)]
    by (simp add: a(6) b l sample_issuer [OF p(6,7)])
qed


end
