(* ===== verification/Pairing.thy ===== *)
theory Pairing
  imports Pin_Manager Sod
begin

section \<open>Pairing a card (pkcs11/src/csp/cie\_enable.cpp, cie\_get\_certificate.cpp)\<close>

text \<open>
  \<open>cie_enable\<close> reads the public files of every card it finds, authenticates with the PIN, verifies
  the card's security object and stores certificate and PIN half in the cache.  The calls of
  \<open>completedCallBack\<close> are the list of outcomes it returns; the progress callback is not modelled.
  A function that throws out of the C interface returns the exception.  The names in the certificate
  are read by OpenSSL (\<open>subject_name\<close>, with the identifiers of given name and surname).
\<close>

abbreviation (input) SCARD_W_WRONG_CHV :: int where "SCARD_W_WRONG_CHV \<equiv> 0x8010006B"
abbreviation (input) SCARD_W_CHV_BLOCKED :: int where "SCARD_W_CHV_BLOCKED \<equiv> 0x8010006C"
abbreviation (input) SCARD_E_INVALID_PARAMETER :: int where "SCARD_E_INVALID_PARAMETER \<equiv> 0x80100004"
abbreviation (input) ROLE_USER :: "32 word" where "ROLE_USER \<equiv> 1"
abbreviation (input) ROLE_ADMIN :: "32 word" where "ROLE_ADMIN \<equiv> 2"
abbreviation (input) FULL_PIN :: "32 word" where "FULL_PIN \<equiv> 0x80000000"

subsection \<open>Names of cards and readers\<close>

definition kHex :: string where
  "kHex = ''0123456789abcdef''"

definition hexEncode :: "bytes \<Rightarrow> string" where
  "hexEncode data = concat (map (\<lambda>b. [kHex ! unat (drop_bit 4 b AND 0xF), kHex ! unat (b AND 0xF)]) data)"

text \<open>\<open>hexEncode(ias.PAN.data() + 5, 6)\<close> reads the octets unchecked.\<close>

definition pan_key :: "ias \<Rightarrow> exn + string" where
  "pan_key i = (if length (ias_PAN i) < 11 then Inl UB else Inr (hexEncode (take 6 (drop 5 (ias_PAN i)))))"

text \<open>A buffer that was sized for no name (one octet) holds none; every list has its final null.\<close>

definition ListReaderNames :: "'w transport_functions \<Rightarrow> ulong \<Rightarrow> 'w \<Rightarrow> int \<times> string list \<times> 'w" where
  "ListReaderNames tr hctx w =
     (case ListReaders tr hctx w of (rv, sized, w) \<Rightarrow>
      if rv \<noteq> SCARD_S_SUCCESS then (rv, [], w)
      else case ListReaders tr hctx w of (rv, names, w) \<Rightarrow>
      if rv \<noteq> SCARD_S_SUCCESS then (rv, [], w)
      else (rv, if sized = [] then [] else takeWhile (\<lambda>n. n \<noteq> []) names, w))"

subsection \<open>Looking for a card\<close>

text \<open>The body of the loop inside \<open>try\<close>: \<open>None\<close> continues with the next reader.\<close>

definition match_card :: "'w ias_env \<Rightarrow> 'w transport_functions \<Rightarrow> string \<Rightarrow> bool \<Rightarrow> ulong \<Rightarrow> 'w
    \<Rightarrow> (exn + (bool \<times> bytes option) option) \<times> 'w" where
  "match_card ie tr szPAN wanted hc w =
     (case GetAttrib tr hc w of (ris, _, w) \<Rightarrow>
      if ris \<noteq> SCARD_S_SUCCESS then (Inr None, w)
      else case GetAttrib tr hc w of (ris, atr, w) \<Rightarrow>
      if ris \<noteq> SCARD_S_SUCCESS then (Inr None, w)
      else case
        bindS (IAS_token_Reset ie hc (new_IAS_object atr, w)) (\<lambda>_ st.
        bindS (IAS_SelectAID_IAS ie False hc st) (\<lambda>_ st.
        bindS (IAS_ReadPAN ie hc st) (\<lambda>_ st.
        bindS (pan_key (fst st), st) (\<lambda>key st.
        if key \<noteq> szPAN then (Inr None, st)
        else if wanted then
          bindS (IAS_SelectAID_CIE ie False hc st) (\<lambda>_ st.
          bindS (IAS_ReadDappPubKey ie [] hc st) (\<lambda>_ st.
          bindS (IAS_InitEncKey ie hc st) (\<lambda>_ st.
          bindS (IAS_GetCertificate ie hc st) (\<lambda>certRaw st.
          if certRaw = [] then (Inr (Some (False, None)), st)
          else bindS (bindE (GetASN1DataLenght certRaw) (ba_left certRaw), st) (\<lambda>cert st. (Inr (Some (True, Some cert)), st))))))
        else (Inr (Some (True, None)), st)))))
      of (r, st) \<Rightarrow> (r, snd st))"

definition find_in_reader :: "'w ias_env \<Rightarrow> 'w transport_functions \<Rightarrow> ulong \<Rightarrow> string \<Rightarrow> bool \<Rightarrow> string \<Rightarrow> 'w
    \<Rightarrow> (exn + (bool \<times> bytes option) option) \<times> 'w" where
  "find_in_reader ie tr hSC szPAN wanted reader w =
     (case TransportConnect tr hSC reader w of (ris, hc, w) \<Rightarrow>
      if ris \<noteq> SCARD_S_SUCCESS \<or> hc = 0 then (Inr None, w)
      else case match_card ie tr szPAN wanted hc w of (r, w) \<Rightarrow>
        (case r of
           Inl (Card_Link_Error b) \<Rightarrow> Inl (Card_Link_Error b)
         | Inl UB \<Rightarrow> Inl UB
         | Inl Hang \<Rightarrow> Inl Hang
         | Inl _ \<Rightarrow> Inr None
         | Inr x \<Rightarrow> Inr x, snd (Disconnect tr hc w)))"

fun find_in_readers :: "(string \<Rightarrow> 'w \<Rightarrow> (exn + (bool \<times> bytes option) option) \<times> 'w) \<Rightarrow> string list \<Rightarrow> 'w
    \<Rightarrow> (exn + bool \<times> bytes option) \<times> 'w" where
  "find_in_readers f [] w = (Inr (False, None), w)"
| "find_in_readers f (r # rs) w =
     (case f r w of
        (Inl e, w) \<Rightarrow> (Inl e, w)
      | (Inr None, w) \<Rightarrow> find_in_readers f rs w
      | (Inr (Some x), w) \<Rightarrow> (Inr x, w))"

definition find_attempt :: "'w ias_env \<Rightarrow> 'w transport_functions \<Rightarrow> string \<Rightarrow> bool \<Rightarrow> nat \<Rightarrow> 'w \<Rightarrow> (exn + bool \<times> bytes option) \<times> 'w" where
  "find_attempt ie tr szPAN wanted attempt w =
     (case EstablishContext tr w of (ris, hSC, w) \<Rightarrow>
      if ris \<noteq> SCARD_S_SUCCESS then (Inr (False, None), w)
      else case
        (case ListReaderNames tr hSC w of (ris, names, w) \<Rightarrow>
         if ris \<noteq> SCARD_S_SUCCESS \<or> names = [] then (Inr (False, None), w)
         else find_in_readers (find_in_reader ie tr hSC szPAN wanted) names w)
      of (r, w) \<Rightarrow> (r, snd (ReleaseContext tr hSC w)))"

definition CIE_FindCardByPAN :: "'w ias_env \<Rightarrow> 'w transport_functions \<Rightarrow> string option \<Rightarrow> bool \<Rightarrow> CieErrorRecord \<Rightarrow> 'w
    \<Rightarrow> (exn + bool \<times> bytes option) \<times> CieErrorRecord \<times> 'w" where
  "CIE_FindCardByPAN ie tr szPAN wanted er w =
     (case szPAN of
        None \<Rightarrow> (Inr (False, None), er, w)
      | Some pan \<Rightarrow>
          (case RetryOnCardLinkError 3 (find_attempt (program_env ie tr) tr pan wanted) w of (r, w) \<Rightarrow>
             (case r of
                Inr x \<Rightarrow> (Inr x, er, w)
              | Inl UB \<Rightarrow> (Inl UB, er, w)
              | Inl Hang \<Rightarrow> (Inl Hang, er, w)
              | Inl (Card_Link_Error b) \<Rightarrow> (Inr (False, None), cie_record_transport_error, w)
              | Inl _ \<Rightarrow> (Inr (False, None), er, w))))"

text \<open>\<open>cie_get_certificate\<close>: the stored DER file, else the cache entry of a card that is present.\<close>

definition cie_get_certificate :: "'w ias_env \<Rightarrow> 'w transport_functions \<Rightarrow> string option \<Rightarrow> bool \<Rightarrow> CieErrorRecord \<Rightarrow> 'w
    \<Rightarrow> (exn + ck_rv \<times> bytes) \<times> CieErrorRecord \<times> 'w" where
  "cie_get_certificate ie tr pan outs er w =
     (if pan = None \<or> \<not> outs then (Inr (CKR_ARGUMENTS_BAD, []), er, w)
      else case CacheGetDer (ias_cache ie) pan w of
        (Inl UB, w) \<Rightarrow> (Inl UB, er, w)
      | (Inl Hang, w) \<Rightarrow> (Inl Hang, er, w)
      | (Inl _, w) \<Rightarrow> (Inr (CKR_FUNCTION_FAILED, []), er, w)
      | (Inr found, w) \<Rightarrow>
          (if found \<noteq> None \<and> found \<noteq> Some [] then (Inr (CKR_OK, the found), er, w)
           else case CIE_FindCardByPAN ie tr pan True er w of
             (Inl e, er, w) \<Rightarrow> (Inl e, er, w)
           | (Inr (b, cert), er, w) \<Rightarrow>
               if b \<and> cert \<noteq> None \<and> cert \<noteq> Some [] then
                 (case CacheSetDer (ias_cache ie) pan cert w of
                    (Inl UB, w) \<Rightarrow> (Inl UB, er, w)
                  | (Inl Hang, w) \<Rightarrow> (Inl Hang, er, w)
                  | (_, w) \<Rightarrow> (Inr (CKR_OK, the cert), er, w))
               else (Inr (CKR_DEVICE_ERROR, []), er, w)))"

subsection \<open>Cards that are paired\<close>

definition cie_is_enabled :: "'w ias_env \<Rightarrow> string option \<Rightarrow> 'w \<Rightarrow> (exn + bool) \<times> 'w" where
  "cie_is_enabled ie szPAN w =
     bindS (IsEnrolled_PAN ie szPAN w) (\<lambda>enrolled w.
     if enrolled then (Inr True, w)
     else case CacheGetDer (ias_cache ie) szPAN w of
       (Inl UB, w) \<Rightarrow> (Inl UB, w)
     | (Inl Hang, w) \<Rightarrow> (Inl Hang, w)
     | (Inl _, w) \<Rightarrow> (Inr False, w)
     | (Inr found, w) \<Rightarrow> (Inr (found \<noteq> None \<and> found \<noteq> Some []), w))"

definition cie_disable :: "'w ias_env \<Rightarrow> string option \<Rightarrow> 'w \<Rightarrow> (exn + ck_rv) \<times> 'w" where
  "cie_disable ie szPAN w =
     bindS (IsEnrolled_PAN ie szPAN w) (\<lambda>enrolled w.
     if enrolled then bindS (Unenroll_PAN ie szPAN w) (\<lambda>_ w. (Inr CKR_OK, w))
     else (Inr CKR_FUNCTION_FAILED, w))"

subsection \<open>Authentication\<close>

text \<open>What \<open>CardAuthenticateEx\<close> does before it sends the PIN.\<close>

definition card_channel :: "'w ias_env \<Rightarrow> ('w, unit) ias_fn" where
  "card_channel ie hc st =
     bindS (IAS_SelectAID_IAS ie False hc st) (\<lambda>_ st.
     bindS (IAS_SelectAID_CIE ie False hc st) (\<lambda>_ st.
     bindS (IAS_InitDHParam ie hc st) (\<lambda>_ st.
     bindS (if DappPubKey (fst st) = [] then ignoring (IAS_ReadDappPubKey ie []) hc st else (Inr (), st)) (\<lambda>_ st.
     bindS (IAS_InitExtAuthKeyParam ie hc st) (\<lambda>_ st.
     bindS (IAS_DHKeyExchange ie hc st) (\<lambda>_ st. IAS_DAPP ie hc st))))))"

text \<open>The answer to VERIFY: a status word that is none of the known refusals counts as success.\<close>

definition auth_status :: "16 word \<Rightarrow> int \<times> int option" where
  "auth_status sw =
     (if sw = 0x6983 then (SCARD_W_CHV_BLOCKED, None)
      else if 0x63C0 \<le> sw \<and> sw \<le> 0x63CF then (SCARD_W_WRONG_CHV, Some (uint sw - 0x63C0))
      else if sw = 0x6700 then (SCARD_W_WRONG_CHV, None)
      else if sw = 0x6300 then (SCARD_W_WRONG_CHV, None)
      else (SCARD_S_SUCCESS, None))"

definition CardAuthenticateEx :: "'w ias_env \<Rightarrow> 32 word \<Rightarrow> 32 word \<Rightarrow> bytes \<Rightarrow> ('w, int \<times> int option) ias_fn" where
  "CardAuthenticateEx ie PinId dwFlags pbPinData hc st =
     bindS (card_channel ie hc st) (\<lambda>_ st.
     if PinId = ROLE_USER then
       bindS (if dwFlags AND FULL_PIN \<noteq> FULL_PIN then IAS_GetFirstPIN ie hc st else (Inr [], st)) (\<lambda>first st.
       bindS (IAS_VerifyPIN ie (first @ pbPinData) hc st) (\<lambda>sw st. (Inr (auth_status sw), st)))
     else if PinId = ROLE_ADMIN then
       bindS (IAS_VerifyPUK ie pbPinData hc st) (\<lambda>sw st. (Inr (auth_status sw), st))
     else (Inr (SCARD_E_INVALID_PARAMETER, None), st))"

text \<open>One attempt of \<open>cie_enable\<close>, and its part before the PIN is sent.\<close>

definition before_pin :: "'w ias_env \<Rightarrow> ulong \<Rightarrow> nat \<Rightarrow> ias \<times> 'w \<Rightarrow> (exn + unit) \<times> ias \<times> 'w" where
  "before_pin ie hc attempt st =
     bindS (if attempt > 1 then IAS_token_Reset ie hc st else (Inr (), st)) (\<lambda>_ st. card_channel ie hc st)"

definition authenticate_attempt :: "'w ias_env \<Rightarrow> bytes \<Rightarrow> ulong \<Rightarrow> nat \<Rightarrow> ias \<times> 'w \<Rightarrow> (exn + int \<times> int option) \<times> ias \<times> 'w" where
  "authenticate_attempt ie szPIN hc attempt st =
     bindS (if attempt > 1 then IAS_token_Reset ie hc st else (Inr (), st)) (\<lambda>_ st.
     CardAuthenticateEx ie ROLE_USER FULL_PIN szPIN hc st)"

subsection \<open>The files of the card\<close>

text \<open>
  The arrays of \<open>cie_enable\<close> that outlive an attempt.  They are appended to, also by a second
  attempt; what a read that failed left in them stays.
\<close>

record pairing_files =
  IntAuth :: bytes
  IdServizi2 :: bytes
  SOD2 :: bytes
  sod_digest :: nat
  IntAuthServizi :: bytes
  DH_file :: bytes

definition no_files :: pairing_files where
  "no_files = \<lparr>IntAuth = [], IdServizi2 = [], SOD2 = [], sod_digest = 0, IntAuthServizi = [], DH_file = []\<rparr>"

type_synonym ('w, 'a) pairing_op = "pairing_files \<times> ias \<times> 'w \<Rightarrow> (exn + 'a) \<times> pairing_files \<times> ias \<times> 'w"

definition on_ias :: "(ias \<times> 'w \<Rightarrow> (exn + 'a) \<times> ias \<times> 'w) \<Rightarrow> ('w, 'a) pairing_op" where
  "on_ias f bs = (case f (snd bs) of (r, st) \<Rightarrow> (r, fst bs, st))"

definition read_into :: "'w ias_env \<Rightarrow> 16 word \<Rightarrow> (pairing_files \<Rightarrow> bytes) \<Rightarrow> (bytes \<Rightarrow> pairing_files \<Rightarrow> pairing_files) \<Rightarrow> ulong
    \<Rightarrow> ('w, unit) pairing_op" where
  "read_into ie fid get put hc bs =
     (case readfile ie fid (get (fst bs)) hc (snd bs) of (r, c, st) \<Rightarrow> (r, put c (fst bs), st))"

text \<open>\<open>ReadDappPubKey(IntAuth)\<close>: \<open>Ias\<close> gives the array on success; after an exception it is the file reader's.\<close>

definition read_dapp :: "'w ias_env \<Rightarrow> ulong \<Rightarrow> ('w, unit) pairing_op" where
  "read_dapp ie hc bs =
     (case readfile ie 0x1004 (IntAuth (fst bs)) hc (snd bs) of (_, c, _) \<Rightarrow>
      case IAS_ReadDappPubKey ie (IntAuth (fst bs)) hc (snd bs) of (r, st) \<Rightarrow>
        (bindE r (\<lambda>_. Inr ()), (fst bs)\<lparr>IntAuth := c\<rparr>, st))"

definition readPublicHeader :: "'w ias_env \<Rightarrow> ulong \<Rightarrow> ('w, unit) pairing_op" where
  "readPublicHeader ie hc bs =
     bindS (on_ias (IAS_token_Reset ie hc) bs) (\<lambda>_ bs.
     bindS (on_ias (IAS_SelectAID_IAS ie False hc) bs) (\<lambda>_ bs.
     bindS (on_ias (IAS_ReadPAN ie hc) bs) (\<lambda>_ bs.
     bindS (on_ias (IAS_SelectAID_CIE ie False hc) bs) (\<lambda>_ bs.
     bindS (read_dapp ie hc bs) (\<lambda>_ bs.
     bindS (on_ias (IAS_InitEncKey ie hc) bs) (\<lambda>_ bs.
     read_into ie 0x1001 IdServizi2 (\<lambda>c b. b\<lparr>IdServizi2 := c\<rparr>) hc bs))))))"

definition read_card_data :: "'w ias_env \<Rightarrow> ulong \<Rightarrow> nat \<Rightarrow> ('w, unit) pairing_op" where
  "read_card_data ie hc attempt bs =
     bindS (if attempt > 1 then readPublicHeader ie hc bs else (Inr (), bs)) (\<lambda>_ bs.
     bindS (read_into ie 0x1006 SOD2 (\<lambda>c b. b\<lparr>SOD2 := c\<rparr>) hc bs) (\<lambda>_ bs.
     bindS (GetSODDigestAlg (SOD2 (fst bs)), bs) (\<lambda>d bs.
     let bs = ((fst bs)\<lparr>sod_digest := d\<rparr>, snd bs) in
     bindS (read_into ie 0x1005 IntAuthServizi (\<lambda>c b. b\<lparr>IntAuthServizi := c\<rparr>) hc bs) (\<lambda>_ bs.
     bindS (on_ias (IAS_SelectAID_IAS ie False hc) bs) (\<lambda>_ bs.
     read_into ie 0xd004 DH_file (\<lambda>c b. b\<lparr>DH_file := c\<rparr>) hc bs)))))"

text \<open>The parts of the files whose digests the security object lists.\<close>

definition file_parts :: "pairing_files \<Rightarrow> exn + bytes \<times> bytes \<times> bytes \<times> bytes" where
  "file_parts f =
     bindE (ba_left (IdServizi2 f) 12) (\<lambda>servizi.
     bindE (bindE (GetASN1DataLenght (IntAuth f)) (ba_left (IntAuth f))) (\<lambda>intAuth.
     bindE (bindE (GetASN1DataLenght (IntAuthServizi f)) (ba_left (IntAuthServizi f))) (\<lambda>intAuthServizi.
     bindE (bindE (GetASN1DataLenght (DH_file f)) (ba_left (DH_file f))) (\<lambda>dh.
     Inr (servizi, intAuth, intAuthServizi, dh)))))"

definition file_digests :: "(bytes \<Rightarrow> bytes) \<Rightarrow> bytes \<times> bytes \<times> bytes \<times> bytes \<Rightarrow> bytes \<Rightarrow> bytes \<Rightarrow> hash_set \<Rightarrow> hash_set" where
  "file_digests h parts serialData certData hashSet =
     (case parts of (servizi, intAuth, intAuthServizi, dh) \<Rightarrow>
        hashSet(0xa1 \<mapsto> h servizi, 0xa4 \<mapsto> h intAuth, 0xa5 \<mapsto> h intAuthServizi, 0x1b \<mapsto> h dh,
                0xa2 \<mapsto> h serialData, 0xa3 \<mapsto> h certData))"

definition verify_files :: "'w ias_env \<Rightarrow> 'x sod_env \<Rightarrow> pairing_files \<Rightarrow> bytes \<times> bytes \<times> bytes \<times> bytes \<Rightarrow> bytes \<Rightarrow> bytes \<Rightarrow> hash_set
    \<Rightarrow> (exn + unit) \<times> hash_set" where
  "verify_files ie se f parts serialData certData hashSet =
     (if sod_digest f = 1 then VerificaSOD ie se (SOD2 f) (file_digests (ias_sha256 ie) parts serialData certData hashSet)
      else let hashSet = file_digests (ias_sha512 ie) parts serialData certData hashSet in
        (VerificaSODPSS ie se (SOD2 f) hashSet, hashSet))"

subsection \<open>cie\_enable\<close>

text \<open>What the application is told of a card: it was paired before, or is now (PAN, holder, serial number).\<close>

datatype completed_call = Already string | Paired string bytes bytes

datatype pair_result = Refused ck_rv "int option" | Completed completed_call hash_set

definition store_pairing :: "'w ias_env \<Rightarrow> string \<Rightarrow> bytes \<Rightarrow> bytes \<Rightarrow> ('w, unit) ias_fn" where
  "store_pairing ie span cert pin hc st =
     bindS (SetCache ie (Some span) cert pin hc st) (\<lambda>_ st.
     case CacheSetDer (ias_cache ie) (Some span) (Some cert) (snd st) of (r, w) \<Rightarrow> (r, fst st, w))"

text \<open>What follows the authentication: the protected files, the check of all files, the cache.\<close>

definition conclude_pairing :: "'w ias_env \<Rightarrow> 'x sod_env \<Rightarrow> ('x \<Rightarrow> bytes option \<times> bytes option) \<Rightarrow> bytes \<Rightarrow> hash_set
    \<Rightarrow> bytes \<times> bytes \<times> bytes \<times> bytes \<Rightarrow> bytes \<Rightarrow> bytes \<Rightarrow> bytes \<Rightarrow> ulong \<Rightarrow> ('w, pair_result) pairing_op" where
  "conclude_pairing ie se subject_name szPIN hashSet parts serialData cert certData hc bs =
     (case verify_files ie se (fst bs) parts serialData certData hashSet of
        (Inl e, _) \<Rightarrow> (Inl e, bs)
      | (Inr _, hashSet) \<Rightarrow>
          bindS (pan_key (fst (snd bs)), bs) (\<lambda>span bs.
          bindS (on_ias (store_pairing ie span cert (take 4 szPIN) hc) bs) (\<lambda>_ bs.
          case d2i_X509 (sod_x509 se) cert of
            None \<Rightarrow> (Inl (Logged_Error ''Failed to parse CIE certificate''), bs)
          | Some x \<Rightarrow>
              (Inr (Completed (Paired span (out_octets (fst (subject_name x)) @ bytes_of '' '' @ out_octets (snd (subject_name x))) serialData)
                 hashSet), bs))))"

definition finish_pairing :: "'w ias_env \<Rightarrow> 'x sod_env \<Rightarrow> ('x \<Rightarrow> bytes option \<times> bytes option) \<Rightarrow> bytes \<Rightarrow> hash_set
    \<Rightarrow> bytes \<times> bytes \<times> bytes \<times> bytes \<Rightarrow> ulong \<Rightarrow> ('w, pair_result) pairing_op" where
  "finish_pairing ie se subject_name szPIN hashSet parts hc bs =
     bindS (on_ias (ReadSerialeCIE ie [] hc) bs) (\<lambda>Serial bs.
     bindS (ba_left Serial 9, bs) (\<lambda>serialData bs.
     bindS (on_ias (ReadCertCIE ie [] hc) bs) (\<lambda>cert bs.
     bindS (bindE (GetASN1DataLenght cert) (ba_left cert), bs) (\<lambda>certData bs.
     conclude_pairing ie se subject_name szPIN hashSet parts serialData cert certData hc bs))))"

definition pair_card :: "'w ias_env \<Rightarrow> 'x sod_env \<Rightarrow> ('x \<Rightarrow> bytes option \<times> bytes option) \<Rightarrow> bytes \<Rightarrow> hash_set \<Rightarrow> ulong
    \<Rightarrow> ('w, pair_result) pairing_op" where
  "pair_card ie se subject_name szPIN hashSet hc bs =
     bindS (on_ias (IsEnrolled ie hc) bs) (\<lambda>enrolled bs.
     if enrolled then bindS (pan_key (fst (snd bs)), bs) (\<lambda>span bs. (Inr (Completed (Already span) hashSet), bs))
     else
     bindS (RetryOnCardLinkError 3 (read_card_data ie hc) bs) (\<lambda>_ bs.
     bindS (file_parts (fst bs), bs) (\<lambda>parts bs.
     bindS (on_ias (RetryOnCardLinkError 3 (authenticate_attempt ie szPIN hc)) bs) (\<lambda>(rs, attempts_left) bs.
     if rs = SCARD_W_WRONG_CHV then (Inr (Refused CKR_PIN_INCORRECT attempts_left), bs)
     else if rs = SCARD_W_CHV_BLOCKED then (Inr (Refused CKR_PIN_LOCKED attempts_left), bs)
     else if rs \<noteq> SCARD_S_SUCCESS then (Inr (Refused CKR_GENERAL_ERROR attempts_left), bs)
     else finish_pairing ie se subject_name szPIN hashSet parts hc bs))))"

record enable_state =
  foundCIE :: bool
  anyCIE :: bool
  sawUnsupported :: bool
  hashSet :: hash_set
  completed :: "completed_call list"

datatype enable_step = Continue | Early ck_rv "int option" bool

text \<open>One reader that holds a card; the flag of \<open>Early\<close> says that the error record is cleared.\<close>

definition enable_card :: "'w ias_env \<Rightarrow> 'w transport_functions \<Rightarrow> 'x sod_env \<Rightarrow> ('x \<Rightarrow> bytes option \<times> bytes option) \<Rightarrow> bytes \<Rightarrow> ulong
    \<Rightarrow> enable_state \<times> 'w \<Rightarrow> (exn + enable_step) \<times> enable_state \<times> 'w" where
  "enable_card ie tr se subject_name szPIN hc sw =
     (case sw of (s, w) \<Rightarrow>
      case GetAttrib tr hc w of (nRet, _, w) \<Rightarrow>
      if nRet \<noteq> SCARD_S_SUCCESS then (Inr (Early CKR_DEVICE_ERROR None False), s, w)
      else case GetAttrib tr hc w of (nRet, atr, w) \<Rightarrow>
      if nRet \<noteq> SCARD_S_SUCCESS then (Inr (Early CKR_DEVICE_ERROR None False), s, w)
      else let s = s\<lparr>foundCIE := False\<rparr> in
      case RetryOnCardLinkError 3 (\<lambda>attempt. readPublicHeader ie hc) (no_files, new_IAS_object atr, w) of
        (Inl e, b, i, w) \<Rightarrow>
          if e = Cie_Unsupported_Card_Error then (Inr Continue, s\<lparr>sawUnsupported := True, foundCIE := anyCIE s\<rparr>, w)
          else (Inl e, s, w)
      | (Inr _, bs) \<Rightarrow>
          (case pair_card ie se subject_name szPIN (hashSet s) hc bs of
             (Inl e, b, i, w) \<Rightarrow> (Inl e, s, w)
           | (Inr (Refused rv left), b, i, w) \<Rightarrow> (Inr (Early rv left False), s, w)
           | (Inr (Completed (Already span) _), b, i, w) \<Rightarrow>
               (Inr (Early CKR_OK None True), s\<lparr>completed := completed s @ [Already span]\<rparr>, w)
           | (Inr (Completed call hs), b, i, w) \<Rightarrow>
               (Inr Continue, s\<lparr>foundCIE := True, anyCIE := True, hashSet := hs, completed := completed s @ [call]\<rparr>, w)))"

fun enable_readers :: "(string \<Rightarrow> enable_state \<times> 'w \<Rightarrow> (exn + enable_step) \<times> enable_state \<times> 'w) \<Rightarrow> string list
    \<Rightarrow> enable_state \<times> 'w \<Rightarrow> (exn + enable_step) \<times> enable_state \<times> 'w" where
  "enable_readers f [] sw = (Inr Continue, sw)"
| "enable_readers f (r # rs) sw =
     (if r = [] then (Inr Continue, sw)
      else case f r sw of (Inr Continue, sw) \<Rightarrow> enable_readers f rs sw | res \<Rightarrow> res)"

definition enable_reader :: "'w ias_env \<Rightarrow> 'w transport_functions \<Rightarrow> 'x sod_env \<Rightarrow> ('x \<Rightarrow> bytes option \<times> bytes option) \<Rightarrow> bytes \<Rightarrow> ulong
    \<Rightarrow> string \<Rightarrow> enable_state \<times> 'w \<Rightarrow> (exn + enable_step) \<times> enable_state \<times> 'w" where
  "enable_reader ie tr se subject_name szPIN hSC reader sw =
     (case TransportConnect tr hSC reader (snd sw) of (ris, hc, w) \<Rightarrow>
      if ris \<noteq> SCARD_S_SUCCESS \<or> hc = 0 then (Inr Continue, fst sw, w)
      else case enable_card ie tr se subject_name szPIN hc (fst sw, w) of (r, s, w) \<Rightarrow> (r, s, snd (Disconnect tr hc w)))"

definition enable_scan :: "'w ias_env \<Rightarrow> 'w transport_functions \<Rightarrow> 'x sod_env \<Rightarrow> ('x \<Rightarrow> bytes option \<times> bytes option) \<Rightarrow> bytes
    \<Rightarrow> enable_state \<times> 'w \<Rightarrow> (exn + enable_step) \<times> enable_state \<times> 'w" where
  "enable_scan ie tr se subject_name szPIN sw =
     (case sw of (s, w) \<Rightarrow>
      case EstablishContext tr w of (nRet, hSC, w) \<Rightarrow>
      if nRet \<noteq> SCARD_S_SUCCESS then (Inr (Early CKR_DEVICE_ERROR None False), s, w)
      else case
        (case ListReaders tr hSC w of (nRet, names, w) \<Rightarrow>
         if nRet \<noteq> SCARD_S_SUCCESS then (Inr (Early CKR_TOKEN_NOT_PRESENT None False), s, w)
         else if names = [] then (Inr (Early CKR_TOKEN_NOT_PRESENT None False), s, w)
         else case ListReaders tr hSC w of (nRet, readers, w) \<Rightarrow>
         if nRet \<noteq> SCARD_S_SUCCESS then (Inr (Early CKR_TOKEN_NOT_PRESENT None False), s, w)
         else enable_readers (enable_reader ie tr se subject_name szPIN hSC) readers (s, w))
      of (r, s, w) \<Rightarrow> (r, s, snd (ReleaseContext tr hSC w)))"

definition enable_result :: "exn + enable_step \<Rightarrow> enable_state \<Rightarrow> CieErrorRecord \<Rightarrow> (exn + ck_rv \<times> int option) \<times> CieErrorRecord" where
  "enable_result r s er =
     (case r of
        Inr (Early rv left cleared) \<Rightarrow> (Inr (rv, left), if cleared then cie_clear_error else er)
      | Inr Continue \<Rightarrow>
          if \<not> foundCIE s \<and> \<not> anyCIE s then
            (Inr (CKR_TOKEN_NOT_RECOGNIZED, None), if sawUnsupported s then cie_record_unsupported_card else er)
          else (Inr (CKR_OK, None), cie_clear_error)
      | Inl Cie_Unsupported_Card_Error \<Rightarrow> (Inr (CKR_TOKEN_NOT_RECOGNIZED, None), cie_record_unsupported_card)
      | Inl (Scard_Error sw) \<Rightarrow> (Inr (sw_code sw, None), cie_record_sw_error sw)
      | Inl (Card_Link_Error _) \<Rightarrow> (Inr (CKR_DEVICE_ERROR, None), cie_record_transport_error)
      | Inl UB \<Rightarrow> (Inl UB, er)
      | Inl Hang \<Rightarrow> (Inl Hang, er)
      | Inl _ \<Rightarrow> (Inr (CKR_GENERAL_ERROR, None), cie_record_transport_error))"

definition cie_enable :: "'w ias_env \<Rightarrow> 'w transport_functions \<Rightarrow> 'x sod_env \<Rightarrow> ('x \<Rightarrow> bytes option \<times> bytes option) \<Rightarrow> bytes option
    \<Rightarrow> CieErrorRecord \<Rightarrow> 'w \<Rightarrow> (exn + ck_rv \<times> int option) \<times> completed_call list \<times> CieErrorRecord \<times> 'w" where
  "cie_enable ie tr se subject_name szPIN er w =
     (if \<not> eight_octets szPIN then (Inr (CKR_PIN_LEN_RANGE, None), [], er, w)
      else if \<not> list_all (\<lambda>b. 0x30 \<le> b \<and> b \<le> 0x39) (the szPIN) then (Inr (CKR_PIN_INVALID, None), [], er, w)
      else
        case enable_scan (program_env ie tr) tr se subject_name (the szPIN)
          (\<lparr>foundCIE = False, anyCIE = False, sawUnsupported = False, hashSet = Map.empty, completed = []\<rparr>, w) of (r, s, w) \<Rightarrow>
        (case enable_result r s er of (rv, er) \<Rightarrow> (rv, completed s, er, w)))"

subsection \<open>The name of a cache entry\<close>

lemma hex_digit_table:
  "list_all (\<lambda>n. kHex ! n = hex_digit False n \<and> (hex_digit False n = hex_digit True n \<longleftrightarrow> n < 10)) [0..<16]"
  by code_simp

lemma kHex_nth: "n < 16 \<Longrightarrow> kHex ! n = hex_digit False n"
  using hex_digit_table unfolding list_all_iff by simp

lemma hex_digit_case: "n < 16 \<Longrightarrow> hex_digit False n = hex_digit True n \<longleftrightarrow> n < 10"
  using hex_digit_table unfolding list_all_iff by simp

lemma hexEncode_octet:
  fixes b :: byte
  shows "[kHex ! unat (drop_bit 4 b AND 0xF), kHex ! unat (b AND 0xF)] = HexByte b False"
proof -
  have "x AND 0xF = take_bit 4 x" for x :: byte by (simp add: take_bit_eq_mask mask_numeral)
  then have m: "unat (x AND 0xF) = unat x mod 16" for x :: byte
    by (simp only: unsigned_take_bit_eq) (simp add: take_bit_eq_mod)
  moreover have "unat (drop_bit 4 b AND 0xF) = unat b div 16"
    using nibbles(1) [of b] by (simp only: m unat_drop_bit_eq) (simp add: drop_bit_eq_div)
  ultimately show ?thesis
    using nibbles [of b] by (simp add: HexByte_def kHex_nth)
qed

lemma hexEncode_dump: "hexEncode data = dumpHexData data False False"
  by (simp only: hexEncode_def hexEncode_octet) (simp add: dumpHexData_def)

text \<open>
  C15: the name under which \<open>cie_enable\<close> stores a card (\<open>hexEncode\<close>, lower case) is the name under
  which \<open>IsEnrolled\<close>, \<open>GetCertificate\<close> and \<open>GetFirstPIN\<close> look it up (\<open>dumpHexData\<close>, upper case)
  exactly when none of the octets of the number has a hexadecimal digit above 9.
\<close>

theorem cache_name_agrees:
  "hexEncode data = dumpHexData data False True \<longleftrightarrow> list_all (\<lambda>b. unat b div 16 < 10 \<and> unat b mod 16 < 10) data"
  unfolding hexEncode_dump
proof (induction data)
  case (Cons b data)
  then show ?case by (simp add: dump_Cons HexByte_def hex_digit_case nibbles)
qed (simp add: dumpHexData_def)

subsection \<open>The PIN is sent once\<close>

lemma VerifyPIN_final: "IAS_VerifyPIN ie pin hc st \<noteq> (Inl (Card_Link_Error True), s)"
  by (auto simp: IAS_VerifyPIN_def rethrowAsNonRetryable_def split: prod.splits sum.splits exn.splits)

lemma attempt_before_pin:
  assumes "authenticate_attempt ie pin hc k st = (Inl (Card_Link_Error True), s)"
  shows "before_pin ie hc k st = (Inl (Card_Link_Error True), s)"
proof -
  have "CardAuthenticateEx ie ROLE_USER FULL_PIN pin hc st = (Inl (Card_Link_Error True), s) \<Longrightarrow>
      card_channel ie hc st = (Inl (Card_Link_Error True), s)" for st
    using VerifyPIN_final [of ie pin hc] unfolding CardAuthenticateEx_def by (auto simp: bindS_eq_Inl)
  then show ?thesis
    using assms unfolding authenticate_attempt_def before_pin_def by (simp only: bindS_eq_Inl) blast
qed

lemma attempts_failed:
  assumes "attempts fn k s ss res"
  shows "ss \<noteq> [] \<and> list_all (\<lambda>(j, s). \<exists>s'. fn j s = (Inl (Card_Link_Error True), s')) (List.enumerate k (butlast ss))"
  using assms by (induction rule: attempts.induct) simp_all

text \<open>
  C14: pairing does not use up attempts of the PIN by itself.  The authentication is tried at most
  three times; every attempt but the last ended in a link error before VERIFY was sent, so that the
  PIN is sent to the card at most once.
\<close>

theorem pin_sent_once:
  "\<exists>ss. ss \<noteq> [] \<and> length ss \<le> 3
     \<and> attempts (authenticate_attempt ie pin hc) 1 st ss (RetryOnCardLinkError 3 (authenticate_attempt ie pin hc) st)
     \<and> list_all (\<lambda>(j, s). \<exists>s'. before_pin ie hc j s = (Inl (Card_Link_Error True), s')) (List.enumerate 1 (butlast ss))"
proof -
  obtain ss where ss: "length ss \<le> 3"
    "attempts (authenticate_attempt ie pin hc) 1 st ss (RetryOnCardLinkError 3 (authenticate_attempt ie pin hc) st)"
    using retry_loop_attempts [of 3 "authenticate_attempt ie pin hc" 1 st] unfolding RetryOnCardLinkError_def by auto
  moreover from attempts_failed [OF ss(2)] have "ss \<noteq> []"
    and f: "list_all (\<lambda>(j, s). \<exists>s'. authenticate_attempt ie pin hc j s = (Inl (Card_Link_Error True), s'))
      (List.enumerate 1 (butlast ss))" by blast+
  moreover have "list_all (\<lambda>(j, s). \<exists>s'. before_pin ie hc j s = (Inl (Card_Link_Error True), s')) (List.enumerate 1 (butlast ss))"
    using f by (rule list.pred_mono_strong) (use attempt_before_pin in blast)
  ultimately show ?thesis by blast
qed

subsection \<open>What a pairing has checked\<close>

lemma on_ias_InrE:
  assumes "on_ias f bs = (Inr x, bs')"
  obtains st where "f (snd bs) = (Inr x, st)" "bs' = (fst bs, st)"
  using assms by (auto simp: on_ias_def split: prod.splits)

text \<open>
  A pairing that was completed: the card answered VERIFY with none of the refusals, the security
  object that was read accepts the files that were read, and the certificate is stored under the
  card's name, with the first four digits of the PIN.
\<close>

definition genuine_pairing :: "'w ias_env \<Rightarrow> 'x sod_env \<Rightarrow> bytes \<Rightarrow> completed_call \<Rightarrow> bool" where
  "genuine_pairing ie se pin call \<longleftrightarrow>
     (case call of
        Already _ \<Rightarrow> True
      | Paired span holder serialData \<Rightarrow>
          \<exists>hc s0 s1 sw s2 f parts cert certData hs s3 s4.
            card_channel ie hc s0 = (Inr (), s1) \<and> IAS_VerifyPIN ie pin hc s1 = (Inr sw, s2) \<and> auth_status sw = (0, None)
          \<and> file_parts f = Inr parts \<and> bindE (GetASN1DataLenght cert) (ba_left cert) = Inr certData
          \<and> fst (verify_files ie se f parts serialData certData hs) = Inr ()
          \<and> pan_key (fst s3) = Inr span \<and> store_pairing ie span cert (take 4 pin) hc s3 = (Inr (), s4))"

lemma authenticate_Inr:
  assumes "RetryOnCardLinkError 3 (authenticate_attempt ie pin hc) st = (Inr (rs, left), st')"
  shows "\<exists>s0 s1 sw s2. card_channel ie hc s0 = (Inr (), s1) \<and> IAS_VerifyPIN ie pin hc s1 = (Inr sw, s2) \<and> auth_status sw = (rs, left)"
proof -
  obtain j s where "authenticate_attempt ie pin hc j s = (Inr (rs, left), st')"
    using retry_last [of 3 "authenticate_attempt ie pin hc" st] assms by auto
  then obtain s0 where "CardAuthenticateEx ie ROLE_USER FULL_PIN pin hc s0 = (Inr (rs, left), st')"
    unfolding authenticate_attempt_def by (elim bindS_InrE) blast
  then obtain s1 sw s2 where "card_channel ie hc s0 = (Inr (), s1)" "IAS_VerifyPIN ie pin hc s1 = (Inr sw, s2)" "auth_status sw = (rs, left)"
    unfolding CardAuthenticateEx_def by (elim bindS_InrE) (auto elim!: bindS_InrE)
  then show ?thesis by blast
qed

text \<open>Every status word that is none of the known refusals counts as success, not only 9000.\<close>

lemma auth_status_success:
  "fst (auth_status sw) = 0 \<longleftrightarrow> sw \<noteq> 0x6983 \<and> \<not> (0x63C0 \<le> sw \<and> sw \<le> 0x63CF) \<and> sw \<noteq> 0x6700 \<and> sw \<noteq> 0x6300"
  by (simp add: auth_status_def)

lemma auth_status_left: "auth_status sw = (0, left) \<Longrightarrow> left = None"
  by (auto simp: auth_status_def split: if_splits)

lemma finish_pairing_Inr:
  assumes "finish_pairing ie se nm pin hs parts hc bs = (Inr res, bs')"
  shows "\<exists>span holder serialData hs' cert certData s3 s4. res = Completed (Paired span holder serialData) hs'
      \<and> bindE (GetASN1DataLenght cert) (ba_left cert) = Inr certData
      \<and> fst (verify_files ie se (fst bs) parts serialData certData hs) = Inr ()
      \<and> pan_key (fst s3) = Inr span \<and> store_pairing ie span cert (take 4 pin) hc s3 = (Inr (), s4)"
proof -
  obtain st serialData cert certData where c: "bindE (GetASN1DataLenght cert) (ba_left cert) = Inr certData"
    and r: "conclude_pairing ie se nm pin hs parts serialData cert certData hc (fst bs, st) = (Inr res, bs')"
    using assms unfolding finish_pairing_def by (elim bindS_InrE on_ias_InrE) auto
  obtain hs' where v: "verify_files ie se (fst bs) parts serialData certData hs = (Inr (), hs')"
    using r by (auto simp: conclude_pairing_def split: prod.splits sum.splits)
  obtain span where k: "pan_key (fst st) = Inr span" using r v by (auto simp: conclude_pairing_def elim!: bindS_InrE)
  have r': "bindS (on_ias (store_pairing ie span cert (take 4 pin) hc) (fst bs, st)) (\<lambda>_ bs.
         case d2i_X509 (sod_x509 se) cert of
           None \<Rightarrow> (Inl (Logged_Error ''Failed to parse CIE certificate''), bs)
         | Some x \<Rightarrow>
             (Inr (Completed (Paired span (out_octets (fst (nm x)) @ bytes_of '' '' @ out_octets (snd (nm x))) serialData) hs'), bs))
      = (Inr res, bs')" using r v k by (simp add: conclude_pairing_def)
  obtain s4 where s4: "store_pairing ie span cert (take 4 pin) hc st = (Inr (), s4)"
    using r' by (elim bindS_InrE on_ias_InrE) auto
  have "\<exists>holder. res = Completed (Paired span holder serialData) hs'"
    using r' by (elim bindS_InrE) (auto split: option.splits)
  then show ?thesis using c v k s4 by (metis fst_conv)
qed

lemma pair_card_Inr:
  assumes "pair_card ie se nm pin hs hc bs = (Inr res, bs')"
  shows "case res of Refused rv left \<Rightarrow> rv \<noteq> CKR_OK | Completed call _ \<Rightarrow> genuine_pairing ie se pin call"
proof -
  obtain enrolled bs1 where r1: "on_ias (IsEnrolled ie hc) bs = (Inr enrolled, bs1)"
    using assms unfolding pair_card_def by (elim bindS_InrE) blast
  show ?thesis
  proof (cases enrolled)
    case True
    then show ?thesis using assms r1 unfolding pair_card_def by (auto simp: genuine_pairing_def elim!: bindS_InrE)
  next
    case False
    obtain bs2 parts rs left st where p: "file_parts (fst bs2) = Inr parts"
      and a: "RetryOnCardLinkError 3 (authenticate_attempt ie pin hc) (snd bs2) = (Inr (rs, left), st)"
      and r: "(if rs = SCARD_W_WRONG_CHV then (Inr (Refused CKR_PIN_INCORRECT left), (fst bs2, st))
        else if rs = SCARD_W_CHV_BLOCKED then (Inr (Refused CKR_PIN_LOCKED left), (fst bs2, st))
        else if rs \<noteq> SCARD_S_SUCCESS then (Inr (Refused CKR_GENERAL_ERROR left), (fst bs2, st))
        else finish_pairing ie se nm pin hs parts hc (fst bs2, st)) = (Inr res, bs')"
      using assms r1 False unfolding pair_card_def by (simp, elim bindS_InrE on_ias_InrE) auto
    show ?thesis
    proof (cases "rs = 0")
      case True
      then have f: "finish_pairing ie se nm pin hs parts hc (fst bs2, st) = (Inr res, bs')" using r by simp
      obtain s0 s1 sw s2 where "card_channel ie hc s0 = (Inr (), s1)" "IAS_VerifyPIN ie pin hc s1 = (Inr sw, s2)" "auth_status sw = (0, None)"
        using authenticate_Inr [OF a] auth_status_left unfolding True by blast
      moreover obtain span holder serialData hs' cert certData s3 s4 where
        res: "res = Completed (Paired span holder serialData) hs'" and "bindE (GetASN1DataLenght cert) (ba_left cert) = Inr certData"
        "fst (verify_files ie se (fst bs2) parts serialData certData hs) = Inr ()" "pan_key (fst s3) = Inr span"
        "store_pairing ie span cert (take 4 pin) hc s3 = (Inr (), s4)"
        using finish_pairing_Inr [OF f] by (simp only: fst_conv) blast
      ultimately have "genuine_pairing ie se pin (Paired span holder serialData)"
        using p unfolding genuine_pairing_def completed_call.case by blast
      then show ?thesis by (simp add: res)
    next
      case False
      then show ?thesis using r by (auto split: if_splits)
    qed
  qed
qed

text \<open>
  The invariant of the scan: every card the application was told of was paired with all checks, and a
  card that counts as found was announced.  A step that ends the scan with \<open>CKR_OK\<close> announced a
  card, too.
\<close>

definition scan_ok :: "'w ias_env \<Rightarrow> 'x sod_env \<Rightarrow> bytes \<Rightarrow> enable_state \<Rightarrow> bool" where
  "scan_ok ie se pin s \<longleftrightarrow>
     list_all (genuine_pairing ie se pin) (completed s) \<and> (foundCIE s \<or> anyCIE s \<longrightarrow> completed s \<noteq> [])"

definition step_ok :: "'w ias_env \<Rightarrow> 'x sod_env \<Rightarrow> bytes \<Rightarrow> (exn + enable_step) \<times> enable_state \<times> 'w \<Rightarrow> bool" where
  "step_ok ie se pin res \<longleftrightarrow>
     (case res of (r, s, _) \<Rightarrow> scan_ok ie se pin s \<and>
        (case r of
           Inr (Early rv left cleared) \<Rightarrow> rv = CKR_OK \<longrightarrow> cleared \<and> completed s \<noteq> []
         | _ \<Rightarrow> True))"

lemma step_ok_simps [simp]:
  "step_ok ie se pin (Inr Continue, s, w) = scan_ok ie se pin s" "step_ok ie se pin (Inl e, s, w) = scan_ok ie se pin s"
  "step_ok ie se pin (Inr (Early rv left c), s, w) \<longleftrightarrow> scan_ok ie se pin s \<and> (rv = CKR_OK \<longrightarrow> c \<and> completed s \<noteq> [])"
  by (simp_all add: step_ok_def)

lemma step_ok_world: "step_ok ie se pin (r, s, w) \<Longrightarrow> step_ok ie se pin (r, s, w')"
  by (simp add: step_ok_def)

lemma enable_card_ok:
  assumes "scan_ok ie se pin s"
  shows "step_ok ie se pin (enable_card ie tr se nm pin hc (s, w))"
proof -
  have "case res of Refused rv left \<Rightarrow> rv \<noteq> CKR_OK | Completed call _ \<Rightarrow> genuine_pairing ie se pin call"
    if "pair_card ie se nm pin hs hc bs = (Inr res, bs')" for hs bs res bs'
    using that by (rule pair_card_Inr)
  note pair = this
  show ?thesis
    unfolding enable_card_def Let_def
    using assms
    by (auto simp: step_ok_def scan_ok_def genuine_pairing_def split: prod.splits sum.splits pair_result.splits completed_call.splits
        dest!: pair)
qed

lemma enable_reader_ok: "scan_ok ie se pin (fst sw) \<Longrightarrow> step_ok ie se pin (enable_reader ie tr se nm pin hSC reader sw)"
  using enable_card_ok [of ie se pin "fst sw" tr nm]
  by (auto simp: enable_reader_def split: prod.splits) (metis step_ok_world)

lemma enable_readers_ok:
  assumes "\<And>r sw. scan_ok ie se pin (fst sw) \<Longrightarrow> step_ok ie se pin (f r sw)" and "scan_ok ie se pin (fst sw)"
  shows "step_ok ie se pin (enable_readers f rs sw)"
  using assms(2)
proof (induction rs arbitrary: sw)
  case (Cons r rs)
  have s: "step_ok ie se pin (f r sw)" using assms(1) Cons.prems .
  show ?case
  proof (cases "\<exists>sw'. f r sw = (Inr Continue, sw')")
    case True
    then obtain sw' where sw': "f r sw = (Inr Continue, sw')" by blast
    then have "scan_ok ie se pin (fst sw')" using s by (auto simp: step_ok_def split: prod.splits)
    with Cons.IH sw' Cons.prems show ?thesis by (auto simp: step_ok_def split: prod.splits)
  next
    case False
    then have "enable_readers f (r # rs) sw = (if r = [] then (Inr Continue, sw) else f r sw)"
      by (auto split: prod.splits sum.splits enable_step.splits)
    then show ?thesis using s Cons.prems by (auto simp: step_ok_def split: prod.splits)
  qed
qed (auto simp: step_ok_def split: prod.splits)

lemma enable_scan_ok:
  assumes "scan_ok ie se pin s"
  shows "step_ok ie se pin (enable_scan ie tr se nm pin (s, w))"
proof -
  have "step_ok ie se pin (enable_readers (enable_reader ie tr se nm pin hSC) rs (s, v))" for hSC rs v
    using assms by (intro enable_readers_ok enable_reader_ok) auto
  then have "step_ok ie se pin (r, s', v'')"
    if "enable_readers (enable_reader ie tr se nm pin hSC) rs (s, v) = (r, s', v')" for hSC rs v r s' v' v''
    using that step_ok_world by metis
  then show ?thesis
    using assms by (auto simp: enable_scan_def split: prod.splits if_splits)
qed


end
