(* ===== verification/Readers.thy ===== *)
theory Readers
  imports Pairing
begin

section \<open>Readers for the application (pkcs11/src/csp/cie\_enable.cpp)\<close>

text \<open>
  \<open>cie_reader_count\<close> and \<open>cie_reader_name\<close>.  A C string is a list of characters without the null;
  \<open>GetStatusChange\<close> gives the state of a reader without waiting.  The result of \<open>cie_reader_name\<close>
  is the returned flag and the string in the caller's buffer.
\<close>

abbreviation (input) SCARD_STATE_UNAVAILABLE :: ulong where "SCARD_STATE_UNAVAILABLE \<equiv> 0x8"

definition strstr :: "string \<Rightarrow> string \<Rightarrow> bool" where
  "strstr s needle \<longleftrightarrow> list_ex (\<lambda>i. take (length needle) (drop i s) = needle) [0..<Suc (length s)]"

definition cie_reader_count :: "'w transport_functions \<Rightarrow> 'w \<Rightarrow> nat \<times> 'w" where
  "cie_reader_count tr w =
     (case EstablishContext tr w of (ris, hCtx, w) \<Rightarrow>
      if ris \<noteq> SCARD_S_SUCCESS then (0, w)
      else case ListReaderNames tr hCtx w of (rv, names, w) \<Rightarrow>
        (if rv = SCARD_S_SUCCESS then length (filter (\<lambda>p. \<not> strstr p ''Virtual'') names) else 0, snd (ReleaseContext tr hCtx w)))"

text \<open>A slot with a card, an empty contactless slot, an empty slot that is not built in.\<close>

definition reader_rank :: "string \<Rightarrow> ulong \<Rightarrow> nat" where
  "reader_rank p state =
     (let hasCard = state AND SCARD_STATE_PRESENT \<noteq> 0; isEmpty = state AND SCARD_STATE_EMPTY \<noteq> 0;
          isInternal = strstr p ''Broadcom'';
          isContactless = strstr p ''Contactless'' \<or> strstr p ''contactless'' \<or> strstr p ''PICC'' in
      if hasCard then 3 else if isEmpty \<and> isContactless then 2 else if isEmpty \<and> \<not> isInternal then 1 else 0)"

text \<open>What the loop sees of a reader: \<open>None\<close> for those it passes over.\<close>

definition probe_reader :: "'w transport_functions \<Rightarrow> ulong \<Rightarrow> string \<Rightarrow> 'w \<Rightarrow> nat option \<times> 'w" where
  "probe_reader tr hCtx p w =
     (if strstr p ''Virtual'' then (None, w)
      else case GetStatusChange tr hCtx p w of (sr, state, w) \<Rightarrow>
        (if sr \<noteq> SCARD_S_SUCCESS then None
         else if state AND SCARD_STATE_UNAVAILABLE \<noteq> 0 then None
         else Some (reader_rank p state), w))"

fun best_reader :: "'w transport_functions \<Rightarrow> ulong \<Rightarrow> nat \<Rightarrow> string list \<Rightarrow> nat \<Rightarrow> string \<Rightarrow> 'w \<Rightarrow> nat \<times> string \<times> 'w" where
  "best_reader tr hCtx buf_len [] bestRank buf w = (bestRank, buf, w)"
| "best_reader tr hCtx buf_len (p # ps) bestRank buf w =
     (case probe_reader tr hCtx p w of
        (None, w) \<Rightarrow> best_reader tr hCtx buf_len ps bestRank buf w
      | (Some rank, w) \<Rightarrow>
          if rank \<le> bestRank \<or> length p \<ge> buf_len then best_reader tr hCtx buf_len ps bestRank buf w
          else if rank = 3 then (rank, p, w)
          else best_reader tr hCtx buf_len ps rank p w)"

definition cie_reader_name :: "'w transport_functions \<Rightarrow> int \<Rightarrow> 'w \<Rightarrow> (nat \<times> string) \<times> 'w" where
  "cie_reader_name tr buf_len w =
     (if buf_len \<le> 0 then ((0, []), w)
      else case EstablishContext tr w of (ris, hCtx, w) \<Rightarrow>
      if ris \<noteq> SCARD_S_SUCCESS then ((0, []), w)
      else case ListReaderNames tr hCtx w of (rv, names, w) \<Rightarrow>
      if rv \<noteq> SCARD_S_SUCCESS \<or> names = [] then ((0, []), snd (ReleaseContext tr hCtx w))
      else case best_reader tr hCtx (nat buf_len) names 0 [] w of (bestRank, buf, w) \<Rightarrow>
        ((if bestRank > 0 then 1 else 0, buf), snd (ReleaseContext tr hCtx w)))"

subsection \<open>Lemmas\<close>

text \<open>
  When probing a reader gives the same rank whenever it is done, the reader chosen has the
  highest rank among the readers whose name fits.
\<close>

lemma reader_rank_bound: "reader_rank p state \<le> 3"
  by (simp add: reader_rank_def Let_def)

lemma best_reader_max:
  assumes "\<And>p w. fst (probe_reader tr hCtx p w) = rank p" and "best_reader tr hCtx n ps b buf w = (b', buf', w')"
  shows "b \<le> b' \<and> (b' = b \<and> buf' = buf \<or> buf' \<in> set ps \<and> length buf' < n \<and> rank buf' = Some b')
    \<and> (\<forall>p\<in>set ps. \<forall>k. rank p = Some k \<and> length p < n \<longrightarrow> k \<le> b')"
  using assms(2)
proof (induction ps arbitrary: b buf w)
  case (Cons p ps)
  obtain w1 where pr: "probe_reader tr hCtx p w = (rank p, w1)" using assms(1) [of p w] by (metis prod.collapse)
  have bound: "k \<le> 3" if "rank q = Some k" for q k
    using assms(1) [of q w] that reader_rank_bound by (auto simp: probe_reader_def split: if_splits prod.splits)
  show ?case
  proof (cases "rank p")
    case None
    with Cons.prems pr have "best_reader tr hCtx n ps b buf w1 = (b', buf', w')" by simp
    from Cons.IH [OF this] None show ?thesis by auto
  next
    case (Some k)
    consider (skip) "k \<le> b \<or> n \<le> length p" | (stop) "k = 3" "b < k" "length p < n" | (take) "k \<noteq> 3" "b < k" "length p < n" by linarith
    then show ?thesis
    proof cases
      case skip
      then have "best_reader tr hCtx n ps b buf w1 = (b', buf', w')" using Cons.prems pr Some by simp
      from Cons.IH [OF this] skip Some show ?thesis by auto
    next
      case stop
      then have "b' = 3" "buf' = p" using Cons.prems pr Some by auto
      then show ?thesis using stop Some bound by auto
    next
      case take
      then have "best_reader tr hCtx n ps k p w1 = (b', buf', w')" using Cons.prems pr Some by simp
      from Cons.IH [OF this] take Some show ?thesis by auto
    qed
  qed
qed simp

end
