(* ===== verification/Spec2Isabelle.thy ===== *)
theory Spec2Isabelle
  imports Asn_Roundtrip State_Theorems Search_Theorems Module_Theorems Hex_Data Atr Padding Tlv
    Readers
begin

text \<open>
  \<^bold>\<open>A verification of the PKCS\#11 module for the Italian identity card (CIE).\<close>

  \<^bold>\<open>The program.\<close>  An application calls the exported \<open>C_\<close> functions
  (\<open>pkcs11/src/pkcs11/pkcs11_functions.cpp\<close>).  They look up a session (\<open>session.cpp\<close>) or a slot
  (\<open>slot.cpp\<close>); a session runs mechanisms (\<open>mechanism.cpp\<close>) on the objects of its slot
  (\<open>p11_object.cpp\<close>); a slot asks its card template (\<open>cie_p11_template.cpp\<close>) for everything that
  needs the card.  The template drives the IAS protocol (\<open>shared/src/csp/ias.cpp\<close>), which sends
  APDUs through a token (\<open>shared/src/pcsc\<close>) in the clear or under secure messaging, using the
  ciphers of \<open>shared/src/crypto\<close>, the ASN.1 parser, byte arrays, padding and TLV of
  \<open>shared/src/util\<close> and the cache of paired cards.  A monitor thread watches the readers and
  finishes the slots whose card is gone.  Beside the PKCS\#11 interface, \<open>pkcs11/src/csp\<close> exports
  programs that pair a card and manage its PIN over the same protocol.

  \<^bold>\<open>Theories and sources.\<close>  Each definition has the name of the function it models, or a prefix
  of its class.

  \<^item> Shared: \<open>Prelude\<close> (return codes, exceptions as values, \<open>bindE\<close> and \<open>bindS\<close> for code that may
    throw), \<open>Std_Map\<close> (\<open>std::map\<close> as a sorted list, with the locale \<open>assoc_container\<close>).
  \<^item> \<open>shared/src/util\<close>: \<open>Byte_Array\<close> (array.cpp, the DER header of util.cpp), \<open>Padding\<close> and
    \<open>Hex_Data\<close> (util.cpp), \<open>Tlv\<close> (tlv.cpp), \<open>Cache\<close> (cache\_lib.cpp, crypto\_util.h, keys.h).
  \<^item> \<open>shared/src/crypto\<close>: \<open>Asn_Parser\<close> (asn\_parser.cpp), \<open>Cipher\<close> (cipher\_base.cpp, des3.cpp, aes.cpp,
    mac.cpp), \<open>Big_Number\<close> (rsa.cpp).
  \<^item> \<open>shared/src/pcsc\<close> and \<open>csp\<close>: \<open>Token\<close> (apdu.cpp, token.cpp), \<open>Atr\<close> (atr.cpp),
    \<open>Secure_Messaging\<close>, \<open>Ias_Channel\<close>, \<open>Ias\<close> and \<open>Sod\<close> (ias.cpp: \<open>SM\<close> and \<open>respSM\<close>; \<open>SendAPDU\<close>,
    \<open>SendAPDU_SM\<close> and the file readers; every other operation of the class; the verification of
    the document's security object).
  \<^item> \<open>pkcs11/src/pkcs11\<close>: \<open>Cryptoki\<close> (constants and caller structures), \<open>P11_Object\<close>,
    \<open>Object_Table\<close> (the handles of a slot), \<open>Mechanism\<close>, \<open>P11_State\<close> (the globals, sessions and
    templates), \<open>Session\<close>, \<open>Session_Crypto\<close>, \<open>Operation_State\<close> (session.cpp), \<open>Slot\<close> and \<open>Monitor\<close>
    (slot.cpp, card\_context.cpp, card\_template.cpp), \<open>P11_Functions\<close>, \<open>P11_Crypto_Functions\<close>,
    \<open>Cie_Template\<close> and \<open>X509_Reader\<close> (cie\_p11\_template.cpp), and \<open>Cie_Program\<close>, which fills the
    template's parameters with \<open>Ias\<close>, \<open>Token\<close>, \<open>Cipher\<close> and \<open>X509_Reader\<close>.
  \<^item> \<open>pkcs11/src/csp\<close>: \<open>Card_Errors\<close> (cie\_error.cpp, util/retry.h), \<open>Pin_Manager\<close> (pin\_manager.cpp),
    \<open>Pairing\<close> (cie\_enable.cpp, cie\_get\_certificate.cpp) and \<open>Readers\<close> (the reader queries of
    cie\_enable.cpp).

  \<^bold>\<open>State.\<close>  The globals and statics of the module are one record \<open>p11_state\<close>: the slot map, the
  slots by identity (a shared pointer is a number), the session map, the counters, and the world
  outside as a value of a type variable that every call to card, file system or random source
  passes on.  An operation returns its result or exception beside the new state, so that what a
  throwing function has already changed is in the model.  Undefined behaviour (a read outside a
  buffer, a null dereference) is the exception value \<open>UB\<close>, which no handler catches.  Machine
  integers are words where they may wrap.

  \<^bold>\<open>Interfaces.\<close>  \<open>assoc_container\<close> has the laws of a map; \<open>handle_table\<close> those of object handles
  and is interpreted on the slot's tables; \<open>card_module\<close> (\<open>Template_Contract\<close>) states what the module
  needs of a card template, namely that its callbacks leave alone what belongs to the slot list, and
  is interpreted on the CIE template for every IAS object (\<open>Cie_Contract\<close>); \<open>command_channel\<close>
  (\<open>Ias_Security\<close>) states that sending a command keeps an IAS object well formed and is interpreted
  on the plain and the protected channel.

  \<^bold>\<open>What is shown.\<close>

  \<^item> The module: \<open>Module_Invariant\<close>, \<open>Module_Steps\<close>, \<open>Module_Calls\<close> and \<open>Session_Frames\<close> prove that
    every operation keeps the invariant of slots and sessions; \<open>Session_Spec\<close> is the PKCS\#11
    session and login state machine, and \<open>Session_Refinement\<close> with \<open>Module_Reachable\<close> shows that every
    call the module completes is a step of it.  \<open>Module_Runs\<close> and \<open>Module_Theorems\<close> do this for runs of
    calls, monitor passes and changes of the outside world; \<open>C_Finalize\<close> and \<open>C_CloseSession\<close>
    complete in every reachable state.
  \<^item> Sessions: \<open>Session_Theorems\<close> (signature and verification against PKCS\#1, multi-part against
    one-call operations, digests), \<open>Search_Theorems\<close> (searches find exactly the matching visible
    objects; private objects need a login), \<open>State_Theorems\<close> (the saved operation state).
  \<^item> Objects: handles resolve to their objects and stay so until deletion; attribute reading
    follows the PKCS\#11 rules.
  \<^item> The card: \<open>Sm_Theorems\<close> compares \<open>SM\<close> and \<open>respSM\<close> with ISO 7816-4 secure messaging and
    \<open>Cipher\<close> the MAC with ISO 9797-1; \<open>Ias_Theorems\<close> shows that reading a file from a card that
    serves it ends with its contents; \<open>Ias_Security\<close> that a protected command reports success only
    when authentic answers did, that keys and counter keep their lengths in all operations, and that
    the key exchange agrees with the card's; \<open>Cie_Program\<close> what a login leaves behind on success and
    failure; \<open>Sod\<close> what the two verifications of the security object accept.
  \<^item> The programs: \<open>Pin_Manager\<close> shows what a changed and a refused PIN mean, \<open>Pairing\<close> what a paired
    card has passed, that its retries send the PIN at most once, and when the name of the cache entry
    is the one it is looked up by.
  \<^item> Codecs: \<open>Asn_Roundtrip\<close>, \<open>Tlv\<close>, \<open>Padding\<close>, \<open>Hex_Data\<close> and \<open>Cache\<close> show that decoders give back
    what encoders wrote and, for the parsers, that any input is read inside its bounds.

  \<^bold>\<open>Fuel and bounds.\<close>  Loops that follow the data are total functions.  Fuel is used where the
  program may not end; running out of it is the exception value \<open>Hang\<close>.  \<open>sweep_slots\<close> gets one
  more round than there are slots, which is enough when no reader vanished (when one did, the code
  itself repeats without progress).  \<open>ias_fuel\<close> bounds the rounds of GET RESPONSE, of READ BINARY
  and of the draw of the private key; for a file it is enough to be above the length of the file,
  since every round but the last adds an octet, and a file that ends has fewer than 65536 octets
  because the offset is a 16-bit word.

  \<^bold>\<open>Parameters.\<close>  OpenSSL (block ciphers, digests, big numbers as keys, X.509, digest
  verification, random octets), the PC/SC transport, the file system and the contents of fresh
  memory.  The laws a theorem needs of them are its named hypotheses (for example \<open>evp_is_des\<close>,
  \<open>fs_lawful\<close>, \<open>serves_file\<close>), and each such theorem has an instance in which they hold.

  \<^bold>\<open>Not modelled.\<close>  PACE (\<open>pace.cpp\<close>, elliptic curves through OpenSSL objects) and the chip reading
  program that rests on it; the signature services (\<open>pkcs11/src/sign\<close>) and the sign SDK, which are
  not reached from the PKCS\#11 interface; \<open>cie_reader_watch\<close>, the progress callbacks and the
  messages to the desktop program; the transports themselves, thread start and stop, locks (calls are atomic, as under the code's global
  mutex); logging and settings; the wrappers of digests and Base64, which only call OpenSSL; allocation
  failures.
\<close>

end
